(* ===== verification/JsValue.thy ===== *)
theory JsValue
  imports Prelude
begin

text \<open>
  JavaScript objects and dynamically typed values, as the code reads them from parsed YAML
  and JSON, and the contract of the third-party library js-yaml.

  An object is an association list with distinct keys in property order: array-index keys
  first and ascending, every other key in insertion order. Reading a property of
  \<open>undefined\<close> or \<open>null\<close> raises a TypeError, which is the value None of an option;
  every function that can raise returns an option and threads it with \<open>do\<close>.
  Properties inherited from prototypes, the key \<open>__proto__\<close>, non-integral numbers and
  YAML timestamps are outside the model.
\<close>

section \<open>Objects\<close>

text \<open>Array-index keys: canonical decimal numerals below 2^32 - 1.\<close>

definition js_index :: "string \<Rightarrow> bool" where
  "js_index k \<longleftrightarrow> all_digits k \<and> (k = ''0'' \<or> hd k \<noteq> CHR ''0'') \<and> nat_of_digits k < 4294967295"

fun index_insert :: "string \<Rightarrow> 'v \<Rightarrow> (string \<times> 'v) list \<Rightarrow> (string \<times> 'v) list" where
  "index_insert k v [] = [(k, v)]"
| "index_insert k v ((k', v') # r) =
     (if js_index k' \<and> nat_of_digits k' < nat_of_digits k
      then (k', v') # index_insert k v r else (k, v) # (k', v') # r)"

text \<open>\<open>o[k] = v\<close>: an existing key keeps its position, a new one is placed by its kind.\<close>

definition obj_set :: "string \<Rightarrow> 'v \<Rightarrow> (string \<times> 'v) list \<Rightarrow> (string \<times> 'v) list" where
  "obj_set k v o' =
     (if k \<in> fst ` set o' then map (\<lambda>(k', v'). if k' = k then (k', v) else (k', v')) o'
      else if js_index k then index_insert k v o' else o' @ [(k, v)])"

definition obj_del :: "string \<Rightarrow> (string \<times> 'v) list \<Rightarrow> (string \<times> 'v) list" where
  "obj_del k o' = filter (\<lambda>p. fst p \<noteq> k) o'"

lemma set_index_insert: "set (index_insert k v o') = insert (k, v) (set o')"
  by (induction k v o' rule: index_insert.induct) auto

lemma map_of_index_insert:
  "k \<notin> fst ` set o' \<Longrightarrow> map_of (index_insert k v o') = (map_of o')(k \<mapsto> v)"
  by (induction k v o' rule: index_insert.induct) (auto intro: fun_upd_twist)

lemma map_of_map_replace:
  "map_of (map (\<lambda>(k', v'). if k' = k then (k', v) else (k', v')) o') x =
     (if x = k \<and> k \<in> fst ` set o' then Some v else map_of o' x)"
proof (induction o')
  case Nil
  then show ?case by simp
next
  case (Cons p o')
  obtain k' v' where "p = (k', v')" by fastforce
  then show ?case using Cons.IH by (cases "k' = k"; cases "x = k'") simp_all
qed

text \<open>Array-index keys are canonical: equal values are equal keys.\<close>

lemma digit_char_code:
  assumes "is_digit c"
  shows "48 \<le> (of_char c :: nat)" "(of_char c :: nat) < 58" "c = digit_char (of_char c - 48)"
    "(of_char c :: nat) = 48 \<longleftrightarrow> c = CHR ''0''"
proof -
  show b: "48 \<le> (of_char c :: nat)" "(of_char c :: nat) < 58"
    using assms by (auto simp: is_digit_def Let_def)
  then show "c = digit_char (of_char c - 48)" by (simp add: digit_char_def)
  have "(of_char c :: nat) = of_char (CHR ''0'') \<longleftrightarrow> c = CHR ''0''"
    by (simp only: of_char_eq_iff)
  then show "(of_char c :: nat) = 48 \<longleftrightarrow> c = CHR ''0''" by simp
qed

lemma nat_of_digits_pos: "all_digits s \<Longrightarrow> hd s \<noteq> CHR ''0'' \<Longrightarrow> 0 < nat_of_digits s"
proof (induction s rule: rev_induct)
  case Nil
  then show ?case by (simp add: all_digits_def)
next
  case (snoc c s)
  show ?case
  proof (cases s)
    case Nil
    with snoc.prems have "is_digit c" "c \<noteq> CHR ''0''" by (auto simp: all_digits_def)
    then have "(of_char c :: nat) > 48"
      using digit_char_code(1,4) [of c] by simp
    with Nil show ?thesis by (simp add: nat_of_digits_def)
  next
    case (Cons a s')
    with snoc.prems have "all_digits s" "hd s \<noteq> CHR ''0''" by (auto simp: all_digits_def)
    with snoc.IH show ?thesis by (simp add: nat_of_digits_snoc)
  qed
qed

lemma show_nat_of_digits:
  "all_digits s \<Longrightarrow> s = ''0'' \<or> hd s \<noteq> CHR ''0'' \<Longrightarrow> show_nat (nat_of_digits s) = s"
proof (induction s rule: rev_induct)
  case Nil
  then show ?case by (simp add: all_digits_def)
next
  case (snoc c s)
  let ?d = "of_char c - 48 :: nat"
  have c: "?d < 10" "digit_char ?d = c"
    using snoc.prems(1) digit_char_code [of c] by (auto simp: all_digits_def)
  show ?case
  proof (cases s)
    case Nil
    with c show ?thesis by (subst show_nat.simps) (simp add: nat_of_digits_def)
  next
    case (Cons a s')
    with snoc.prems have s: "all_digits s" "hd s \<noteq> CHR ''0''" by (auto simp: all_digits_def)
    with snoc.IH have "show_nat (nat_of_digits s) = s" by blast
    moreover have "0 < nat_of_digits s" using s by (rule nat_of_digits_pos)
    ultimately show ?thesis
      using c by (subst show_nat.simps) (simp add: nat_of_digits_snoc)
  qed
qed

lemma js_index_inj:
  "js_index a \<Longrightarrow> js_index b \<Longrightarrow> nat_of_digits a = nat_of_digits b \<Longrightarrow> a = b"
  by (metis js_index_def show_nat_of_digits)

lemma map_of_obj_set [simp, obj_simps]: "map_of (obj_set k v o') = (map_of o')(k \<mapsto> v)"
proof (cases "k \<in> fst ` set o'")
  case True
  then show ?thesis
    by (simp add: obj_set_def fun_eq_iff map_of_map_replace)
next
  case False
  then have "map_of o' k = None" by (simp add: map_of_eq_None_iff)
  with False show ?thesis
    by (auto simp: obj_set_def map_of_index_insert fun_eq_iff map_add_def split: option.splits)
qed

lemma keys_obj_set [simp, obj_simps]: "fst ` set (obj_set k v o') = insert k (fst ` set o')"
proof -
  have "dom (map_of (obj_set k v o')) = insert k (dom (map_of o'))" by simp
  then show ?thesis by (simp add: dom_map_of_conv_image_fst del: map_of_obj_set)
qed

lemma distinct_index_insert:
  "distinct (map fst o') \<Longrightarrow> k \<notin> fst ` set o' \<Longrightarrow> distinct (map fst (index_insert k v o'))"
  by (induction k v o' rule: index_insert.induct) (auto simp: set_index_insert)

lemma fst_comp_map_snd [simp]: "map (fst \<circ> (\<lambda>(k, v). (k, g v))) kvs = map fst kvs"
  by (induction kvs) auto

lemma map_fst_replace:
  "map fst (map (\<lambda>(k', v'). if k' = k then (k', v) else (k', v')) o') = map fst o'"
  by (induction o') auto

lemma distinct_obj_set [simp]: "distinct (map fst o') \<Longrightarrow> distinct (map fst (obj_set k v o'))"
  unfolding obj_set_def by (auto simp: map_fst_replace distinct_index_insert simp del: map_map)

lemma map_of_obj_del [simp, obj_simps]: "map_of (obj_del k o') = (map_of o')(k := None)"
  by (induction o') (auto simp: obj_del_def)

lemma distinct_obj_del [simp]: "distinct (map fst o') \<Longrightarrow> distinct (map fst (obj_del k o'))"
  by (induction o') (auto simp: obj_del_def)

lemma keys_obj_del [simp]: "fst ` set (obj_del k o') = fst ` set o' - {k}"
  by (auto simp: obj_del_def)

lemma obj_set_ne [simp]: "obj_set k v o' \<noteq> []"
proof
  assume "obj_set k v o' = []"
  then have "fst ` set (obj_set k v o') = {}" by simp
  then show False by simp
qed

subsection \<open>Property order\<close>

definition js_ordered :: "string list \<Rightarrow> bool" where
  "js_ordered ks \<longleftrightarrow>
     sorted_wrt (\<lambda>a b. js_index b \<longrightarrow> js_index a \<and> nat_of_digits a \<le> nat_of_digits b) ks"

lemma js_ordered_simps [simp]:
  "js_ordered []" "js_ordered [k]"
  by (simp_all add: js_ordered_def)

lemma js_ordered_Cons:
  "js_ordered (k # ks) \<longleftrightarrow>
     (\<forall>b \<in> set ks. js_index b \<longrightarrow> js_index k \<and> nat_of_digits k \<le> nat_of_digits b) \<and> js_ordered ks"
  by (simp add: js_ordered_def)

lemma js_ordered_no_index: "\<forall>k \<in> set ks. \<not> js_index k \<Longrightarrow> js_ordered ks"
  by (induction ks) (auto simp: js_ordered_Cons)

lemma js_ordered_index_insert:
  "js_ordered (map fst o') \<Longrightarrow> js_index k \<Longrightarrow> js_ordered (map fst (index_insert k v o'))"
proof (induction k v o' rule: index_insert.induct)
  case (1 k v)
  then show ?case by simp
next
  case (2 k v k' v' r)
  show ?case
  proof (cases "js_index k' \<and> nat_of_digits k' < nat_of_digits k")
    case True
    have "set (map fst (index_insert k v r)) = insert k (set (map fst r))"
      by (simp add: set_index_insert)
    then show ?thesis using True 2 by (simp add: js_ordered_Cons)
  next
    case False
    have "nat_of_digits k \<le> nat_of_digits b" if "b \<in> insert k' (set (map fst r))" "js_index b" for b
      using that False "2.prems"(1) by (auto simp: js_ordered_Cons intro: le_trans)
    moreover have "index_insert k v ((k', v') # r) = (k, v) # (k', v') # r"
      using False by (simp only: index_insert.simps if_False)
    ultimately show ?thesis using "2.prems" by (simp add: js_ordered_Cons)
  qed
qed

lemma js_ordered_obj_set:
  "js_ordered (map fst o') \<Longrightarrow> js_ordered (map fst (obj_set k v o'))"
  unfolding obj_set_def
  by (auto simp: map_fst_replace js_ordered_index_insert simp del: map_map)
    (auto simp: js_ordered_def sorted_wrt_append)

lemma js_ordered_filter: "js_ordered (map fst o') \<Longrightarrow> js_ordered (map fst (filter P o'))"
  by (induction o') (auto simp: js_ordered_Cons)

lemma js_ordered_obj_del: "js_ordered (map fst o') \<Longrightarrow> js_ordered (map fst (obj_del k o'))"
  by (simp add: obj_del_def js_ordered_filter)

section \<open>Dynamic values\<close>

datatype jsval =
    JUndef
  | JNull
  | JBool bool
  | JNum int
  | JStr string
  | JArr "jsval list"
  | JObj "(string \<times> jsval) list"

fun nullish :: "jsval \<Rightarrow> bool" where
  "nullish JUndef = True"
| "nullish JNull = True"
| "nullish _ = False"

fun truthy :: "jsval \<Rightarrow> bool" where
  "truthy JUndef = False"
| "truthy JNull = False"
| "truthy (JBool b) = b"
| "truthy (JNum n) = (n \<noteq> 0)"
| "truthy (JStr s) = (s \<noteq> [])"
| "truthy (JArr _) = True"
| "truthy (JObj _) = True"

text \<open>\<open>a ?? b\<close>\<close>

definition nvl :: "jsval \<Rightarrow> jsval \<Rightarrow> jsval" where
  "nvl a b = (if nullish a then b else a)"

text \<open>A property of a non-nullish value; arrays and strings have a length and indices.\<close>

fun getp :: "jsval \<Rightarrow> string \<Rightarrow> jsval" where
  "getp (JObj kvs) k = (case map_of kvs k of Some v \<Rightarrow> v | None \<Rightarrow> JUndef)"
| "getp (JArr xs) k =
     (if k = ''length'' then JNum (int (length xs))
      else if js_index k \<and> nat_of_digits k < length xs then xs ! nat_of_digits k else JUndef)"
| "getp (JStr s) k =
     (if k = ''length'' then JNum (int (length s))
      else if js_index k \<and> nat_of_digits k < length s then JStr [s ! nat_of_digits k] else JUndef)"
| "getp _ k = JUndef"

text \<open>\<open>v.k\<close> raises on undefined and null; \<open>v?.k\<close> does not.\<close>

definition jget :: "jsval \<Rightarrow> string \<Rightarrow> jsval option" where
  "jget v k = (if nullish v then None else Some (getp v k))"

definition jopt :: "jsval \<Rightarrow> string \<Rightarrow> jsval" where
  "jopt v k = (if nullish v then JUndef else getp v k)"

text \<open>\<open>for (const x of v)\<close>: arrays and strings are iterable, the rest raises.\<close>

fun iter :: "jsval \<Rightarrow> jsval list option" where
  "iter (JArr xs) = Some xs"
| "iter (JStr s) = Some (map (\<lambda>c. JStr [c]) s)"
| "iter _ = None"

text \<open>Array methods (\<open>some\<close>, \<open>map\<close>, \<open>filter\<close>, \<open>find\<close>, \<open>flatMap\<close>) exist on arrays only.\<close>

fun as_arr :: "jsval \<Rightarrow> jsval list option" where
  "as_arr (JArr xs) = Some xs"
| "as_arr _ = None"

text \<open>String methods (\<open>trim\<close>, \<open>replace\<close>, \<open>startsWith\<close>, \<open>includes\<close>) on a value: raises on the rest.\<close>

fun as_str :: "jsval \<Rightarrow> string option" where
  "as_str (JStr s) = Some s"
| "as_str _ = None"

fun is_obj :: "jsval \<Rightarrow> bool" where
  "is_obj (JObj _) = True"
| "is_obj _ = False"

text \<open>\<open>typeof v === 'object'\<close> (true of null as well) and \<open>Object.entries(v)\<close>.\<close>

fun typeof_object :: "jsval \<Rightarrow> bool" where
  "typeof_object JNull = True"
| "typeof_object (JArr _) = True"
| "typeof_object (JObj _) = True"
| "typeof_object _ = False"

fun entries :: "jsval \<Rightarrow> (string \<times> jsval) list option" where
  "entries JUndef = None"
| "entries JNull = None"
| "entries (JObj kvs) = Some kvs"
| "entries (JArr xs) = Some (map (\<lambda>i. (show_nat i, xs ! i)) [0..<length xs])"
| "entries (JStr s) = Some (map (\<lambda>i. (show_nat i, JStr [s ! i])) [0..<length s])"
| "entries _ = Some []"

definition obj_keys :: "jsval \<Rightarrow> string list option" where
  "obj_keys v = map_option (map fst) (entries v)"

text \<open>\<open>String(v)\<close>\<close>

fun js_string :: "jsval \<Rightarrow> string" where
  "js_string JUndef = ''undefined''"
| "js_string JNull = ''null''"
| "js_string (JBool b) = (if b then ''true'' else ''false'')"
| "js_string (JNum n) = show_int n"
| "js_string (JStr s) = s"
| "js_string (JArr xs) = join_with '','' (map (\<lambda>x. if nullish x then [] else js_string x) xs)"
| "js_string (JObj _) = ''[object Object]''"

lemma js_index_0 [simp]: "js_index ''0''"
  by (simp add: js_index_def all_digits_def is_digit_def nat_of_digits_def)

lemma nat_of_digits_0 [simp]: "nat_of_digits ''0'' = 0"
  by (simp add: nat_of_digits_def)

lemma not_js_index: "k = [] \<or> \<not> is_digit (hd k) \<Longrightarrow> \<not> js_index k"
  by (cases k) (auto simp: js_index_def all_digits_def)

lemma getp_arr_length [simp]: "getp (JArr xs) ''length'' = JNum (int (length xs))"
  by simp

lemma getp_arr_0 [simp]: "getp (JArr (x # xs)) ''0'' = x"
  by (simp add: nat_of_digits_def)

lemma jget_obj [simp]: "jget (JObj kvs) k = Some (getp (JObj kvs) k)"
  by (simp add: jget_def)

lemma jopt_obj [simp]: "jopt (JObj kvs) k = getp (JObj kvs) k"
  by (simp add: jopt_def)

lemma jopt_nullish [simp]: "jopt JUndef k = JUndef" "jopt JNull k = JUndef"
  by (simp_all add: jopt_def)

lemma nvl_simps [simp]:
  "nvl JUndef b = b" "nvl JNull b = b" "nvl (JBool x) b = JBool x" "nvl (JNum n) b = JNum n"
  "nvl (JStr s) b = JStr s" "nvl (JArr xs) b = JArr xs" "nvl (JObj kvs) b = JObj kvs"
  by (simp_all add: nvl_def)

section \<open>Comparing values up to key order\<close>

text \<open>
  \<open>canon\<close> sorts the keys of every object, as \<open>dump\<close> does under \<open>sortKeys: true\<close>.
  \<open>plain\<close> is what YAML can carry: no undefined, distinct keys in property order.
\<close>

fun canon :: "jsval \<Rightarrow> jsval" where
  "canon (JArr xs) = JArr (map canon xs)"
| "canon (JObj kvs) = JObj (sort_key fst (map (\<lambda>(k, v). (k, canon v)) kvs))"
| "canon v = v"

fun plain :: "jsval \<Rightarrow> bool" where
  "plain JUndef = False"
| "plain (JArr xs) = list_all plain xs"
| "plain (JObj kvs) = (distinct (map fst kvs) \<and> js_ordered (map fst kvs) \<and> list_all (\<lambda>(k, v). plain v) kvs)"
| "plain _ = True"

lemma plain_getp: "plain v \<Longrightarrow> getp v k = JUndef \<or> plain (getp v k)"
proof (cases v)
  case (JArr xs)
  then show "plain v \<Longrightarrow> ?thesis" by (auto simp: list_all_length)
next
  case (JObj kvs)
  then show "plain v \<Longrightarrow> ?thesis"
    by (auto simp: list_all_iff split: option.splits dest!: map_of_SomeD)
qed auto

lemma plain_jopt: "v = JUndef \<or> plain v \<Longrightarrow> jopt v k = JUndef \<or> plain (jopt v k)"
  using plain_getp by (auto simp: jopt_def)

lemma map_of_sort_key:
  fixes kvs :: "(string \<times> 'v) list"
  shows "distinct (map fst kvs) \<Longrightarrow> map_of (sort_key fst kvs) = map_of kvs"
  by (rule map_of_inject_set [THEN iffD2]) (auto simp: distinct_map)

lemma getp_canon:
  "plain v \<Longrightarrow> getp (canon v) k = canon (getp v k)"
proof (cases v)
  case (JObj kvs)
  assume "plain v"
  let ?c = "\<lambda>(k, v). (k, canon v)"
  have "map_of (sort_key fst (map ?c kvs)) = map_of (map ?c kvs)"
    using JObj \<open>plain v\<close> by (intro map_of_sort_key) simp
  with JObj show ?thesis
    by (simp add: map_of_map split: option.splits)
qed auto

lemma canon_undef_iff [simp]: "canon v = JUndef \<longleftrightarrow> v = JUndef"
  by (cases v) auto

lemma sort_key_perm_eq:
  fixes xs ys :: "(string \<times> 'v) list"
  assumes "distinct (map fst xs)" "distinct (map fst ys)" "set xs = set ys"
  shows "sort_key fst xs = sort_key fst ys"
proof (rule map_sorted_distinct_set_unique [where f = fst])
  show "inj_on fst (set (sort_key fst xs) \<union> set (sort_key fst ys))"
    using assms by (auto simp: distinct_map)
qed (use assms in \<open>auto simp: distinct_map\<close>)

lemma canon_obj_eqI:
  assumes "distinct (map fst xs)" "distinct (map fst ys)"
    and "map_of (map (\<lambda>(k, v). (k, canon v)) xs) = map_of (map (\<lambda>(k, v). (k, canon v)) ys)"
  shows "canon (JObj xs) = canon (JObj ys)"
proof -
  let ?c = "\<lambda>(k, v). (k, canon v)"
  have d: "distinct (map fst (map ?c zs)) = distinct (map fst zs)" for zs :: "(string \<times> jsval) list"
    by (simp add: comp_def case_prod_unfold)
  have "set (map ?c xs) = set (map ?c ys)"
    using assms d by (metis map_of_inject_set)
  then show ?thesis
    using assms d by (simp only: canon.simps) (metis sort_key_perm_eq)
qed

end
