(* ===== verification/Yaml.thy ===== *)
theory Yaml
  imports JsValue
begin

text \<open>
  The third-party library js-yaml, which the form builders use to read and write manifests,
  is a parameter of the model: a record of its three entry points as the code calls them.
  \<open>yaml_laws\<close> states the documented behaviour the code relies on. \<open>toy_yaml\<close> is a concrete
  serialiser with its parser that satisfies the laws, so that no theorem under them is vacuous.
\<close>

record yaml_lib =
  y_load :: "string \<Rightarrow> jsval option"   \<comment> \<open>\<open>yaml.load(s)\<close>; None is a YAMLException\<close>
  y_dump :: "jsval \<Rightarrow> string"          \<comment> \<open>\<open>yaml.dump(v, { noRefs: true, lineWidth: 120 })\<close>\<close>
  y_sorted :: "jsval \<Rightarrow> string"        \<comment> \<open>\<open>yaml.dump(v, { sortKeys: true })\<close>\<close>

text \<open>
  A loaded document is undefined or plain; an empty one loads as undefined; dumping a value and loading the text gives the value
  back; a dump is never the empty text; with sorted keys two values have the same text
  exactly when they are equal up to the order of object keys.
\<close>

definition yaml_laws :: "yaml_lib \<Rightarrow> bool" where
  "yaml_laws Y \<longleftrightarrow>
     y_load Y [] = Some JUndef \<and>
     (\<forall>s v. y_load Y s = Some v \<longrightarrow> v = JUndef \<or> plain v) \<and>
     (\<forall>v. plain v \<longrightarrow> y_load Y (y_dump Y v) = Some v \<and> y_dump Y v \<noteq> []) \<and>
     (\<forall>v w. plain v \<longrightarrow> plain w \<longrightarrow> (y_sorted Y v = y_sorted Y w \<longleftrightarrow> canon v = canon w))"

lemma yaml_load_empty: "yaml_laws Y \<Longrightarrow> y_load Y [] = Some JUndef"
  by (simp add: yaml_laws_def)

lemma yaml_load_plain: "yaml_laws Y \<Longrightarrow> y_load Y s = Some v \<Longrightarrow> v = JUndef \<or> plain v"
  unfolding yaml_laws_def by blast

lemma yaml_load_dump: "yaml_laws Y \<Longrightarrow> plain v \<Longrightarrow> y_load Y (y_dump Y v) = Some v"
  by (simp add: yaml_laws_def)

lemma yaml_dump_ne: "yaml_laws Y \<Longrightarrow> plain v \<Longrightarrow> y_dump Y v \<noteq> []"
  by (simp add: yaml_laws_def)

lemma yaml_sorted_iff:
  "yaml_laws Y \<Longrightarrow> plain v \<Longrightarrow> plain w \<Longrightarrow> (y_sorted Y v = y_sorted Y w) = (canon v = canon w)"
  by (simp add: yaml_laws_def)

lemmas yaml_rules = yaml_load_empty yaml_load_dump yaml_dump_ne yaml_sorted_iff

section \<open>A library that satisfies the laws\<close>

fun enc_str :: "string \<Rightarrow> string" where
  "enc_str [] = ''e''"
| "enc_str (c # s) = CHR ''c'' # c # enc_str s"

fun enc_nat :: "nat \<Rightarrow> string" where
  "enc_nat 0 = ''0''"
| "enc_nat (Suc n) = CHR ''1'' # enc_nat n"

fun ser :: "jsval \<Rightarrow> string" and sers :: "jsval list \<Rightarrow> string"
  and serkv :: "(string \<times> jsval) list \<Rightarrow> string" where
  "ser JUndef = ''u''"
| "ser JNull = ''n''"
| "ser (JBool b) = (if b then ''t'' else ''f'')"
| "ser (JNum i) = (if i < 0 then ''-'' @ enc_nat (nat (- i)) else ''+'' @ enc_nat (nat i))"
| "ser (JStr s) = ''s'' @ enc_str s"
| "ser (JArr xs) = ''a'' @ sers xs"
| "ser (JObj kvs) = ''o'' @ serkv kvs"
| "sers [] = ''z''"
| "sers (x # xs) = ''x'' @ ser x @ sers xs"
| "serkv [] = ''z''"
| "serkv ((k, v) # r) = ''p'' @ enc_str k @ ser v @ serkv r"

fun dec_str :: "string \<Rightarrow> (string \<times> string) option" where
  "dec_str (t # r) =
     (if t = CHR ''e'' then Some ([], r)
      else case r of [] \<Rightarrow> None
           | c # r' \<Rightarrow> map_option (\<lambda>(s, q). (c # s, q)) (dec_str r'))"
| "dec_str [] = None"

fun dec_nat :: "string \<Rightarrow> (nat \<times> string) option" where
  "dec_nat (t # r) = (if t = CHR ''0'' then Some (0, r) else map_option (\<lambda>(n, q). (Suc n, q)) (dec_nat r))"
| "dec_nat [] = None"

fun des :: "nat \<Rightarrow> string \<Rightarrow> (jsval \<times> string) option"
  and dess :: "nat \<Rightarrow> string \<Rightarrow> (jsval list \<times> string) option"
  and deskv :: "nat \<Rightarrow> string \<Rightarrow> ((string \<times> jsval) list \<times> string) option" where
  "des (Suc n) (t # r) =
     (if t = CHR ''u'' then Some (JUndef, r)
      else if t = CHR ''n'' then Some (JNull, r)
      else if t = CHR ''t'' then Some (JBool True, r)
      else if t = CHR ''f'' then Some (JBool False, r)
      else if t = CHR ''-'' then map_option (\<lambda>(m, q). (JNum (- int m), q)) (dec_nat r)
      else if t = CHR ''+'' then map_option (\<lambda>(m, q). (JNum (int m), q)) (dec_nat r)
      else if t = CHR ''s'' then map_option (\<lambda>(s, q). (JStr s, q)) (dec_str r)
      else if t = CHR ''a'' then map_option (\<lambda>(xs, q). (JArr xs, q)) (dess n r)
      else map_option (\<lambda>(kvs, q). (JObj kvs, q)) (deskv n r))"
| "des n s = None"
| "dess (Suc n) (t # r) =
     (if t = CHR ''z'' then Some ([], r)
      else case des n r of None \<Rightarrow> None
           | Some (x, q) \<Rightarrow> map_option (\<lambda>(xs, q'). (x # xs, q')) (dess n q))"
| "dess n s = None"
| "deskv (Suc n) (t # r) =
     (if t = CHR ''z'' then Some ([], r)
      else case dec_str r of None \<Rightarrow> None
           | Some (k, q) \<Rightarrow> (case des n q of None \<Rightarrow> None
               | Some (v, q') \<Rightarrow> map_option (\<lambda>(kvs, q''). ((k, v) # kvs, q'')) (deskv n q')))"
| "deskv n s = None"

definition toy_yaml :: yaml_lib where
  "toy_yaml = \<lparr> y_load = (\<lambda>s. if s = [] then Some JUndef
                               else case des (length s) s of
                                 Some (v, []) \<Rightarrow> if plain v then Some v else None
                               | _ \<Rightarrow> None),
                y_dump = ser, y_sorted = (\<lambda>v. ser (canon v)) \<rparr>"

lemma dec_enc_str: "dec_str (enc_str s @ r) = Some (s, r)"
  by (induction s) auto

lemma dec_enc_nat: "dec_nat (enc_nat n @ r) = Some (n, r)"
  by (induction n) auto

lemma des_ser:
  "length (ser v) \<le> n \<Longrightarrow> des n (ser v @ r) = Some (v, r)"
  "length (sers xs) \<le> n \<Longrightarrow> dess n (sers xs @ r) = Some (xs, r)"
  "length (serkv kvs) \<le> n \<Longrightarrow> deskv n (serkv kvs @ r) = Some (kvs, r)"
proof (induction v and xs and kvs arbitrary: n r and n r and n r rule: ser_sers_serkv.induct)
  case (4 i)
  then show ?case by (cases n) (auto simp: dec_enc_nat split: if_splits)
next
  case (5 s)
  then show ?case by (cases n) (auto simp: dec_enc_str)
next
  case (9 x xs)
  then show ?case by (cases n) auto
next
  case (11 k v kvs)
  then show ?case by (cases n) (auto simp: dec_enc_str)
next
  case (6 xs) then show ?case by (cases n) auto
next
  case (7 kvs) then show ?case by (cases n) auto
next
  case 1 then show ?case by (cases n) auto
next
  case 2 then show ?case by (cases n) auto
next
  case (3 b) then show ?case by (cases n) (auto split: if_splits)
next
  case 8 then show ?case by (cases n) auto
next
  case 10 then show ?case by (cases n) auto
qed

lemma ser_ne: "ser v \<noteq> []"
  by (cases v) auto

lemma ser_inj: "ser v = ser w \<longleftrightarrow> v = w"
  using des_ser(1) [of v "length (ser v)" "[]"] des_ser(1) [of w "length (ser w)" "[]"]
  by (metis fst_conv option.inject order_refl append_Nil2)

lemma toy_yaml_laws: "yaml_laws toy_yaml"
  using des_ser(1) [OF order_refl, where r = "[]"]
  by (auto simp: yaml_laws_def toy_yaml_def ser_ne ser_inj split: option.splits list.splits if_splits)

end
