(* ===== verification/CnpForm.thy ===== *)
theory CnpForm
  imports Yaml
begin

text \<open>
  The Cilium network policy form, \<open>web/src/utils/cnpForm.ts\<close>, writing side: the form's data,
  its validation and the manifest it generates. A form holds one subject and, per direction,
  a section of rules with its own mode; a section without rules is left out of the manifest.
  Error texts are the source's.
\<close>

section \<open>Form data\<close>

datatype cnp_mode = Blacklist | Whitelist
datatype cnp_direction = Ingress | Egress
datatype cnp_scope = Namespaced | ClusterScope
datatype peer_kind = LabelsPeer | EntityPeer | CidrPeer | FqdnPeer

definition BUILDER_ANNOTATION :: string where
  "BUILDER_ANNOTATION = ''sentinel.io/builder''"

definition HTTP_METHODS :: "string list" where
  "HTTP_METHODS = [''GET'', ''POST'', ''PUT'', ''PATCH'', ''DELETE'', ''HEAD'']"

definition PROTOCOLS :: "string list" where
  "PROTOCOLS = [''TCP'', ''UDP'', ''SCTP'']"

definition ENTITIES :: "string list" where
  "ENTITIES = [''world'', ''cluster'', ''host'', ''remote-node'', ''all'', ''init'', ''health'', ''unmanaged'']"

record label_pair =
  lp_key :: string
  lp_value :: string

record port_entry =
  pe_port :: string
  pe_protocol :: string

record http_rule =
  hr_method :: string
  hr_path :: string

record cnp_rule =
  peerKind :: peer_kind
  peerLabels :: "label_pair list"
  peerNamespace :: string
  peerEntity :: string
  peerCIDR :: string
  peerFQDN :: string
  rule_ports :: "port_entry list"
  rule_http :: "http_rule list"

record cnp_section =
  section_mode :: cnp_mode
  section_rules :: "cnp_rule list"

text \<open>The optional comment is the empty string when absent: the code only reads it trimmed.\<close>

record cnp_form =
  form_name :: string
  form_scope :: cnp_scope
  form_namespace :: string
  form_comment :: string
  form_subject :: "label_pair list"
  form_subjectNamespace :: string
  form_ingress :: cnp_section
  form_egress :: cnp_section

definition emptySection :: cnp_section where
  "emptySection = \<lparr> section_mode = Whitelist, section_rules = [] \<rparr>"

definition sectionsOf :: "cnp_form \<Rightarrow> (cnp_direction \<times> cnp_section) list" where
  "sectionsOf f = [(Ingress, form_ingress f), (Egress, form_egress f)]"

definition emptyLabel :: label_pair where
  "emptyLabel = \<lparr> lp_key = [], lp_value = [] \<rparr>"

definition emptyPort :: port_entry where
  "emptyPort = \<lparr> pe_port = [], pe_protocol = ''TCP'' \<rparr>"

definition emptyHttp :: http_rule where
  "emptyHttp = \<lparr> hr_method = [], hr_path = [] \<rparr>"

definition emptyRule :: cnp_rule where
  "emptyRule = \<lparr> peerKind = LabelsPeer, peerLabels = [emptyLabel], peerNamespace = [],
     peerEntity = ''world'', peerCIDR = [], peerFQDN = [], rule_ports = [], rule_http = [] \<rparr>"

definition emptyForm :: cnp_form where
  "emptyForm = \<lparr> form_name = [], form_scope = Namespaced, form_namespace = [], form_comment = [],
     form_subject = [emptyLabel], form_subjectNamespace = [],
     form_ingress = emptySection, form_egress = emptySection \<rparr>"

section \<open>Selectors\<close>

definition NAMESPACE_KEY :: string where
  "NAMESPACE_KEY = ''io.kubernetes.pod.namespace''"

definition is_ns_alias :: "string \<Rightarrow> bool" where
  "is_ns_alias k \<longleftrightarrow> k = ''namespace'' \<or> k = ''ns''"

type_synonym labels = "(string \<times> string) list"

text \<open>The loop body of \<open>toMatchLabels\<close>: a half-filled row is skipped, an alias is spelled out.\<close>

definition label_step :: "labels \<Rightarrow> label_pair \<Rightarrow> labels" where
  "label_step out p =
     (let k = trim (lp_key p); v = trim (lp_value p)
      in if k = [] \<or> v = [] then out
         else obj_set (if is_ns_alias k then NAMESPACE_KEY else k) v out)"

definition toMatchLabels :: "label_pair list \<Rightarrow> labels" where
  "toMatchLabels pairs = foldl label_step [] pairs"

definition subjectMatchLabels :: "cnp_form \<Rightarrow> labels" where
  "subjectMatchLabels f =
     (let ls = toMatchLabels (form_subject f)
      in if trim (form_subjectNamespace f) \<noteq> []
         then obj_set NAMESPACE_KEY (trim (form_subjectNamespace f)) ls else ls)"

definition peerMatchLabels :: "cnp_rule \<Rightarrow> labels" where
  "peerMatchLabels r =
     (let ls = toMatchLabels (peerLabels r)
      in if trim (peerNamespace r) \<noteq> []
         then obj_set NAMESPACE_KEY (trim (peerNamespace r)) ls else ls)"

definition toLabelPairs :: "labels \<Rightarrow> label_pair list" where
  "toLabelPairs ls =
     (let pairs = map (\<lambda>(k, v). \<lparr> lp_key = (if k = NAMESPACE_KEY then ''namespace'' else k),
                                   lp_value = v \<rparr>) ls
      in if pairs = [] then [emptyLabel] else pairs)"

section \<open>Validation\<close>

text \<open>Half-filled rows; the row number is shown when there are several.\<close>

definition labelRowErrors :: "label_pair list \<Rightarrow> string \<Rightarrow> string list" where
  "labelRowErrors pairs what = flat_idx (\<lambda>i p.
     let k = trim (lp_key p); v = trim (lp_value p);
         at = (if length pairs > 1 then '' '' @ show_nat (i + 1) else [])
     in if k = [] \<and> v \<noteq> [] then [what @ '' label'' @ at @ '' has a value but no key.'']
        else if k \<noteq> [] \<and> v = [] then [what @ '' label'' @ at @ '' has a key but no value.'']
        else []) pairs"

text \<open>\<open>/^[a-z0-9]([-a-z0-9]*[a-z0-9])?$/\<close>\<close>

definition DNS1123 :: "string \<Rightarrow> bool" where
  "DNS1123 s \<longleftrightarrow> s \<noteq> [] \<and> lower_alnum (hd s) \<and> lower_alnum (last s) \<and>
     list_all (\<lambda>c. lower_alnum c \<or> c = CHR ''-'') s"

text \<open>\<open>/^[*a-zA-Z0-9_][-*.a-zA-Z0-9_]*$/\<close>\<close>

definition FQDN_RE :: "string \<Rightarrow> bool" where
  "FQDN_RE s \<longleftrightarrow> s \<noteq> [] \<and> (alnum (hd s) \<or> hd s \<in> {CHR ''*'', CHR ''_''}) \<and>
     list_all (\<lambda>c. alnum c \<or> c \<in> {CHR ''*'', CHR ''_'', CHR ''-'', CHR ''.''}) (tl s)"

text \<open>\<open>/^(0|[1-9]\d{0,n})$/\<close>: a numeral without leading zeros and at most n + 1 digits.\<close>

definition short_numeral :: "nat \<Rightarrow> string \<Rightarrow> bool" where
  "short_numeral n s \<longleftrightarrow> s = ''0'' \<or>
     (all_digits s \<and> hd s \<noteq> CHR ''0'' \<and> length s \<le> Suc n)"

definition isV4CIDR :: "string \<Rightarrow> bool" where
  "isV4CIDR v =
     (let parts = split_on (CHR ''/'') v
      in if length parts > 2 then False
         else if length parts = 2 \<and>
                 (\<not> short_numeral 1 (parts ! 1) \<or> nat_of_digits (parts ! 1) > 32) then False
         else (let octets = split_on (CHR ''.'') (parts ! 0)
               in length octets = 4 \<and>
                  list_all (\<lambda>p. short_numeral 2 p \<and> nat_of_digits p \<le> 255) octets))"

definition is_hex :: "char \<Rightarrow> bool" where
  "is_hex c \<longleftrightarrow> (let n = of_char c :: nat in
     (48 \<le> n \<and> n \<le> 57) \<or> (97 \<le> n \<and> n \<le> 102) \<or> (65 \<le> n \<and> n \<le> 70))"

text \<open>\<open>addr.match(/::/g).length\<close>: occurrences that do not overlap.\<close>

fun count_dcolon :: "string \<Rightarrow> nat" where
  "count_dcolon (x # y # s) =
     (if x = CHR '':'' \<and> y = CHR '':'' then Suc (count_dcolon s) else count_dcolon (y # s))"
| "count_dcolon _ = 0"

definition isV6CIDR :: "string \<Rightarrow> bool" where
  "isV6CIDR v =
     (let parts = split_on (CHR ''/'') v; addr = parts ! 0
      in if length parts > 2 then False
         else if length parts = 2 \<and>
                 (\<not> short_numeral 2 (parts ! 1) \<or> nat_of_digits (parts ! 1) > 128) then False
         else if addr = [] \<or> \<not> list_all (\<lambda>c. is_hex c \<or> c = CHR '':'') addr \<or> CHR '':'' \<notin> set addr
              then False
         else if js_includes addr '':::'' \<or> count_dcolon addr > 1 then False
         else list_all (\<lambda>g. length g \<le> 4) (split_on (CHR '':'') addr))"

definition normalizeCIDR :: "string \<Rightarrow> string" where
  "normalizeCIDR v =
     (let s = trim v
      in if CHR ''/'' \<in> set s then s
         else if CHR '':'' \<in> set s then s @ ''/128'' else s @ ''/32'')"

definition filledHttp :: "cnp_rule \<Rightarrow> http_rule list" where
  "filledHttp r = filter (\<lambda>h. hr_method h \<noteq> [] \<or> trim (hr_path h) \<noteq> []) (rule_http r)"

definition filledPorts :: "cnp_rule \<Rightarrow> port_entry list" where
  "filledPorts r = filter (\<lambda>p. trim (pe_port p) \<noteq> []) (rule_ports r)"

definition peerLabel :: "cnp_direction \<Rightarrow> string" where
  "peerLabel d = (if d = Ingress then ''From'' else ''To'')"

definition peerErrors :: "cnp_direction \<Rightarrow> cnp_mode \<Rightarrow> string \<Rightarrow> cnp_rule \<Rightarrow> string list" where
  "peerErrors d m at r =
     (let side = peerLabel d in
      case peerKind r of
        EntityPeer \<Rightarrow>
          (if peerEntity r \<notin> set ENTITIES
           then [at @ (if peerEntity r = [] then ''The entity'' else peerEntity r) @ '' is not a Cilium entity.'']
           else [])
      | CidrPeer \<Rightarrow>
          (let v = trim (peerCIDR r)
           in if v = [] then [at @ side @ '' needs an IP or CIDR.'']
              else if \<not> isV4CIDR v \<and> \<not> isV6CIDR v then [at @ v @ '' is not an IP or CIDR.'']
              else [])
      | FqdnPeer \<Rightarrow>
          (if d \<noteq> Egress \<or> m \<noteq> Whitelist
           then [at @ ''FQDN rules only allow egress: Cilium learns a name'' @ [CHR 0x27] @
                 ''s addresses from the DNS answers the pod receives, so there is nothing to match on ingress or in a deny rule.'']
           else if trim (peerFQDN r) = [] then [at @ side @ '' needs a domain name.'']
           else if \<not> FQDN_RE (trim (peerFQDN r))
           then [at @ trim (peerFQDN r) @ '' is not a domain name. Letters, digits, dots, dashes and * only; no scheme, no spaces.'']
           else [])
      | LabelsPeer \<Rightarrow>
          (if peerMatchLabels r = [] then [at @ side @ '' needs a label or a namespace.''] else [])
          @ labelRowErrors (peerLabels r) (at @ side))"

definition portErrors :: "string \<Rightarrow> cnp_rule \<Rightarrow> string list" where
  "portErrors at r = flat_idx (\<lambda>pi p.
     let port = trim (pe_port p);
         label = (if length (rule_ports r) > 1 then '' '' @ show_nat (pi + 1) else [])
     in (if port = [] then [at @ ''Port'' @ label @ '' is empty. Fill it in or remove it.'']
         else if \<not> all_digits port \<or> nat_of_digits port < 1 \<or> nat_of_digits port > 65535
         then [at @ ''Port'' @ label @ '' must be a number between 1 and 65535.'']
         else [])
        @ (if pe_protocol p \<notin> set PROTOCOLS
           then [at @ ''Port'' @ label @ '' has an unsupported protocol.''] else []))
     (rule_ports r)"

definition httpErrors :: "cnp_mode \<Rightarrow> string \<Rightarrow> cnp_rule \<Rightarrow> string list" where
  "httpErrors m at r = flat_idx (\<lambda>hi h.
     let label = (if length (rule_http r) > 1 then '' '' @ show_nat (hi + 1) else [])
     in if hr_method h = [] \<and> trim (hr_path h) = []
        then [at @ ''HTTP rule'' @ label @ '' is empty. Set a method or a path, or remove it.'']
        else []) (rule_http r)
   @ (if rule_http r \<noteq> []
      then (if m = Blacklist
            then [at @ ''HTTP rules cannot be combined with a blacklist: Cilium deny rules match on L3/L4 only.'']
            else [])
           @ (if filledPorts r = [] then [at @ ''An HTTP rule needs at least one port.''] else [])
      else [])"

definition sectionErrors :: "cnp_direction \<Rightarrow> cnp_section \<Rightarrow> string list" where
  "sectionErrors d s = flat_idx (\<lambda>i r.
     let wh = (if d = Ingress then ''Ingress'' else ''Egress'');
         at = (if length (section_rules s) > 1 then wh @ '' rule '' @ show_nat (i + 1) @ '': ''
               else wh @ '': '')
     in peerErrors d (section_mode s) at r @ portErrors at r @ httpErrors (section_mode s) at r)
     (section_rules s)"

definition validateCNPForm :: "cnp_form \<Rightarrow> string list" where
  "validateCNPForm f =
     (if trim (form_name f) = [] then [''Name is required.'']
      else if \<not> DNS1123 (trim (form_name f))
      then [''Name must be lowercase alphanumeric or \"-\", starting and ending alphanumeric.'']
      else [])
   @ (if form_scope f = Namespaced \<and> trim (form_namespace f) = []
      then [''Namespace is required for a namespaced policy.''] else [])
   @ (if subjectMatchLabels f = []
      then [if form_scope f = ClusterScope then ''Applies to needs a label or a namespace.''
            else ''Applies to needs at least one label.'']
      else [])
   @ labelRowErrors (form_subject f) ''Applies to''
   @ (if length (section_rules (form_ingress f)) + length (section_rules (form_egress f)) = 0
      then [''At least one rule is required.''] else [])
   @ concat (map (\<lambda>(d, s). sectionErrors d s) (sectionsOf f))"

section \<open>The manifest\<close>

definition labels_val :: "labels \<Rightarrow> jsval" where
  "labels_val ls = JObj (map (\<lambda>(k, v). (k, JStr v)) ls)"

definition DNS_VISIBILITY_RULE :: jsval where
  "DNS_VISIBILITY_RULE = JObj [
     (''toEndpoints'', JArr [JObj [(''matchLabels'',
        JObj [(NAMESPACE_KEY, JStr ''kube-system''), (''k8s-app'', JStr ''kube-dns'')])]]),
     (''toPorts'', JArr [JObj [
        (''ports'', JArr [JObj [(''port'', JStr ''53''), (''protocol'', JStr ''ANY'')]]),
        (''rules'', JObj [(''dns'', JArr [JObj [(''matchPattern'', JStr ''*'')]])])]])]"

definition peer_fields :: "cnp_rule \<Rightarrow> cnp_direction \<Rightarrow> (string \<times> jsval) list" where
  "peer_fields r d =
     (case peerKind r of
        EntityPeer \<Rightarrow>
          [(if d = Ingress then ''fromEntities'' else ''toEntities'', JArr [JStr (peerEntity r)])]
      | CidrPeer \<Rightarrow>
          [(if d = Ingress then ''fromCIDR'' else ''toCIDR'', JArr [JStr (normalizeCIDR (peerCIDR r))])]
      | FqdnPeer \<Rightarrow>
          (let name = trim (peerFQDN r)
           in [(''toFQDNs'', JArr [JObj [(if CHR ''*'' \<in> set name then ''matchPattern'' else ''matchName'', JStr name)]])])
      | LabelsPeer \<Rightarrow>
          [(if d = Ingress then ''fromEndpoints'' else ''toEndpoints'',
            JArr [JObj [(''matchLabels'', labels_val (peerMatchLabels r))]])])"

definition http_entry :: "http_rule \<Rightarrow> jsval" where
  "http_entry h = JObj
     ((if hr_method h \<noteq> [] then [(''method'', JStr (hr_method h))] else [])
      @ (if trim (hr_path h) \<noteq> [] then [(''path'', JStr (trim (hr_path h)))] else []))"

definition port_rule :: "cnp_rule \<Rightarrow> jsval" where
  "port_rule r = JObj
     ((''ports'', JArr (map (\<lambda>p. JObj [(''port'', JStr (trim (pe_port p))), (''protocol'', JStr (pe_protocol p))])
                            (filledPorts r)))
      # (if filledHttp r \<noteq> []
         then [(''rules'', JObj [(''http'', JArr (map http_entry (filledHttp r)))])] else []))"

definition toCiliumRule :: "cnp_rule \<Rightarrow> cnp_direction \<Rightarrow> jsval" where
  "toCiliumRule r d = JObj
     (peer_fields r d @ (if filledPorts r \<noteq> [] then [(''toPorts'', JArr [port_rule r])] else []))"

definition allow_key :: "cnp_direction \<Rightarrow> string" where
  "allow_key d = (if d = Ingress then ''ingress'' else ''egress'')"

definition deny_key :: "cnp_direction \<Rightarrow> string" where
  "deny_key d = (if d = Ingress then ''ingressDeny'' else ''egressDeny'')"

definition section_cilium :: "cnp_direction \<Rightarrow> cnp_section \<Rightarrow> jsval list" where
  "section_cilium d s = map (\<lambda>r. toCiliumRule r d) (section_rules s)
     @ (if d = Egress \<and> section_mode s = Whitelist \<and>
           list_ex (\<lambda>r. peerKind r = FqdnPeer) (section_rules s)
        then [DNS_VISIBILITY_RULE] else [])"

definition section_fields :: "cnp_direction \<Rightarrow> cnp_section \<Rightarrow> (string \<times> jsval) list" where
  "section_fields d s =
     (if section_rules s = [] then []
      else [(if section_mode s = Blacklist then deny_key d else allow_key d, JArr (section_cilium d s))])"

definition default_deny_off :: "cnp_form \<Rightarrow> (string \<times> jsval) list" where
  "default_deny_off f = concat (map (\<lambda>(d, s).
     if section_rules s \<noteq> [] \<and> section_mode s = Blacklist then [(allow_key d, JBool False)] else [])
     (sectionsOf f))"

definition cnp_spec :: "cnp_form \<Rightarrow> jsval" where
  "cnp_spec f = JObj
     ((''endpointSelector'', JObj [(''matchLabels'', labels_val (subjectMatchLabels f))])
      # (if trim (form_comment f) \<noteq> [] then [(''description'', JStr (trim (form_comment f)))] else [])
      @ concat (map (\<lambda>(d, s). section_fields d s) (sectionsOf f))
      @ (if default_deny_off f \<noteq> [] then [(''enableDefaultDeny'', JObj (default_deny_off f))] else []))"

definition cnp_manifest :: "cnp_form \<Rightarrow> jsval" where
  "cnp_manifest f = JObj [
     (''apiVersion'', JStr ''cilium.io/v2''),
     (''kind'', JStr (if form_scope f = ClusterScope then ''CiliumClusterwideNetworkPolicy''
                      else ''CiliumNetworkPolicy'')),
     (''metadata'', JObj
        ((''name'', JStr (trim (form_name f)))
         # (if form_scope f = ClusterScope then [] else [(''namespace'', JStr (trim (form_namespace f)))])
         @ [(''annotations'', JObj [(BUILDER_ANNOTATION, JStr ''true'')])])),
     (''spec'', cnp_spec f)]"

definition cnpFormToYaml :: "yaml_lib \<Rightarrow> cnp_form \<Rightarrow> string" where
  "cnpFormToYaml Y f = (if validateCNPForm f \<noteq> [] then [] else y_dump Y (cnp_manifest f))"

end
