(* ===== verification/CnpParse.thy ===== *)
theory CnpParse
  imports CnpForm
begin

text \<open>
  The reading side of \<open>web/src/utils/cnpForm.ts\<close>: \<open>tryParseCNPForm\<close> reopens a policy the
  form generated. The outer option is the code's exceptions (None is an uncaught TypeError),
  the inner one its answer (None is the code's \<open>null\<close>: the policy stays in the YAML editor).

  A leaf the form keeps as text is read with \<open>leaf\<close>. Cilium's CRD types all these leaves as
  strings, and the form's types say the same; for another value the model gives the exception
  at once, where the code raises at its first trim of the leaf (name, namespace, label value,
  port, path) or, for an entity, a protocol or a method, carries the untyped value on into
  validation. Manifests with untyped leaves are outside the model's range.
\<close>

section \<open>Reading a manifest\<close>

definition leaf :: "jsval \<Rightarrow> string option" where
  "leaf v = as_str (nvl v (JStr []))"

definition str_labels :: "(string \<times> jsval) list \<Rightarrow> labels option" where
  "str_labels kvs = those (map (\<lambda>(k, v). map_option (Pair k) (as_str v)) kvs)"

text \<open>
  \<open>const { [NAMESPACE_KEY]: ns, ...rest } = labels\<close>: the namespace and the other labels.
\<close>

definition split_ns :: "jsval \<Rightarrow> (jsval \<times> (string \<times> jsval) list) option" where
  "split_ns ls = map_option (\<lambda>kvs. (getp ls NAMESPACE_KEY, obj_del NAMESPACE_KEY kvs)) (entries ls)"

definition has_one :: "jsval \<Rightarrow> bool" where
  "has_one v \<longleftrightarrow> jopt v ''length'' = JNum 1"

definition parse_ports :: "jsval \<Rightarrow> port_entry list option" where
  "parse_ports pr = do {
     ports \<leftarrow> jget pr ''ports'';
     ps \<leftarrow> as_arr (nvl ports (JArr []));
     those (map (\<lambda>p. do {
       q \<leftarrow> jget p ''port''; port \<leftarrow> as_str q;
       q' \<leftarrow> jget p ''protocol''; protocol \<leftarrow> leaf q';
       Some \<lparr> pe_port = port, pe_protocol = protocol \<rparr> }) ps)
   }"

definition parse_http :: "jsval \<Rightarrow> http_rule list option" where
  "parse_http pr = do {
     rules \<leftarrow> jget pr ''rules'';
     hs \<leftarrow> as_arr (nvl (jopt rules ''http'') (JArr []));
     those (map (\<lambda>h. do {
       m \<leftarrow> jget h ''method''; method \<leftarrow> leaf m;
       q \<leftarrow> jget h ''path''; path \<leftarrow> leaf q;
       Some \<lparr> hr_method = method, hr_path = path \<rparr> }) hs)
   }"

text \<open>The peer of one Cilium rule, written into an empty form rule.\<close>

definition parse_peer :: "jsval \<Rightarrow> cnp_direction \<Rightarrow> cnp_rule option option" where
  "parse_peer cr d = do {
     endpoints \<leftarrow> jget cr (if d = Ingress then ''fromEndpoints'' else ''toEndpoints'');
     entities \<leftarrow> jget cr (if d = Ingress then ''fromEntities'' else ''toEntities'');
     cidrs \<leftarrow> jget cr (if d = Ingress then ''fromCIDR'' else ''toCIDR'');
     fqdns \<leftarrow> jget cr ''toFQDNs'';
     if has_one endpoints then do {
       labels \<leftarrow> jget (getp endpoints ''0'') ''matchLabels'';
       if \<not> truthy labels \<or> obj_keys labels = Some [] then Some None
       else do {
         (ns, rest) \<leftarrow> split_ns labels;
         peer_ns \<leftarrow> leaf ns;
         rows \<leftarrow> str_labels rest;
         Some (Some (emptyRule\<lparr> peerKind := LabelsPeer, peerNamespace := peer_ns,
                                 peerLabels := toLabelPairs rows \<rparr>))
       }
     } else if has_one entities then
       map_option (\<lambda>e. Some (emptyRule\<lparr> peerKind := EntityPeer, peerEntity := e \<rparr>))
         (as_str (getp entities ''0''))
     else if has_one cidrs then
       map_option (\<lambda>c. Some (emptyRule\<lparr> peerKind := CidrPeer, peerCIDR := c \<rparr>))
         (as_str (getp cidrs ''0''))
     else if d = Egress \<and> has_one fqdns then do {
       matchName \<leftarrow> jget (getp fqdns ''0'') ''matchName'';
       matchPattern \<leftarrow> jget (getp fqdns ''0'') ''matchPattern'';
       name \<leftarrow> leaf (nvl matchName matchPattern);
       Some (if name = [] then None else Some (emptyRule\<lparr> peerKind := FqdnPeer, peerFQDN := name \<rparr>))
     } else Some None
   }"

text \<open>One Cilium rule, peer first and then its ports and HTTP rules.\<close>

definition parse_rule :: "jsval \<Rightarrow> cnp_direction \<Rightarrow> cnp_rule option option" where
  "parse_rule cr d = do {
     peer \<leftarrow> parse_peer cr d;
     case peer of
       None \<Rightarrow> Some None
     | Some rule \<Rightarrow> do {
         toPorts \<leftarrow> jget cr ''toPorts'';
         if truthy toPorts then
           (if jopt toPorts ''length'' \<noteq> JNum 1 then Some None
            else do {
              ps \<leftarrow> parse_ports (getp toPorts ''0'');
              hs \<leftarrow> parse_http (getp toPorts ''0'');
              Some (Some (rule\<lparr> rule_ports := ps, rule_http := hs \<rparr>)) })
         else Some (Some rule)
       }
   }"

fun parse_rules_loop :: "yaml_lib \<Rightarrow> cnp_direction \<Rightarrow> jsval list \<Rightarrow> cnp_rule list option option" where
  "parse_rules_loop Y d [] = Some (Some [])"
| "parse_rules_loop Y d (cr # crs) =
     (if d = Egress \<and> y_sorted Y cr = y_sorted Y DNS_VISIBILITY_RULE then parse_rules_loop Y d crs
      else case parse_rule cr d of
        None \<Rightarrow> None
      | Some None \<Rightarrow> Some None
      | Some (Some r) \<Rightarrow> map_option (map_option ((#) r)) (parse_rules_loop Y d crs))"

definition parseRules :: "yaml_lib \<Rightarrow> jsval list \<Rightarrow> cnp_direction \<Rightarrow> cnp_rule list option option" where
  "parseRules Y crs d = (if crs = [] then Some None else parse_rules_loop Y d crs)"

text \<open>One direction: allow or deny section, not both; neither leaves the section empty.\<close>

definition parse_section :: "yaml_lib \<Rightarrow> jsval \<Rightarrow> cnp_direction \<Rightarrow> cnp_section option option" where
  "parse_section Y spec d =
     (case (as_arr (getp spec (allow_key d)), as_arr (getp spec (deny_key d))) of
        (Some _, Some _) \<Rightarrow> Some None
      | (None, None) \<Rightarrow> Some (Some emptySection)
      | (None, Some crs) \<Rightarrow> map_option (map_option
          (\<lambda>rs. \<lparr> section_mode = Blacklist, section_rules = rs \<rparr>)) (parseRules Y crs d)
      | (Some crs, None) \<Rightarrow> map_option (map_option
          (\<lambda>rs. \<lparr> section_mode = Whitelist, section_rules = rs \<rparr>)) (parseRules Y crs d))"

text \<open>The form state read from a manifest that passed the guards, before the comparison.\<close>

definition read_form ::
  "jsval \<Rightarrow> bool \<Rightarrow> jsval \<Rightarrow> (string \<times> jsval) list \<Rightarrow> jsval \<Rightarrow> cnp_section \<Rightarrow> cnp_section \<Rightarrow> cnp_form option" where
  "read_form doc clusterWide subjectNs subjectRest spec ing eg = do {
     let meta = getp doc ''metadata'';
     name \<leftarrow> leaf (jopt meta ''name'');
     namespace \<leftarrow> (if clusterWide then Some [] else leaf (jopt meta ''namespace''));
     rows \<leftarrow> str_labels subjectRest;
     ns \<leftarrow> leaf subjectNs;
     Some \<lparr> form_name = name, form_scope = (if clusterWide then ClusterScope else Namespaced),
            form_namespace = namespace,
            form_comment = (case getp spec ''description'' of JStr s \<Rightarrow> s | _ \<Rightarrow> []),
            form_subject = toLabelPairs rows, form_subjectNamespace = ns,
            form_ingress = ing, form_egress = eg \<rparr>
   }"

text \<open>
  Regenerate-and-compare: the form may only open a policy it can reproduce. The reloaded
  manifest must exist and its spec must have the same sorted text as the one being opened.
\<close>

definition reproduces :: "yaml_lib \<Rightarrow> string \<Rightarrow> jsval \<Rightarrow> bool option" where
  "reproduces Y regenerated spec = do {
     regen \<leftarrow> y_load Y regenerated;
     Some (truthy regen \<and> y_sorted Y (getp regen ''spec'') = y_sorted Y spec)
   }"

definition is_cluster_kind :: "jsval \<Rightarrow> bool" where
  "is_cluster_kind doc \<longleftrightarrow> jopt doc ''kind'' = JStr ''CiliumClusterwideNetworkPolicy''"

text \<open>The guards before anything is read: kind, builder annotation, no specs, no labels.\<close>

definition cnp_guards :: "jsval \<Rightarrow> bool" where
  "cnp_guards doc \<longleftrightarrow>
     (jopt doc ''kind'' = JStr ''CiliumNetworkPolicy'' \<or> is_cluster_kind doc) \<and>
     js_string (jopt (jopt (getp doc ''metadata'') ''annotations'') BUILDER_ANNOTATION) = ''true'' \<and>
     getp doc ''specs'' = JUndef \<and>
     obj_keys (nvl (jopt (getp doc ''metadata'') ''labels'') (JObj [])) = Some []"

definition tryParseCNPForm :: "yaml_lib \<Rightarrow> string \<Rightarrow> cnp_form option option" where
  "tryParseCNPForm Y rawYaml =
     (case y_load Y rawYaml of
        None \<Rightarrow> Some None
      | Some doc \<Rightarrow>
          if \<not> cnp_guards doc then Some None
          else do {
            let clusterWide = is_cluster_kind doc;
            let spec = getp doc ''spec'';
            let subjectLabels = jopt (jopt spec ''endpointSelector'') ''matchLabels'';
            if \<not> truthy spec \<or> \<not> truthy subjectLabels \<or> obj_keys subjectLabels = Some [] then Some None
            else do {
              (subjectNs, subjectRest) \<leftarrow> split_ns subjectLabels;
              if \<not> clusterWide \<and> truthy subjectNs then Some None
              else do {
                ing \<leftarrow> parse_section Y spec Ingress;
                if ing = None then Some None
                else do {
                  eg \<leftarrow> parse_section Y spec Egress;
                  if eg = None then Some None
                  else if section_rules (the ing) = [] \<and> section_rules (the eg) = [] then Some None
                  else do {
                    result \<leftarrow> read_form doc clusterWide subjectNs subjectRest spec (the ing) (the eg);
                    same \<leftarrow> reproduces Y (cnpFormToYaml Y result) spec;
                    Some (if same then Some result else None)
                  }
                }
              }
            }
          })"

end
