(* ===== verification/Regen.thy ===== *)
theory Regen
  imports Main
begin

text \<open>
  The contract every form editor of the console shares: a parser opens a document as form state
  only when the document generated from that state says the same as the one opened. What a
  document says is its \<open>view\<close>; \<open>lawful\<close> is the precondition on the YAML library. The network
  policy form, the admission policy builder and the binding builder provide it.
\<close>

text \<open>Opening and saving a document over and over, unchanged, as far as it still opens.\<close>

fun resave :: "('d \<Rightarrow> 'f option) \<Rightarrow> ('f \<Rightarrow> 'd) \<Rightarrow> nat \<Rightarrow> 'd \<Rightarrow> 'd" where
  "resave parse gen 0 d = d"
| "resave parse gen (Suc n) d =
     (case parse d of None \<Rightarrow> d | Some f \<Rightarrow> resave parse gen n (gen f))"

locale regen_guard =
  fixes parse :: "'d \<Rightarrow> 'f option"
    and gen :: "'f \<Rightarrow> 'd"
    and view :: "'d \<Rightarrow> 'v"
    and lawful :: bool
  assumes guard: "lawful \<Longrightarrow> parse d = Some f \<Longrightarrow> view (gen f) = view d"
begin

lemma resave_view: "lawful \<Longrightarrow> view (resave parse gen n d) = view d"
  by (induction n arbitrary: d) (auto simp: guard split: option.splits)

text \<open>Two documents that open as the same form state say the same.\<close>

lemma open_same: "lawful \<Longrightarrow> parse d = Some f \<Longrightarrow> parse d' = Some f \<Longrightarrow> view d = view d'"
  using guard by metis

lemma refuse_different: "lawful \<Longrightarrow> view (gen f) \<noteq> view d \<Longrightarrow> parse d \<noteq> Some f"
  using guard by blast

end

end
