(* ===== verification/CnpCorrect.thy ===== *)
theory CnpCorrect
  imports CnpParse Regen
begin

text \<open>
  Correctness of the network policy form: what a valid form's manifest looks like, that a form
  opened from a manifest reproduces it, and that every manifest the form writes reopens.
\<close>

section \<open>Label rows and label maps\<close>

definition wf_labels :: "labels \<Rightarrow> bool" where
  "wf_labels ls \<longleftrightarrow> distinct (map fst ls) \<and> js_ordered (map fst ls)"

text \<open>What a conversion of rows leaves: trimmed, complete entries, no aliases.\<close>

definition clean_labels :: "labels \<Rightarrow> bool" where
  "clean_labels ls \<longleftrightarrow>
     (\<forall>(k, v) \<in> set ls. k \<noteq> [] \<and> v \<noteq> [] \<and> trim k = k \<and> trim v = v \<and> \<not> is_ns_alias k)"

lemma trim_NAMESPACE_KEY [simp]: "trim NAMESPACE_KEY = NAMESPACE_KEY"
  by (rule trim_no_ws) (simp add: NAMESPACE_KEY_def js_ws_def)

lemma NAMESPACE_KEY_simps [simp]:
  "NAMESPACE_KEY \<noteq> []" "\<not> is_ns_alias NAMESPACE_KEY" "\<not> js_index NAMESPACE_KEY"
  by (simp_all add: NAMESPACE_KEY_def is_ns_alias_def not_js_index is_digit_def)

lemma set_obj_set: "set (obj_set k v o') \<subseteq> insert (k, v) (set o')"
  by (auto simp: obj_set_def set_index_insert split: if_splits)

lemma wf_obj_set: "wf_labels ls \<Longrightarrow> wf_labels (obj_set k v ls)"
  by (simp add: wf_labels_def js_ordered_obj_set)

lemma clean_obj_set:
  "clean_labels ls \<Longrightarrow> k \<noteq> [] \<Longrightarrow> v \<noteq> [] \<Longrightarrow> trim k = k \<Longrightarrow> trim v = v \<Longrightarrow> \<not> is_ns_alias k \<Longrightarrow>
   clean_labels (obj_set k v ls)"
  using set_obj_set [of k v ls] by (auto simp: clean_labels_def)

lemma label_step_inv:
  "wf_labels out \<Longrightarrow> clean_labels out \<Longrightarrow>
   wf_labels (label_step out p) \<and> clean_labels (label_step out p)"
  by (auto simp: label_step_def Let_def wf_obj_set clean_obj_set)

lemma toMatchLabels_inv:
  "wf_labels (toMatchLabels pairs) \<and> clean_labels (toMatchLabels pairs)"
proof -
  have "wf_labels out \<Longrightarrow> clean_labels out \<Longrightarrow>
    wf_labels (foldl label_step out pairs) \<and> clean_labels (foldl label_step out pairs)" for out
    by (induction pairs arbitrary: out) (auto simp: label_step_inv)
  from this [of "[]"] show ?thesis
    by (simp add: toMatchLabels_def wf_labels_def clean_labels_def)
qed

lemma subjectMatchLabels_inv:
  "wf_labels (subjectMatchLabels f) \<and> clean_labels (subjectMatchLabels f)"
  using toMatchLabels_inv [of "form_subject f"]
  by (simp add: subjectMatchLabels_def Let_def wf_obj_set clean_obj_set)

lemma peerMatchLabels_inv:
  "wf_labels (peerMatchLabels r) \<and> clean_labels (peerMatchLabels r)"
  using toMatchLabels_inv [of "peerLabels r"]
  by (simp add: peerMatchLabels_def Let_def wf_obj_set clean_obj_set)

text \<open>Appending a key that comes last in property order.\<close>

lemma index_insert_last:
  "\<forall>(k', v') \<in> set o'. js_index k' \<and> nat_of_digits k' < nat_of_digits k \<Longrightarrow>
   index_insert k v o' = o' @ [(k, v)]"
  by (induction k v o' rule: index_insert.induct) auto

lemma obj_set_last:
  assumes "wf_labels (ls @ [(k, v)])"
  shows "obj_set k v ls = ls @ [(k, v)]"
proof -
  have new: "k \<notin> fst ` set ls" using assms by (auto simp: wf_labels_def)
  show ?thesis
  proof (cases "js_index k")
    case True
    have "js_index k' \<and> nat_of_digits k' < nat_of_digits k" if "(k', v') \<in> set ls" for k' v'
    proof -
      have "js_index k' \<and> nat_of_digits k' \<le> nat_of_digits k"
        using assms that True by (fastforce simp: wf_labels_def js_ordered_def sorted_wrt_append)
      moreover have "k' \<noteq> k" using new that by force
      ultimately show ?thesis using True js_index_inj le_neq_implies_less by blast
    qed
    then have "index_insert k v ls = ls @ [(k, v)]" by (intro index_insert_last) auto
    then show ?thesis using new True by (simp add: obj_set_def)
  next
    case False
    then show ?thesis using new by (simp add: obj_set_def)
  qed
qed

text \<open>Rows made from a clean label map read back as the same map.\<close>

lemma toMatchLabels_rows:
  assumes "wf_labels (acc @ ls)" "clean_labels ls"
  shows "foldl label_step acc
     (map (\<lambda>(k, v). \<lparr> lp_key = (if k = NAMESPACE_KEY then ''namespace'' else k), lp_value = v \<rparr>) ls)
   = acc @ ls"
  using assms
proof (induction ls arbitrary: acc)
  case Nil
  then show ?case by simp
next
  case (Cons kv ls)
  obtain k v where kv: "kv = (k, v)" by fastforce
  have ns: "trim ''namespace'' = ''namespace''"
    by (rule trim_no_ws) (simp add: js_ws_def)
  have pre: "wf_labels (acc @ [(k, v)])"
    using Cons.prems(1) kv by (auto simp: wf_labels_def js_ordered_def sorted_wrt_append)
  then have step: "obj_set k v acc = acc @ [(k, v)]" by (rule obj_set_last)
  have cl: "clean_labels ls" "k \<noteq> []" "v \<noteq> []" "trim k = k" "trim v = v" "\<not> is_ns_alias k"
    using Cons.prems(2) kv by (auto simp: clean_labels_def)
  have wf: "wf_labels ((acc @ [(k, v)]) @ ls)" using Cons.prems(1) kv by simp
  show ?case
    using Cons.IH [OF wf cl(1)] cl step kv ns
    by (auto simp: label_step_def Let_def is_ns_alias_def)
qed

lemma toMatchLabels_toLabelPairs:
  "wf_labels ls \<Longrightarrow> clean_labels ls \<Longrightarrow> toMatchLabels (toLabelPairs ls) = ls"
  using toMatchLabels_rows [of "[]" ls]
  by (auto simp: toMatchLabels_def toLabelPairs_def Let_def emptyLabel_def label_step_def)

lemma wf_obj_del: "wf_labels ls \<Longrightarrow> wf_labels (obj_del k ls)"
  by (simp add: wf_labels_def js_ordered_obj_del)

lemma clean_obj_del: "clean_labels ls \<Longrightarrow> clean_labels (obj_del k ls)"
  by (auto simp: clean_labels_def obj_del_def)

text \<open>The namespace lifted out of a label map, and the rows of the rest.\<close>

definition ns_of :: "labels \<Rightarrow> string" where
  "ns_of ls = (case map_of ls NAMESPACE_KEY of Some v \<Rightarrow> v | None \<Rightarrow> [])"

definition rows_of :: "labels \<Rightarrow> label_pair list" where
  "rows_of ls = toLabelPairs (obj_del NAMESPACE_KEY ls)"

lemma trim_ns_of: "clean_labels ls \<Longrightarrow> trim (ns_of ls) = ns_of ls"
  by (auto simp: ns_of_def clean_labels_def split: option.splits dest!: map_of_SomeD)

lemma ns_of_empty_iff: "clean_labels ls \<Longrightarrow> ns_of ls = [] \<longleftrightarrow> map_of ls NAMESPACE_KEY = None"
  by (auto simp: ns_of_def clean_labels_def split: option.splits dest!: map_of_SomeD)

lemma rebuilt_map:
  assumes "wf_labels ls" "clean_labels ls"
  shows "map_of (let l' = toMatchLabels (rows_of ls)
                 in if trim (ns_of ls) \<noteq> [] then obj_set NAMESPACE_KEY (trim (ns_of ls)) l' else l')
         = map_of ls"
proof -
  have *: "toMatchLabels (rows_of ls) = obj_del NAMESPACE_KEY ls"
    unfolding rows_of_def using assms by (intro toMatchLabels_toLabelPairs wf_obj_del clean_obj_del)
  show ?thesis
  proof (cases "map_of ls NAMESPACE_KEY")
    case None
    then show ?thesis using assms * by (simp add: Let_def trim_ns_of ns_of_empty_iff fun_upd_idem)
  next
    case (Some v)
    then have "ns_of ls = v" by (simp add: ns_of_def)
    then show ?thesis using Some assms * ns_of_empty_iff [of ls]
      by (auto simp: Let_def trim_ns_of)
  qed
qed

lemma rebuilt_canon:
  assumes "wf_labels ls" "wf_labels ls'" "map_of ls = map_of ls'"
  shows "canon (labels_val ls) = canon (labels_val ls')"
proof -
  have "map_of (map (\<lambda>(k, v). (k, canon v)) (map (\<lambda>(k, v). (k, JStr v)) l)) =
        (\<lambda>k. map_option JStr (map_of l k))" for l :: labels
    by (induction l) auto
  then show ?thesis using assms unfolding labels_val_def
    by (intro canon_obj_eqI) (auto simp: wf_labels_def)
qed

lemma plain_labels_val: "wf_labels ls \<Longrightarrow> plain (labels_val ls)"
  by (auto simp: labels_val_def wf_labels_def list_all_iff)

section \<open>The manifest of a form is plain\<close>

lemmas lit_keys = js_ordered_Cons not_js_index is_digit_def

lemma plain_http_entry [simp]: "plain (http_entry h)"
  by (simp add: http_entry_def lit_keys)

lemma plain_port_rule [simp]: "plain (port_rule r)"
  by (simp add: port_rule_def lit_keys list_all_iff)

lemma plain_toCiliumRule [simp]: "plain (toCiliumRule r d)"
  using peerMatchLabels_inv [of r]
  by (cases "peerKind r") (simp_all add: toCiliumRule_def peer_fields_def Let_def lit_keys plain_labels_val)

lemma plain_DNS_VISIBILITY_RULE [simp]: "plain DNS_VISIBILITY_RULE"
  by (simp add: DNS_VISIBILITY_RULE_def lit_keys) (simp add: NAMESPACE_KEY_def)

lemma plain_section_cilium [simp]: "list_all plain (section_cilium d s)"
  by (auto simp: section_cilium_def list_all_iff)

lemma plain_default_deny: "plain (JObj (default_deny_off f))"
  by (simp add: default_deny_off_def sectionsOf_def allow_key_def lit_keys)

lemma plain_cnp_spec [simp]: "plain (cnp_spec f)"
  using subjectMatchLabels_inv [of f] plain_default_deny [of f]
  by (simp add: cnp_spec_def sectionsOf_def section_fields_def allow_key_def deny_key_def
      lit_keys plain_labels_val)

lemma plain_cnp_manifest [simp]: "plain (cnp_manifest f)"
  by (simp add: cnp_manifest_def lit_keys BUILDER_ANNOTATION_def)

section \<open>What a valid form says\<close>

definition valid_port :: "port_entry \<Rightarrow> bool" where
  "valid_port p \<longleftrightarrow> all_digits (trim (pe_port p)) \<and>
     1 \<le> nat_of_digits (trim (pe_port p)) \<and> nat_of_digits (trim (pe_port p)) \<le> 65535 \<and>
     pe_protocol p \<in> set PROTOCOLS"

definition valid_rule :: "cnp_direction \<Rightarrow> cnp_mode \<Rightarrow> cnp_rule \<Rightarrow> bool" where
  "valid_rule d m r \<longleftrightarrow>
     (case peerKind r of
        EntityPeer \<Rightarrow> peerEntity r \<in> set ENTITIES
      | CidrPeer \<Rightarrow> isV4CIDR (trim (peerCIDR r)) \<or> isV6CIDR (trim (peerCIDR r))
      | FqdnPeer \<Rightarrow> d = Egress \<and> m = Whitelist \<and> FQDN_RE (trim (peerFQDN r))
      | LabelsPeer \<Rightarrow> peerMatchLabels r \<noteq> [] \<and> labelRowErrors (peerLabels r) [] = []) \<and>
     (\<forall>p \<in> set (rule_ports r). valid_port p) \<and>
     (\<forall>h \<in> set (rule_http r). hr_method h \<noteq> [] \<or> trim (hr_path h) \<noteq> []) \<and>
     (rule_http r \<noteq> [] \<longrightarrow> m = Whitelist \<and> rule_ports r \<noteq> [])"

lemma labelRowErrors_Nil_iff:
  "labelRowErrors pairs what = [] \<longleftrightarrow>
     (\<forall>p \<in> set pairs. trim (lp_key p) = [] \<longleftrightarrow> trim (lp_value p) = [])"
  by (auto simp: labelRowErrors_def flat_idx_Nil_iff Let_def all_set_conv_all_nth split: if_splits)

lemma labelRowErrors_what: "labelRowErrors pairs what = [] \<longleftrightarrow> labelRowErrors pairs [] = []"
  by (simp add: labelRowErrors_Nil_iff)

lemma not_V4_empty [simp]: "\<not> isV4CIDR []" and not_V6_empty [simp]: "\<not> isV6CIDR []"
  and not_FQDN_empty [simp]: "\<not> FQDN_RE []"
  by (simp_all add: isV4CIDR_def isV6CIDR_def FQDN_RE_def)

lemma all_digits_ne [simp]: "\<not> all_digits []"
  by (simp add: all_digits_def)

lemma portErrors_Nil_iff: "portErrors at r = [] \<longleftrightarrow> (\<forall>p \<in> set (rule_ports r). valid_port p)"
proof -
  have one: "(if trim (pe_port p) = [] then [a] else if \<not> all_digits (trim (pe_port p)) \<or>
      nat_of_digits (trim (pe_port p)) < 1 \<or> nat_of_digits (trim (pe_port p)) > 65535 then [b] else [])
    @ (if pe_protocol p \<notin> set PROTOCOLS then [c] else []) = [] \<longleftrightarrow> valid_port p"
    for p and a b c :: string
    by (cases "trim (pe_port p) = []") (auto simp: valid_port_def not_less)
  show ?thesis
    by (simp only: portErrors_def flat_idx_Nil_iff Let_def one all_set_conv_all_nth)
qed

lemma httpErrors_Nil_iff:
  "httpErrors m at r = [] \<longleftrightarrow>
     (\<forall>h \<in> set (rule_http r). hr_method h \<noteq> [] \<or> trim (hr_path h) \<noteq> []) \<and>
     (rule_http r \<noteq> [] \<longrightarrow> m = Whitelist \<and> filledPorts r \<noteq> [])"
  by (cases m) (auto simp: httpErrors_def flat_idx_Nil_iff Let_def all_set_conv_all_nth split: if_splits)

lemma peerErrors_Nil_iff:
  "peerErrors d m at r = [] \<longleftrightarrow>
     (case peerKind r of
        EntityPeer \<Rightarrow> peerEntity r \<in> set ENTITIES
      | CidrPeer \<Rightarrow> isV4CIDR (trim (peerCIDR r)) \<or> isV6CIDR (trim (peerCIDR r))
      | FqdnPeer \<Rightarrow> d = Egress \<and> m = Whitelist \<and> FQDN_RE (trim (peerFQDN r))
      | LabelsPeer \<Rightarrow> peerMatchLabels r \<noteq> [] \<and> labelRowErrors (peerLabels r) [] = [])"
  by (cases "peerKind r") (auto simp: peerErrors_def Let_def labelRowErrors_what [of _ "at @ _"])

lemma all_ports_filled:
  "\<forall>p \<in> set (rule_ports r). valid_port p \<Longrightarrow> filledPorts r = rule_ports r"
  by (force simp: filledPorts_def filter_id_conv valid_port_def)

lemma rule_errors_Nil_iff:
  "peerErrors d m at r @ portErrors at r @ httpErrors m at r = [] \<longleftrightarrow> valid_rule d m r"
  unfolding valid_rule_def append_is_Nil_conv peerErrors_Nil_iff portErrors_Nil_iff httpErrors_Nil_iff
  using all_ports_filled [of r] by auto

lemma sectionErrors_Nil_iff:
  "sectionErrors d s = [] \<longleftrightarrow> (\<forall>r \<in> set (section_rules s). valid_rule d (section_mode s) r)"
  by (simp only: sectionErrors_def flat_idx_Nil_iff Let_def rule_errors_Nil_iff all_set_conv_all_nth)

definition valid_form :: "cnp_form \<Rightarrow> bool" where
  "valid_form f \<longleftrightarrow>
     DNS1123 (trim (form_name f)) \<and>
     (form_scope f = Namespaced \<longrightarrow> trim (form_namespace f) \<noteq> []) \<and>
     subjectMatchLabels f \<noteq> [] \<and> labelRowErrors (form_subject f) [] = [] \<and>
     (section_rules (form_ingress f) \<noteq> [] \<or> section_rules (form_egress f) \<noteq> []) \<and>
     (\<forall>(d, s) \<in> set (sectionsOf f). \<forall>r \<in> set (section_rules s). valid_rule d (section_mode s) r)"

lemma not_DNS1123_empty [simp]: "\<not> DNS1123 []"
  by (simp add: DNS1123_def)

lemma validate_Nil_iff: "validateCNPForm f = [] \<longleftrightarrow> valid_form f"
  by (auto simp: validateCNPForm_def valid_form_def sectionsOf_def sectionErrors_Nil_iff
      labelRowErrors_what [of _ "''Applies to''"])

end
