(* ===== verification/CnpRoundtrip.thy ===== *)
theory CnpRoundtrip
  imports CnpCorrect
begin

text \<open>
  Opening network policies in the form: what opens is reproduced, and what the form wrote
  opens again as its normal form.
\<close>

section \<open>What opens is reproduced\<close>

lemma reproduces_SomeD:
  assumes "yaml_laws Y" "plain spec" "reproduces Y (cnpFormToYaml Y f) spec = Some True"
  shows "valid_form f" "canon (cnp_spec f) = canon spec"
    "y_load Y (cnpFormToYaml Y f) = Some (cnp_manifest f)"
proof -
  from assms(3) obtain regen where r: "y_load Y (cnpFormToYaml Y f) = Some regen"
    "truthy regen" "y_sorted Y (getp regen ''spec'') = y_sorted Y spec"
    by (auto simp: reproduces_def bind_eq_Some_conv)
  have v: "validateCNPForm f = []"
  proof (rule ccontr)
    assume "validateCNPForm f \<noteq> []"
    then have "regen = JUndef" using r(1) yaml_load_empty [OF assms(1)] by (simp add: cnpFormToYaml_def)
    with r(2) show False by simp
  qed
  then have "cnpFormToYaml Y f = y_dump Y (cnp_manifest f)" by (simp add: cnpFormToYaml_def)
  then have m: "y_load Y (cnpFormToYaml Y f) = Some (cnp_manifest f)"
    using yaml_load_dump [OF assms(1)] by simp
  then show "y_load Y (cnpFormToYaml Y f) = Some (cnp_manifest f)" .
  from v show "valid_form f" by (simp add: validate_Nil_iff)
  from m r have "y_sorted Y (cnp_spec f) = y_sorted Y spec" by (simp add: cnp_manifest_def)
  then show "canon (cnp_spec f) = canon spec"
    using yaml_sorted_iff [OF assms(1)] assms(2) by simp
qed

lemma tryParse_SomeD:
  assumes "tryParseCNPForm Y raw = Some (Some f)"
  shows "\<exists>doc ns rest ing eg. y_load Y raw = Some doc \<and> cnp_guards doc \<and> truthy (getp doc ''spec'') \<and>
     read_form doc (is_cluster_kind doc) ns rest (getp doc ''spec'') ing eg = Some f \<and>
     reproduces Y (cnpFormToYaml Y f) (getp doc ''spec'') = Some True"
  using assms unfolding tryParseCNPForm_def Let_def
  by (clarsimp simp: bind_eq_Some_conv split: option.splits if_splits) blast

lemma truthy_plain: "truthy (getp doc k) \<Longrightarrow> plain doc \<Longrightarrow> plain (getp doc k)"
  using plain_getp [of doc k] by auto

lemma leaf_Some: "leaf v = Some s \<Longrightarrow> s \<noteq> [] \<Longrightarrow> v = JStr s"
  by (cases v) (auto simp: leaf_def)

lemma cnp_open_facts:
  assumes "yaml_laws Y" "tryParseCNPForm Y raw = Some (Some f)"
  shows "\<exists>doc. y_load Y raw = Some doc \<and> valid_form f \<and>
     y_load Y (cnpFormToYaml Y f) = Some (cnp_manifest f) \<and>
     canon (getp (cnp_manifest f) ''spec'') = canon (getp doc ''spec'') \<and>
     getp (cnp_manifest f) ''kind'' = getp doc ''kind'' \<and>
     jopt (getp doc ''metadata'') ''name'' = JStr (form_name f)"
proof -
  obtain doc ns rest ing eg where d: "y_load Y raw = Some doc" "cnp_guards doc" "truthy (getp doc ''spec'')"
    "read_form doc (is_cluster_kind doc) ns rest (getp doc ''spec'') ing eg = Some f"
    "reproduces Y (cnpFormToYaml Y f) (getp doc ''spec'') = Some True"
    using tryParse_SomeD [OF assms(2)] by blast
  have ne: "doc \<noteq> JUndef" using d(3) by auto
  then have pl: "plain doc" using yaml_load_plain [OF assms(1) d(1)] by blast
  note r = reproduces_SomeD [OF assms(1) truthy_plain [OF d(3) pl] d(5)]
  have "trim (form_name f) \<noteq> []" using r(1) by (auto simp: valid_form_def)
  then have nm: "form_name f \<noteq> []" by auto
  have f: "leaf (jopt (getp doc ''metadata'') ''name'') = Some (form_name f)"
    "form_scope f = (if is_cluster_kind doc then ClusterScope else Namespaced)"
    using d(4) by (auto simp: read_form_def bind_eq_Some_conv Let_def)
  have k: "getp doc ''kind'' = JStr (if is_cluster_kind doc then ''CiliumClusterwideNetworkPolicy'' else ''CiliumNetworkPolicy'')"
    using d(2) ne by (auto simp: cnp_guards_def is_cluster_kind_def jopt_def split: if_splits)
  show ?thesis
    using r d(1) leaf_Some [OF f(1) nm] k f(2) by (auto simp: cnp_manifest_def)
qed

text \<open>The editor contract, for any YAML library that keeps its laws.\<close>

definition cnp_open :: "yaml_lib \<Rightarrow> string \<Rightarrow> cnp_form option" where
  "cnp_open Y raw = Option.bind (tryParseCNPForm Y raw) id"

definition cnp_view :: "yaml_lib \<Rightarrow> string \<Rightarrow> (jsval \<times> jsval) option" where
  "cnp_view Y raw = map_option (\<lambda>doc. (getp doc ''kind'', canon (getp doc ''spec''))) (y_load Y raw)"

lemma cnp_open_SomeD: "cnp_open Y raw = Some f \<Longrightarrow> tryParseCNPForm Y raw = Some (Some f)"
  by (auto simp: cnp_open_def bind_eq_Some_conv)

interpretation cnp_guard: regen_guard "cnp_open Y" "cnpFormToYaml Y" "cnp_view Y" "yaml_laws Y"
  for Y
proof unfold_locales
  fix d f
  assume "yaml_laws Y" "cnp_open Y d = Some f"
  then show "cnp_view Y (cnpFormToYaml Y f) = cnp_view Y d"
    using cnp_open_facts [of Y d f] by (auto simp: cnp_view_def dest!: cnp_open_SomeD)
qed

section \<open>The normal form of a rule\<close>

definition norm_rule :: "cnp_rule \<Rightarrow> cnp_rule" where
  "norm_rule r =
     (let peer = (case peerKind r of
          LabelsPeer \<Rightarrow> emptyRule\<lparr> peerNamespace := ns_of (peerMatchLabels r),
                                  peerLabels := rows_of (peerMatchLabels r) \<rparr>
        | EntityPeer \<Rightarrow> emptyRule\<lparr> peerKind := EntityPeer, peerEntity := peerEntity r \<rparr>
        | CidrPeer \<Rightarrow> emptyRule\<lparr> peerKind := CidrPeer, peerCIDR := normalizeCIDR (peerCIDR r) \<rparr>
        | FqdnPeer \<Rightarrow> emptyRule\<lparr> peerKind := FqdnPeer, peerFQDN := trim (peerFQDN r) \<rparr>)
      in peer\<lparr> rule_ports := map (\<lambda>p. p\<lparr> pe_port := trim (pe_port p) \<rparr>) (rule_ports r),
               rule_http := map (\<lambda>h. h\<lparr> hr_path := trim (hr_path h) \<rparr>) (rule_http r) \<rparr>)"

definition norm_section :: "cnp_section \<Rightarrow> cnp_section" where
  "norm_section s = (if section_rules s = [] then emptySection
     else s\<lparr> section_rules := map norm_rule (section_rules s) \<rparr>)"

definition norm_form :: "cnp_form \<Rightarrow> cnp_form" where
  "norm_form f = f\<lparr> form_name := trim (form_name f),
     form_namespace := (if form_scope f = ClusterScope then [] else trim (form_namespace f)),
     form_comment := trim (form_comment f),
     form_subject := rows_of (subjectMatchLabels f),
     form_subjectNamespace := ns_of (subjectMatchLabels f),
     form_ingress := norm_section (form_ingress f), form_egress := norm_section (form_egress f) \<rparr>"

lemma those_map_Some [simp]: "those (map (\<lambda>x. Some (g x)) xs) = Some (map g xs)"
  by (induction xs) auto

lemma str_labels_JStr: "str_labels (map (\<lambda>(k, v). (k, JStr v)) ls) = Some ls"
  by (induction ls) (auto simp: str_labels_def)

lemma obj_del_map: "obj_del k (map (\<lambda>(k, v). (k, g v)) ls) = map (\<lambda>(k, v). (k, g v)) (obj_del k ls)"
  by (induction ls) (auto simp: obj_del_def)

lemma split_ns_labels_val:
  "split_ns (labels_val ls) =
     Some (case map_of ls NAMESPACE_KEY of Some v \<Rightarrow> JStr v | None \<Rightarrow> JUndef,
           map (\<lambda>(k, v). (k, JStr v)) (obj_del NAMESPACE_KEY ls))"
proof -
  have "map_of (map (\<lambda>(k, v). (k, JStr v)) ls) k = map_option JStr (map_of ls k)" for k
    by (induction ls) auto
  then show ?thesis
    by (simp add: split_ns_def labels_val_def obj_del_map split: option.splits)
qed

lemma leaf_simps [simp]: "leaf (JStr s) = Some s" "leaf JUndef = Some []"
  by (simp_all add: leaf_def)

lemma leaf_ns: "leaf (case map_of ls NAMESPACE_KEY of Some v \<Rightarrow> JStr v | None \<Rightarrow> JUndef) = Some (ns_of ls)"
  by (simp add: ns_of_def split: option.splits)

lemma obj_keys_labels_val: "obj_keys (labels_val ls) = Some (map fst ls)"
  by (simp add: obj_keys_def labels_val_def)

lemma has_one_simps [simp]: "has_one (JArr [x])" "\<not> has_one JUndef"
  by (simp_all add: has_one_def jopt_def)

lemma getp_obj_simps [simp]:
  "getp (JObj []) k = JUndef"
  "getp (JObj ((k', v) # kvs)) k = (if k = k' then v else getp (JObj kvs) k)"
  by auto

lemma truthy_labels_val [simp]: "truthy (labels_val ls)" "nullish (labels_val ls) = False"
  by (simp_all add: labels_val_def)

lemma getp_append:
  "getp (JObj (a @ b)) k = (if k \<in> fst ` set a then getp (JObj a) k else getp (JObj b) k)"
  by (induction a) auto

lemma parse_ports_port_rule:
  "parse_ports (port_rule r) =
     Some (map (\<lambda>p. \<lparr> pe_port = trim (pe_port p), pe_protocol = pe_protocol p \<rparr>) (filledPorts r))"
  by (simp add: parse_ports_def port_rule_def comp_def del: getp.simps)

lemma parse_http_port_rule:
  "parse_http (port_rule r) =
     Some (map (\<lambda>h. \<lparr> hr_method = hr_method h, hr_path = trim (hr_path h) \<rparr>) (filledHttp r))"
proof -
  have e: "leaf (getp (http_entry h) ''method'') = Some (hr_method h)"
    "leaf (getp (http_entry h) ''path'') = Some (trim (hr_path h))" for h
    by (auto simp: http_entry_def)
  have n: "jget (http_entry h) k = Some (getp (http_entry h) k)" for h k
    by (simp add: http_entry_def)
  show ?thesis
    by (simp add: parse_http_def port_rule_def comp_def e n del: getp.simps)
qed

lemma all_http_filled:
  "\<forall>h \<in> set (rule_http r). hr_method h \<noteq> [] \<or> trim (hr_path h) \<noteq> [] \<Longrightarrow> filledHttp r = rule_http r"
  by (auto simp: filledHttp_def filter_id_conv)

text \<open>The key of the peer field, and what every other peer field reads as.\<close>

lemma toCiliumRule_toPorts:
  "getp (toCiliumRule r d) ''toPorts'' =
     (if filledPorts r = [] then JUndef else JArr [port_rule r])"
  by (cases "peerKind r")
    (simp_all add: toCiliumRule_def peer_fields_def Let_def getp_append del: getp.simps)

lemma toCiliumRule_peer:
  "k \<noteq> ''toPorts'' \<Longrightarrow> getp (toCiliumRule r d) k = getp (JObj (peer_fields r d)) k"
  by (cases "peerKind r")
    (auto simp: toCiliumRule_def peer_fields_def Let_def getp_append simp del: getp.simps)

lemma jget_toCiliumRule: "jget (toCiliumRule r d) k = Some (getp (toCiliumRule r d) k)"
  by (simp add: toCiliumRule_def del: getp.simps)

lemmas peer_reads = parse_peer_def jget_toCiliumRule toCiliumRule_peer peer_fields_def Let_def

lemma parse_peer_labels:
  assumes "peerKind r = LabelsPeer" "peerMatchLabels r \<noteq> []"
  shows "parse_peer (toCiliumRule r d) d =
     Some (Some (emptyRule\<lparr> peerNamespace := ns_of (peerMatchLabels r),
                            peerLabels := rows_of (peerMatchLabels r) \<rparr>))"
proof -
  have "getp (toCiliumRule r d) (if d = Ingress then ''fromEndpoints'' else ''toEndpoints'') =
    JArr [JObj [(''matchLabels'', labels_val (peerMatchLabels r))]]"
    using assms by (cases d) (simp_all add: toCiliumRule_peer peer_fields_def del: getp.simps)
  then show ?thesis using assms
    by (simp add: parse_peer_def jget_toCiliumRule obj_keys_labels_val split_ns_labels_val leaf_ns
        str_labels_JStr rows_of_def emptyRule_def del: getp.simps(1))
qed

lemma parse_peer_entity:
  "peerKind r = EntityPeer \<Longrightarrow> parse_peer (toCiliumRule r d) d =
     Some (Some (emptyRule\<lparr> peerKind := EntityPeer, peerEntity := peerEntity r \<rparr>))"
  by (cases d) (simp_all add: peer_reads del: getp.simps(1))

lemma parse_peer_cidr:
  "peerKind r = CidrPeer \<Longrightarrow> parse_peer (toCiliumRule r d) d =
     Some (Some (emptyRule\<lparr> peerKind := CidrPeer, peerCIDR := normalizeCIDR (peerCIDR r) \<rparr>))"
  by (cases d) (simp_all add: peer_reads del: getp.simps(1))

lemma parse_peer_fqdn:
  "peerKind r = FqdnPeer \<Longrightarrow> trim (peerFQDN r) \<noteq> [] \<Longrightarrow> parse_peer (toCiliumRule r Egress) Egress =
     Some (Some (emptyRule\<lparr> peerKind := FqdnPeer, peerFQDN := trim (peerFQDN r) \<rparr>))"
  by (simp add: peer_reads del: getp.simps(1))

lemma parse_rule_toCiliumRule:
  assumes "valid_rule d m r"
  shows "parse_rule (toCiliumRule r d) d = Some (Some (norm_rule r))"
proof -
  have fp: "filledPorts r = rule_ports r" and fh: "filledHttp r = rule_http r"
    and hp: "rule_http r \<noteq> [] \<Longrightarrow> rule_ports r \<noteq> []"
    using assms all_ports_filled all_http_filled by (auto simp: valid_rule_def)
  define peer where "peer = (case peerKind r of
          LabelsPeer \<Rightarrow> emptyRule\<lparr> peerNamespace := ns_of (peerMatchLabels r),
                                  peerLabels := rows_of (peerMatchLabels r) \<rparr>
        | EntityPeer \<Rightarrow> emptyRule\<lparr> peerKind := EntityPeer, peerEntity := peerEntity r \<rparr>
        | CidrPeer \<Rightarrow> emptyRule\<lparr> peerKind := CidrPeer, peerCIDR := normalizeCIDR (peerCIDR r) \<rparr>
        | FqdnPeer \<Rightarrow> emptyRule\<lparr> peerKind := FqdnPeer, peerFQDN := trim (peerFQDN r) \<rparr>)"
  have pp: "parse_peer (toCiliumRule r d) d = Some (Some peer)"
    using assms parse_peer_labels [of r d] parse_peer_entity [of r d] parse_peer_cidr [of r d]
      parse_peer_fqdn [of r]
    by (cases "trim (peerFQDN r) = []") (auto simp: peer_def valid_rule_def split: peer_kind.splits)
  have e: "rule_ports peer = []" "rule_http peer = []"
    by (simp_all add: peer_def emptyRule_def split: peer_kind.splits)
  have z: "peer\<lparr> rule_ports := [], rule_http := [] \<rparr> = peer"
    using e by (cases peer) simp
  show ?thesis
    using hp z
    by (cases "rule_ports r = []"; cases "rule_http r = []")
      (simp_all add: parse_rule_def pp jget_toCiliumRule toCiliumRule_toPorts fp fh e
        parse_ports_port_rule parse_http_port_rule norm_rule_def peer_def [symmetric]
        jopt_def del: getp.simps)
qed

section \<open>The normal form is valid and says the same\<close>

lemma short_numeral_digits: "short_numeral n s \<Longrightarrow> c \<in> set s \<Longrightarrow> is_digit c"
  by (auto simp: short_numeral_def all_digits_def list_all_iff is_digit_def)

lemma V4_no_colon:
  assumes "isV4CIDR s" "CHR ''/'' \<notin> set s"
  shows "CHR '':'' \<notin> set s"
proof
  assume c: "CHR '':'' \<in> set s"
  have o: "list_all (\<lambda>p. short_numeral 2 p \<and> nat_of_digits p \<le> 255) (split_on (CHR ''.'') s)"
    using assms by (simp add: isV4CIDR_def split_on_free Let_def)
  have "set s \<subseteq> {CHR ''.''} \<union> \<Union> (set ` set (split_on (CHR ''.'') s))"
    using set_join_with [of "[CHR ''.'']" "split_on (CHR ''.'') s"] by (simp add: join_split)
  with c obtain p where "p \<in> set (split_on (CHR ''.'') s)" "CHR '':'' \<in> set p" by auto
  with o have "is_digit (CHR '':'')" using short_numeral_digits by (auto simp: list_all_iff)
  then show False by (simp add: is_digit_def)
qed

lemma V6_colon: "isV6CIDR s \<Longrightarrow> CHR ''/'' \<notin> set s \<Longrightarrow> CHR '':'' \<in> set s"
  by (simp add: isV6CIDR_def split_on_free Let_def split: if_splits)

lemma V4_add_prefix: "isV4CIDR s \<Longrightarrow> CHR ''/'' \<notin> set s \<Longrightarrow> isV4CIDR (s @ ''/32'')"
  by (simp add: isV4CIDR_def split_on_free split_on_append Let_def short_numeral_def
      all_digits_def is_digit_def nat_of_digits_def split: if_splits)

lemma V6_add_prefix: "isV6CIDR s \<Longrightarrow> CHR ''/'' \<notin> set s \<Longrightarrow> isV6CIDR (s @ ''/128'')"
  by (simp add: isV6CIDR_def split_on_free split_on_append Let_def short_numeral_def
      all_digits_def is_digit_def nat_of_digits_def split: if_splits)

lemma trim_suffix:
  "trim s \<noteq> [] \<Longrightarrow> t \<noteq> [] \<Longrightarrow> \<not> js_ws (last t) \<Longrightarrow> trim (trim s @ t) = trim s @ t"
  using trim_ends [of s] by (intro trim_fixed) auto

lemma normalizeCIDR_trimmed: "trim v \<noteq> [] \<Longrightarrow> trim (normalizeCIDR v) = normalizeCIDR v"
  by (auto simp: normalizeCIDR_def Let_def trim_suffix js_ws_def)

lemma normalizeCIDR_idem: "trim v \<noteq> [] \<Longrightarrow> normalizeCIDR (normalizeCIDR v) = normalizeCIDR v"
proof -
  assume "trim v \<noteq> []"
  then have "trim (normalizeCIDR v) = normalizeCIDR v" by (rule normalizeCIDR_trimmed)
  moreover have "CHR ''/'' \<in> set (normalizeCIDR v)" by (simp add: normalizeCIDR_def Let_def)
  ultimately show ?thesis by (simp add: normalizeCIDR_def [of "normalizeCIDR v"] Let_def)
qed

lemma normalizeCIDR_valid:
  assumes "isV4CIDR (trim v) \<or> isV6CIDR (trim v)"
  shows "isV4CIDR (trim (normalizeCIDR v)) \<or> isV6CIDR (trim (normalizeCIDR v))"
proof -
  have ne: "trim v \<noteq> []" using assms by auto
  show ?thesis
  proof (cases "CHR ''/'' \<in> set (trim v)")
    case True
    then have "normalizeCIDR v = trim v" by (simp add: normalizeCIDR_def Let_def)
    then show ?thesis using assms by simp
  next
    case False
    then show ?thesis unfolding normalizeCIDR_trimmed [OF ne]
      using assms V4_no_colon V6_colon V4_add_prefix V6_add_prefix
      by (auto simp: normalizeCIDR_def Let_def)
  qed
qed

lemma peerMatchLabels_norm:
  assumes "peerKind r = LabelsPeer"
  shows "map_of (peerMatchLabels (norm_rule r)) = map_of (peerMatchLabels r)"
proof -
  have "peerLabels (norm_rule r) = rows_of (peerMatchLabels r)"
    "peerNamespace (norm_rule r) = ns_of (peerMatchLabels r)"
    using assms by (simp_all add: norm_rule_def Let_def)
  then show ?thesis
    using rebuilt_map [of "peerMatchLabels r"] peerMatchLabels_inv [of r]
    by (auto simp: peerMatchLabels_def [of "norm_rule r"] Let_def split: if_splits)
qed

lemma norm_rule_kind [simp]: "peerKind (norm_rule r) = peerKind r"
  by (simp add: norm_rule_def Let_def emptyRule_def split: peer_kind.splits)

lemma norm_rule_lists:
  "rule_ports (norm_rule r) = map (\<lambda>p. p\<lparr> pe_port := trim (pe_port p) \<rparr>) (rule_ports r)"
  "rule_http (norm_rule r) = map (\<lambda>h. h\<lparr> hr_path := trim (hr_path h) \<rparr>) (rule_http r)"
  by (simp_all add: norm_rule_def Let_def)

lemma norm_rule_peer:
  "peerKind r = EntityPeer \<Longrightarrow> peerEntity (norm_rule r) = peerEntity r"
  "peerKind r = CidrPeer \<Longrightarrow> peerCIDR (norm_rule r) = normalizeCIDR (peerCIDR r)"
  "peerKind r = FqdnPeer \<Longrightarrow> peerFQDN (norm_rule r) = trim (peerFQDN r)"
  "peerKind r = LabelsPeer \<Longrightarrow> peerLabels (norm_rule r) = rows_of (peerMatchLabels r)"
  by (simp_all add: norm_rule_def Let_def)

lemma port_rule_norm: "port_rule (norm_rule r) = port_rule r"
  "filledPorts (norm_rule r) = [] \<longleftrightarrow> filledPorts r = []"
proof -
  have p: "filledPorts (norm_rule r) = map (\<lambda>p. p\<lparr> pe_port := trim (pe_port p) \<rparr>) (filledPorts r)"
    by (simp add: filledPorts_def norm_rule_lists filter_map comp_def)
  have h: "filledHttp (norm_rule r) = map (\<lambda>h. h\<lparr> hr_path := trim (hr_path h) \<rparr>) (filledHttp r)"
    by (simp add: filledHttp_def norm_rule_lists filter_map comp_def)
  show "port_rule (norm_rule r) = port_rule r"
    by (simp add: port_rule_def p h comp_def http_entry_def)
  show "filledPorts (norm_rule r) = [] \<longleftrightarrow> filledPorts r = []" by (simp add: p)
qed

lemma map_of_Nil_iff: "map_of ls = Map.empty \<longleftrightarrow> ls = []"
  by (cases ls) (auto simp: fun_eq_iff)

lemma rows_complete:
  assumes "clean_labels ls"
  shows "labelRowErrors (rows_of ls) [] = []"
proof -
  have t: "trim ''namespace'' = ''namespace''"
    by (rule trim_no_ws) (simp add: js_ws_def)
  have "clean_labels (obj_del NAMESPACE_KEY ls)" using assms by (rule clean_obj_del)
  then have "trim (lp_key p) = [] \<longleftrightarrow> trim (lp_value p) = []" if "p \<in> set (rows_of ls)" for p
    using that t
    by (auto simp: rows_of_def toLabelPairs_def Let_def clean_labels_def emptyLabel_def split: if_splits)
  then show ?thesis by (simp add: labelRowErrors_Nil_iff)
qed

lemma valid_norm_rule:
  assumes "valid_rule d m r"
  shows "valid_rule d m (norm_rule r)"
proof -
  have l: "peerKind r = LabelsPeer \<Longrightarrow> peerMatchLabels (norm_rule r) \<noteq> []"
    using assms peerMatchLabels_norm [of r] map_of_Nil_iff by (auto simp: valid_rule_def)
  have rows: "labelRowErrors (rows_of (peerMatchLabels r)) [] = []"
    using peerMatchLabels_inv by (intro rows_complete) blast
  have "valid_port (p\<lparr> pe_port := trim (pe_port p) \<rparr>) = valid_port p" for p
    by (simp add: valid_port_def)
  then show ?thesis
    using assms l rows normalizeCIDR_valid [of "peerCIDR r"]
    by (auto simp: valid_rule_def norm_rule_lists norm_rule_peer split: peer_kind.splits)
qed

lemma peer_fields_norm:
  assumes "valid_rule d m r"
  shows "map (\<lambda>(k, v). (k, canon v)) (peer_fields (norm_rule r) d) =
         map (\<lambda>(k, v). (k, canon v)) (peer_fields r d)"
proof (cases "peerKind r")
  case LabelsPeer
  have "canon (labels_val (peerMatchLabels (norm_rule r))) = canon (labels_val (peerMatchLabels r))"
    using peerMatchLabels_inv peerMatchLabels_norm [OF LabelsPeer] by (intro rebuilt_canon) auto
  then show ?thesis using LabelsPeer by (simp add: peer_fields_def)
next
  case CidrPeer
  then have "trim (peerCIDR r) \<noteq> []" using assms by (auto simp: valid_rule_def)
  then show ?thesis using CidrPeer
    by (simp add: peer_fields_def norm_rule_peer normalizeCIDR_idem)
qed (simp_all add: peer_fields_def norm_rule_peer Let_def)

lemma canon_norm_rule:
  "valid_rule d m r \<Longrightarrow> canon (toCiliumRule (norm_rule r) d) = canon (toCiliumRule r d)"
  using peer_fields_norm by (simp add: toCiliumRule_def port_rule_norm)

section \<open>The DNS rider is told apart from every form rule\<close>

lemma getp_canon': "v = JUndef \<or> plain v \<Longrightarrow> getp (canon v) k = canon (getp v k)"
  using getp_canon by auto

lemma getp_canon_eq:
  "canon v = canon w \<Longrightarrow> v = JUndef \<or> plain v \<Longrightarrow> w = JUndef \<or> plain w \<Longrightarrow>
   canon (getp v k) = canon (getp w k)"
  by (metis getp_canon')

lemma undef_or_plain_getp: "v = JUndef \<or> plain v \<Longrightarrow> getp v k = JUndef \<or> plain (getp v k)"
  using plain_getp by auto

definition dns_part :: "jsval \<Rightarrow> jsval" where
  "dns_part v = getp (getp (getp (getp v ''toPorts'') ''0'') ''rules'') ''dns''"

lemma dns_part_canon: "canon v = canon w \<Longrightarrow> plain v \<Longrightarrow> plain w \<Longrightarrow> canon (dns_part v) = canon (dns_part w)"
  unfolding dns_part_def by (intro getp_canon_eq undef_or_plain_getp) auto

lemma dns_part_rule: "dns_part (toCiliumRule r d) = JUndef"
  by (auto simp: dns_part_def toCiliumRule_toPorts port_rule_def simp del: getp.simps(1))

lemma dns_part_rider: "dns_part DNS_VISIBILITY_RULE \<noteq> JUndef"
  by (simp add: dns_part_def DNS_VISIBILITY_RULE_def del: getp.simps(1))

lemma rule_not_rider: "canon (toCiliumRule r d) \<noteq> canon DNS_VISIBILITY_RULE"
proof
  assume "canon (toCiliumRule r d) = canon DNS_VISIBILITY_RULE"
  then have "canon (dns_part (toCiliumRule r d)) = canon (dns_part DNS_VISIBILITY_RULE)"
    by (intro dns_part_canon) auto
  then show False using dns_part_rule dns_part_rider by (metis canon_undef_iff)
qed

section \<open>Reading back what the form wrote\<close>

lemma parse_rules_loop_append:
  assumes "yaml_laws Y" "\<forall>r \<in> set rs. valid_rule d m r"
    and "parse_rules_loop Y d rider = Some (Some [])"
  shows "parse_rules_loop Y d (map (\<lambda>r. toCiliumRule r d) rs @ rider) = Some (Some (map norm_rule rs))"
  using assms(2)
proof (induction rs)
  case Nil
  then show ?case using assms(3) by simp
next
  case (Cons r rs)
  have "y_sorted Y (toCiliumRule r d) \<noteq> y_sorted Y DNS_VISIBILITY_RULE"
    using yaml_sorted_iff [OF assms(1)] rule_not_rider by simp
  then show ?case using Cons parse_rule_toCiliumRule [of d m r] by simp
qed

lemma parseRules_section:
  assumes "yaml_laws Y" "\<forall>r \<in> set (section_rules s). valid_rule d (section_mode s) r" "section_rules s \<noteq> []"
  shows "parseRules Y (section_cilium d s) d = Some (Some (map norm_rule (section_rules s)))"
  using assms(3) parse_rules_loop_append [OF assms(1,2)]
  by (simp add: parseRules_def section_cilium_def)

definition section_of :: "cnp_form \<Rightarrow> cnp_direction \<Rightarrow> cnp_section" where
  "section_of f d = (case d of Ingress \<Rightarrow> form_ingress f | Egress \<Rightarrow> form_egress f)"

lemma spec_section_keys:
  "getp (cnp_spec f) (allow_key d) =
     (if section_rules (section_of f d) \<noteq> [] \<and> section_mode (section_of f d) = Whitelist
      then JArr (section_cilium d (section_of f d)) else JUndef)"
  "getp (cnp_spec f) (deny_key d) =
     (if section_rules (section_of f d) \<noteq> [] \<and> section_mode (section_of f d) = Blacklist
      then JArr (section_cilium d (section_of f d)) else JUndef)"
  by (cases d; cases "section_mode (form_ingress f)"; cases "section_mode (form_egress f)";
      (simp add: cnp_spec_def section_fields_def sectionsOf_def section_of_def allow_key_def deny_key_def
        getp_append del: getp.simps(1); fail))+

lemma spec_other_keys:
  "getp (cnp_spec f) ''endpointSelector'' = JObj [(''matchLabels'', labels_val (subjectMatchLabels f))]"
  "getp (cnp_spec f) ''description'' = (if trim (form_comment f) \<noteq> [] then JStr (trim (form_comment f)) else JUndef)"
  by (simp_all add: cnp_spec_def section_fields_def sectionsOf_def allow_key_def deny_key_def
      getp_append del: getp.simps(1))

lemma spec_default_deny:
  "getp (getp (cnp_spec f) ''enableDefaultDeny'') (allow_key d) =
     (if section_rules (section_of f d) \<noteq> [] \<and> section_mode (section_of f d) = Blacklist
      then JBool False else JUndef)"
  by (cases d; cases "section_mode (form_ingress f)"; cases "section_mode (form_egress f)";
      simp add: cnp_spec_def section_fields_def sectionsOf_def section_of_def allow_key_def deny_key_def
        default_deny_off_def getp_append)

lemma parse_section_spec:
  assumes "yaml_laws Y" "\<forall>r \<in> set (section_rules (section_of f d)). valid_rule d (section_mode (section_of f d)) r"
  shows "parse_section Y (cnp_spec f) d = Some (Some (norm_section (section_of f d)))"
proof (cases "section_rules (section_of f d) = []")
  case True
  then show ?thesis by (simp add: parse_section_def spec_section_keys norm_section_def)
next
  case False
  note p = parseRules_section [OF assms False]
  show ?thesis
    using False by (cases "section_mode (section_of f d)")
      (simp_all add: parse_section_def spec_section_keys p norm_section_def)
qed

lemma subjectMatchLabels_norm: "map_of (subjectMatchLabels (norm_form f)) = map_of (subjectMatchLabels f)"
proof -
  have "subjectMatchLabels (norm_form f) =
      (let l' = toMatchLabels (rows_of (subjectMatchLabels f))
       in if trim (ns_of (subjectMatchLabels f)) \<noteq> []
          then obj_set NAMESPACE_KEY (trim (ns_of (subjectMatchLabels f))) l' else l')"
    by (simp add: subjectMatchLabels_def [of "norm_form f"] Let_def) (simp add: norm_form_def)
  then show ?thesis using rebuilt_map subjectMatchLabels_inv by metis
qed

lemma norm_form_sections: "section_of (norm_form f) d = norm_section (section_of f d)"
  by (cases d) (simp_all add: section_of_def norm_form_def)

lemma valid_form_sections:
  "valid_form f \<longleftrightarrow>
     DNS1123 (trim (form_name f)) \<and>
     (form_scope f = Namespaced \<longrightarrow> trim (form_namespace f) \<noteq> []) \<and>
     subjectMatchLabels f \<noteq> [] \<and> labelRowErrors (form_subject f) [] = [] \<and>
     (section_rules (section_of f Ingress) \<noteq> [] \<or> section_rules (section_of f Egress) \<noteq> []) \<and>
     (\<forall>d. \<forall>r \<in> set (section_rules (section_of f d)). valid_rule d (section_mode (section_of f d)) r)"
  by (auto simp: valid_form_def sectionsOf_def section_of_def split: cnp_direction.splits)

lemma norm_section_simps:
  "section_rules (norm_section s) = map norm_rule (section_rules s)"
  "section_rules s \<noteq> [] \<Longrightarrow> section_mode (norm_section s) = section_mode s"
  by (auto simp: norm_section_def emptySection_def)

lemma valid_norm_form:
  assumes "valid_form f"
  shows "valid_form (norm_form f)"
proof -
  have "subjectMatchLabels (norm_form f) \<noteq> []"
    using assms subjectMatchLabels_norm [of f] map_of_Nil_iff by (auto simp: valid_form_sections)
  moreover have "labelRowErrors (form_subject (norm_form f)) [] = []"
    using rows_complete subjectMatchLabels_inv by (auto simp: norm_form_def)
  moreover have "valid_rule d (section_mode (norm_section s)) r'"
    if "r' \<in> set (section_rules (norm_section s))" "\<forall>r \<in> set (section_rules s). valid_rule d (section_mode s) r"
    for d s r'
    using that valid_norm_rule by (cases "section_rules s = []") (auto simp: norm_section_simps)
  ultimately show ?thesis
    using assms unfolding valid_form_sections norm_form_sections
    by (auto simp: norm_section_simps) (auto simp: norm_form_def)
qed

lemma section_fields_norm:
  assumes "\<forall>r \<in> set (section_rules s). valid_rule d (section_mode s) r"
  shows "map (\<lambda>(k, v). (k, canon v)) (section_fields d (norm_section s)) =
         map (\<lambda>(k, v). (k, canon v)) (section_fields d s)"
proof -
  have "map (canon \<circ> (\<lambda>r. toCiliumRule r d) \<circ> norm_rule) (section_rules s) =
        map (canon \<circ> (\<lambda>r. toCiliumRule r d)) (section_rules s)"
    using assms canon_norm_rule by (intro map_cong) auto
  then show ?thesis
    by (auto simp: section_fields_def norm_section_simps section_cilium_def list_ex_iff comp_def)
qed

lemma canon_spec_norm:
  assumes "valid_form f"
  shows "canon (cnp_spec (norm_form f)) = canon (cnp_spec f)"
proof -
  have v: "\<forall>r \<in> set (section_rules (section_of f d)). valid_rule d (section_mode (section_of f d)) r" for d
    using assms by (simp add: valid_form_sections)
  have l: "canon (labels_val (subjectMatchLabels (norm_form f))) = canon (labels_val (subjectMatchLabels f))"
    using subjectMatchLabels_inv subjectMatchLabels_norm by (intro rebuilt_canon) auto
  have s: "map (\<lambda>(k, v). (k, canon v)) (section_fields d (section_of (norm_form f) d)) =
           map (\<lambda>(k, v). (k, canon v)) (section_fields d (section_of f d))" for d
    using section_fields_norm v norm_form_sections by simp
  have m: "section_rules (norm_section t) \<noteq> [] \<and> section_mode (norm_section t) = Blacklist \<longleftrightarrow>
           section_rules t \<noteq> [] \<and> section_mode t = Blacklist" for t
    by (auto simp: norm_section_def emptySection_def)
  have so: "sectionsOf g = [(Ingress, section_of g Ingress), (Egress, section_of g Egress)]" for g
    by (simp add: sectionsOf_def section_of_def)
  have d: "default_deny_off (norm_form f) = default_deny_off f"
    by (simp add: default_deny_off_def so norm_form_sections m)
  have c: "form_comment (norm_form f) = trim (form_comment f)" by (simp add: norm_form_def)
  show ?thesis
    by (simp add: cnp_spec_def so l d c s)
qed

text \<open>The policies the parser leaves to the YAML editor on purpose: a namespaced one that selects by the
  namespace label itself.\<close>

definition selects_namespace :: "cnp_form \<Rightarrow> bool" where
  "selects_namespace f \<longleftrightarrow> form_scope f = Namespaced \<and> map_of (subjectMatchLabels f) NAMESPACE_KEY \<noteq> None"

lemma reopen_cases:
  assumes "yaml_laws Y" "validateCNPForm f = []"
  shows "tryParseCNPForm Y (cnpFormToYaml Y f) = Some (if selects_namespace f then None else Some (norm_form f))"
proof -
  have vf: "valid_form f" using assms(2) by (simp add: validate_Nil_iff)
  then have v: "\<forall>r \<in> set (section_rules (section_of f d)). valid_rule d (section_mode (section_of f d)) r" for d
    by (simp add: valid_form_sections)
  have load: "y_load Y (cnpFormToYaml Y f) = Some (cnp_manifest f)"
    using assms(1,2) by (simp add: cnpFormToYaml_def yaml_load_dump)
  have spec: "getp (cnp_manifest f) ''spec'' = cnp_spec f"
    and kind: "is_cluster_kind (cnp_manifest f) \<longleftrightarrow> form_scope f = ClusterScope"
    by (simp_all add: cnp_manifest_def is_cluster_kind_def jopt_def del: getp.simps(1))
  have guards: "cnp_guards (cnp_manifest f)"
    by (simp add: cnp_guards_def is_cluster_kind_def cnp_manifest_def jopt_def getp_append obj_keys_def del: getp.simps(1))
  have "jopt (cnp_spec f) ''endpointSelector'' = JObj [(''matchLabels'', labels_val (subjectMatchLabels f))]"
    using spec_other_keys(1) [of f] by (simp add: cnp_spec_def)
  then have subj: "jopt (jopt (cnp_spec f) ''endpointSelector'') ''matchLabels'' = labels_val (subjectMatchLabels f)"
    by (simp del: getp.simps(1))
  have sec: "parse_section Y (cnp_spec f) d = Some (Some (norm_section (section_of f d)))" for d
    using parse_section_spec [OF assms(1) v] .
  have truthy_spec: "truthy (cnp_spec f)" by (simp add: cnp_spec_def)
  have sne: "subjectMatchLabels f \<noteq> []" using vf by (simp add: valid_form_def)
  have rd: "read_form (cnp_manifest f) (form_scope f = ClusterScope)
      (case map_of (subjectMatchLabels f) NAMESPACE_KEY of Some v \<Rightarrow> JStr v | None \<Rightarrow> JUndef)
      (map (\<lambda>(k, v). (k, JStr v)) (obj_del NAMESPACE_KEY (subjectMatchLabels f))) (cnp_spec f)
      (norm_section (section_of f Ingress)) (norm_section (section_of f Egress)) = Some (norm_form f)"
    by (cases "form_scope f")
      (simp_all add: read_form_def spec_other_keys cnp_manifest_def leaf_ns str_labels_JStr
        rows_of_def norm_form_def section_of_def del: getp.simps(1))
  have ok: "reproduces Y (cnpFormToYaml Y (norm_form f)) (cnp_spec f) = Some True"
  proof -
    have "validateCNPForm (norm_form f) = []" using valid_norm_form [OF vf] by (simp add: validate_Nil_iff)
    then have "y_load Y (cnpFormToYaml Y (norm_form f)) = Some (cnp_manifest (norm_form f))"
      using assms(1) by (simp add: cnpFormToYaml_def yaml_load_dump)
    moreover have "y_sorted Y (cnp_spec (norm_form f)) = y_sorted Y (cnp_spec f)"
      using yaml_sorted_iff [OF assms(1)] canon_spec_norm [OF vf] by simp
    ultimately show ?thesis by (simp add: reproduces_def cnp_manifest_def del: getp.simps(1))
  qed
  have nonempty: "\<not> (section_rules (norm_section (section_of f Ingress)) = [] \<and>
                     section_rules (norm_section (section_of f Egress)) = [])"
    using vf by (simp add: valid_form_sections norm_section_simps)
  have val: "map_of (subjectMatchLabels f) NAMESPACE_KEY = Some v \<Longrightarrow> v \<noteq> []" for v
    using subjectMatchLabels_inv [of f] by (auto simp: clean_labels_def dest!: map_of_SomeD)
  have ns: "truthy (case map_of (subjectMatchLabels f) NAMESPACE_KEY of Some v \<Rightarrow> JStr v | None \<Rightarrow> JUndef) \<longleftrightarrow>
      map_of (subjectMatchLabels f) NAMESPACE_KEY \<noteq> None"
    using val by (cases "map_of (subjectMatchLabels f) NAMESPACE_KEY") auto
  show ?thesis
    using ns nonempty sne rd
    by (cases "form_scope f"; cases "map_of (subjectMatchLabels f) NAMESPACE_KEY")
      (simp_all add: tryParseCNPForm_def selects_namespace_def load guards kind spec subj sec truthy_spec
        obj_keys_labels_val split_ns_labels_val ok Let_def del: getp.simps(1))
qed

lemma reopen_normal_form:
  assumes "yaml_laws Y" "validateCNPForm f = []"
    and "form_scope f = Namespaced \<Longrightarrow> map_of (subjectMatchLabels f) NAMESPACE_KEY = None"
  shows "tryParseCNPForm Y (cnpFormToYaml Y f) = Some (Some (norm_form f))"
  using reopen_cases [OF assms(1,2)] assms(3) by (auto simp: selects_namespace_def)

end
