(* ===== verification/CnpProps.thy ===== *)
theory CnpProps
  imports CnpRoundtrip
begin

text \<open>
  What the network policy form promises, for every YAML library that keeps its laws, with the
  inputs at which the promises are exercised.
\<close>

section \<open>Sample policies\<close>

definition sample_rule :: cnp_rule where
  "sample_rule = emptyRule\<lparr> peerLabels := [\<lparr> lp_key = ''app'', lp_value = '' web'' \<rparr>, \<lparr> lp_key = ''ns'', lp_value = ''prod'' \<rparr>],
     rule_ports := [\<lparr> pe_port = '' 80'', pe_protocol = ''TCP'' \<rparr>],
     rule_http := [\<lparr> hr_method = ''GET'', hr_path = [] \<rparr>] \<rparr>"

definition sample_fqdn :: cnp_rule where
  "sample_fqdn = emptyRule\<lparr> peerKind := FqdnPeer, peerFQDN := ''*.example.com'' \<rparr>"

definition sample_deny :: cnp_rule where
  "sample_deny = emptyRule\<lparr> peerKind := CidrPeer, peerCIDR := ''10.0.0.1'' \<rparr>"

definition sample_form :: cnp_form where
  "sample_form = emptyForm\<lparr> form_name := ''pol'', form_namespace := ''shop'', form_comment := '' hi '',
     form_subject := [\<lparr> lp_key = ''app'', lp_value = ''db'' \<rparr>, emptyLabel],
     form_ingress := \<lparr> section_mode = Blacklist, section_rules = [sample_deny] \<rparr>,
     form_egress := \<lparr> section_mode = Whitelist, section_rules = [sample_rule, sample_fqdn] \<rparr> \<rparr>"

lemmas sample_forms_defs = sample_form_def sample_rule_def sample_fqdn_def sample_deny_def
  emptyForm_def emptyRule_def emptyLabel_def emptySection_def

lemma sample_valid: "validateCNPForm sample_form = []"
  unfolding validate_Nil_iff
  by (simp add: valid_form_def sample_forms_defs valid_rule_def valid_port_def sectionsOf_def
      subjectMatchLabels_def peerMatchLabels_def toMatchLabels_def label_step_def Let_def
      labelRowErrors_Nil_iff DNS1123_def FQDN_RE_def isV4CIDR_def lower_alnum_def alnum_def
      short_numeral_def PROTOCOLS_def string_eval is_ns_alias_def obj_set_def NAMESPACE_KEY_def js_index_def)

lemma sample_subject: "map_of (subjectMatchLabels sample_form) NAMESPACE_KEY = None"
  by code_simp

text \<open>A policy carrying the builder's annotation whose only ingress rule is null.\<close>

definition null_rule_doc :: jsval where
  "null_rule_doc = JObj [
     (''kind'', JStr ''CiliumNetworkPolicy''),
     (''metadata'', JObj [(''name'', JStr ''p''), (''annotations'', JObj [(BUILDER_ANNOTATION, JStr ''true'')])]),
     (''spec'', JObj [
        (''endpointSelector'', JObj [(''matchLabels'', JObj [(''app'', JStr ''web'')])]),
        (''ingress'', JArr [JNull])])]"

lemma null_rule_doc_plain: "plain null_rule_doc"
  by code_simp

section \<open>The form and its manifests\<close>

text \<open>C1: what becomes of a policy the form saved. It opens in the form again, as its normal form: rows
  that were blank are gone, every text is trimmed, a bare address has its prefix length, the
  namespace label is in its own field. The one exception is a namespaced policy that selects by the
  namespace label itself: the form saves it, and the parser leaves it to the YAML editor.\<close>

theorem cnp_reopens:
  assumes "yaml_laws Y" "validateCNPForm f = []"
  shows "tryParseCNPForm Y (cnpFormToYaml Y f) = Some (if selects_namespace f then None else Some (norm_form f))"
  using assms by (rule reopen_cases)

theorem cnp_reopens_witness:
  "tryParseCNPForm toy_yaml (cnpFormToYaml toy_yaml sample_form) = Some (Some (norm_form sample_form))"
  using cnp_reopens [OF toy_yaml_laws sample_valid] sample_subject by (simp add: selects_namespace_def)

text \<open>C2: a policy opens in the form only when saving the form unchanged keeps what it says: the
  form is valid, and the manifest it would write has the same kind, the same name and a spec equal
  to the one that was opened, up to the order of object keys. Nothing is silently dropped.\<close>

theorem cnp_open_keeps_policy:
  assumes "yaml_laws Y" "tryParseCNPForm Y raw = Some (Some f)"
  shows "validateCNPForm f = [] \<and> (\<exists>doc regen.
     y_load Y raw = Some doc \<and> y_load Y (cnpFormToYaml Y f) = Some regen \<and>
     getp regen ''kind'' = getp doc ''kind'' \<and>
     getp (getp regen ''metadata'') ''name'' = JStr (trim (form_name f)) \<and>
     getp (getp doc ''metadata'') ''name'' = JStr (form_name f) \<and>
     canon (getp regen ''spec'') = canon (getp doc ''spec''))"
proof -
  have m: "getp (getp (cnp_manifest f) ''metadata'') ''name'' = JStr (trim (form_name f))"
    by (simp add: cnp_manifest_def)
  show ?thesis using cnp_open_facts [OF assms] m
    by (auto simp: validate_Nil_iff jopt_def split: if_splits)
qed

theorem cnp_open_keeps_policy_witness:
  "canon (getp (cnp_manifest (norm_form sample_form)) ''spec'') = canon (getp (cnp_manifest sample_form) ''spec'')"
proof -
  have o: "tryParseCNPForm toy_yaml (cnpFormToYaml toy_yaml sample_form) = Some (Some (norm_form sample_form))"
    by (rule reopen_normal_form [OF toy_yaml_laws sample_valid sample_subject])
  from cnp_open_keeps_policy [OF toy_yaml_laws o] show ?thesis
    by (auto simp: cnpFormToYaml_def sample_valid yaml_load_dump [OF toy_yaml_laws])
qed

text \<open>Opening a policy in the form and saving it, any number of times, never changes its kind
  or what its spec says, whether or not the form can open it.\<close>

theorem cnp_resave_stable:
  assumes "yaml_laws Y"
  shows "cnp_view Y (resave (cnp_open Y) (cnpFormToYaml Y) n raw) = cnp_view Y raw"
  using assms by (rule cnp_guard.resave_view)

theorem cnp_resave_stable_witness:
  "cnp_view toy_yaml (resave (cnp_open toy_yaml) (cnpFormToYaml toy_yaml) 3 (cnpFormToYaml toy_yaml sample_form))
   = cnp_view toy_yaml (cnpFormToYaml toy_yaml sample_form)"
  by (rule cnp_resave_stable [OF toy_yaml_laws])

text \<open>C3: what a manifest enforces in each direction. A blacklist section writes its rules under the
  deny key only and switches the implicit default deny off; a whitelist section writes the allow key
  only and leaves default deny alone; a section without rules appears nowhere. So a deny-only policy
  never cuts off the rest of the traffic and a direction never carries both lists.\<close>

theorem cnp_enforcement:
  "getp (cnp_spec f) (deny_key d) =
     (if section_rules (section_of f d) \<noteq> [] \<and> section_mode (section_of f d) = Blacklist
      then JArr (section_cilium d (section_of f d)) else JUndef)
   \<and> getp (cnp_spec f) (allow_key d) =
     (if section_rules (section_of f d) \<noteq> [] \<and> section_mode (section_of f d) = Whitelist
      then JArr (section_cilium d (section_of f d)) else JUndef)
   \<and> (getp (getp (cnp_spec f) ''enableDefaultDeny'') (allow_key d) = JBool False \<longleftrightarrow>
      getp (cnp_spec f) (deny_key d) \<noteq> JUndef)"
  unfolding spec_default_deny spec_section_keys by auto

text \<open>The selector keys a Cilium rule of one direction can carry.\<close>

definition peer_keys :: "cnp_direction \<Rightarrow> string list" where
  "peer_keys d = (if d = Ingress then [''fromEndpoints'', ''fromEntities'', ''fromCIDR'']
     else [''toEndpoints'', ''toEntities'', ''toCIDR'', ''toFQDNs''])"

definition names_one_peer :: "cnp_direction \<Rightarrow> jsval \<Rightarrow> bool" where
  "names_one_peer d c \<longleftrightarrow>
     length (filter (\<lambda>k. getp c k \<noteq> JUndef) (peer_keys d)) = 1 \<and>
     (\<forall>k \<in> set (peer_keys d). getp c k \<noteq> JUndef \<longrightarrow>
        getp (getp c k) ''length'' = JNum 1 \<and>
        getp (getp (getp c k) ''0'') ''matchLabels'' \<noteq> JObj [])"

lemma valid_rule_names_one_peer:
  "valid_rule d m r \<Longrightarrow> names_one_peer d (toCiliumRule r d)"
  by (cases "peerKind r"; cases d)
    (auto simp: names_one_peer_def peer_keys_def toCiliumRule_def peer_fields_def valid_rule_def
      labels_val_def Let_def)

lemma rider_names_one_peer: "names_one_peer Egress DNS_VISIBILITY_RULE"
  by (simp add: names_one_peer_def peer_keys_def DNS_VISIBILITY_RULE_def)

lemma deny_rule_no_http:
  "valid_rule d Blacklist r \<Longrightarrow> getp (getp (getp (toCiliumRule r d) ''toPorts'') ''0'') ''rules'' = JUndef"
  by (auto simp: toCiliumRule_def peer_fields_def valid_rule_def port_rule_def filledHttp_def Let_def
      split: peer_kind.splits)

text \<open>C4: no policy the form writes selects more than its rows say. The subject selector is never
  empty (an empty one selects every pod), each generated rule names exactly one peer with a
  non-empty selector, and a deny rule never carries the HTTP rules Cilium would reject.\<close>

theorem cnp_never_selects_all:
  assumes "validateCNPForm f = []"
    and "c \<in> set (section_cilium d (section_of f d))"
  shows "getp (getp (cnp_spec f) ''endpointSelector'') ''matchLabels'' \<noteq> JObj []
    \<and> names_one_peer d c
    \<and> (section_mode (section_of f d) = Blacklist \<longrightarrow>
         getp (getp (getp c ''toPorts'') ''0'') ''rules'' = JUndef)"
proof -
  have v: "subjectMatchLabels f \<noteq> []"
    "\<forall>r \<in> set (section_rules (section_of f d)). valid_rule d (section_mode (section_of f d)) r"
    using assms(1) by (simp_all add: validate_Nil_iff valid_form_sections)
  then show ?thesis
    using assms(2) by (auto simp: spec_other_keys section_cilium_def labels_val_def
        valid_rule_names_one_peer rider_names_one_peer deny_rule_no_http split: if_splits)
qed

theorem cnp_never_selects_all_witness:
  "names_one_peer Ingress (toCiliumRule sample_deny Ingress)"
  using cnp_never_selects_all [OF sample_valid, of "toCiliumRule sample_deny Ingress" Ingress]
  by (simp add: section_cilium_def section_of_def sample_form_def)

text \<open>The addresses of a valid rule are written with their prefix length: what is written is
  again a valid IPv4 or IPv6 range, it has a prefix, and writing it once more changes nothing.\<close>

theorem cidr_written_with_prefix:
  assumes "isV4CIDR (trim v) \<or> isV6CIDR (trim v)"
  shows "(isV4CIDR (normalizeCIDR v) \<or> isV6CIDR (normalizeCIDR v)) \<and>
     CHR ''/'' \<in> set (normalizeCIDR v) \<and> normalizeCIDR (normalizeCIDR v) = normalizeCIDR v"
proof -
  have ne: "trim v \<noteq> []" using assms by auto
  moreover have "CHR ''/'' \<in> set (normalizeCIDR v)" by (simp add: normalizeCIDR_def Let_def)
  ultimately show ?thesis
    using normalizeCIDR_valid [OF assms] normalizeCIDR_idem unfolding normalizeCIDR_trimmed [OF ne] by blast
qed

theorem cidr_written_with_prefix_witness:
  "normalizeCIDR (normalizeCIDR ''2001:db8::1 '') = normalizeCIDR ''2001:db8::1 ''"
proof -
  have "isV6CIDR (trim ''2001:db8::1 '')"
    by (simp add: isV6CIDR_def string_eval is_hex_def sublist_code)
  then show ?thesis using cidr_written_with_prefix [of "''2001:db8::1 ''"] by blast
qed

text \<open>The parser is documented to return null for every policy it cannot open. A policy with
  the builder's annotation and a null entry in its ingress list makes it raise instead.\<close>

theorem cnp_null_rule_raises:
  assumes "yaml_laws Y"
  shows "tryParseCNPForm Y (y_dump Y null_rule_doc) = None"
proof -
  have "y_load Y (y_dump Y null_rule_doc) = Some null_rule_doc"
    by (rule yaml_load_dump [OF assms null_rule_doc_plain])
  then show ?thesis
    by (simp add: tryParseCNPForm_def null_rule_doc_def cnp_guards_def is_cluster_kind_def jopt_def
        obj_keys_def split_ns_def parse_section_def allow_key_def deny_key_def parseRules_def
        parse_rule_def parse_peer_def jget_def NAMESPACE_KEY_def BUILDER_ANNOTATION_def Let_def)
qed

theorem cnp_null_rule_raises_witness:
  "tryParseCNPForm toy_yaml (y_dump toy_yaml null_rule_doc) = None"
  by (rule cnp_null_rule_raises [OF toy_yaml_laws])

end
