(* ===== verification/Utils.thy ===== *)
theory Utils
  imports JsValue
begin

text \<open>
  The small shared helpers under \<open>web/src/utils\<close>: label rows to a selector
  (\<open>labelPairs.ts\<close>), the rule-type classifier (\<open>ruleType.ts\<close>), the ingestion-health
  predicates (\<open>ingestion.ts\<close>) and the CSV text (\<open>csv.ts\<close>). The download itself (Blob, object
  URL, anchor click) and the byte-order mark in front of the text are browser I/O and left out.
\<close>

section \<open>Label rows\<close>

definition completePairs :: "(string \<times> string) list \<Rightarrow> (string \<times> string) list" where
  "completePairs es = foldl (\<lambda>out (key, value).
     let k = trim key; v = trim value
     in if k \<noteq> [] \<and> v \<noteq> [] then obj_set k v out else out) [] es"

text \<open>The rows that count, trimmed; the last row of a key wins.\<close>

definition complete_rows :: "(string \<times> string) list \<Rightarrow> (string \<times> string) list" where
  "complete_rows es = filter (\<lambda>(k, v). k \<noteq> [] \<and> v \<noteq> []) (map (\<lambda>(k, v). (trim k, trim v)) es)"

lemma completePairs_fold:
  "map_of (foldl (\<lambda>out (key, value). let k = trim key; v = trim value
     in if k \<noteq> [] \<and> v \<noteq> [] then obj_set k v out else out) acc es) =
   map_of acc ++ map_of (rev (complete_rows es))"
  by (induction es arbitrary: acc) (auto simp: complete_rows_def Let_def map_add_def fun_eq_iff split: option.splits)

lemma completePairs_map: "map_of (completePairs es) = map_of (rev (complete_rows es))"
  by (simp add: completePairs_def completePairs_fold)

lemma completePairs_keys_fold:
  "distinct (map fst acc) \<Longrightarrow> distinct (map fst (foldl (\<lambda>out (key, value). let k = trim key; v = trim value
     in if k \<noteq> [] \<and> v \<noteq> [] then obj_set k v out else out) acc es))"
  by (induction es arbitrary: acc) (auto simp: Let_def)

lemma completePairs_distinct: "distinct (map fst (completePairs es))"
  by (simp add: completePairs_def completePairs_keys_fold)

section \<open>What a security event's rule governs\<close>

datatype rule_type = FileRule | NetworkRule | ProcessRule | KernelRule

definition ruleType :: "string \<Rightarrow> rule_type option" where
  "ruleType fn =
     (if fn = [] then None
      else if js_includes fn ''file_permission'' \<or> js_includes fn ''mmap_file'' \<or>
              js_includes fn ''path_truncate'' \<or> js_includes fn ''file_open'' \<or>
              js_includes fn ''sys_read'' \<or> js_includes fn ''sys_write'' \<or> js_includes fn ''sys_open''
           then Some FileRule
      else if js_includes fn ''tcp_connect'' \<or> js_includes fn ''tcp_sendmsg'' \<or> js_includes fn ''udp'' \<or>
              js_includes fn ''inet_csk_accept'' \<or> js_includes fn ''socket_connect'' \<or>
              js_includes fn ''socket_bind'' \<or> js_includes fn ''deny''
           then Some NetworkRule
      else if js_includes fn ''execve'' \<or> js_includes fn ''bprm'' then Some ProcessRule
      else Some KernelRule)"

lemma ruleType_None_iff: "ruleType fn = None \<longleftrightarrow> fn = []"
  by (simp add: ruleType_def)

section \<open>Ingestion health\<close>

record ingest_source =
  is_connected :: bool
  consecutiveFailures :: nat
  lastError :: "string option"

definition isNotDetected :: "string option \<Rightarrow> bool" where
  "isNotDetected err = js_includes (to_lower (case err of Some e \<Rightarrow> e | None \<Rightarrow> [])) ''not detected''"

definition isIngestProblem :: "ingest_source \<Rightarrow> bool" where
  "isIngestProblem s \<longleftrightarrow>
     \<not> is_connected s \<and> (consecutiveFailures s > 0 \<or> lastError s \<notin> {None, Some []}) \<and>
     \<not> isNotDetected (lastError s)"

section \<open>CSV\<close>

definition csv_escape :: "string \<Rightarrow> string" where
  "csv_escape v = [CHR 0x22] @ replace_char (CHR 0x22) [CHR 0x22, CHR 0x22] v @ [CHR 0x22]"

definition csv_row :: "string list \<Rightarrow> string" where
  "csv_row r = join_with '','' (map csv_escape r)"

definition csv_text :: "string list \<Rightarrow> string list list \<Rightarrow> string" where
  "csv_text headers rows = join_with [CHR 0x0D, CHR 0x0A] (map csv_row (headers # rows))"

text \<open>
  A reader of quoted CSV (RFC 4180), as the contract of the text: a state machine over the
  characters that collects the current field, the fields of the row and the finished rows.
  \<open>InQ\<close> is inside quotes, \<open>Quote\<close> just after a quote inside a field, \<open>Start\<close> before a field,
  \<open>Cr\<close> after the carriage return that ends a row.
\<close>

datatype csv_state = Start | InQ | Quote | Cr

fun csv_read :: "csv_state \<Rightarrow> string \<Rightarrow> string list \<Rightarrow> string list list \<Rightarrow> string \<Rightarrow> string list list option" where
  "csv_read Start f r rs (c # s) = (if c = CHR 0x22 then csv_read InQ [] r rs s else None)"
| "csv_read InQ f r rs (c # s) =
     (if c = CHR 0x22 then csv_read Quote f r rs s else csv_read InQ (f @ [c]) r rs s)"
| "csv_read Quote f r rs (c # s) =
     (if c = CHR 0x22 then csv_read InQ (f @ [c]) r rs s
      else if c = CHR '','' then csv_read Start [] (r @ [f]) rs s
      else if c = CHR 0x0D then csv_read Cr [] [] (rs @ [r @ [f]]) s
      else None)"
| "csv_read Cr f r rs (c # s) = (if c = CHR 0x0A then csv_read Start [] [] rs s else None)"
| "csv_read Quote f r rs [] = Some (rs @ [r @ [f]])"
| "csv_read _ f r rs [] = None"

definition csv_parse :: "string \<Rightarrow> string list list option" where
  "csv_parse s = csv_read Start [] [] [] s"

lemma csv_read_body:
  "csv_read InQ f r rs (replace_char (CHR 0x22) [CHR 0x22, CHR 0x22] v @ s) = csv_read InQ (f @ v) r rs s"
  by (induction v arbitrary: f) (auto simp: replace_char_def)

lemma csv_read_field:
  "csv_read Start f0 r rs (csv_escape v @ s) = csv_read Quote v r rs s"
  by (simp add: csv_escape_def csv_read_body)

lemma csv_read_row:
  "fs \<noteq> [] \<Longrightarrow> csv_read Start f0 r rs (csv_row fs @ s) = csv_read Quote (last fs) (r @ butlast fs) rs s"
proof (induction fs arbitrary: f0 r)
  case Nil
  then show ?case by simp
next
  case (Cons v fs)
  show ?case
  proof (cases fs)
    case Nil
    then show ?thesis by (simp add: csv_row_def csv_read_field)
  next
    case (Cons w ws)
    have "csv_row (v # fs) @ s = csv_escape v @ '','' @ csv_row fs @ s"
      using Cons by (simp add: csv_row_def)
    then show ?thesis using Cons.IH [of "[]" "r @ [v]"] Cons by (simp add: csv_read_field)
  qed
qed

lemma csv_read_rows:
  "rows \<noteq> [] \<Longrightarrow> \<forall>r \<in> set rows. r \<noteq> [] \<Longrightarrow>
   csv_read Start f0 [] rs (join_with [CHR 0x0D, CHR 0x0A] (map csv_row rows)) = Some (rs @ rows)"
proof (induction rows arbitrary: f0 rs)
  case Nil
  then show ?case by simp
next
  case (Cons r rows)
  have r: "r \<noteq> []" using Cons.prems by simp
  then have j: "rs @ [butlast r @ [last r]] = rs @ [r]" by simp
  show ?case
  proof (cases rows)
    case Nil
    then show ?thesis using csv_read_row [OF r, of f0 "[]" rs "[]"] r by simp
  next
    case (Cons r' rows')
    then have "join_with [CHR 0x0D, CHR 0x0A] (map csv_row (r # rows)) =
      csv_row r @ CHR 0x0D # CHR 0x0A # join_with [CHR 0x0D, CHR 0x0A] (map csv_row rows)"
      by simp
    then show ?thesis
      using Cons.IH [of "[]" "rs @ [r]"] Cons.prems Cons r
      by (simp only: csv_read_row [OF r]) simp
  qed
qed

lemma csv_roundtrip:
  "headers \<noteq> [] \<Longrightarrow> \<forall>r \<in> set rows. r \<noteq> [] \<Longrightarrow> csv_parse (csv_text headers rows) = Some (headers # rows)"
  unfolding csv_parse_def csv_text_def
  by (subst csv_read_rows) auto

section \<open>Properties\<close>

text \<open>The selector built from label rows has the value of the last complete row of each key,
  both sides trimmed; a half-filled row contributes nothing and no key occurs twice.\<close>

lemma completePairs_last_wins:
  "map_of (completePairs es) = map_of (rev (complete_rows es)) \<and> distinct (map fst (completePairs es))"
  by (simp add: completePairs_map completePairs_distinct)

text \<open>The exported CSV text read by an RFC 4180 reader gives back the header and exactly the
  exported cells, whatever quotes, commas or line breaks they contain.\<close>

theorem csv_reads_back:
  assumes "headers \<noteq> []" "\<forall>r \<in> set rows. r \<noteq> []"
  shows "csv_parse (csv_text headers rows) = Some (headers # rows)"
  using assms by (rule csv_roundtrip)

theorem csv_reads_back_witness:
  "csv_parse (csv_text [''Pod'', ''Args''] [[''p'', [CHR 0x22] @ '', x'' @ [CHR 0x0A]]]) =
     Some [[''Pod'', ''Args''], [''p'', [CHR 0x22] @ '', x'' @ [CHR 0x0A]]]"
  by (rule csv_reads_back) simp_all

end
