(* ===== verification/Filters.thy ===== *)
theory Filters
  imports Utils
begin

text \<open>
  The two shared filter controls: \<open>web/src/components/ScopeFilter.tsx\<close> and
  \<open>web/src/components/FilterPopover.tsx\<close>. Both keep a list of ticked keys, toggle one on a
  click and treat "nothing ticked" as "no filter". The locale states that contract once; the
  event and policy lists rest on it.
\<close>

section \<open>The contract of a tick-list filter\<close>

text \<open>Ticking a key: removed when present, appended when absent (both controls' \<open>toggle\<close>).\<close>

definition toggle_key :: "'k list \<Rightarrow> 'k \<Rightarrow> 'k list" where
  "toggle_key value key = (if key \<in> set value then filter (\<lambda>v. v \<noteq> key) value else value @ [key])"

lemma set_toggle_key: "set (toggle_key ks k) = (if k \<in> set ks then set ks - {k} else insert k (set ks))"
  by (auto simp: toggle_key_def)

lemma distinct_toggle_key: "distinct ks \<Longrightarrow> distinct (toggle_key ks k)"
  by (simp add: toggle_key_def)

lemma toggle_twice: "set (toggle_key (toggle_key ks k) k) = set ks"
  by (auto simp: set_toggle_key)

locale tick_filter =
  fixes passes :: "'k list \<Rightarrow> 'a \<Rightarrow> bool"
  assumes none_ticked: "passes [] x"
    and only_ticked: "ks \<noteq> [] \<Longrightarrow> passes ks x \<Longrightarrow> \<exists>k \<in> set ks. passes [k] x"
    and ticked: "k \<in> set ks \<Longrightarrow> passes [k] x \<Longrightarrow> passes ks x"
begin

lemma filter_none: "filter (passes []) xs = xs"
  by (simp add: none_ticked)

lemma passes_union: "ks \<noteq> [] \<Longrightarrow> passes ks x \<longleftrightarrow> (\<exists>k \<in> set ks. passes [k] x)"
proof
  assume "ks \<noteq> []" "passes ks x"
  then show "\<exists>k \<in> set ks. passes [k] x" by (rule only_ticked)
next
  assume "\<exists>k \<in> set ks. passes [k] x"
  then obtain k where "k \<in> set ks" "passes [k] x" by (elim bexE)
  then show "passes ks x" by (rule ticked)
qed

text \<open>Ticking one more key never hides a record that the filter already showed.\<close>

lemma tick_more: "ks \<noteq> [] \<Longrightarrow> k \<notin> set ks \<Longrightarrow> passes ks x \<Longrightarrow> passes (toggle_key ks k) x"
  using passes_union [of ks x] passes_union [of "ks @ [k]" x] by (auto simp: toggle_key_def)

text \<open>Two ticks of the same key leave what is shown as it was, unless nothing else was ticked.\<close>

lemma tick_twice: "ks \<noteq> [] \<Longrightarrow> set ks \<noteq> {k} \<Longrightarrow> passes (toggle_key (toggle_key ks k) k) x = passes ks x"
proof -
  assume ks: "ks \<noteq> []" "set ks \<noteq> {k}"
  have s: "set (toggle_key (toggle_key ks k) k) = set ks" by (rule toggle_twice)
  have "toggle_key (toggle_key ks k) k \<noteq> []" using ks(1) s by (metis set_empty)
  then show ?thesis using passes_union [OF ks(1)] passes_union [of "toggle_key (toggle_key ks k) k"] s by simp
qed

lemma order_irrelevant: "set ks = set ks' \<Longrightarrow> passes ks x = passes ks' x"
  using passes_union [of ks x] passes_union [of ks' x] by (cases ks; cases ks') auto

end

section \<open>ScopeFilter\<close>

definition SCOPE_CLUSTER :: string where
  "SCOPE_CLUSTER = ''__cluster__''"

definition matchesScopeFilter :: "string \<Rightarrow> string option \<Rightarrow> string list \<Rightarrow> bool" where
  "matchesScopeFilter scope namespace selected =
     (if length selected = 0 then True
      else if scope = ''cluster'' then SCOPE_CLUSTER \<in> set selected
      else (case namespace of Some ns \<Rightarrow> ns | None \<Rightarrow> []) \<in> set selected)"

definition scope_summarise :: "string list \<Rightarrow> string" where
  "scope_summarise selected =
     (if length selected = 0 then ''All namespaces''
      else if length selected = 1
      then (if selected ! 0 = SCOPE_CLUSTER then ''Cluster-wide'' else selected ! 0)
      else show_nat (length selected) @ '' selected'')"

text \<open>The tick boxes of the panel, as key, label and state, and whether Clear is offered.\<close>

definition scope_entries :: "bool \<Rightarrow> string list \<Rightarrow> string list \<Rightarrow> (string \<times> string \<times> bool) list" where
  "scope_entries includeCluster namespaces value =
     map (\<lambda>(k, l). (k, l, k \<in> set value))
       ((if includeCluster then [(SCOPE_CLUSTER, ''Cluster-wide'')] else [])
        @ map (\<lambda>ns. (ns, ns)) namespaces)"

interpretation scope: tick_filter "\<lambda>selected (scope, ns). matchesScopeFilter scope ns selected"
  by unfold_locales (auto simp: matchesScopeFilter_def split: if_splits)

section \<open>FilterPopover\<close>

definition matchesFilter :: "string list \<Rightarrow> string option \<Rightarrow> bool" where
  "matchesFilter selected value \<longleftrightarrow>
     length selected = 0 \<or> (case value of None \<Rightarrow> False | Some v \<Rightarrow> v \<in> set selected)"

record filter_section =
  fs_label :: string
  fs_options :: "(string \<times> string) list"
  fs_value :: "string list"

definition active_count :: "filter_section list \<Rightarrow> nat" where
  "active_count sections = foldl (\<lambda>n s. n + length (fs_value s)) 0 sections"

definition toggle_option :: "nat \<Rightarrow> string \<Rightarrow> filter_section list \<Rightarrow> filter_section list" where
  "toggle_option i key sections = map_at i (\<lambda>s. s\<lparr> fs_value := toggle_key (fs_value s) key \<rparr>) sections"

definition clear_sections :: "filter_section list \<Rightarrow> filter_section list" where
  "clear_sections sections = map (\<lambda>s. s\<lparr> fs_value := [] \<rparr>) sections"

interpretation popover: tick_filter matchesFilter
  by unfold_locales (auto simp: matchesFilter_def split: option.splits)

lemma active_count_sum: "active_count ss = sum_list (map (length \<circ> fs_value) ss)"
proof -
  have "foldl (\<lambda>n s. n + length (fs_value s)) a ss = a + sum_list (map (length \<circ> fs_value) ss)" for a
    by (induction ss arbitrary: a) auto
  then show ?thesis by (simp add: active_count_def)
qed

lemma clear_sections_inactive: "active_count (clear_sections ss) = 0"
  by (induction ss) (auto simp: active_count_sum clear_sections_def)

section \<open>Properties\<close>

text \<open>A tick-list filter shows everything when nothing is ticked, otherwise exactly the records
  that pass one of the ticked keys alone: ticking another key never hides a record, and the order
  the keys were ticked in does not matter. A cluster-scoped record is shown only by its own key.\<close>

theorem scope_filter_contract:
  "matchesScopeFilter scope ns [] \<and>
   (ks \<noteq> [] \<longrightarrow> (matchesScopeFilter scope ns ks \<longleftrightarrow> (\<exists>k \<in> set ks. matchesScopeFilter scope ns [k]))) \<and>
   (ks \<noteq> [] \<longrightarrow> k \<notin> set ks \<longrightarrow> matchesScopeFilter scope ns ks \<longrightarrow>
      matchesScopeFilter scope ns (toggle_key ks k)) \<and>
   (ks \<noteq> [] \<longrightarrow> set ks \<noteq> {k} \<longrightarrow>
      matchesScopeFilter scope ns (toggle_key (toggle_key ks k) k) = matchesScopeFilter scope ns ks)"
  using scope.none_ticked [of "(scope, ns)"] scope.passes_union [of ks "(scope, ns)"]
    scope.tick_more [of ks k "(scope, ns)"] scope.tick_twice [of ks k "(scope, ns)"]
  by simp

theorem scope_filter_contract_witness:
  "matchesScopeFilter ''cluster'' None [SCOPE_CLUSTER, ''prod''] \<and>
   matchesScopeFilter ''cluster'' None (toggle_key [SCOPE_CLUSTER] ''prod'')"
  using scope_filter_contract [of "''cluster''" None "[SCOPE_CLUSTER]" "''prod''"]
  by (simp add: toggle_key_def SCOPE_CLUSTER_def matchesScopeFilter_def)

end
