(* ===== verification/Events.thy ===== *)
theory Events
  imports Filters
begin

text \<open>
  The live event streams: \<open>web/src/layout/SecurityEventsProvider.tsx\<close> and
  \<open>web/src/layout/AdmissionEventsProvider.tsx\<close>. Each provider keeps a newest-first buffer of
  events fed by one EventSource, caps it by the retention settings, and is driven by the
  stream's callbacks and by two operations it offers (\<open>reconnect\<close>, \<open>applyRetention\<close>).

  A callback is one atomic step, as the event loop runs it. The retention request and the
  \<open>startSSE\<close> that follows it in \<open>finally\<close> run in consecutive microtasks, so no stream callback
  comes between them and the pair is one step. JSON.parse is the browser's: a message is
  \<open>Message e\<close>, or \<open>Malformed\<close> when it does not parse.
\<close>

section \<open>The contract of a capped buffer\<close>

locale event_buffer =
  fixes ident :: "'e \<Rightarrow> 'k"
    and accept :: "'c \<Rightarrow> 'e \<Rightarrow> 'e list \<Rightarrow> 'e list"
    and shrink :: "'c \<Rightarrow> 'e list \<Rightarrow> 'e list"
    and fits :: "'c \<Rightarrow> 'e list \<Rightarrow> bool"
  assumes accept_distinct: "distinct (map ident es) \<Longrightarrow> distinct (map ident (accept c e es))"
    and accept_fits: "fits c es \<Longrightarrow> fits c (accept c e es)"
    and accept_idents: "ident ` set (accept c e es) \<subseteq> insert (ident e) (ident ` set es)"
    and shrink_distinct: "distinct (map ident es) \<Longrightarrow> distinct (map ident (shrink c es))"
    and shrink_fits: "fits c (shrink c es)"
    and shrink_subset: "set (shrink c es) \<subseteq> set es"
    and fits_Nil: "fits c []"
begin

lemma stream_distinct: "distinct (map ident es) \<Longrightarrow> distinct (map ident (foldl (\<lambda>b e. accept c e b) es new))"
  by (induction new arbitrary: es) (auto simp: accept_distinct)

lemma stream_fits: "fits c es \<Longrightarrow> fits c (foldl (\<lambda>b e. accept c e b) es new)"
  by (induction new arbitrary: es) (auto simp: accept_fits)

text \<open>Nothing is invented: every identity in the buffer was there or was streamed.\<close>

lemma stream_idents:
  "ident ` set (foldl (\<lambda>b e. accept c e b) es new) \<subseteq> ident ` set es \<union> ident ` set new"
proof (induction new arbitrary: es)
  case (Cons e new)
  have "ident ` set (foldl (\<lambda>b e. accept c e b) es (e # new)) \<subseteq> ident ` set (accept c e es) \<union> ident ` set new"
    by (simp add: Cons.IH)
  also have "\<dots> \<subseteq> insert (ident e) (ident ` set es) \<union> ident ` set new"
    by (rule Un_mono [OF accept_idents subset_refl])
  finally show ?case by simp
qed simp

end

section \<open>Security events\<close>

record display_event =
  ev_id :: string
  ev_time :: string
  ev_count :: nat
  ev_severity :: string
  ev_namespace :: string
  ev_pod :: string
  ev_container :: "string option"
  ev_nodeName :: "string option"
  ev_binary :: "string option"
  ev_arguments :: "string option"
  ev_parentBin :: "string option"
  ev_function :: "string option"
  ev_hook :: "string option"
  ev_policyName :: "string option"
  ev_action :: "string option"
  ev_processUid :: "nat option"
  ev_filePath :: "string option"
  ev_fileOp :: "string option"
  ev_netDest :: "string option"
  ev_netSrc :: "string option"
  ev_dropReason :: "string option"

text \<open>The filter with two running counters that both the stream and \<open>applyRetention\<close> use.\<close>

fun cap_filter :: "nat \<Rightarrow> nat \<Rightarrow> nat \<Rightarrow> nat \<Rightarrow> display_event list \<Rightarrow> display_event list" where
  "cap_filter maxW maxC warn crit [] = []"
| "cap_filter maxW maxC warn crit (e # es) =
     (if ev_severity e = ''critical'' \<and> crit < maxC then e # cap_filter maxW maxC warn (Suc crit) es
      else if ev_severity e = ''warning'' \<and> warn < maxW then e # cap_filter maxW maxC (Suc warn) crit es
      else cap_filter maxW maxC warn crit es)"

definition cap_events :: "nat \<times> nat \<Rightarrow> display_event list \<Rightarrow> display_event list" where
  "cap_events caps es = cap_filter (fst caps) (snd caps) 0 0 es"

text \<open>\<open>onmessage\<close>: a known id only updates its count and time, a new one is prepended and capped.\<close>

definition accept_event :: "nat \<times> nat \<Rightarrow> display_event \<Rightarrow> display_event list \<Rightarrow> display_event list" where
  "accept_event caps evt prev =
     (if list_ex (\<lambda>x. ev_id x = ev_id evt) prev
      then map (\<lambda>x. if ev_id x = ev_id evt
                    then x\<lparr> ev_count := ev_count evt, ev_time := ev_time evt \<rparr> else x) prev
      else cap_events caps (evt # prev))"

definition of_sev :: "string \<Rightarrow> display_event list \<Rightarrow> display_event list" where
  "of_sev s es = filter (\<lambda>e. ev_severity e = s) es"

definition fits_caps :: "nat \<times> nat \<Rightarrow> display_event list \<Rightarrow> bool" where
  "fits_caps caps es \<longleftrightarrow>
     length (of_sev ''warning'' es) \<le> fst caps \<and> length (of_sev ''critical'' es) \<le> snd caps \<and>
     list_all (\<lambda>e. ev_severity e \<in> {''warning'', ''critical''}) es"

lemma cap_filter_of_sev:
  "of_sev ''warning'' (cap_filter mw mc w c es) = take (mw - w) (of_sev ''warning'' es)"
  "of_sev ''critical'' (cap_filter mw mc w c es) = take (mc - c) (of_sev ''critical'' es)"
  by (induction mw mc w c es rule: cap_filter.induct)
    (auto simp: of_sev_def take_Cons' Suc_diff_Suc dest: leD)

lemma cap_filter_subset: "set (cap_filter mw mc w c es) \<subseteq> set es"
  by (induction mw mc w c es rule: cap_filter.induct) auto

lemma cap_filter_distinct:
  "distinct (map ev_id es) \<Longrightarrow> distinct (map ev_id (cap_filter mw mc w c es))"
  using cap_filter_subset
  by (induction mw mc w c es rule: cap_filter.induct) (auto, (blast dest: subsetD)+)

lemma cap_filter_sevs: "list_all (\<lambda>e. ev_severity e \<in> {''warning'', ''critical''}) (cap_filter mw mc w c es)"
  by (induction mw mc w c es rule: cap_filter.induct) auto

lemma fits_cap_events: "fits_caps caps (cap_events caps es)"
  by (simp add: fits_caps_def cap_events_def cap_filter_of_sev cap_filter_sevs del: insert_iff)

lemma update_keeps:
  "map ev_id (map (\<lambda>x. if ev_id x = i then x\<lparr> ev_count := n, ev_time := t \<rparr> else x) es) = map ev_id es"
  "map ev_severity (map (\<lambda>x. if ev_id x = i then x\<lparr> ev_count := n, ev_time := t \<rparr> else x) es) = map ev_severity es"
  by (induction es) auto

lemma of_sev_length: "length (of_sev s es) = length (filter (\<lambda>x. x = s) (map ev_severity es))"
  by (induction es) (auto simp: of_sev_def)

lemma fits_caps_sevs: "map ev_severity es = map ev_severity es' \<Longrightarrow> fits_caps caps es = fits_caps caps es'"
proof -
  assume a: "map ev_severity es = map ev_severity es'"
  have l: "list_all (\<lambda>e. ev_severity e \<in> S) xs = (set (map ev_severity xs) \<subseteq> S)" for xs S
    by (auto simp: list_all_iff)
  show ?thesis unfolding fits_caps_def of_sev_length l using a by simp
qed

interpretation security: event_buffer ev_id accept_event cap_events fits_caps
proof unfold_locales
  fix es c e
  show "distinct (map ev_id es) \<Longrightarrow> distinct (map ev_id (accept_event c e es))"
  proof (cases "list_ex (\<lambda>x. ev_id x = ev_id e) es")
    case True
    then show "distinct (map ev_id es) \<Longrightarrow> ?thesis" by (simp add: accept_event_def update_keeps del: map_map)
  next
    case False
    assume "distinct (map ev_id es)"
    with False have "distinct (map ev_id (e # es))" by (auto simp: list_ex_iff)
    then have "distinct (map ev_id (cap_events c (e # es)))"
      unfolding cap_events_def by (rule cap_filter_distinct)
    with False show ?thesis by (simp add: accept_event_def)
  qed
  show "fits_caps c es \<Longrightarrow> fits_caps c (accept_event c e es)"
    using fits_caps_sevs [OF update_keeps(2)] by (simp add: accept_event_def fits_cap_events)
  show "ev_id ` set (accept_event c e es) \<subseteq> insert (ev_id e) (ev_id ` set es)"
    using cap_filter_subset [of "fst c" "snd c" 0 0 "e # es"]
    by (auto simp: accept_event_def cap_events_def)
  show "distinct (map ev_id es) \<Longrightarrow> distinct (map ev_id (cap_events c es))"
    by (simp add: cap_events_def cap_filter_distinct)
  show "fits_caps c (cap_events c es)" by (rule fits_cap_events)
  show "set (cap_events c es) \<subseteq> set es" by (simp add: cap_events_def cap_filter_subset)
  show "fits_caps c []" by (simp add: fits_caps_def of_sev_def)
qed

subsection \<open>The provider\<close>

record security_provider =
  sp_events :: "display_event list"
  sp_connected :: bool
  sp_caps :: "nat \<times> nat"

text \<open>
  What can happen: the stream opens, delivers, delivers garbage or fails; a (re)connect, with
  the answer of the retention request (None when it failed); the retention page saved.
\<close>

datatype security_input =
    Opened | Message display_event | Malformed | StreamError
  | Reconnect "(nat \<times> nat) option" | ApplyRetention nat nat

definition provider_init :: security_provider where
  "provider_init = \<lparr> sp_events = [], sp_connected = False, sp_caps = (500, 300) \<rparr>"

definition startSSE :: "security_provider \<Rightarrow> security_provider" where
  "startSSE s = s\<lparr> sp_events := [], sp_connected := False \<rparr>"

fun security_step :: "security_provider \<Rightarrow> security_input \<Rightarrow> security_provider" where
  "security_step s Opened = s\<lparr> sp_connected := True \<rparr>"
| "security_step s (Message e) = s\<lparr> sp_events := accept_event (sp_caps s) e (sp_events s) \<rparr>"
| "security_step s Malformed = s"
| "security_step s StreamError = s\<lparr> sp_connected := False \<rparr>"
| "security_step s (Reconnect r) =
     startSSE (case r of Some caps \<Rightarrow> s\<lparr> sp_caps := caps \<rparr> | None \<Rightarrow> s)"
| "security_step s (ApplyRetention w c) =
     s\<lparr> sp_caps := (w, c), sp_events := cap_events (w, c) (sp_events s) \<rparr>"

definition security_run :: "security_provider \<Rightarrow> security_input list \<Rightarrow> security_provider" where
  "security_run s steps = foldl security_step s steps"

definition provider_inv :: "security_provider \<Rightarrow> bool" where
  "provider_inv s \<longleftrightarrow> distinct (map ev_id (sp_events s)) \<and> fits_caps (sp_caps s) (sp_events s)"

lemma provider_inv_init: "provider_inv provider_init"
  by (simp add: provider_inv_def provider_init_def security.fits_Nil)

lemma provider_inv_step: "provider_inv s \<Longrightarrow> provider_inv (security_step s x)"
  by (cases x) (auto simp: provider_inv_def startSSE_def security.accept_distinct security.accept_fits
      security.shrink_distinct security.shrink_fits security.fits_Nil split: option.splits)

lemma provider_inv_run: "provider_inv s \<Longrightarrow> provider_inv (security_run s steps)"
  unfolding security_run_def by (induction steps arbitrary: s) (auto simp: provider_inv_step)

section \<open>Admission events\<close>

record admission_event =
  ae_id :: string
  ae_time :: string
  ae_count :: nat
  ae_namespace :: string
  ae_involvedKind :: string
  ae_involvedName :: string
  ae_resource :: string
  ae_name :: string
  ae_operation :: string
  ae_username :: string
  ae_policyName :: string
  ae_bindingName :: string
  ae_message :: string
  ae_severity :: string
  ae_source :: string

definition accept_admission :: "nat \<Rightarrow> admission_event \<Rightarrow> admission_event list \<Rightarrow> admission_event list" where
  "accept_admission cap evt prev =
     (if list_ex (\<lambda>x. ae_id x = ae_id evt) prev then prev else take cap (evt # prev))"

definition shrink_admission :: "nat \<Rightarrow> admission_event list \<Rightarrow> admission_event list" where
  "shrink_admission newMax prev = (if length prev > newMax then take newMax prev else prev)"

interpretation admission: event_buffer ae_id accept_admission shrink_admission "\<lambda>c es. length es \<le> c"
proof unfold_locales
  fix es :: "admission_event list" and c :: nat and e
  show "distinct (map ae_id es) \<Longrightarrow> distinct (map ae_id (accept_admission c e es))"
  proof -
    assume d: "distinct (map ae_id es)"
    have "distinct (map ae_id (take c (e # es)))" if "\<not> list_ex (\<lambda>x. ae_id x = ae_id e) es"
      using d that unfolding take_map [symmetric] by (intro distinct_take) (auto simp: list_ex_iff)
    with d show ?thesis by (simp add: accept_admission_def)
  qed
  show "length es \<le> c \<Longrightarrow> length (accept_admission c e es) \<le> c"
    by (simp add: accept_admission_def)
  show "ae_id ` set (accept_admission c e es) \<subseteq> insert (ae_id e) (ae_id ` set es)"
    by (cases c) (auto simp: accept_admission_def dest: in_set_takeD)
  show "distinct (map ae_id es) \<Longrightarrow> distinct (map ae_id (shrink_admission c es))"
    by (simp add: shrink_admission_def take_map [symmetric])
  show "length (shrink_admission c es) \<le> c" by (simp add: shrink_admission_def)
  show "set (shrink_admission c es) \<subseteq> set es"
    by (auto simp: shrink_admission_def dest: in_set_takeD)
  show "length ([] :: admission_event list) \<le> c" by simp
qed

record admission_provider =
  ap_events :: "admission_event list"
  ap_connected :: bool
  ap_maxEvents :: nat
  ap_cap :: nat

datatype admission_input =
    AOpened | AMessage admission_event | AMalformed | AError
  | AReconnect "nat option" | AApplyRetention nat nat

definition admission_init :: admission_provider where
  "admission_init = \<lparr> ap_events = [], ap_connected = False, ap_maxEvents = 500, ap_cap = 500 \<rparr>"

definition startAdmissionSSE :: "admission_provider \<Rightarrow> admission_provider" where
  "startAdmissionSSE s = s\<lparr> ap_events := [], ap_connected := False \<rparr>"

fun admission_step :: "admission_provider \<Rightarrow> admission_input \<Rightarrow> admission_provider" where
  "admission_step s AOpened = s\<lparr> ap_connected := True \<rparr>"
| "admission_step s (AMessage e) = s\<lparr> ap_events := accept_admission (ap_cap s) e (ap_events s) \<rparr>"
| "admission_step s AMalformed = s"
| "admission_step s AError = s\<lparr> ap_connected := False \<rparr>"
| "admission_step s (AReconnect r) =
     startAdmissionSSE (case r of Some m \<Rightarrow> s\<lparr> ap_cap := m, ap_maxEvents := m \<rparr> | None \<Rightarrow> s)"
| "admission_step s (AApplyRetention newMax ttlDays) =
     s\<lparr> ap_cap := newMax, ap_maxEvents := newMax, ap_events := shrink_admission newMax (ap_events s) \<rparr>"

definition admission_run :: "admission_provider \<Rightarrow> admission_input list \<Rightarrow> admission_provider" where
  "admission_run s steps = foldl admission_step s steps"

definition admission_inv :: "admission_provider \<Rightarrow> bool" where
  "admission_inv s \<longleftrightarrow> distinct (map ae_id (ap_events s)) \<and> length (ap_events s) \<le> ap_cap s \<and>
     ap_maxEvents s = ap_cap s"

lemma admission_inv_init: "admission_inv admission_init"
  by (simp add: admission_inv_def admission_init_def)

lemma admission_inv_step: "admission_inv s \<Longrightarrow> admission_inv (admission_step s x)"
  using admission.accept_fits admission.shrink_fits
  by (cases x) (auto simp: admission_inv_def startAdmissionSSE_def admission.accept_distinct
      admission.shrink_distinct split: option.splits)

lemma admission_inv_run: "admission_inv s \<Longrightarrow> admission_inv (admission_run s steps)"
  unfolding admission_run_def by (induction steps arbitrary: s) (auto simp: admission_inv_step)

section \<open>Properties\<close>

text \<open>The abstract queue of one severity.\<close>

definition queue_push :: "nat \<Rightarrow> string \<Rightarrow> display_event \<Rightarrow> display_event list \<Rightarrow> display_event list" where
  "queue_push n sev e q = take n (if ev_severity e = sev then e # q else q)"

text \<open>C5: in every state the security stream can reach, whatever the stream delivers and however
  often it reconnects or the retention changes, the buffer has no event twice, never more warnings
  or criticals than the retention in force allows, and nothing of another severity.\<close>

theorem security_buffer_bounded:
  "let s = security_run provider_init steps in distinct (map ev_id (sp_events s)) \<and>
     length (of_sev ''warning'' (sp_events s)) \<le> fst (sp_caps s) \<and>
     length (of_sev ''critical'' (sp_events s)) \<le> snd (sp_caps s) \<and>
     set (map ev_severity (sp_events s)) \<subseteq> {''warning'', ''critical''}"
  using provider_inv_run [OF provider_inv_init, of steps]
  by (auto simp: Let_def provider_inv_def fits_caps_def list_all_iff)

text \<open>C6: the buffer refines two bounded queues, one per severity. A new event enters the front of
  its own severity's queue, the oldest falls off when that queue is full, and the other queue is
  only cut to its own bound: a burst of warnings never evicts a critical event. An event already
  known only updates its count and time and moves nothing.\<close>

theorem security_refines_queues:
  "if ev_id e \<in> set (map ev_id (sp_events s))
   then map ev_id (sp_events (security_step s (Message e))) = map ev_id (sp_events s) \<and>
        map ev_severity (sp_events (security_step s (Message e))) = map ev_severity (sp_events s)
   else of_sev ''warning'' (sp_events (security_step s (Message e))) =
          queue_push (fst (sp_caps s)) ''warning'' e (of_sev ''warning'' (sp_events s)) \<and>
        of_sev ''critical'' (sp_events (security_step s (Message e))) =
          queue_push (snd (sp_caps s)) ''critical'' e (of_sev ''critical'' (sp_events s))"
proof -
  have k: "list_ex (\<lambda>x. ev_id x = ev_id e) (sp_events s) \<longleftrightarrow> ev_id e \<in> set (map ev_id (sp_events s))"
    by (auto simp: list_ex_iff intro: rev_image_eqI)
  have q: "of_sev sev (e # es) = (if ev_severity e = sev then e # of_sev sev es else of_sev sev es)" for sev es
    by (simp add: of_sev_def)
  show ?thesis
  proof (cases "ev_id e \<in> set (map ev_id (sp_events s))")
    case True
    then show ?thesis using k update_keeps [where i = "ev_id e" and n = "ev_count e" and t = "ev_time e" and es = "sp_events s"]
      by (simp add: accept_event_def del: map_map list.set_map)
  next
    case False
    then show ?thesis using k
      by (simp add: accept_event_def cap_events_def cap_filter_of_sev q queue_push_def
          del: cap_filter.simps list.set_map)
  qed
qed

text \<open>The admission event buffer never holds an event twice nor more than the retention in
  force, in every reachable state; the shown limit is the one that is enforced.\<close>

theorem admission_buffer_bounded:
  "let s = admission_run admission_init steps in distinct (map ae_id (ap_events s)) \<and> length (ap_events s) \<le> ap_cap s \<and> ap_maxEvents s = ap_cap s"
  using admission_inv_run [OF admission_inv_init, of steps] by (simp add: Let_def admission_inv_def)

end
