(* ===== verification/VapGen.thy ===== *)
theory VapGen
  imports Yaml Utils
begin

text \<open>
  The admission policy builder of \<open>web/src/pages/VAPPage.tsx\<close>, writing side: the builder's
  state, the CEL expressions and messages of every rule kind, and the YAML text of a policy and
  of a binding. The manifest is assembled as lines of text, as the code does. \<open>SQ\<close> is the
  apostrophe, kept apart from the string literals around it.
\<close>

abbreviation SQ :: string where "SQ \<equiv> [CHR 0x27]"

section \<open>Builder data\<close>

datatype label_condition = CondEq | CondNe
datatype validation_action = ActDeny | ActAudit | ActWarn
datatype policy_rule_type = LabelType | AnnotationType | ImageType | ReplicaType
  | ResourceLimitsType | SecurityContextType | HostAccessType | ConfigMapSizeType | SecretSizeType
datatype image_policy = NoLatest | RequiredRegistry
datatype resource_limit = CpuLimit | MemoryLimit | BothLimits
datatype replica_resource = OnDeployments | OnStatefulSets | OnBoth
datatype security_check = NoPrivileged | RunAsNonRoot | BothChecks
datatype host_check = NoHostNetwork | NoHostPid | NoHostIpc | AllHost
datatype size_kind = ConfigMapSize | SecretSize

record label_rule =
  lr_key :: string
  lr_condition :: label_condition
  lr_value :: string
  lr_message :: string

record image_rule =
  ir_type :: image_policy
  ir_registry :: string
  ir_message :: string

record replica_rule =
  maxReplicas :: int
  rr_resourceType :: replica_resource
  rr_message :: string

record resource_limit_rule =
  limitType :: resource_limit
  rl_message :: string

record security_context_rule =
  sc_checkType :: security_check
  sc_message :: string

record host_access_rule =
  ha_checkType :: host_check
  ha_message :: string

record size_limit_rule =
  totalKB :: string
  sl_message :: string

definition emptyLabelRule :: label_rule where
  "emptyLabelRule = \<lparr> lr_key = [], lr_condition = CondEq, lr_value = [], lr_message = [] \<rparr>"

definition emptyImageRule :: image_rule where
  "emptyImageRule = \<lparr> ir_type = NoLatest, ir_registry = [], ir_message = [] \<rparr>"

definition emptyReplicaRule :: replica_rule where
  "emptyReplicaRule = \<lparr> maxReplicas = 5, rr_resourceType = OnDeployments, rr_message = [] \<rparr>"

definition emptyResourceLimitRule :: resource_limit_rule where
  "emptyResourceLimitRule = \<lparr> limitType = BothLimits, rl_message = [] \<rparr>"

definition emptySecurityContextRule :: security_context_rule where
  "emptySecurityContextRule = \<lparr> sc_checkType = NoPrivileged, sc_message = [] \<rparr>"

definition emptyHostAccessRule :: host_access_rule where
  "emptyHostAccessRule = \<lparr> ha_checkType = AllHost, ha_message = [] \<rparr>"

definition emptySizeLimitRule :: size_limit_rule where
  "emptySizeLimitRule = \<lparr> totalKB = [], sl_message = [] \<rparr>"

text \<open>
  The whole builder state. The target of a label rule (\<open>LabelApplyTo\<close>) stays text: the parser
  takes it from an annotation without checking it, and the generator falls through to its
  default branch for a word it does not know.
\<close>

record policy_builder =
  pb_name :: string
  pb_ruleType :: policy_rule_type
  pb_applyTo :: string
  labelRules :: "label_rule list"
  imageRules :: "image_rule list"
  replicaRules :: "replica_rule list"
  resourceLimitRules :: "resource_limit_rule list"
  securityContextRule :: security_context_rule
  hostAccessRule :: host_access_rule
  configMapSizeRule :: size_limit_rule
  secretSizeRule :: size_limit_rule

section \<open>Numbers typed as text\<close>

text \<open>
  \<open>Number(s)\<close> for text: blank is 0; decimal numerals with sign, fraction and exponent; hex,
  octal and binary without sign; \<open>NotANumber\<close> otherwise. A finite value is \<open>Dec m e\<close>, the
  decimal m * 10^e, kept exact: it stands for the nearest double, and agrees with it in what
  follows while values stay below 2^53. \<open>Unbounded\<close> is an infinite value.
\<close>

datatype js_number = NotANumber | Unbounded | Dec int int

definition digits_of :: "string \<Rightarrow> string \<times> string" where
  "digits_of s = (takeWhile is_digit s, dropWhile is_digit s)"

definition exponent_of :: "string \<Rightarrow> int option" where
  "exponent_of s =
     (case s of [] \<Rightarrow> Some 0
      | c # r \<Rightarrow>
          if c \<noteq> CHR ''e'' \<and> c \<noteq> CHR ''E'' then None
          else if r \<noteq> [] \<and> hd r = CHR ''-'' then
            (if all_digits (tl r) then Some (- int (nat_of_digits (tl r))) else None)
          else let d = (if r \<noteq> [] \<and> hd r = CHR ''+'' then tl r else r)
               in if all_digits d then Some (int (nat_of_digits d)) else None)"

definition decimal_of :: "string \<Rightarrow> js_number" where
  "decimal_of s =
     (let (whole, r) = digits_of s;
          (frac, r') = (if r \<noteq> [] \<and> hd r = CHR ''.'' then digits_of (tl r) else ([], r))
      in if whole = [] \<and> frac = [] then NotANumber
         else case exponent_of r' of
           None \<Rightarrow> NotANumber
         | Some x \<Rightarrow> Dec (int (nat_of_digits (whole @ frac))) (x - int (length frac)))"

definition radix_of :: "nat \<Rightarrow> string \<Rightarrow> js_number" where
  "radix_of b s =
     (if s \<noteq> [] \<and> list_all (\<lambda>c. case digit_value c of Some d \<Rightarrow> d < b | None \<Rightarrow> False) s
      then Dec (int (foldl (\<lambda>a c. b * a + the (digit_value c)) 0 s)) 0 else NotANumber)"

fun negate :: "js_number \<Rightarrow> js_number" where
  "negate (Dec m e) = Dec (- m) e"
| "negate x = x"

text \<open>Every value of at least 2^1024 - 2^970 rounds to an infinite one.\<close>

definition rounds_to_infinity :: "int \<Rightarrow> int \<Rightarrow> bool" where
  "rounds_to_infinity m e \<longleftrightarrow>
     (if 0 \<le> e then \<bar>m\<bar> * 10 ^ nat (min e 400) \<ge> 2 ^ 1024 - 2 ^ 970
      else \<bar>m\<bar> \<ge> (2 ^ 1024 - 2 ^ 970) * 10 ^ nat (- e))"

definition js_Number :: "string \<Rightarrow> js_number" where
  "js_Number str =
     (let s = trim str;
          v = (if s = [] then Dec 0 0
               else if prefix ''0x'' s \<or> prefix ''0X'' s then radix_of 16 (drop 2 s)
               else if prefix ''0o'' s \<or> prefix ''0O'' s then radix_of 8 (drop 2 s)
               else if prefix ''0b'' s \<or> prefix ''0B'' s then radix_of 2 (drop 2 s)
               else if hd s = CHR ''-'' then
                 (if tl s = ''Infinity'' then Unbounded else negate (decimal_of (tl s)))
               else let u = (if hd s = CHR ''+'' then tl s else s)
                    in if u = ''Infinity'' then Unbounded else decimal_of u)
      in case v of Dec m e \<Rightarrow> if m \<noteq> 0 \<and> rounds_to_infinity m e then Unbounded else v | _ \<Rightarrow> v)"

text \<open>\<open>Number.isFinite(n) && n > 0 ? Math.floor(n * 1024) : 0\<close>, computed exactly; a double agrees below \<open>2^53\<close> bytes.\<close>

definition kbToBytes :: "string \<Rightarrow> nat" where
  "kbToBytes kb =
     (case js_Number kb of
        Dec m e \<Rightarrow>
          if m > 0 then (if 0 \<le> e then nat (m * 10 ^ nat e * 1024) else nat ((m * 1024) div 10 ^ nat (- e)))
          else 0
      | _ \<Rightarrow> 0)"

section \<open>Escaping\<close>

definition BS :: string where "BS = [CHR 0x5C]"
definition DQ :: string where "DQ = [CHR 0x22]"
definition NL :: string where "NL = [CHR 0x0A]"

definition escapeYaml :: "string \<Rightarrow> string" where
  "escapeYaml s =
     replace_char (CHR 0x09) (BS @ ''t'')
       (replace_char (CHR 0x0D) (BS @ ''r'')
         (replace_char (CHR 0x0A) (BS @ ''n'')
           (replace_char (CHR 0x22) (BS @ DQ)
             (replace_char (CHR 0x5C) (BS @ BS) s))))"

definition escapeCel :: "string \<Rightarrow> string" where
  "escapeCel s = replace_char (CHR 0x27) (BS @ SQ) (replace_char (CHR 0x5C) (BS @ BS) s)"

text \<open>\<open>a || b\<close> for strings.\<close>

definition or_else :: "string \<Rightarrow> string \<Rightarrow> string" where
  "or_else a b = (if a \<noteq> [] then a else b)"

section \<open>Rules as YAML lines\<close>

definition rule_lines :: "string list \<Rightarrow> string \<Rightarrow> string list" where
  \<open>rule_lines exprLines m =
     [''    - expression: >-''] @ exprLines
     @ [(''      message: "'' @ m @ ''"''),
        ''      reason: Forbidden'']\<close>

definition buildAutoMessage :: "bool \<Rightarrow> string \<Rightarrow> label_condition \<Rightarrow> string \<Rightarrow> string" where
  \<open>buildAutoMessage isLabel key cond value =
     (let kind = (if isLabel then ''label'' else ''annotation'')
      in if trim key = [] \<or> trim value = []
         then (if isLabel then ''Label'' else ''Annotation'') @ '' policy validation failed''
         else if cond = CondEq then (''Resources with '' @ kind @ '' '' @ key @ ''='' @ value @ '' are not allowed'')
         else (''Resources must have '' @ kind @ '' '' @ key @ ''='' @ value))\<close>

text \<open>\<open>ruleToYamlLines\<close> and \<open>annotationRuleToYamlLines\<close> share this shape, on labels or annotations.\<close>

definition label_expr :: "string \<Rightarrow> label_rule \<Rightarrow> string list" where
  \<open>label_expr field r =
     (let k = escapeCel (or_else (trim (lr_key r)) ''app'');
          v = escapeCel (or_else (trim (lr_value r)) ''value'')
      in if lr_condition r = CondEq
         then [(''        !has(object.metadata.'' @ field @ '') ||''),
               (''        !('' @ SQ @ k @ SQ @ '' in object.metadata.'' @ field @ '') ||''),
               (''        object.metadata.'' @ field @ ''['' @ SQ @ k @ SQ @ ''] != '' @ SQ @ v @ SQ)]
         else [(''        has(object.metadata.'' @ field @ '') &&''),
               (''        '' @ SQ @ k @ SQ @ '' in object.metadata.'' @ field @ '' &&''),
               (''        object.metadata.'' @ field @ ''['' @ SQ @ k @ SQ @ ''] == '' @ SQ @ v @ SQ)])\<close>

definition ruleToYamlLines :: "label_rule \<Rightarrow> string list" where
  "ruleToYamlLines r = rule_lines (label_expr ''labels'' r)
     (escapeYaml (or_else (trim (lr_message r)) (buildAutoMessage True (lr_key r) (lr_condition r) (lr_value r))))"

definition annotationRuleToYamlLines :: "label_rule \<Rightarrow> string list" where
  "annotationRuleToYamlLines r = rule_lines (label_expr ''annotations'' r)
     (escapeYaml (or_else (trim (lr_message r)) (buildAutoMessage False (lr_key r) (lr_condition r) (lr_value r))))"

definition autoImageMessage :: "image_rule \<Rightarrow> string" where
  "autoImageMessage r =
     (if ir_type r = NoLatest then ''Container images must not use the :latest tag''
      else let g = trim (ir_registry r)
           in if g \<noteq> [] then ''Container images must be from '' @ g
              else ''Container images must be from an allowed registry'')"

definition image_prefix :: "image_rule \<Rightarrow> string" where
  "image_prefix r =
     (let regRaw = or_else (trim (ir_registry r)) ''registry.example.com''
      in to_lower (if suffix ''/'' regRaw then regRaw else regRaw @ ''/''))"

definition image_check :: "image_rule \<Rightarrow> string" where
  \<open>image_check r =
     (if ir_type r = NoLatest
      then (''all(c, c.image.substring(c.image.lastIndexOf('' @ SQ @ ''/'' @ SQ @ '') + 1).contains('' @ SQ @ '':'' @ SQ @ '') && !c.image.endsWith('' @ SQ @ '':latest'' @ SQ @ ''))'')
      else (''all(c, c.image.lowerAscii().startsWith('' @ SQ @ (escapeCel (image_prefix r)) @ SQ @ ''))''))\<close>

text \<open>The container lists of a workload: bare, under a template, under a job template.\<close>

definition container_lines :: "bool \<Rightarrow> string \<Rightarrow> string \<Rightarrow> string \<Rightarrow> string list" where
  \<open>container_lines ephemeral pod tmpl job =
     [(''        object.spec.?containers.orValue([]).'' @ pod @ '' &&''),
      (''        object.spec.?initContainers.orValue([]).'' @ pod @ '' &&'')]
     @ (if ephemeral then [(''        object.spec.?ephemeralContainers.orValue([]).'' @ pod @ '' &&'')] else [])
     @ [(''        object.spec.?template.?spec.?containers.orValue([]).'' @ tmpl @ '' &&''),
        (''        object.spec.?template.?spec.?initContainers.orValue([]).'' @ tmpl @ '' &&''),
        (''        object.spec.?jobTemplate.?spec.?template.?spec.?containers.orValue([]).'' @ job @ '' &&''),
        (''        object.spec.?jobTemplate.?spec.?template.?spec.?initContainers.orValue([]).'' @ job)]\<close>

definition imageRuleToYamlLines :: "image_rule \<Rightarrow> string list" where
  "imageRuleToYamlLines r = rule_lines (container_lines True (image_check r) (image_check r) (image_check r))
     (escapeYaml (or_else (trim (ir_message r)) (autoImageMessage r)))"

definition autoHostAccessMessage :: "host_access_rule \<Rightarrow> string" where
  "autoHostAccessMessage r =
     (case ha_checkType r of
        NoHostNetwork \<Rightarrow> ''hostNetwork is not allowed''
      | NoHostPid \<Rightarrow> ''hostPID is not allowed''
      | NoHostIpc \<Rightarrow> ''hostIPC is not allowed''
      | AllHost \<Rightarrow> ''hostNetwork, hostPID, and hostIPC are not allowed'')"

definition host_path_check :: "string \<Rightarrow> string" where
  \<open>host_path_check field = join_with '' && ''
     [(''!object.spec.?'' @ field @ ''.orValue(false)''),
      (''!object.spec.?template.?spec.?'' @ field @ ''.orValue(false)''),
      (''!object.spec.?jobTemplate.?spec.?template.?spec.?'' @ field @ ''.orValue(false)'')]\<close>

definition host_expr :: "host_check \<Rightarrow> string" where
  "host_expr c = join_with '' && ''
     ((if c = NoHostNetwork \<or> c = AllHost then [host_path_check ''hostNetwork''] else [])
      @ (if c = NoHostPid \<or> c = AllHost then [host_path_check ''hostPID''] else [])
      @ (if c = NoHostIpc \<or> c = AllHost then [host_path_check ''hostIPC''] else []))"

definition hostAccessRuleToYamlLines :: "host_access_rule \<Rightarrow> string list" where
  \<open>hostAccessRuleToYamlLines r = rule_lines [(''        '' @ (host_expr (ha_checkType r)))]
     (escapeYaml (or_else (trim (ha_message r)) (autoHostAccessMessage r)))\<close>

definition autoSecurityContextMessage :: "security_context_rule \<Rightarrow> string" where
  "autoSecurityContextMessage r =
     (case sc_checkType r of
        NoPrivileged \<Rightarrow> ''Privileged containers are not allowed''
      | RunAsNonRoot \<Rightarrow> ''Workloads must set runAsNonRoot: true in pod securityContext''
      | BothChecks \<Rightarrow> ''Containers must not be privileged and must run as non-root'')"

definition PRIVILEGED_CHECK :: string where
  \<open>PRIVILEGED_CHECK = ''all(c, !has(c.securityContext) || !has(c.securityContext.privileged) || c.securityContext.privileged == false)''\<close>

definition non_root_check :: "string \<Rightarrow> string" where
  \<open>non_root_check path = (''all(c, c.?securityContext.?runAsNonRoot.orValue(object.spec.'' @ path @ ''?securityContext.?runAsNonRoot.orValue(false)) == true)'')\<close>

definition securityContextRuleToYamlLines :: "security_context_rule \<Rightarrow> string list" where
  "securityContextRuleToYamlLines r =
     (let m = escapeYaml (or_else (trim (sc_message r)) (autoSecurityContextMessage r))
      in (if sc_checkType r = NoPrivileged \<or> sc_checkType r = BothChecks
          then rule_lines (container_lines True PRIVILEGED_CHECK PRIVILEGED_CHECK PRIVILEGED_CHECK) m else [])
       @ (if sc_checkType r = RunAsNonRoot \<or> sc_checkType r = BothChecks
          then rule_lines (container_lines True (non_root_check []) (non_root_check ''?template.?spec.'')
                             (non_root_check ''?jobTemplate.?spec.?template.?spec.'')) m else []))"

definition autoResourceLimitMessage :: "resource_limit_rule \<Rightarrow> string" where
  "autoResourceLimitMessage r =
     (case limitType r of
        CpuLimit \<Rightarrow> ''All containers must set CPU limits''
      | MemoryLimit \<Rightarrow> ''All containers must set memory limits''
      | BothLimits \<Rightarrow> ''All containers must set CPU and memory limits'')"

definition resource_limit_check :: "resource_limit \<Rightarrow> string" where
  \<open>resource_limit_check t =
     (case t of
        CpuLimit \<Rightarrow> ''all(c, has(c.resources) && has(c.resources.limits) && has(c.resources.limits.cpu))''
      | MemoryLimit \<Rightarrow> ''all(c, has(c.resources) && has(c.resources.limits) && has(c.resources.limits.memory))''
      | BothLimits \<Rightarrow> ''all(c, has(c.resources) && has(c.resources.limits) && has(c.resources.limits.cpu) && has(c.resources.limits.memory))'')\<close>

definition resourceLimitRuleToYamlLines :: "resource_limit_rule \<Rightarrow> string list" where
  "resourceLimitRuleToYamlLines r =
     (let c = resource_limit_check (limitType r)
      in rule_lines (container_lines False c c c)
           (escapeYaml (or_else (trim (rl_message r)) (autoResourceLimitMessage r))))"

definition autoReplicaMessage :: "replica_rule \<Rightarrow> string" where
  "autoReplicaMessage r =
     (let max = (if maxReplicas r > 0 then maxReplicas r else 5);
          label = (case rr_resourceType r of OnStatefulSets \<Rightarrow> ''StatefulSet'' | OnBoth \<Rightarrow> ''Workload''
                     | OnDeployments \<Rightarrow> ''Deployment'')
      in label @ '' replicas must not exceed '' @ show_int max)"

definition replica_expr :: "replica_rule \<Rightarrow> string" where
  \<open>replica_expr r =
     (let max = show_int (if maxReplicas r > 0 then maxReplicas r else 5)
      in case rr_resourceType r of
           OnDeployments \<Rightarrow> (''request.resource.resource != '' @ SQ @ ''deployments'' @ SQ @ '' || object.spec.replicas <= '' @ max)
         | OnStatefulSets \<Rightarrow> (''request.resource.resource != '' @ SQ @ ''statefulsets'' @ SQ @ '' || object.spec.replicas <= '' @ max)
         | OnBoth \<Rightarrow> (''object.spec.replicas <= '' @ max))\<close>

definition replicaRuleToYamlLines :: "replica_rule \<Rightarrow> string list" where
  \<open>replicaRuleToYamlLines r =
     [(''    - expression: "'' @ (replica_expr r) @ ''"''),
      (''      message: "'' @ (escapeYaml (or_else (trim (rr_message r)) (autoReplicaMessage r))) @ ''"''),
      ''      reason: Forbidden'']\<close>

section \<open>Size limits\<close>

definition SIZE_TOTAL_EXPR :: "string list" where
  \<open>SIZE_TOTAL_EXPR =
     [''variables.newTotal <= variables.totalLimit ||'',
      ''(variables.isUpdate && variables.newTotal <= variables.oldTotal)'']\<close>

fun size_kind_name :: "size_kind \<Rightarrow> string" where
  "size_kind_name ConfigMapSize = ''ConfigMap''"
| "size_kind_name SecretSize = ''Secret''"

definition autoSizeLimitMessage :: "size_kind \<Rightarrow> size_limit_rule \<Rightarrow> string" where
  \<open>autoSizeLimitMessage k r =
     (let b = kbToBytes (totalKB r)
      in if b > 0 then ((size_kind_name k) @ '' total size exceeds '' @ (show_nat b) @ '' bytes'')
         else ((size_kind_name k) @ '' total size limit exceeded''))\<close>

definition configMapSizeSpecLines :: "size_limit_rule \<Rightarrow> string list" where
  \<open>configMapSizeSpecLines r =
     [''  matchConditions:'',
      ''    - name: skip-huge-maps'',
      ''      expression: >-'',
      ''        (has(object.data) ? size(object.data) : 0) +'',
      ''        (has(object.binaryData) ? size(object.binaryData) : 0) <= 200'',
      ''  variables:'',
      ''    - name: totalLimit'',
      (''      expression: "'' @ (show_nat (kbToBytes (totalKB r))) @ ''"''),
      ''    - name: isUpdate'',
      (''      expression: '' @ SQ @ ''request.operation == "UPDATE" && oldObject != null'' @ SQ),
      ''    - name: newData'',
      ''      expression: "has(object.data) ? object.data : {}"'',
      ''    - name: oldData'',
      ''      expression: "(variables.isUpdate && has(oldObject.data)) ? oldObject.data : {}"'',
      ''    - name: newBin'',
      ''      expression: "has(object.binaryData) ? object.binaryData : {}"'',
      ''    - name: oldBin'',
      ''      expression: "(variables.isUpdate && has(oldObject.binaryData)) ? oldObject.binaryData : {}"'',
      ''    - name: newTotal'',
      ''      expression: >-'',
      ''        variables.newData.map(k, k.size() + bytes(variables.newData[k]).size()).sum() +'',
      ''        variables.newBin.map(k, k.size() + (variables.newBin[k].size() * 3) / 4).sum()'',
      ''    - name: oldTotal'',
      ''      expression: >-'',
      ''        variables.oldData.map(k, k.size() + bytes(variables.oldData[k]).size()).sum() +'',
      ''        variables.oldBin.map(k, k.size() + (variables.oldBin[k].size() * 3) / 4).sum()'']\<close>

definition secretSizeSpecLines :: "size_limit_rule \<Rightarrow> string list" where
  \<open>secretSizeSpecLines r =
     [''  matchConditions:'',
      ''    - name: skip-managed-types'',
      ''      expression: >-'',
      ''        !(object.type in ['',
      ''          "kubernetes.io/service-account-token",'',
      ''          "bootstrap.kubernetes.io/token",'',
      ''          "helm.sh/release.v1"'',
      ''        ])'',
      ''    - name: skip-huge-maps'',
      ''      expression: "(has(object.data) ? size(object.data) : 0) <= 200"'',
      ''  variables:'',
      ''    - name: totalLimit'',
      (''      expression: "'' @ (show_nat (kbToBytes (totalKB r))) @ ''"''),
      ''    - name: isUpdate'',
      (''      expression: '' @ SQ @ ''request.operation == "UPDATE" && oldObject != null'' @ SQ),
      ''    - name: newData'',
      ''      expression: "has(object.data) ? object.data : {}"'',
      ''    - name: oldData'',
      ''      expression: "(variables.isUpdate && has(oldObject.data)) ? oldObject.data : {}"'',
      ''    - name: newTotal'',
      ''      expression: >-'',
      ''        variables.newData.map(k, k.size() + (variables.newData[k].size() * 3) / 4).sum()'',
      ''    - name: oldTotal'',
      ''      expression: >-'',
      ''        variables.oldData.map(k, k.size() + (variables.oldData[k].size() * 3) / 4).sum()'']\<close>

definition sizeRuleToYamlLines :: "size_kind \<Rightarrow> size_limit_rule \<Rightarrow> string list" where
  \<open>sizeRuleToYamlLines k r = rule_lines (map (\<lambda>l. (''        '' @ l)) SIZE_TOTAL_EXPR)
     (escapeYaml (or_else (trim (sl_message r)) (autoSizeLimitMessage k r)))\<close>

section \<open>What a policy applies to\<close>

definition resource_rule :: "string \<Rightarrow> string \<Rightarrow> string \<Rightarrow> string list" where
  \<open>resource_rule groups versions resources =
     [(''      - apiGroups: ['' @ groups @ '']''),
      (''        apiVersions: ['' @ versions @ '']''),
      ''        operations: [CREATE, UPDATE]'',
      (''        resources: ['' @ resources @ '']'')]\<close>

abbreviation core_rule :: "string \<Rightarrow> string list" where
  \<open>core_rule res \<equiv> resource_rule ''""'' ''"v1"'' (''"'' @ res @ ''"'')\<close>
abbreviation apps_rule :: "string \<Rightarrow> string list" where
  \<open>apps_rule res \<equiv> resource_rule ''"apps"'' ''"v1"'' res\<close>
abbreviation batch_rule :: "string \<Rightarrow> string list" where
  \<open>batch_rule res \<equiv> resource_rule ''"batch"'' ''"v1"'' res\<close>
abbreviation networking_rule :: "string \<Rightarrow> string list" where
  \<open>networking_rule res \<equiv> resource_rule ''"networking.k8s.io"'' ''"v1"'' (''"'' @ res @ ''"'')\<close>

definition applyToResourceRuleLines :: "string \<Rightarrow> string list" where
  \<open>applyToResourceRuleLines applyTo = [''    resourceRules:''] @
     (if applyTo = ''workloads''
      then core_rule ''pods'' @ apps_rule ''"deployments", "statefulsets", "daemonsets", "replicasets"''
             @ batch_rule ''"jobs", "cronjobs"''
      else if applyTo = ''pods'' then core_rule ''pods''
      else if applyTo = ''deployments'' then apps_rule ''"deployments"''
      else if applyTo = ''statefulsets'' then apps_rule ''"statefulsets"''
      else if applyTo = ''daemonsets'' then apps_rule ''"daemonsets"''
      else if applyTo = ''jobs'' then batch_rule ''"jobs"''
      else if applyTo = ''cronjobs'' then batch_rule ''"cronjobs"''
      else if applyTo = ''configmaps'' then core_rule ''configmaps''
      else if applyTo = ''secrets'' then core_rule ''secrets''
      else if applyTo = ''persistentvolumeclaims'' then core_rule ''persistentvolumeclaims''
      else if applyTo = ''services'' then core_rule ''services''
      else if applyTo = ''serviceaccounts'' then core_rule ''serviceaccounts''
      else if applyTo = ''ingresses'' then networking_rule ''ingresses''
      else if applyTo = ''networkpolicies'' then networking_rule ''networkpolicies''
      else if applyTo = ''namespaces'' then core_rule ''namespaces''
      else resource_rule ''"*"'' ''"*"'' ''"*"'')\<close>

definition resource_rule_lines :: "policy_rule_type \<Rightarrow> string \<Rightarrow> string list" where
  \<open>resource_rule_lines t applyTo =
     (if t = ReplicaType then
        [''    resourceRules:'',
         ''    - apiGroups: ["apps"]'',
         ''      apiVersions: ["v1"]'',
         ''      operations: [CREATE, UPDATE]'',
         ''      resources: ["deployments", "statefulsets"]'',
         ''    - apiGroups: ["apps"]'',
         ''      apiVersions: ["v1"]'',
         ''      operations: [UPDATE]'',
         ''      resources: ["deployments/scale", "statefulsets/scale"]'']
      else if t = ConfigMapSizeType \<or> t = SecretSizeType then
        [''    resourceRules:''] @ core_rule (if t = ConfigMapSizeType then ''configmaps'' else ''secrets'')
      else if t = ImageType \<or> t = ResourceLimitsType \<or> t = SecurityContextType \<or> t = HostAccessType then
        [''    resourceRules:'']
        @ resource_rule ''""'' ''"v1"'' ''"pods", "replicationcontrollers"''
        @ apps_rule ''"deployments", "statefulsets", "daemonsets", "replicasets"''
        @ batch_rule ''"jobs", "cronjobs"''
        @ (if t = ImageType \<or> t = SecurityContextType then
             [''      - apiGroups: [""]'',
              ''        apiVersions: ["v1"]'',
              ''        operations: [UPDATE]'',
              ''        resources: ["pods/ephemeralcontainers"]'']
           else [])
      else applyToResourceRuleLines applyTo)\<close>

section \<open>The policy and the binding\<close>

definition active_label_rules :: "label_rule list \<Rightarrow> label_rule list" where
  "active_label_rules rs = filter (\<lambda>r. trim (lr_key r) \<noteq> [] \<and> trim (lr_value r) \<noteq> []) rs"

definition active_image_rules :: "image_rule list \<Rightarrow> image_rule list" where
  "active_image_rules rs = filter (\<lambda>r. ir_type r = NoLatest \<or> trim (ir_registry r) \<noteq> []) rs"

definition active_replica_rules :: "replica_rule list \<Rightarrow> replica_rule list" where
  "active_replica_rules rs = filter (\<lambda>r. maxReplicas r > 0) rs"

text \<open>\<open>active.length ? active.flatMap(f) : f(empty)\<close>\<close>

definition lines_or_default :: "('r \<Rightarrow> string list) \<Rightarrow> 'r \<Rightarrow> 'r list \<Rightarrow> string list" where
  "lines_or_default f d rs = (if rs \<noteq> [] then concat (map f rs) else f d)"

definition validation_lines :: "policy_builder \<Rightarrow> string list" where
  "validation_lines b =
     (case pb_ruleType b of
        LabelType \<Rightarrow> lines_or_default ruleToYamlLines emptyLabelRule (active_label_rules (labelRules b))
      | AnnotationType \<Rightarrow>
          lines_or_default annotationRuleToYamlLines emptyLabelRule (active_label_rules (labelRules b))
      | ImageType \<Rightarrow> lines_or_default imageRuleToYamlLines emptyImageRule (active_image_rules (imageRules b))
      | ResourceLimitsType \<Rightarrow>
          lines_or_default resourceLimitRuleToYamlLines emptyResourceLimitRule (resourceLimitRules b)
      | SecurityContextType \<Rightarrow> securityContextRuleToYamlLines (securityContextRule b)
      | HostAccessType \<Rightarrow> hostAccessRuleToYamlLines (hostAccessRule b)
      | ConfigMapSizeType \<Rightarrow> sizeRuleToYamlLines ConfigMapSize (configMapSizeRule b)
      | SecretSizeType \<Rightarrow> sizeRuleToYamlLines SecretSize (secretSizeRule b)
      | ReplicaType \<Rightarrow>
          lines_or_default replicaRuleToYamlLines emptyReplicaRule (active_replica_rules (replicaRules b)))"

definition generatePolicyYaml :: "policy_builder \<Rightarrow> string" where
  \<open>generatePolicyYaml b =
     (let t = pb_ruleType b in join_with NL
       ([''apiVersion: admissionregistration.k8s.io/v1'',
         ''kind: ValidatingAdmissionPolicy'',
         ''metadata:'',
         (''  name: "'' @ (escapeYaml (or_else (trim (pb_name b)) ''my-policy'')) @ ''"''),
         ''  annotations:'',
         ''    sentinel.io/builder: "true"'']
        @ (if t = LabelType \<or> t = AnnotationType
           then [(''    sentinel.io/apply-to: "'' @ (pb_applyTo b) @ ''"'')] else [])
        @ [''spec:'',
           ''  failurePolicy: Fail'',
           ''  matchConstraints:'']
        @ resource_rule_lines t (pb_applyTo b)
        @ (if t = ConfigMapSizeType then configMapSizeSpecLines (configMapSizeRule b) else [])
        @ (if t = SecretSizeType then secretSizeSpecLines (secretSizeRule b) else [])
        @ [''  validations:'']
        @ validation_lines b))\<close>

datatype binding_ns_mode = AllNs | IncludeNs | ExcludeNs

record binding_builder =
  bb_name :: string
  bb_policyName :: string
  bb_nsMode :: binding_ns_mode
  bb_namespaces :: "string list"
  bb_actions :: "string list"

fun action_name :: "validation_action \<Rightarrow> string" where
  "action_name ActDeny = ''Deny''"
| "action_name ActAudit = ''Audit''"
| "action_name ActWarn = ''Warn''"

definition binding_selector_lines :: "binding_ns_mode \<Rightarrow> string list \<Rightarrow> string list" where
  \<open>binding_selector_lines mode nsList =
     (if mode \<noteq> AllNs \<and> length nsList > 0 then
        (if mode = IncludeNs \<and> length nsList = 1 then
           [''  matchResources:'',
            ''    namespaceSelector:'',
            ''      matchLabels:'',
            (''        kubernetes.io/metadata.name: '' @ (hd nsList))]
         else
           [''  matchResources:'',
            ''    namespaceSelector:'',
            ''      matchExpressions:'',
            ''        - key: kubernetes.io/metadata.name'',
            (''          operator: '' @ (if mode = IncludeNs then ''In'' else ''NotIn'')),
            ''          values:'']
           @ map (\<lambda>n. (''            - '' @ n)) nsList)
      else [])\<close>

definition generateBindingYaml :: "binding_builder \<Rightarrow> string" where
  \<open>generateBindingYaml b =
     (let safeName = or_else (trim (bb_name b)) ''my-binding'';
          safePolicy = or_else (trim (bb_policyName b)) ''my-policy'';
          nsList = filter (\<lambda>n. n \<noteq> []) (map trim (bb_namespaces b));
          actStr = (if bb_actions b \<noteq> [] then join_with '', '' (bb_actions b) else ''Deny'')
      in join_with NL
       ([''apiVersion: admissionregistration.k8s.io/v1'',
         ''kind: ValidatingAdmissionPolicyBinding'',
         ''metadata:'',
         (''  name: "'' @ (escapeYaml safeName) @ ''"''),
         ''  annotations:'',
         ''    sentinel.io/builder: "true"'',
         ''spec:'',
         (''  policyName: "'' @ (escapeYaml safePolicy) @ ''"''),
         (''  validationActions: ['' @ actStr @ '']'')]
        @ binding_selector_lines (bb_nsMode b) nsList))\<close>

end
