(* ===== verification/VapParse.thy ===== *)
theory VapParse
  imports VapGen
begin

text \<open>
  The reading side of the admission policy builder in \<open>web/src/pages/VAPPage.tsx\<close>:
  \<open>tryParseBuilderPolicy\<close> and \<open>tryParseBuilderBinding\<close> with the expression readers and the
  comparison guard. Both functions run inside \<open>try ... catch { return null }\<close>, so an exception
  and the answer null are one: \<open>None\<close>.

  The code's regular expressions are run by a small backtracking matcher with the semantics the
  language gives them: leftmost match, greedy repetition, captures.
\<close>

section \<open>Regular expressions\<close>

datatype rx =
    Lit string                  \<comment> \<open>the text itself\<close>
  | Group "char \<Rightarrow> bool"        \<comment> \<open>\<open>([class]+)\<close>, captured\<close>
  | Plus "char \<Rightarrow> bool"         \<comment> \<open>\<open>[class]+\<close>\<close>
  | Star "char \<Rightarrow> bool"         \<comment> \<open>\<open>[class]*\<close>\<close>
  | EndOfText                   \<comment> \<open>\<open>$\<close>\<close>

fun first_some :: "('a \<Rightarrow> 'b option) \<Rightarrow> 'a list \<Rightarrow> 'b option" where
  "first_some f [] = None"
| "first_some f (x # xs) = (case f x of None \<Rightarrow> first_some f xs | Some y \<Rightarrow> Some y)"

text \<open>The captures of a match that starts here; repetition tries the longest run first.\<close>

fun rx_here :: "rx list \<Rightarrow> string \<Rightarrow> string list option" where
  "rx_here [] s = Some []"
| "rx_here (Lit t # r) s = (if prefix t s then rx_here r (drop (length t) s) else None)"
| "rx_here (Group P # r) s =
     first_some (\<lambda>k. map_option ((#) (take k s)) (rx_here r (drop k s)))
       (rev [1..<Suc (length (takeWhile P s))])"
| "rx_here (Plus P # r) s =
     first_some (\<lambda>k. rx_here r (drop k s)) (rev [1..<Suc (length (takeWhile P s))])"
| "rx_here (Star P # r) s =
     first_some (\<lambda>k. rx_here r (drop k s)) (rev [0..<Suc (length (takeWhile P s))])"
| "rx_here (EndOfText # r) s = (if s = [] then rx_here r s else None)"

fun rx_search :: "rx list \<Rightarrow> string \<Rightarrow> string list option" where
  "rx_search p s = (case rx_here p s of Some cs \<Rightarrow> Some cs
                    | None \<Rightarrow> (case s of [] \<Rightarrow> None | c # s' \<Rightarrow> rx_search p s'))"

declare rx_search.simps [simp del]

definition not_quote :: "char \<Rightarrow> bool" where
  "not_quote c \<longleftrightarrow> c \<noteq> CHR 0x27"

definition any_char :: "char \<Rightarrow> bool" where
  "any_char c \<longleftrightarrow> c \<noteq> CHR 0x0A \<and> c \<noteq> CHR 0x0D"

section \<open>Reading an expression\<close>

text \<open>\<open>expr.replace(/\s+/g, ' ').trim()\<close>\<close>

definition norm_ws :: "string \<Rightarrow> string" where
  "norm_ws s = trim (squash_ws s)"

definition eq_pattern :: "string \<Rightarrow> rx list" where
  \<open>eq_pattern field =
     [Lit (''!('' @ SQ), Group not_quote, Lit (SQ @ '' in object.metadata.'' @ field @ '')''), Star any_char,
      Lit (''object.metadata.'' @ field @ ''['' @ SQ), Plus not_quote, Lit (SQ @ ''] != '' @ SQ), Group not_quote, Lit SQ]\<close>

definition ne_pattern :: "string \<Rightarrow> rx list" where
  \<open>ne_pattern field =
     [Lit SQ, Group not_quote, Lit (SQ @ '' in object.metadata.'' @ field), Star any_char,
      Lit (''object.metadata.'' @ field @ ''['' @ SQ), Plus not_quote, Lit (SQ @ ''] == '' @ SQ), Group not_quote, Lit SQ]\<close>

definition parse_label_expr :: "string \<Rightarrow> string \<Rightarrow> string \<Rightarrow> label_rule option" where
  "parse_label_expr field expr msg =
     (let e = norm_ws expr
      in case rx_search (eq_pattern field) e of
           Some (k # v # _) \<Rightarrow> Some \<lparr> lr_key = k, lr_condition = CondEq, lr_value = v, lr_message = msg \<rparr>
         | _ \<Rightarrow> (case rx_search (ne_pattern field) e of
             Some (k # v # _) \<Rightarrow> Some \<lparr> lr_key = k, lr_condition = CondNe, lr_value = v, lr_message = msg \<rparr>
           | _ \<Rightarrow> None))"

definition parseExpressionToRule :: "string \<Rightarrow> string \<Rightarrow> label_rule option" where
  "parseExpressionToRule = parse_label_expr ''labels''"

definition parseExpressionToAnnotationRule :: "string \<Rightarrow> string \<Rightarrow> label_rule option" where
  "parseExpressionToAnnotationRule = parse_label_expr ''annotations''"

definition parseExpressionToImageRule :: "string \<Rightarrow> string \<Rightarrow> image_rule option" where
  \<open>parseExpressionToImageRule expr msg =
     (let e = norm_ws expr
      in if js_includes e (''!c.image.endsWith('' @ SQ @ '':latest'' @ SQ @ '')'')
         then Some \<lparr> ir_type = NoLatest, ir_registry = [], ir_message = msg \<rparr>
         else case rx_search [Lit (''c.image.lowerAscii().startsWith('' @ SQ), Group not_quote, Lit (SQ @ '')'')] e of
           Some (g # _) \<Rightarrow> Some \<lparr> ir_type = RequiredRegistry, ir_registry = g, ir_message = msg \<rparr>
         | _ \<Rightarrow> None)\<close>

text \<open>A pattern anchored at both ends.\<close>

definition rx_whole :: "rx list \<Rightarrow> string \<Rightarrow> string list option" where
  "rx_whole p s = rx_here (p @ [EndOfText]) s"

definition replica_of :: "replica_resource \<Rightarrow> string \<Rightarrow> string \<Rightarrow> replica_rule" where
  "replica_of t n msg = \<lparr> maxReplicas = int (nat_of_digits n), rr_resourceType = t, rr_message = msg \<rparr>"

definition parseExpressionToReplicaRule :: "string \<Rightarrow> string \<Rightarrow> replica_rule option" where
  \<open>parseExpressionToReplicaRule expr msg =
     (let e = norm_ws expr
      in case rx_whole [Lit (''request.resource.resource != '' @ SQ @ ''deployments'' @ SQ @ '' || object.spec.replicas <= ''), Group is_digit] e of
           Some (n # _) \<Rightarrow> Some (replica_of OnDeployments n msg)
         | _ \<Rightarrow> (case rx_whole [Lit (''request.resource.resource != '' @ SQ @ ''statefulsets'' @ SQ @ '' || object.spec.replicas <= ''), Group is_digit] e of
             Some (n # _) \<Rightarrow> Some (replica_of OnStatefulSets n msg)
           | _ \<Rightarrow> (case rx_whole [Lit ''object.spec.replicas'', Star js_ws, Lit ''<='', Star js_ws, Group is_digit] e of
               Some (n # _) \<Rightarrow> Some (replica_of OnBoth n msg)
             | _ \<Rightarrow> None)))\<close>

definition parseExpressionToResourceLimitRule :: "string \<Rightarrow> string \<Rightarrow> resource_limit_rule option" where
  \<open>parseExpressionToResourceLimitRule expr msg =
     (let e = norm_ws expr;
          hasCpu = js_includes e ''has(c.resources.limits.cpu)'';
          hasMem = js_includes e ''has(c.resources.limits.memory)''
      in if \<not> js_includes e ''has(c.resources.limits'' then None
         else if hasCpu \<and> hasMem then Some \<lparr> limitType = BothLimits, rl_message = msg \<rparr>
         else if hasCpu then Some \<lparr> limitType = CpuLimit, rl_message = msg \<rparr>
         else if hasMem then Some \<lparr> limitType = MemoryLimit, rl_message = msg \<rparr>
         else None)\<close>

datatype security_part = PartNoPrivileged | PartRunAsNonRoot

definition parseExpressionToSecurityContextPart :: "string \<Rightarrow> security_part option" where
  \<open>parseExpressionToSecurityContextPart expr =
     (let e = norm_ws expr
      in if js_includes e ''c.securityContext.privileged == false'' then Some PartNoPrivileged
         else if js_includes e ''c.?securityContext.?runAsNonRoot.orValue('' then Some PartRunAsNonRoot
         else None)\<close>

definition parseExpressionToHostAccessPart :: "string \<Rightarrow> host_check option" where
  "parseExpressionToHostAccessPart expr =
     (let e = norm_ws expr;
          hasNet = js_includes e ''hostNetwork'';
          hasPid = js_includes e ''hostPID'';
          hasIpc = js_includes e ''hostIPC''
      in if hasNet \<and> hasPid \<and> hasIpc then Some AllHost
         else if hasNet \<and> \<not> hasPid \<and> \<not> hasIpc then Some NoHostNetwork
         else if \<not> hasNet \<and> hasPid \<and> \<not> hasIpc then Some NoHostPid
         else if \<not> hasNet \<and> \<not> hasPid \<and> hasIpc then Some NoHostIpc
         else None)"

section \<open>The size limits\<close>

text \<open>\<open>vals[0].x ?? ''\<close> used as text.\<close>

definition text_or_empty :: "jsval \<Rightarrow> string option" where
  "text_or_empty v = as_str (nvl v (JStr []))"

text \<open>\<open>Number(v)\<close>: undefined and objects are not numbers.\<close>

fun number_of :: "jsval \<Rightarrow> js_number" where
  "number_of JNull = Dec 0 0"
| "number_of (JBool b) = Dec (if b then 1 else 0) 0"
| "number_of (JNum n) = Dec n 0"
| "number_of (JStr s) = js_Number s"
| "number_of (JArr xs) = js_Number (js_string (JArr xs))"
| "number_of _ = NotANumber"

text \<open>The whole number of bytes a cap says, when it is a positive multiple of 1024.\<close>

definition whole_kb :: "js_number \<Rightarrow> nat option" where
  "whole_kb v =
     (case v of
        Dec m e \<Rightarrow>
          let num = (if 0 \<le> e then m * 10 ^ nat e else m); den = (if 0 \<le> e then 1 else 10 ^ nat (- e))
          in if m > 0 \<and> num mod (den * 1024) = 0 then Some (nat (num div (den * 1024))) else None
      | _ \<Rightarrow> None)"

definition resource_includes :: "jsval \<Rightarrow> string \<Rightarrow> bool option" where
  "resource_includes v s =
     (case v of JArr xs \<Rightarrow> Some (JStr s \<in> set xs) | JStr t \<Rightarrow> Some (js_includes t s) | _ \<Rightarrow> None)"

definition first_resources :: "jsval \<Rightarrow> jsval" where
  "first_resources spec =
     nvl (jopt (jopt (jopt (jopt spec ''matchConstraints'') ''resourceRules'') ''0'') ''resources'') (JArr [])"

text \<open>
  \<open>parseSizeLimitSpec\<close>: the outer option is an exception, the inner one the answer null.
\<close>

definition parseSizeLimitSpec :: "jsval \<Rightarrow> (size_kind \<times> size_limit_rule) option option" where
  "parseSizeLimitSpec spec =
     (let vals = nvl (jopt spec ''validations'') (JArr [])
      in if getp vals ''length'' \<noteq> JNum 1 then Some None
         else do {
           v \<leftarrow> Some (getp vals ''0'');
           x \<leftarrow> jget v ''expression'';
           expr \<leftarrow> text_or_empty x;
           if norm_ws expr \<noteq> norm_ws (join_with '' '' SIZE_TOTAL_EXPR) then Some None
           else if truthy (getp v ''messageExpression'') then Some None
           else do {
             cm \<leftarrow> resource_includes (first_resources spec) ''configmaps'';
             se \<leftarrow> resource_includes (first_resources spec) ''secrets'';
             if \<not> cm \<and> \<not> se then Some None
             else do {
               let kind = (if cm then ConfigMapSize else SecretSize);
               vars \<leftarrow> as_arr (nvl (getp spec ''variables'') (JArr []));
               let limitVar = List.find (\<lambda>w. jopt w ''name'' = JStr ''totalLimit'') vars;
               case whole_kb (number_of (case limitVar of None \<Rightarrow> JUndef | Some w \<Rightarrow> jopt w ''expression'')) of
                 None \<Rightarrow> Some None
               | Some kb \<Rightarrow> do {
                   message \<leftarrow> text_or_empty (getp v ''message'');
                   let blank = \<lparr> totalKB = show_nat kb, sl_message = [] \<rparr>;
                   Some (Some (kind, \<lparr> totalKB = show_nat kb,
                     sl_message = (if message = autoSizeLimitMessage kind blank then [] else message) \<rparr>)) }
             }
           }
         })"

section \<open>The comparison guard\<close>

definition OWN_ANNOTATIONS :: "string list" where
  "OWN_ANNOTATIONS = [''sentinel.io/builder'', ''sentinel.io/apply-to'', ''sentinel.io/created-by'',
     ''kubectl.kubernetes.io/last-applied-configuration'']"

definition metadataBeyondBuilder :: "jsval \<Rightarrow> bool option" where
  "metadataBeyondBuilder doc =
     (let meta = nvl (getp doc ''metadata'') (JObj [])
      in do {
        ls \<leftarrow> obj_keys (nvl (getp meta ''labels'') (JObj []));
        if ls \<noteq> [] then Some True
        else map_option (list_ex (\<lambda>k. k \<notin> set OWN_ANNOTATIONS))
               (obj_keys (nvl (getp meta ''annotations'') (JObj []))) })"

definition empty_obj :: "jsval \<Rightarrow> bool" where
  "empty_obj v \<longleftrightarrow> typeof_object v \<and> v \<noteq> JNull \<and> obj_keys v = Some []"

fun jdel :: "string \<Rightarrow> jsval \<Rightarrow> jsval" where
  "jdel k (JObj kvs) = JObj (obj_del k kvs)"
| "jdel k v = v"

fun jset :: "string \<Rightarrow> jsval \<Rightarrow> jsval \<Rightarrow> jsval" where
  "jset k x (JObj kvs) = JObj (obj_set k x kvs)"
| "jset k x v = v"

definition strip_scope :: "jsval \<Rightarrow> jsval option" where
  "strip_scope r = map_option (\<lambda>s. if s = JStr ''*'' then jdel ''scope'' r else r) (jget r ''scope'')"

text \<open>One rule list of a match, its default scopes dropped; absent lists stay absent.\<close>

definition strip_rules :: "string \<Rightarrow> jsval \<Rightarrow> jsval option" where
  "strip_rules k mc =
     (if nullish (getp mc k) then Some mc
      else case getp mc k of
        JArr rs \<Rightarrow> map_option (\<lambda>rs'. jset k (JArr rs') mc) (those (map strip_scope rs))
      | v \<Rightarrow> map_option (\<lambda>_. mc) (iter v))"

definition strip_match :: "jsval \<Rightarrow> jsval option" where
  "strip_match mc = do {
     let mc1 = (if getp mc ''matchPolicy'' = JStr ''Equivalent'' then jdel ''matchPolicy'' mc else mc);
     let mc2 = (if empty_obj (getp mc1 ''namespaceSelector'') then jdel ''namespaceSelector'' mc1 else mc1);
     let mc3 = (if empty_obj (getp mc2 ''objectSelector'') then jdel ''objectSelector'' mc2 else mc2);
     mc4 \<leftarrow> strip_rules ''resourceRules'' mc3;
     strip_rules ''excludeResourceRules'' mc4 }"

definition strip_field :: "string \<Rightarrow> jsval \<Rightarrow> jsval option" where
  "strip_field k spec =
     (if truthy (getp spec k) then map_option (\<lambda>mc. jset k mc spec) (strip_match (getp spec k)) else Some spec)"

text \<open>The spec without the values the API server defaults; the code renders it with sorted keys.\<close>

definition spec_stripped :: "jsval \<Rightarrow> jsval option" where
  "spec_stripped spec =
     Option.bind (strip_field ''matchConstraints'' (nvl spec (JObj []))) (strip_field ''matchResources'')"

definition specForCompare :: "yaml_lib \<Rightarrow> jsval \<Rightarrow> string option" where
  "specForCompare Y spec = map_option (y_sorted Y) (spec_stripped spec)"

definition same_spec :: "yaml_lib \<Rightarrow> string \<Rightarrow> jsval \<Rightarrow> bool option" where
  "same_spec Y regenerated doc = do {
     regen \<leftarrow> y_load Y regenerated;
     if \<not> truthy regen then Some False
     else do {
       a \<leftarrow> specForCompare Y (getp regen ''spec'');
       b \<leftarrow> specForCompare Y (getp doc ''spec'');
       Some (a = b) } }"

section \<open>Reading a policy\<close>

record parsed_rules =
  p_labels :: "label_rule list"
  p_annotations :: "label_rule list"
  p_images :: "image_rule list"
  p_replicas :: "replica_rule list"
  p_limits :: "resource_limit_rule list"
  p_parts :: "(security_part \<times> string) list"
  p_host :: "host_access_rule option"

definition no_rules :: parsed_rules where
  "no_rules = \<lparr> p_labels = [], p_annotations = [], p_images = [], p_replicas = [], p_limits = [],
     p_parts = [], p_host = None \<rparr>"

text \<open>One validation: the first reader that recognises the expression takes it.\<close>

definition read_validation :: "jsval \<Rightarrow> parsed_rules \<Rightarrow> parsed_rules option" where
  "read_validation v acc = do {
     x \<leftarrow> jget v ''expression'';
     expr \<leftarrow> text_or_empty x;
     msg \<leftarrow> text_or_empty (getp v ''message'');
     case parseExpressionToRule expr msg of
       Some r \<Rightarrow> Some (acc\<lparr> p_labels := p_labels acc @ [r] \<rparr>)
     | None \<Rightarrow> (case parseExpressionToAnnotationRule expr msg of
       Some r \<Rightarrow> Some (acc\<lparr> p_annotations := p_annotations acc @ [r] \<rparr>)
     | None \<Rightarrow> (case parseExpressionToImageRule expr msg of
       Some r \<Rightarrow> Some (acc\<lparr> p_images := p_images acc @ [r] \<rparr>)
     | None \<Rightarrow> (case parseExpressionToReplicaRule expr msg of
       Some r \<Rightarrow> Some (acc\<lparr> p_replicas := p_replicas acc @ [r] \<rparr>)
     | None \<Rightarrow> (case parseExpressionToResourceLimitRule expr msg of
       Some r \<Rightarrow> Some (acc\<lparr> p_limits := p_limits acc @ [r] \<rparr>)
     | None \<Rightarrow> (case parseExpressionToSecurityContextPart expr of
       Some p \<Rightarrow> Some (acc\<lparr> p_parts := p_parts acc @ [(p, msg)] \<rparr>)
     | None \<Rightarrow> (case parseExpressionToHostAccessPart expr of
       Some h \<Rightarrow> Some (acc\<lparr> p_host := Some \<lparr> ha_checkType = h, ha_message = msg \<rparr> \<rparr>)
     | None \<Rightarrow> None)))))) }"

fun read_validations :: "jsval list \<Rightarrow> parsed_rules \<Rightarrow> parsed_rules option" where
  "read_validations [] acc = Some acc"
| "read_validations (v # vs) acc = Option.bind (read_validation v acc) (read_validations vs)"

definition types_used :: "parsed_rules \<Rightarrow> nat" where
  "types_used p = length (filter id [p_labels p \<noteq> [], p_annotations p \<noteq> [], p_images p \<noteq> [],
     p_replicas p \<noteq> [], p_limits p \<noteq> [], p_parts p \<noteq> [], p_host p \<noteq> None])"

definition parsed_rule_type :: "parsed_rules \<Rightarrow> policy_rule_type" where
  "parsed_rule_type p =
     (if p_replicas p \<noteq> [] then ReplicaType
      else if p_images p \<noteq> [] then ImageType
      else if p_annotations p \<noteq> [] then AnnotationType
      else if p_limits p \<noteq> [] then ResourceLimitsType
      else if p_parts p \<noteq> [] then SecurityContextType
      else if p_host p \<noteq> None then HostAccessType
      else LabelType)"

definition parsed_security :: "(security_part \<times> string) list \<Rightarrow> security_context_rule" where
  "parsed_security parts =
     (let hasNoPriv = list_ex (\<lambda>p. fst p = PartNoPrivileged) parts;
          hasNonRoot = list_ex (\<lambda>p. fst p = PartRunAsNonRoot) parts
      in \<lparr> sc_checkType = (if hasNoPriv \<and> hasNonRoot then BothChecks
                           else if hasNonRoot then RunAsNonRoot else NoPrivileged),
           sc_message = (case parts of [] \<Rightarrow> [] | p # _ \<Rightarrow> snd p) \<rparr>)"

definition blank_builder :: "string \<Rightarrow> policy_rule_type \<Rightarrow> string \<Rightarrow> policy_builder" where
  "blank_builder name t applyTo = \<lparr> pb_name = name, pb_ruleType = t, pb_applyTo = applyTo,
     labelRules = [], imageRules = [], replicaRules = [], resourceLimitRules = [],
     securityContextRule = emptySecurityContextRule, hostAccessRule = emptyHostAccessRule,
     configMapSizeRule = emptySizeLimitRule, secretSizeRule = emptySizeLimitRule \<rparr>"

definition sized_builder :: "string \<Rightarrow> size_kind \<Rightarrow> size_limit_rule \<Rightarrow> policy_builder" where
  "sized_builder name k r =
     (case k of
        ConfigMapSize \<Rightarrow> (blank_builder name ConfigMapSizeType ''workloads'')\<lparr> configMapSizeRule := r \<rparr>
      | SecretSize \<Rightarrow> (blank_builder name SecretSizeType ''workloads'')\<lparr> secretSizeRule := r \<rparr>)"

definition rules_builder :: "string \<Rightarrow> string \<Rightarrow> parsed_rules \<Rightarrow> policy_builder" where
  "rules_builder name applyTo p = (blank_builder name (parsed_rule_type p) applyTo)\<lparr>
     labelRules := (if p_annotations p \<noteq> [] then p_annotations p else p_labels p),
     imageRules := p_images p, replicaRules := p_replicas p, resourceLimitRules := p_limits p,
     securityContextRule := parsed_security (p_parts p),
     hostAccessRule := (case p_host p of Some h \<Rightarrow> h | None \<Rightarrow> emptyHostAccessRule) \<rparr>"

text \<open>The last step of both branches: nothing beyond the builder's metadata, and the same spec.\<close>

definition accept_policy :: "yaml_lib \<Rightarrow> jsval \<Rightarrow> policy_builder \<Rightarrow> policy_builder option" where
  "accept_policy Y doc b = do {
     beyond \<leftarrow> metadataBeyondBuilder doc;
     if beyond then None
     else do {
       same \<leftarrow> same_spec Y (generatePolicyYaml b) doc;
       (if same then Some b else None) } }"

definition builder_annotation :: "jsval \<Rightarrow> bool" where
  "builder_annotation doc \<longleftrightarrow>
     js_string (jopt (jopt (getp doc ''metadata'') ''annotations'') ''sentinel.io/builder'') = ''true''"

definition tryParseBuilderPolicy :: "yaml_lib \<Rightarrow> string \<Rightarrow> policy_builder option" where
  "tryParseBuilderPolicy Y rawYaml = do {
     doc \<leftarrow> y_load Y rawYaml;
     let meta = getp doc ''metadata'';
     let spec = getp doc ''spec'';
     if jopt doc ''kind'' \<noteq> JStr ''ValidatingAdmissionPolicy'' then None
     else if \<not> builder_annotation doc then None
     else if \<not> truthy (jopt (jopt spec ''validations'') ''length'') then None
     else do {
       sized \<leftarrow> parseSizeLimitSpec spec;
       name \<leftarrow> text_or_empty (jopt meta ''name'');
       case sized of
         Some (k, r) \<Rightarrow> accept_policy Y doc (sized_builder name k r)
       | None \<Rightarrow> do {
           vs \<leftarrow> iter (getp spec ''validations'');
           p \<leftarrow> read_validations vs no_rules;
           if types_used p > 1 then None
           else do {
             let a = jopt (jopt meta ''annotations'') ''sentinel.io/apply-to'';
             applyTo \<leftarrow> (if truthy a then as_str a else Some ''workloads'');
             accept_policy Y doc (rules_builder name applyTo p) } } } }"

section \<open>Reading a binding\<close>

text \<open>
  The namespace scope the form can hold; None when it holds more. Entries that are not text
  raise when the form trims them.
\<close>

definition binding_scope :: "jsval \<Rightarrow> (binding_ns_mode \<times> string list) option" where
  "binding_scope spec =
     (let sel = jopt (jopt spec ''matchResources'') ''namespaceSelector'';
          labelNs = jopt (jopt sel ''matchLabels'') ''kubernetes.io/metadata.name'';
          exprs = nvl (jopt sel ''matchExpressions'') (JArr []);
          many = (case getp exprs ''length'' of JNum n \<Rightarrow> n > 0 | _ \<Rightarrow> False)
      in if truthy labelNs then
           (if many then None else map_option (\<lambda>n. (IncludeNs, [n])) (as_str labelNs))
         else if getp exprs ''length'' = JNum 1 then do {
           let e = getp exprs ''0'';
           key \<leftarrow> jget e ''key'';
           if key \<noteq> JStr ''kubernetes.io/metadata.name'' then None
           else if getp e ''operator'' \<noteq> JStr ''In'' \<and> getp e ''operator'' \<noteq> JStr ''NotIn'' then None
           else do {
             vs \<leftarrow> as_arr (nvl (getp e ''values'') (JArr []));
             values \<leftarrow> those (map as_str (filter truthy vs));
             if values = [] then None
             else Some (if getp e ''operator'' = JStr ''In'' then IncludeNs else ExcludeNs, values) } }
         else if many then None
         else Some (AllNs, []))"

definition binding_actions :: "jsval \<Rightarrow> string list option" where
  "binding_actions v = Option.bind (as_arr (nvl v (JArr [JStr ''Deny'']))) (\<lambda>as. those (map as_str as))"

definition tryParseBuilderBinding :: "yaml_lib \<Rightarrow> string \<Rightarrow> binding_builder option" where
  "tryParseBuilderBinding Y rawYaml = do {
     doc \<leftarrow> y_load Y rawYaml;
     let spec = getp doc ''spec'';
     if jopt doc ''kind'' \<noteq> JStr ''ValidatingAdmissionPolicyBinding'' then None
     else if \<not> builder_annotation doc then None
     else do {
       (nsMode, namespaces) \<leftarrow> binding_scope spec;
       name \<leftarrow> text_or_empty (jopt (getp doc ''metadata'') ''name'');
       policyName \<leftarrow> text_or_empty (jopt spec ''policyName'');
       actions \<leftarrow> binding_actions (jopt spec ''validationActions'');
       let result = \<lparr> bb_name = name, bb_policyName = policyName, bb_nsMode = nsMode,
                      bb_namespaces = namespaces, bb_actions = actions \<rparr>;
       beyond \<leftarrow> metadataBeyondBuilder doc;
       if beyond then None
       else do {
         same \<leftarrow> same_spec Y (generateBindingYaml result) doc;
         (if same then Some result else None) } } }"

end
