(* ===== verification/VapCorrect.thy ===== *)
theory VapCorrect
  imports VapParse Regen
begin

text \<open>
  Correctness of the admission policy builder: what opens is reproduced, escaping cannot be
  broken out of, and the expressions the builder writes are read back as the rules they came
  from.
\<close>

section \<open>The comparison guard\<close>

lemma plain_jdel: "plain v \<Longrightarrow> plain (jdel k v)"
  by (cases v) (auto simp: js_ordered_obj_del obj_del_def list_all_iff js_ordered_filter
      distinct_map_filter)

lemma plain_jset: "plain v \<Longrightarrow> plain x \<Longrightarrow> plain (jset k x v)"
proof (cases v)
  case (JObj kvs)
  have "set (obj_set k x kvs) \<subseteq> insert (k, x) (set kvs)"
    by (auto simp: obj_set_def set_index_insert split: if_splits)
  then show "plain v \<Longrightarrow> plain x \<Longrightarrow> ?thesis"
    using JObj by (auto simp: js_ordered_obj_set list_all_iff)
qed auto

lemma those_all:
  "those (map f xs) = Some ys \<Longrightarrow> \<forall>x \<in> set xs. \<forall>y. f x = Some y \<longrightarrow> P y \<Longrightarrow> list_all P ys"
  by (induction xs arbitrary: ys) (auto split: option.splits)

lemma plain_strip_scope: "plain r \<Longrightarrow> strip_scope r = Some r' \<Longrightarrow> plain r'"
  by (auto simp: strip_scope_def plain_jdel split: if_splits)

lemma plain_strip_rules:
  assumes "plain mc" "strip_rules k mc = Some mc'"
  shows "plain mc'"
proof (cases "nullish (getp mc k)")
  case True
  then show ?thesis using assms by (simp add: strip_rules_def)
next
  case False
  then have p: "plain (getp mc k)" using plain_getp [OF assms(1), of k] by auto
  show ?thesis
  proof (cases "getp mc k")
    case (JArr rs)
    then obtain rs' where rs': "those (map strip_scope rs) = Some rs'" "mc' = jset k (JArr rs') mc"
      using assms(2) False by (auto simp: strip_rules_def)
    have "list_all plain rs'"
      using rs'(1) by (rule those_all) (use p JArr plain_strip_scope in \<open>auto simp: list_all_iff\<close>)
    then show ?thesis using rs'(2) assms(1) by (simp add: plain_jset)
  qed (use assms False in \<open>auto simp: strip_rules_def\<close>)
qed

lemma plain_strip_match: "plain mc \<Longrightarrow> strip_match mc = Some mc' \<Longrightarrow> plain mc'"
proof -
  assume p: "plain mc" and s: "strip_match mc = Some mc'"
  define drop_if where "drop_if P k v = (if P then jdel k v else v)" for P k v
  have d: "plain v \<Longrightarrow> plain (drop_if P k v)" for P k v by (simp add: drop_if_def plain_jdel)
  from s obtain mc3 mc4 where m: "plain mc3" "strip_rules ''resourceRules'' mc3 = Some mc4"
    "strip_rules ''excludeResourceRules'' mc4 = Some mc'"
    unfolding strip_match_def Let_def drop_if_def [symmetric] bind_eq_Some_conv using d p by blast
  then show "plain mc'" using plain_strip_rules by blast
qed

lemma plain_strip_field: "plain spec \<Longrightarrow> strip_field k spec = Some spec' \<Longrightarrow> plain spec'"
  using plain_getp [of spec k] plain_strip_match
  by (auto simp: strip_field_def plain_jset split: if_splits)

lemma plain_spec_stripped:
  assumes "spec = JUndef \<or> plain spec" "spec_stripped spec = Some s"
  shows "plain s"
proof -
  have e: "js_ordered []" by (simp add: js_ordered_def)
  have "plain (nvl spec (JObj []))" using assms(1) by (cases spec) (auto simp: e)
  then show ?thesis
    using assms(2) plain_strip_field unfolding spec_stripped_def bind_eq_Some_conv by blast
qed

text \<open>What a manifest says to the builder: its spec without the server's defaults.\<close>

definition vap_view :: "yaml_lib \<Rightarrow> string \<Rightarrow> jsval option option" where
  "vap_view Y raw = map_option (\<lambda>doc. map_option canon (spec_stripped (getp doc ''spec''))) (y_load Y raw)"

lemma same_spec_view:
  assumes "yaml_laws Y" "y_load Y raw = Some doc" "same_spec Y text doc = Some True"
  shows "vap_view Y text = vap_view Y raw"
proof -
  obtain regen a b where r: "y_load Y text = Some regen" "spec_stripped (getp regen ''spec'') = Some a"
    "spec_stripped (getp doc ''spec'') = Some b" "y_sorted Y a = y_sorted Y b"
    using assms(3) by (auto simp: same_spec_def specForCompare_def bind_eq_Some_conv split: if_splits)
  have u: "getp v ''spec'' = JUndef \<or> plain (getp v ''spec'')" if "y_load Y s = Some v" for s v
    using yaml_load_plain [OF assms(1) that] plain_getp [of v "''spec''"] by auto
  have "plain a" "plain b"
    using plain_spec_stripped u r(1-3) assms(2) by blast+
  then have "canon a = canon b" using yaml_sorted_iff [OF assms(1)] r(4) by blast
  then show ?thesis using r assms(2) by (simp add: vap_view_def)
qed

lemma accept_policy_SomeD:
  "accept_policy Y doc b = Some b' \<Longrightarrow>
   b' = b \<and> metadataBeyondBuilder doc = Some False \<and> same_spec Y (generatePolicyYaml b) doc = Some True"
  by (auto simp: accept_policy_def bind_eq_Some_conv split: if_splits)

lemma accept_policy_again: "accept_policy Y doc b = Some b' \<Longrightarrow> accept_policy Y doc b' = Some b'"
  using accept_policy_SomeD by blast

lemma tryParseBuilderPolicy_SomeD:
  "tryParseBuilderPolicy Y raw = Some b \<Longrightarrow>
   \<exists>doc. y_load Y raw = Some doc \<and> jopt doc ''kind'' = JStr ''ValidatingAdmissionPolicy'' \<and>
     builder_annotation doc \<and> accept_policy Y doc b = Some b"
  unfolding tryParseBuilderPolicy_def Let_def
  by (auto simp: bind_eq_Some_conv intro: accept_policy_again split: if_splits option.splits)

lemma tryParseBuilderBinding_SomeD:
  "tryParseBuilderBinding Y raw = Some b \<Longrightarrow>
   \<exists>doc. y_load Y raw = Some doc \<and> jopt doc ''kind'' = JStr ''ValidatingAdmissionPolicyBinding'' \<and>
     builder_annotation doc \<and> metadataBeyondBuilder doc = Some False \<and>
     same_spec Y (generateBindingYaml b) doc = Some True"
  unfolding tryParseBuilderBinding_def Let_def
  by (auto simp: bind_eq_Some_conv split: if_splits)

interpretation policy_guard: regen_guard "tryParseBuilderPolicy Y" generatePolicyYaml "vap_view Y" "yaml_laws Y"
  for Y
proof unfold_locales
  fix d f
  assume "yaml_laws Y" "tryParseBuilderPolicy Y d = Some f"
  then show "vap_view Y (generatePolicyYaml f) = vap_view Y d"
    by (auto dest!: tryParseBuilderPolicy_SomeD accept_policy_SomeD intro: same_spec_view)
qed

interpretation binding_guard: regen_guard "tryParseBuilderBinding Y" generateBindingYaml "vap_view Y" "yaml_laws Y"
  for Y
proof unfold_locales
  fix d f
  assume "yaml_laws Y" "tryParseBuilderBinding Y d = Some f"
  then show "vap_view Y (generateBindingYaml f) = vap_view Y d"
    by (auto dest!: tryParseBuilderBinding_SomeD intro: same_spec_view)
qed

subsection \<open>Server defaults are invisible\<close>

text \<open>What the API server adds to a stored match: each field only where it is absent.\<close>

definition default_field :: "string \<Rightarrow> jsval \<Rightarrow> jsval \<Rightarrow> jsval" where
  "default_field k x v = (if getp v k = JUndef then jset k x v else v)"

definition default_rules :: "string \<Rightarrow> jsval \<Rightarrow> jsval" where
  "default_rules k mc =
     (case getp mc k of JArr rs \<Rightarrow> jset k (JArr (map (default_field ''scope'' (JStr ''*'')) rs)) mc | _ \<Rightarrow> mc)"

definition server_defaults :: "jsval \<Rightarrow> jsval" where
  "server_defaults mc =
     default_field ''objectSelector'' (JObj []) (default_field ''namespaceSelector'' (JObj [])
       (default_field ''matchPolicy'' (JStr ''Equivalent'') (default_rules ''resourceRules'' mc)))"

lemma jdel_jset_absent: "plain v \<Longrightarrow> getp v k = JUndef \<Longrightarrow> \<not> js_index k \<Longrightarrow> jdel k (jset k x v) = v"
proof (cases v)
  case (JObj kvs)
  assume a: "plain v" "getp v k = JUndef" "\<not> js_index k"
  have "k \<notin> fst ` set kvs"
  proof
    assume "k \<in> fst ` set kvs"
    then obtain y where "map_of kvs k = Some y" by (meson map_of_eq_None_iff not_Some_eq)
    with a JObj have "y = JUndef" "(k, y) \<in> set kvs" by (auto dest: map_of_SomeD)
    with a(1) JObj show False by (force simp: list_all_iff)
  qed
  moreover have "filter (\<lambda>p. fst p \<noteq> k) kvs = kvs" using \<open>k \<notin> fst ` set kvs\<close> by (auto simp: filter_id_conv)
  ultimately show ?thesis using JObj a(3) by (simp add: obj_set_def obj_del_def)
qed auto

lemma getp_jset: "getp (jset k x v) k' = (if is_obj v \<and> k' = k then x else getp v k')"
  by (cases v) (auto split: option.splits)

lemma getp_jdel: "getp (jdel k v) k' = (if is_obj v \<and> k' = k then JUndef else getp v k')"
  by (cases v) (auto split: option.splits)

lemma is_obj_jset [simp]: "is_obj (jset k x v) = is_obj v"
  by (cases v) auto

lemma is_obj_jdel [simp]: "is_obj (jdel k v) = is_obj v"
  by (cases v) auto

lemma jdel_jset: "k \<noteq> k' \<Longrightarrow> \<not> js_index k' \<Longrightarrow> jdel k (jset k' x v) = jset k' x (jdel k v)"
proof (cases v)
  case (JObj kvs)
  assume a: "k \<noteq> k'" "\<not> js_index k'"
  have "k' \<in> fst ` set (filter (\<lambda>p. fst p \<noteq> k) kvs) \<longleftrightarrow> k' \<in> fst ` set kvs" using a(1) by force
  moreover have "filter (\<lambda>p. fst p \<noteq> k) (map (\<lambda>(l, w). if l = k' then (l, x) else (l, w)) kvs) =
      map (\<lambda>(l, w). if l = k' then (l, x) else (l, w)) (filter (\<lambda>p. fst p \<noteq> k) kvs)"
    using a(1) by (induction kvs) (auto split: if_split_asm)
  ultimately show ?thesis using JObj a by (simp add: obj_set_def obj_del_def)
qed auto

lemma jset_jset: "\<not> js_index k \<Longrightarrow> jset k x (jset k y v) = jset k x v"
proof (cases v)
  case (JObj kvs)
  assume a: "\<not> js_index k"
  show ?thesis
  proof (cases "k \<in> fst ` set kvs")
    case True
    moreover have "k \<in> fst ` set (map (\<lambda>(l, w). if l = k then (l, y) else (l, w)) kvs)"
      using True by force
    moreover have "map (\<lambda>(l, w). if l = k then (l, x) else (l, w)) (map (\<lambda>(l, w). if l = k then (l, y) else (l, w)) kvs) =
        map (\<lambda>(l, w). if l = k then (l, x) else (l, w)) kvs"
      by (induction kvs) auto
    ultimately show ?thesis using JObj by (simp add: obj_set_def del: map_map)
  next
    case False
    then have "map (\<lambda>(l, w). if l = k then (l, x) else (l, w)) kvs = kvs"
      by (induction kvs) auto
    with False show ?thesis using JObj a by (simp add: obj_set_def)
  qed
qed auto

lemma match_keys [simp]:
  "\<not> js_index ''matchPolicy''" "\<not> js_index ''namespaceSelector''" "\<not> js_index ''objectSelector''"
  "\<not> js_index ''resourceRules''" "\<not> js_index ''scope''" "\<not> js_index ''matchConstraints''"
  by (simp_all add: not_js_index is_digit_def)

text \<open>Dropping one default field; it undoes adding it and commutes with adding another.\<close>

definition drop_field :: "(jsval \<Rightarrow> bool) \<Rightarrow> string \<Rightarrow> jsval \<Rightarrow> jsval" where
  "drop_field P k v = (if P (getp v k) then jdel k v else v)"

lemma drop_field_same:
  "plain v \<Longrightarrow> is_obj v \<Longrightarrow> \<not> P JUndef \<Longrightarrow> P x \<Longrightarrow> \<not> js_index k \<Longrightarrow>
   drop_field P k (default_field k x v) = drop_field P k v"
  by (auto simp: drop_field_def default_field_def getp_jset jdel_jset_absent)

lemma drop_field_other:
  "k \<noteq> k' \<Longrightarrow> \<not> js_index k' \<Longrightarrow>
   drop_field P k (default_field k' x v) = default_field k' x (drop_field P k v)"
  by (auto simp: drop_field_def default_field_def getp_jset getp_jdel jdel_jset)

lemma drop_field_rules:
  "k \<noteq> k' \<Longrightarrow> \<not> js_index k' \<Longrightarrow>
   drop_field P k (default_rules k' v) = default_rules k' (drop_field P k v)"
  by (auto simp: drop_field_def default_rules_def getp_jset getp_jdel jdel_jset split: jsval.splits)

lemma plain_default_field: "plain v \<Longrightarrow> plain x \<Longrightarrow> plain (default_field k x v)"
  by (simp add: default_field_def plain_jset)

lemma plain_drop_field: "plain v \<Longrightarrow> plain (drop_field P k v)"
  by (simp add: drop_field_def plain_jdel)

lemma is_obj_drop_field [simp]: "is_obj (drop_field P k v) = is_obj v"
  by (simp add: drop_field_def)

lemma is_obj_default_rules [simp]: "is_obj (default_rules k v) = is_obj v"
  by (auto simp: default_rules_def split: jsval.splits)

lemma plain_default_rules: "plain mc \<Longrightarrow> plain (default_rules k mc)"
proof (cases "getp mc k")
  case (JArr rs)
  assume p: "plain mc"
  then have "list_all plain rs" using JArr plain_getp [of mc k] by simp
  then have "plain (JArr (map (default_field ''scope'' (JStr ''*'')) rs))"
    by (auto simp: list_all_iff plain_default_field)
  then show ?thesis using JArr p by (simp add: default_rules_def plain_jset del: plain.simps)
qed (simp_all add: default_rules_def)

lemma strip_scope_default: "plain r \<Longrightarrow> strip_scope (default_field ''scope'' (JStr ''*'') r) = strip_scope r"
proof (cases "is_obj r")
  case True
  moreover assume "plain r"
  moreover have "\<not> nullish r" "\<not> nullish (jset ''scope'' (JStr ''*'') r)" using True by (cases r; simp)+
  ultimately show ?thesis
    by (auto simp: strip_scope_def default_field_def jget_def getp_jset jdel_jset_absent)
next
  case False
  then show ?thesis by (cases r) (auto simp: default_field_def)
qed

lemma strip_rules_default:
  assumes "plain mc" "is_obj mc" "\<not> js_index k"
  shows "strip_rules k (default_rules k mc) = strip_rules k mc"
proof (cases "getp mc k")
  case (JArr rs)
  let ?g = "default_field ''scope'' (JStr ''*'')"
  have "list_all plain rs" using assms(1) JArr plain_getp [of mc k] by simp
  then have "map strip_scope (map ?g rs) = map strip_scope rs"
    by (auto simp: list_all_iff strip_scope_default)
  moreover have "getp (default_rules k mc) k = JArr (map ?g rs)"
    using JArr assms(2) by (simp add: default_rules_def getp_jset)
  moreover have "jset k x (default_rules k mc) = jset k x mc" for x
    using JArr assms(3) by (simp add: default_rules_def jset_jset)
  ultimately show ?thesis using JArr by (simp add: strip_rules_def del: map_map)
qed (simp_all add: default_rules_def)

lemma strip_match_fold:
  "strip_match mc = Option.bind (strip_rules ''resourceRules''
     (drop_field empty_obj ''objectSelector'' (drop_field empty_obj ''namespaceSelector''
       (drop_field (\<lambda>v. v = JStr ''Equivalent'') ''matchPolicy'' mc)))) (strip_rules ''excludeResourceRules'')"
  by (simp add: strip_match_def drop_field_def Let_def)

lemma strip_match_defaults:
  assumes "plain mc" "is_obj mc"
  shows "strip_match (server_defaults mc) = strip_match mc"
proof -
  have e: "\<not> empty_obj JUndef" "empty_obj (JObj [])"
    by (simp_all add: empty_obj_def obj_keys_def)
  note r = plain_default_rules plain_drop_field assms
  show ?thesis
    by (simp add: strip_match_fold server_defaults_def drop_field_other drop_field_same drop_field_rules
        strip_rules_default e r)
qed

end
