(* ===== verification/VapReadback.thy ===== *)
theory VapReadback
  imports VapCorrect
begin

text \<open>
  The builder's expressions read back: laws of the pattern matcher, and for every rule kind
  that the reader recognises what the generator wrote, as the rule it was written from.
\<close>

section \<open>Laws of the matcher\<close>

lemma first_some_rev_last:
  "f n = Some y \<Longrightarrow> a \<le> n \<Longrightarrow> (\<And>k. n < k \<Longrightarrow> k < m \<Longrightarrow> f k = None) \<Longrightarrow> n < m \<Longrightarrow>
   first_some f (rev [a..<m]) = Some y"
proof (induction m)
  case (Suc m)
  then show ?case by (cases "n = m") (auto simp: Suc.prems(3) less_Suc_eq)
qed simp

lemma first_some_SomeD: "first_some f xs = Some y \<Longrightarrow> \<exists>x \<in> set xs. f x = Some y"
  by (induction xs) (auto split: option.splits)

lemma takeWhile_stop: "\<forall>c \<in> set w. P c \<Longrightarrow> \<not> P q \<Longrightarrow> takeWhile P (w @ q # s) = w"
  by (simp add: takeWhile_append2)

lemma rx_Group:
  assumes "\<forall>c \<in> set w. P c" "w \<noteq> []" "\<not> P q" "rx_here r (q # s) = Some cs"
  shows "rx_here (Group P # r) (w @ q # s) = Some (w # cs)"
proof -
  have "takeWhile P (w @ q # s) = w" using assms(1,3) by (rule takeWhile_stop)
  then show ?thesis using assms(2,4) by (simp add: first_some_rev_last [where n = "length w"] Suc_le_eq)
qed

lemma rx_Plus:
  assumes "\<forall>c \<in> set w. P c" "w \<noteq> []" "\<not> P q" "rx_here r (q # s) = Some cs"
  shows "rx_here (Plus P # r) (w @ q # s) = Some cs"
proof -
  have "takeWhile P (w @ q # s) = w" using assms(1,3) by (rule takeWhile_stop)
  then show ?thesis using assms(2,4) by (simp add: first_some_rev_last [where n = "length w"] Suc_le_eq)
qed

lemma rx_Lit: "rx_here r s = Some cs \<Longrightarrow> rx_here (Lit t # r) (t @ s) = Some cs"
  by simp

lemma rx_Star:
  assumes "\<forall>c \<in> set (a @ b). P c" "rx_here r b = Some cs"
    and "\<And>k. 0 < k \<Longrightarrow> k \<le> length b \<Longrightarrow> rx_here r (drop k b) = None"
  shows "rx_here (Star P # r) (a @ b) = Some cs"
proof -
  have t: "takeWhile P (a @ b) = a @ b" using assms(1) by (simp add: takeWhile_eq_all_conv)
  have n: "rx_here r (drop k (a @ b)) = None" if "length a < k" "k < Suc (length a + length b)" for k
    using assms(3) [of "k - length a"] that by simp
  show ?thesis
    unfolding rx_here.simps t length_append
    by (rule first_some_rev_last [where n = "length a"]) (use assms(2) n in auto)
qed

text \<open>A match needs the quotes of its literals, and every literal is in the text.\<close>

fun rx_quotes :: "rx list \<Rightarrow> nat" where
  "rx_quotes [] = 0"
| "rx_quotes (Lit t # r) = count_list t (CHR 0x27) + rx_quotes r"
| "rx_quotes (_ # r) = rx_quotes r"

lemma count_list_drop: "count_list (drop k s) c \<le> count_list s c"
  by (metis append_take_drop_id count_list_append le_add2)

lemma rx_here_quotes: "rx_here p s = Some cs \<Longrightarrow> rx_quotes p \<le> count_list s (CHR 0x27)"
proof (induction p s arbitrary: cs rule: rx_here.induct)
  case (2 t r s)
  then obtain u where "s = t @ u" "rx_here r u = Some cs" by (auto simp: prefix_def split: if_splits)
  with 2 show ?case by (auto simp: prefix_def)
next
  case (3 P r s)
  then show ?case by (auto dest!: first_some_SomeD intro: le_trans [OF _ count_list_drop])
next
  case (4 P r s)
  then show ?case by (auto dest!: first_some_SomeD intro: le_trans [OF _ count_list_drop])
next
  case (5 P r s)
  then show ?case by (auto simp del: upt_Suc dest!: first_some_SomeD intro: le_trans [OF _ count_list_drop])
qed (auto split: if_splits)

lemma sublist_drop: "sublist t (drop k s) \<Longrightarrow> sublist t s"
  by (meson sublist_order.order_trans suffix_drop suffix_imp_sublist)

lemma rx_here_lits: "rx_here p s = Some cs \<Longrightarrow> Lit t \<in> set p \<Longrightarrow> sublist t s"
proof (induction p s arbitrary: cs rule: rx_here.induct)
  case (2 u r s)
  then show ?case by (auto split: if_splits intro: sublist_drop)
next
  case (3 P r s)
  then show ?case by (auto dest!: first_some_SomeD intro: sublist_drop)
next
  case (4 P r s)
  then show ?case by (auto dest!: first_some_SomeD intro: sublist_drop)
next
  case (5 P r s)
  then show ?case by (auto simp del: upt_Suc dest!: first_some_SomeD intro: sublist_drop)
qed (auto split: if_splits)

lemma rx_search_here: "rx_here p s = Some cs \<Longrightarrow> rx_search p s = Some cs"
  by (simp add: rx_search.simps)

lemma rx_search_skip:
  "\<not> prefix t (c # s) \<Longrightarrow> rx_search (Lit t # r) (c # s) = rx_search (Lit t # r) s"
  by (subst rx_search.simps) simp

lemma rx_search_skip_free:
  "hd t \<notin> set w \<Longrightarrow> t \<noteq> [] \<Longrightarrow> rx_search (Lit t # r) (w @ s) = rx_search (Lit t # r) s"
proof (induction w)
  case (Cons c w)
  then have "\<not> prefix t (c # w @ s)" by (cases t) auto
  then show ?case using Cons by (simp add: rx_search_skip)
qed simp

lemma rx_search_lits: "rx_search p s = Some cs \<Longrightarrow> Lit t \<in> set p \<Longrightarrow> sublist t s"
proof (induction s arbitrary: cs)
  case Nil
  then show ?case by (subst (asm) rx_search.simps) (auto split: option.splits dest: rx_here_lits)
next
  case (Cons c s)
  show ?case
  proof (cases "rx_here p (c # s)")
    case None
    then have "rx_search p s = Some cs" using Cons.prems(1) by (subst (asm) rx_search.simps) simp
    then have "sublist t s" using Cons by blast
    then show ?thesis by (simp add: sublist_Cons_right)
  next
    case (Some ds)
    then show ?thesis using rx_here_lits Cons.prems(2) by blast
  qed
qed

corollary rx_search_None: "Lit t \<in> set p \<Longrightarrow> \<not> sublist t s \<Longrightarrow> rx_search p s = None"
  using rx_search_lits by (cases "rx_search p s") auto

section \<open>White space\<close>

lemma squash_ws_fixed:
  "\<forall>c \<in> set s. js_ws c \<longrightarrow> c = CHR '' '' \<Longrightarrow> successively (\<lambda>x y. \<not> (js_ws x \<and> js_ws y)) s \<Longrightarrow> squash_ws s = s"
proof (induction s)
  case (Cons x s)
  then show ?case by (cases s) auto
qed simp

definition tidy :: "string \<Rightarrow> bool" where
  "tidy s \<longleftrightarrow> s = [] \<or> (\<not> js_ws (hd s) \<and> \<not> js_ws (last s) \<and>
     (\<forall>c \<in> set s. js_ws c \<longrightarrow> c = CHR '' '') \<and> successively (\<lambda>x y. \<not> (js_ws x \<and> js_ws y)) s)"

lemma norm_ws_tidy: "tidy s \<Longrightarrow> norm_ws s = s"
  by (auto simp: tidy_def norm_ws_def squash_ws_fixed trim_fixed)

text \<open>Words that are free of white space, joined by text that is tidy at the seams, are tidy.\<close>

lemma tidy_append:
  "tidy a \<Longrightarrow> tidy b \<Longrightarrow> tidy (a @ b)"
  by (cases "a = []"; cases "b = []") (auto simp: tidy_def successively_append_iff)

lemma tidy_blank: "tidy a \<Longrightarrow> tidy b \<Longrightarrow> a \<noteq> [] \<Longrightarrow> b \<noteq> [] \<Longrightarrow> tidy (a @ '' '' @ b)"
  by (auto simp: tidy_def successively_append_iff successively_Cons)

lemma successively_no_ws: "\<forall>c \<in> set w. \<not> js_ws c \<Longrightarrow> successively (\<lambda>x y. \<not> (js_ws x \<and> js_ws y)) w"
proof (induction w)
  case (Cons a w)
  then show ?case by (cases w) auto
qed simp

lemma successively_True [simp]: "successively (\<lambda>x y. True) w"
proof (induction w)
  case (Cons a w)
  then show ?case by (cases w) auto
qed simp

lemma tidy_word: "\<forall>c \<in> set w. \<not> js_ws c \<Longrightarrow> tidy w"
  by (auto simp: tidy_def successively_no_ws)

text \<open>The text of a folded block scalar whose lines share one indentation.\<close>

definition folded :: "string list \<Rightarrow> string" where
  "folded ls = join_with '' '' (map (drop 8) ls)"

section \<open>Labels and annotations\<close>

text \<open>Key and value characters of Kubernetes labels and annotations.\<close>

definition token_char :: "char \<Rightarrow> bool" where
  "token_char c \<longleftrightarrow> alnum c \<or> c = CHR ''-'' \<or> c = CHR ''_'' \<or> c = CHR ''.'' \<or> c = CHR ''/''"

definition token :: "string \<Rightarrow> bool" where
  "token s \<longleftrightarrow> s \<noteq> [] \<and> (\<forall>c \<in> set s. token_char c)"

lemma token_char_not:
  "token_char c \<Longrightarrow> \<not> js_ws c \<and> not_quote c \<and> any_char c \<and> c \<noteq> CHR 0x5C \<and> c \<noteq> CHR 0x27 \<and>
     c \<noteq> CHR ''!'' \<and> c \<noteq> CHR ''['' \<and> c \<noteq> CHR ''('' \<and> c \<noteq> CHR 0x0A \<and> c \<noteq> CHR 0x0D"
  by (auto simp: token_char_def alnum_def is_lower_def is_upper_def is_digit_def js_ws_def not_quote_def
      any_char_def Let_def)

lemma tokenD:
  "token s \<Longrightarrow> s \<noteq> []" "token s \<Longrightarrow> \<forall>c \<in> set s. \<not> js_ws c" "token s \<Longrightarrow> \<forall>c \<in> set s. not_quote c"
  "token s \<Longrightarrow> \<forall>c \<in> set s. any_char c" "token s \<Longrightarrow> CHR ''!'' \<notin> set s"
  "token s \<Longrightarrow> CHR ''['' \<notin> set s" "token s \<Longrightarrow> CHR 0x27 \<notin> set s"
  "token s \<Longrightarrow> CHR 0x5C \<notin> set s"
  using token_char_not by (fastforce simp: token_def)+

lemma replace_char_absent: "c \<notin> set s \<Longrightarrow> replace_char c r s = s"
  by (induction s) (auto simp: replace_char_def)

lemma escapeCel_token: "token s \<Longrightarrow> escapeCel s = s"
  using tokenD(7,8) by (simp add: escapeCel_def replace_char_absent)

lemma trim_token: "token s \<Longrightarrow> trim s = s"
  using tokenD(2) by (simp add: trim_no_ws)

text \<open>The three parts of both label expressions, joined as the folded scalar joins them.\<close>

definition eq_text :: "string \<Rightarrow> string \<Rightarrow> string \<Rightarrow> string" where
  \<open>eq_text field k v =
     (''!has(object.metadata.'' @ field @ '') || !('' @ SQ) @ k @ (SQ @ '' in object.metadata.'' @ field @ '')'') @
     ('' || '') @ (''object.metadata.'' @ field @ ''['' @ SQ) @ k @ (SQ @ ''] != '' @ SQ) @ v @ SQ\<close>

definition ne_text :: "string \<Rightarrow> string \<Rightarrow> string \<Rightarrow> string" where
  \<open>ne_text field k v =
     (''has(object.metadata.'' @ field @ '') && '' @ SQ) @ k @ (SQ @ '' in object.metadata.'' @ field) @
     ('' && '') @ (''object.metadata.'' @ field @ ''['' @ SQ) @ k @ (SQ @ ''] == '' @ SQ) @ v @ SQ\<close>

lemma folded_label_expr:
  assumes "token k" "token v" "lr_key r = k" "lr_value r = v"
  shows "folded (label_expr field r) =
    (if lr_condition r = CondEq then eq_text field k v else ne_text field k v)"
  using assms tokenD(1)
  by (auto simp: folded_def label_expr_def or_else_def Let_def trim_token escapeCel_token eq_text_def ne_text_def)

definition is_field :: "string \<Rightarrow> bool" where
  "is_field f \<longleftrightarrow> f = ''labels'' \<or> f = ''annotations''"

lemma tidy_lit:
  "tidy s \<longleftrightarrow> s = [] \<or> (\<not> js_ws (hd s) \<and> \<not> js_ws (last s) \<and>
     list_all (\<lambda>c. js_ws c \<longrightarrow> c = CHR '' '') s \<and> successively (\<lambda>x y. \<not> (js_ws x \<and> js_ws y)) s)"
  by (simp add: tidy_def list_all_iff)

lemma eq_text_parts:
  \<open>eq_text f k v = (''!has(object.metadata.'' @ f @ '') || !('' @ SQ) @ k @
     ((SQ @ '' in object.metadata.'' @ f @ '')'') @ '' || '' @ (''object.metadata.'' @ f @ ''['' @ SQ)) @ k @ (SQ @ ''] != '' @ SQ) @ v @ SQ\<close>
  by (simp add: eq_text_def)

lemma ne_text_parts:
  \<open>ne_text f k v = (''has(object.metadata.'' @ f @ '') && '' @ SQ) @ k @
     ((SQ @ '' in object.metadata.'' @ f) @ '' && '' @ (''object.metadata.'' @ f @ ''['' @ SQ)) @ k @ (SQ @ ''] == '' @ SQ) @ v @ SQ\<close>
  by (simp add: ne_text_def)

lemma tidy_seven:
  "tidy a \<Longrightarrow> tidy k \<Longrightarrow> tidy m \<Longrightarrow> tidy b \<Longrightarrow> tidy v \<Longrightarrow> tidy c \<Longrightarrow> tidy (a @ k @ m @ k @ b @ v @ c)"
  by (intro tidy_append)

lemma tidy_label_texts:
  assumes "token k" "token v" "is_field f"
  shows "tidy (eq_text f k v)" "tidy (ne_text f k v)"
proof -
  have w: "tidy k" "tidy v" using assms tokenD(2) tidy_word by blast+
  show "tidy (eq_text f k v)" "tidy (ne_text f k v)"
    unfolding eq_text_parts ne_text_parts
    by (rule tidy_seven [OF _ w(1) _ _ w(2)]; use assms(3) in \<open>auto simp: tidy_lit is_field_def js_ws_def\<close>)+
qed

text \<open>
  The tail that both patterns end with. It matches where the literal starts and nowhere later:
  later there are too few quotes, or the first quote is at the wrong distance.
\<close>

definition tail_pattern :: "string \<Rightarrow> string \<Rightarrow> rx list" where
  \<open>tail_pattern u op = [Lit (u @ SQ), Plus not_quote, Lit op, Group not_quote, Lit SQ]\<close>

lemma tail_here:
  assumes "token k" "token v" "op = CHR 0x27 # op'"
  shows "rx_here (tail_pattern u op) ((u @ SQ) @ k @ op @ v @ SQ) = Some [v]"
proof -
  have q: "\<not> not_quote (CHR 0x27)" by (simp add: not_quote_def)
  have "rx_here [Group not_quote, Lit SQ] (v @ CHR 0x27 # []) = Some [v]"
    using assms(2) by (intro rx_Group tokenD q) simp_all
  then have "rx_here [Lit op, Group not_quote, Lit SQ] (op @ v @ SQ) = Some [v]"
    by (simp add: rx_Lit)
  then have "rx_here (Plus not_quote # [Lit op, Group not_quote, Lit SQ]) (k @ CHR 0x27 # (op' @ v @ SQ)) = Some [v]"
    using assms(1,3) by (intro rx_Plus tokenD q) simp_all
  then show ?thesis unfolding tail_pattern_def using assms(3) by (intro rx_Lit) simp
qed

lemma first_quote: "CHR 0x27 \<notin> set u \<Longrightarrow> length (takeWhile not_quote (u @ CHR 0x27 # s)) = length u"
  by (subst takeWhile_stop) (auto simp: not_quote_def)

lemma tail_nowhere_later:
  assumes "token k" "token v" "op = CHR 0x27 # op'" "count_list op (CHR 0x27) = 2" "CHR 0x27 \<notin> set u"
    and "0 < n"
  shows "rx_here (tail_pattern u op) (drop n ((u @ SQ) @ k @ op @ v @ SQ)) = None"
proof (rule ccontr)
  let ?s = "(u @ SQ) @ k @ op @ v @ SQ"
  assume "\<not> ?thesis"
  then obtain cs where cs: "rx_here (tail_pattern u op) (drop n ?s) = Some cs" by auto
  have zero: "count_list w (CHR 0x27) = 0" if "CHR 0x27 \<notin> set w" for w
    using that by (simp add: count_list_0_iff)
  have need: "4 \<le> count_list (drop n ?s) (CHR 0x27)"
    using rx_here_quotes [OF cs] assms(4,5) by (simp add: tail_pattern_def zero)
  show False
  proof (cases "n \<le> length u")
    case True
    then have "drop n ?s = drop n u @ CHR 0x27 # (k @ op @ v @ SQ)" by simp
    moreover have "CHR 0x27 \<notin> set (drop n u)" using assms(5) by (auto dest: in_set_dropD)
    ultimately have "length (takeWhile not_quote (drop n ?s)) = length u - n" by (simp add: first_quote)
    moreover obtain r where "drop n ?s = u @ CHR 0x27 # r"
      using cs by (auto simp: tail_pattern_def prefix_def split: if_splits)
    then have "length (takeWhile not_quote (drop n ?s)) = length u" using assms(5) by (simp add: first_quote)
    ultimately show False using True assms(6) by simp
  next
    case False
    define m where "m = n - Suc (length u)"
    have "n = Suc (length u) + m" using False by (simp add: m_def)
    then have "drop n ?s = drop m (k @ op @ v @ SQ)" by (simp add: drop_append del: append_assoc)
    then have "count_list (drop n ?s) (CHR 0x27) \<le> count_list (k @ op @ v @ SQ) (CHR 0x27)"
      using count_list_drop by metis
    also have "\<dots> = 3" using assms(1,2,4) tokenD(7) by (simp add: zero)
    finally show False using need by simp
  qed
qed

lemma star_tail:
  assumes "token k" "token v" "op = CHR 0x27 # op'" "count_list op (CHR 0x27) = 2" "CHR 0x27 \<notin> set u"
    and "\<forall>c \<in> set (w @ u @ op). any_char c"
  shows "rx_here (Star any_char # tail_pattern u op) (w @ (u @ SQ) @ k @ op @ v @ SQ) = Some [v]"
proof (rule rx_Star)
  show "\<forall>c \<in> set (w @ (u @ SQ) @ k @ op @ v @ SQ). any_char c"
    using assms(6) tokenD(4) [OF assms(1)] tokenD(4) [OF assms(2)]
    by (simp add: ball_Un any_char_def)
  show "rx_here (tail_pattern u op) ((u @ SQ) @ k @ op @ v @ SQ) = Some [v]"
    by (rule tail_here [OF assms(1-3)])
  show "rx_here (tail_pattern u op) (drop n ((u @ SQ) @ k @ op @ v @ SQ)) = None" if "0 < n" for n
    by (rule tail_nowhere_later [OF assms(1-5) that])
qed

lemma rx_search_free: "t \<noteq> [] \<Longrightarrow> hd t \<notin> set s \<Longrightarrow> rx_search (Lit t # r) s = None"
  using rx_search_skip_free [of t s r "[]"] by (simp add: rx_search.simps)

lemma eq_pattern_tail:
  \<open>eq_pattern f = [Lit (''!('' @ SQ), Group not_quote, Lit (SQ @ '' in object.metadata.'' @ f @ '')''), Star any_char]
     @ tail_pattern (''object.metadata.'' @ f @ ''['') (SQ @ ''] != '' @ SQ)\<close>
  by (simp add: eq_pattern_def tail_pattern_def)

lemma ne_pattern_tail:
  \<open>ne_pattern f = [Lit SQ, Group not_quote, Lit (SQ @ '' in object.metadata.'' @ f), Star any_char]
     @ tail_pattern (''object.metadata.'' @ f @ ''['') (SQ @ ''] == '' @ SQ)\<close>
  by (simp add: ne_pattern_def tail_pattern_def)

lemma eq_search:
  assumes "token k" "token v" "is_field f"
  shows "rx_search (eq_pattern f) (eq_text f k v) = Some [k, v]"
proof -
  let ?tail = "tail_pattern ((''object.metadata.'' @ f @ ''['')) ((SQ @ ''] != '' @ SQ))"
  let ?rest = "'' || '' @ ((''object.metadata.'' @ f @ ''['') @ SQ) @ k @ (SQ @ ''] != '' @ SQ) @ v @ SQ"
  have star: "rx_here (Star any_char # ?tail) ?rest = Some [v]"
    by (rule star_tail [OF assms(1,2), where op' = "''] != '' @ SQ"])
      (use assms(3) in \<open>auto simp: is_field_def any_char_def\<close>)
  then have "rx_here (Lit ((SQ @ '' in object.metadata.'' @ f @ '')'')) # Star any_char # ?tail)
      ((SQ @ '' in object.metadata.'' @ f @ '')'') @ ?rest) = Some [v]"
    by (rule rx_Lit)
  then have "rx_here (Group not_quote # Lit ((SQ @ '' in object.metadata.'' @ f @ '')'')) # Star any_char # ?tail)
      (k @ CHR 0x27 # ((('' in object.metadata.'') @ f @ '')'') @ ?rest)) = Some [k, v]"
    using assms(1) by (intro rx_Group tokenD) (auto simp: not_quote_def)
  then have "rx_here (eq_pattern f) ((''!('' @ SQ) @ k @ CHR 0x27 # ((('' in object.metadata.'') @ f @ '')'') @ ?rest)) = Some [k, v]"
    unfolding eq_pattern_tail by (simp add: rx_Lit)
  note here = rx_search_here [OF this]
  have W: "eq_text f k v = CHR ''!'' # ((''has(object.metadata.'' @ f @ '') || '')) @
      (''!('' @ SQ) @ k @ CHR 0x27 # ((('' in object.metadata.'') @ f @ '')'') @ ?rest)"
    by (simp add: eq_text_def)
  have p: "eq_pattern f = Lit ((''!('' @ SQ)) # tl (eq_pattern f)" by (simp add: eq_pattern_def)
  have "rx_search (eq_pattern f) (eq_text f k v) =
      rx_search (eq_pattern f) ((''!('' @ SQ) @ k @ CHR 0x27 # ((('' in object.metadata.'') @ f @ '')'') @ ?rest))"
    unfolding W by (subst (1 2) p, subst rx_search_skip, simp, subst rx_search_skip_free)
      (use assms(3) in \<open>auto simp: is_field_def\<close>)
  then show ?thesis using here by simp
qed

lemma ne_search:
  assumes "token k" "token v" "is_field f"
  shows "rx_search (ne_pattern f) (ne_text f k v) = Some [k, v]" "rx_search (eq_pattern f) (ne_text f k v) = None"
proof -
  let ?tail = "tail_pattern ((''object.metadata.'' @ f @ ''['')) ((SQ @ ''] == '' @ SQ))"
  let ?rest = "'' && '' @ ((''object.metadata.'' @ f @ ''['') @ SQ) @ k @ (SQ @ ''] == '' @ SQ) @ v @ SQ"
  have star: "rx_here (Star any_char # ?tail) ?rest = Some [v]"
    by (rule star_tail [OF assms(1,2), where op' = "''] == '' @ SQ"])
      (use assms(3) in \<open>auto simp: is_field_def any_char_def\<close>)
  then have "rx_here (Lit ((SQ @ '' in object.metadata.'' @ f)) # Star any_char # ?tail)
      ((SQ @ '' in object.metadata.'' @ f) @ ?rest) = Some [v]"
    by (rule rx_Lit)
  then have "rx_here (Group not_quote # Lit ((SQ @ '' in object.metadata.'' @ f)) # Star any_char # ?tail)
      (k @ CHR 0x27 # ((('' in object.metadata.'') @ f) @ ?rest)) = Some [k, v]"
    using assms(1) by (intro rx_Group tokenD) (auto simp: not_quote_def)
  then have "rx_here (ne_pattern f) (SQ @ k @ CHR 0x27 # ((('' in object.metadata.'') @ f) @ ?rest)) = Some [k, v]"
    unfolding ne_pattern_tail by (simp add: rx_Lit)
  note here = rx_search_here [OF this]
  have W: "ne_text f k v = ((''has(object.metadata.'' @ f @ '') && '')) @
      SQ @ k @ CHR 0x27 # ((('' in object.metadata.'') @ f) @ ?rest)"
    by (simp add: ne_text_def)
  have p: "ne_pattern f = Lit SQ # tl (ne_pattern f)" by (simp add: ne_pattern_def)
  have "rx_search (ne_pattern f) (ne_text f k v) =
      rx_search (ne_pattern f) (SQ @ k @ CHR 0x27 # ((('' in object.metadata.'') @ f) @ ?rest))"
    unfolding W by (subst (1 2) p, subst rx_search_skip_free)
      (use assms(3) in \<open>auto simp: is_field_def\<close>)
  then show "rx_search (ne_pattern f) (ne_text f k v) = Some [k, v]" using here by simp
  have "CHR ''!'' \<notin> set (ne_text f k v)"
    using assms tokenD(5) by (auto simp: ne_text_def is_field_def)
  then show "rx_search (eq_pattern f) (ne_text f k v) = None"
    unfolding eq_pattern_def by (intro rx_search_free) simp_all
qed

lemma sublist_around:
  assumes "sublist (a @ c # b) (x @ c # y)" "c \<notin> set x" "c \<notin> set y"
  shows "suffix a x"
proof -
  obtain p s where "x @ c # y = (p @ a) @ c # (b @ s)"
    using assms(1) by (auto simp: sublist_def)
  then have "x = p @ a" using assms(2,3) by (metis append_Cons_eq_iff)
  then show ?thesis by (simp add: suffix_def)
qed

lemma suffix_end: "suffix (u @ w) (x @ w') \<Longrightarrow> length w = length w' \<Longrightarrow> w = w'"
  by (auto simp: suffix_def append_assoc [symmetric] simp del: append_assoc)

text \<open>A text whose only bracket follows one field does not mention the other field's bracket.\<close>

lemma no_other_field:
  assumes "is_field f" "is_field g" "f \<noteq> g" "CHR ''['' \<notin> set x" "CHR ''['' \<notin> set y"
  shows "\<not> sublist ((''object.metadata.'' @ g @ ''['' @ SQ)) ((x @ f) @ CHR ''['' # y)"
proof
  have f: "CHR ''['' \<notin> set f" using assms(1) by (auto simp: is_field_def)
  assume "sublist ((''object.metadata.'' @ g @ ''['' @ SQ)) ((x @ f) @ CHR ''['' # y)"
  then have "sublist (((''object.metadata.'' @ g)) @ CHR ''['' # SQ) ((x @ f) @ CHR ''['' # y)" by simp
  then have s: "suffix (''object.metadata.'' @ g) (x @ f)"
    by (rule sublist_around) (use assms f in auto)
  show False
  proof (cases "f = ''labels''")
    case True
    then have "g = ''annot'' @ ''ations''" using assms by (auto simp: is_field_def)
    then show False using s True suffix_end [of "''object.metadata.annot''" "''ations''" x "''labels''"] by simp
  next
    case False
    then have "f = ''annot'' @ ''ations''" "g = ''labels''" using assms by (auto simp: is_field_def)
    then show False using s suffix_end [of "''object.metadata.''" "''labels''" "x @ ''annot''" "''ations''"] by simp
  qed
qed

lemma other_field:
  assumes "token k" "token v" "is_field f" "is_field g" "f \<noteq> g"
  shows "rx_search (eq_pattern g) (eq_text f k v) = None" "rx_search (eq_pattern g) (ne_text f k v) = None"
    "rx_search (ne_pattern g) (eq_text f k v) = None" "rx_search (ne_pattern g) (ne_text f k v) = None"
proof -
  let ?l = "(''object.metadata.'' @ g @ ''['' @ SQ)"
  have b: "CHR ''['' \<notin> set k" "CHR ''['' \<notin> set v" "CHR ''['' \<notin> set f"
    using assms tokenD(6) by (auto simp: is_field_def)
  have e: "eq_text f k v = (((''!has(object.metadata.'' @ f @ '') || !('' @ SQ) @ k @ (SQ @ '' in object.metadata.'' @ f @ '') || object.metadata.'')) @ f) @
        CHR ''['' # (SQ @ k @ (SQ @ ''] != '' @ SQ) @ v @ SQ)" by (simp add: eq_text_def)
  have n: "ne_text f k v = (((''has(object.metadata.'' @ f @ '') && '' @ SQ) @ k @ (SQ @ '' in object.metadata.'' @ f @ '' && object.metadata.'')) @ f) @
        CHR ''['' # (SQ @ k @ (SQ @ ''] == '' @ SQ) @ v @ SQ)" by (simp add: ne_text_def)
  have "\<not> sublist ?l (eq_text f k v)" "\<not> sublist ?l (ne_text f k v)"
    unfolding e n by (rule no_other_field [OF assms(3-5)]; simp add: b)+
  moreover have "Lit ?l \<in> set (eq_pattern g)" "Lit ?l \<in> set (ne_pattern g)"
    by (simp_all add: eq_pattern_def ne_pattern_def)
  ultimately show "rx_search (eq_pattern g) (eq_text f k v) = None" "rx_search (eq_pattern g) (ne_text f k v) = None"
    "rx_search (ne_pattern g) (eq_text f k v) = None" "rx_search (ne_pattern g) (ne_text f k v) = None"
    using rx_search_None by blast+
qed

text \<open>The readers on what the generator wrote.\<close>

lemma label_readback:
  assumes "token (lr_key r)" "token (lr_value r)" "is_field f"
  shows "parse_label_expr f (folded (label_expr f r)) m = Some (r\<lparr> lr_message := m \<rparr>)"
proof (cases "lr_condition r")
  case CondEq
  then show ?thesis
    by (simp add: parse_label_expr_def folded_label_expr [OF assms(1,2)] eq_search norm_ws_tidy
        tidy_label_texts assms)
next
  case CondNe
  then show ?thesis
    by (simp add: parse_label_expr_def folded_label_expr [OF assms(1,2)] ne_search norm_ws_tidy
        tidy_label_texts assms)
qed

lemma label_not_other:
  assumes "token (lr_key r)" "token (lr_value r)" "is_field f" "is_field g" "f \<noteq> g"
  shows "parse_label_expr g (folded (label_expr f r)) m = None"
  by (cases "lr_condition r")
    (simp_all add: parse_label_expr_def folded_label_expr [OF assms(1,2)] other_field norm_ws_tidy
      tidy_label_texts assms)

section \<open>The other rule kinds\<close>

lemma tidy_join_and:
  "\<forall>w \<in> set ws. tidy w \<and> w \<noteq> [] \<Longrightarrow> tidy (join_with '' && '' ws)"
proof (induction ws rule: induct_list012)
  case (3 x y ws)
  have "join_with '' && '' (y # ws) \<noteq> []" using 3(3) by (cases ws) auto
  moreover have "tidy (join_with '' && '' (y # ws))" using 3 by simp
  moreover have "tidy x" "x \<noteq> []" using 3(3) by auto
  ultimately have "tidy (x @ '' '' @ ''&&'' @ '' '' @ join_with '' && '' (y # ws))"
    by (intro tidy_blank) (auto simp: tidy_lit js_ws_def)
  then show ?case by simp
qed (auto simp: tidy_def)

text \<open>Two characters that never follow each other in a text; a text with them is not inside it.\<close>

definition pair_free :: "char \<Rightarrow> char \<Rightarrow> string \<Rightarrow> bool" where
  "pair_free x y s \<longleftrightarrow> successively (\<lambda>a b. \<not> (a = x \<and> b = y)) s"

lemma pair_free_append:
  "pair_free x y (s @ t) \<longleftrightarrow> pair_free x y s \<and> pair_free x y t \<and> \<not> (s \<noteq> [] \<and> t \<noteq> [] \<and> last s = x \<and> hd t = y)"
  by (auto simp: pair_free_def successively_append_iff)

lemma pair_free_sublist: "sublist t s \<Longrightarrow> pair_free x y s \<Longrightarrow> pair_free x y t"
  by (auto simp: sublist_def pair_free_append)

lemma absent_pair: "pair_free x y s \<Longrightarrow> \<not> pair_free x y t \<Longrightarrow> \<not> sublist t s"
  using pair_free_sublist by blast

lemma absent_pair_at: "pair_free x y s \<Longrightarrow> \<not> sublist (a @ x # y # b) s"
proof
  assume "pair_free x y s" "sublist (a @ x # y # b) s"
  then have "pair_free x y (a @ x # y # b)" by (rule pair_free_sublist [rotated])
  then show False unfolding pair_free_append by (simp add: pair_free_def)
qed

lemma absent_char: "c \<in> set t \<Longrightarrow> c \<notin> set s \<Longrightarrow> \<not> sublist t s"
  using set_mono_sublist by blast

lemma pair_free_join:
  "\<forall>w \<in> set ws. pair_free x y w \<Longrightarrow> x \<notin> set '' && '' \<Longrightarrow> y \<notin> set '' && '' \<Longrightarrow> pair_free x y (join_with '' && '' ws)"
proof (induction ws rule: induct_list012)
  case (3 a b ws)
  have "pair_free x y '' && ''" using 3(4,5) by (auto simp: pair_free_def)
  moreover have "pair_free x y (join_with '' && '' (b # ws))" "pair_free x y a" using 3 by simp_all
  moreover have "last '' && '' \<noteq> x" "hd ('' && '' @ r) \<noteq> y" for r using 3(4,5) by auto
  ultimately show ?case unfolding join_with.simps pair_free_append by simp
qed (auto simp: pair_free_def)

lemma sublist_first: "sublist t w \<Longrightarrow> sublist t (join_with s (w # ws))"
  by (cases ws) (auto intro: sublist_appendI sublist_order.order_trans)

text \<open>The containers of a workload in one line.\<close>

definition pod_places :: "bool \<Rightarrow> string list" where
  \<open>pod_places e = [''object.spec.?containers.orValue([]).'', ''object.spec.?initContainers.orValue([]).'']
     @ (if e then [''object.spec.?ephemeralContainers.orValue([]).''] else [])\<close>

definition tmpl_places :: "string list" where
  \<open>tmpl_places = [''object.spec.?template.?spec.?containers.orValue([]).'',
     ''object.spec.?template.?spec.?initContainers.orValue([]).'']\<close>

definition job_places :: "string list" where
  \<open>job_places = [''object.spec.?jobTemplate.?spec.?template.?spec.?containers.orValue([]).'',
     ''object.spec.?jobTemplate.?spec.?template.?spec.?initContainers.orValue([]).'']\<close>

definition container_words :: "bool \<Rightarrow> string \<Rightarrow> string \<Rightarrow> string \<Rightarrow> string list" where
  "container_words e p t j = map (\<lambda>l. l @ p) (pod_places e) @ map (\<lambda>l. l @ t) tmpl_places @ map (\<lambda>l. l @ j) job_places"

lemmas places_defs = pod_places_def tmpl_places_def job_places_def

lemma folded_containers: "folded (container_lines e p t j) = join_with '' && '' (container_words e p t j)"
  by (simp add: folded_def container_lines_def container_words_def places_defs)

lemma places_tidy: "\<forall>l \<in> set (pod_places e) \<union> set tmpl_places \<union> set job_places. tidy l"
  by (auto simp: places_defs tidy_lit js_ws_def)

lemma places_ne: "\<forall>l \<in> set (pod_places e) \<union> set tmpl_places \<union> set job_places. l \<noteq> []"
  by (auto simp: places_defs)

lemma tidy_containers:
  assumes "tidy p" "tidy t" "tidy j"
  shows "tidy (join_with '' && '' (container_words e p t j))"
proof (rule tidy_join_and)
  show "\<forall>w \<in> set (container_words e p t j). tidy w \<and> w \<noteq> []"
    using assms places_tidy [of e] places_ne [of e] by (auto simp: container_words_def tidy_append)
qed

lemma pair_free_containers:
  assumes "pair_free x y p" "pair_free x y t" "pair_free x y j" "x \<notin> set '' && ''" "y \<notin> set '' && ''"
    and "\<forall>l \<in> set (pod_places e) \<union> set tmpl_places \<union> set job_places. pair_free x y l" "x \<noteq> CHR ''.''"
  shows "pair_free x y (join_with '' && '' (container_words e p t j))"
proof (rule pair_free_join [OF _ assms(4,5)])
  have "\<forall>l \<in> set (pod_places e) \<union> set tmpl_places \<union> set job_places. last l = CHR ''.''"
    by (auto simp: places_defs)
  then show "\<forall>w \<in> set (container_words e p t j). pair_free x y w"
    using assms by (auto simp: container_words_def pair_free_append)
qed

lemma chars_containers:
  "set (join_with '' && '' (container_words e p t j)) \<subseteq>
     set '' && '' \<union> set p \<union> set t \<union> set j \<union> \<Union> (set ` (set (pod_places e) \<union> set tmpl_places \<union> set job_places))"
  by (rule subset_trans [OF set_join_with]) (auto simp: container_words_def)

lemma prefix_containers: "prefix ''object.spec.?containers'' (join_with '' && '' (container_words e p t j))"
  by (simp add: container_words_def places_defs)

lemma check_in_containers: "sublist w p \<Longrightarrow> sublist w (join_with '' && '' (container_words e p t j))"
proof -
  assume "sublist w p"
  then have s: "sublist w (hd (pod_places e) @ p)" by (auto simp: sublist_def) (metis append_assoc)
  have "container_words e p t j = (hd (pod_places e) @ p) # tl (container_words e p t j)"
    by (simp add: container_words_def places_defs)
  then show ?thesis using sublist_first [OF s] by metis
qed

section \<open>Every rule kind is read by its own reader\<close>

text \<open>What no reader but the right one finds.\<close>

lemma no_quote_not_label:
  assumes "tidy e" "pair_free (CHR ''['') (CHR 0x27) e"
  shows "parseExpressionToRule e m = None" "parseExpressionToAnnotationRule e m = None"
proof -
  have s: "\<not> sublist ((''object.metadata.'' @ f @ ''['' @ SQ)) e" for f
    using absent_pair_at [OF assms(2), of "''object.metadata.'' @ f" "[]"] by simp
  have "rx_search (eq_pattern f) e = None" for f
    by (rule rx_search_None [OF _ s [of f]]) (simp add: eq_pattern_def)
  moreover have "rx_search (ne_pattern f) e = None" for f
    by (rule rx_search_None [OF _ s [of f]]) (simp add: ne_pattern_def)
  ultimately have "parse_label_expr f e m = None" for f
    by (simp add: parse_label_expr_def norm_ws_tidy assms(1))
  then show "parseExpressionToRule e m = None" "parseExpressionToAnnotationRule e m = None"
    by (simp_all add: parseExpressionToRule_def parseExpressionToAnnotationRule_def)
qed

lemma no_quote_not_image:
  assumes "tidy e" "CHR 0x27 \<notin> set e"
  shows "parseExpressionToImageRule e m = None"
proof -
  have n: "\<not> sublist t e" if "CHR 0x27 \<in> set t" for t using that assms(2) by (rule absent_char)
  have "rx_search [Lit ((''c.image.lowerAscii().startsWith('' @ SQ)), Group not_quote, Lit ((SQ @ '')''))] e = None"
    by (rule rx_search_None [OF _ n [of "(''c.image.lowerAscii().startsWith('' @ SQ)"]]) simp_all
  moreover have "\<not> sublist ((''!c.image.endsWith('' @ SQ @ '':latest'' @ SQ @ '')'')) e" by (rule n) simp
  ultimately show ?thesis by (simp add: parseExpressionToImageRule_def norm_ws_tidy assms(1))
qed

lemma not_replica:
  assumes "tidy e" "\<not> prefix ''request.resource'' e" "\<not> prefix ''object.spec.replicas'' e"
  shows "parseExpressionToReplicaRule e m = None"
proof -
  have "\<not> prefix (''request.resource'' @ s) e" for s
    using assms(2) append_prefixD by blast
  from this [of "(''.resource != '' @ SQ @ ''deployments'' @ SQ @ '' || object.spec.replicas <= '')"]
    this [of "(''.resource != '' @ SQ @ ''statefulsets'' @ SQ @ '' || object.spec.replicas <= '')"] assms(3)
  show ?thesis by (simp add: parseExpressionToReplicaRule_def rx_whole_def norm_ws_tidy assms(1))
qed

lemma no_im_not_limit:
  assumes "tidy e" "pair_free (CHR ''i'') (CHR ''m'') e"
  shows "parseExpressionToResourceLimitRule e m = None"
proof -
  have "\<not> sublist ''has(c.resources.limits'' e"
    using absent_pair_at [OF assms(2), of "''has(c.resources.l''" "''its''"] by simp
  then show ?thesis by (simp add: parseExpressionToResourceLimitRule_def norm_ws_tidy assms(1))
qed

subsection \<open>Resource limits\<close>

lemma places_chars: "\<forall>l \<in> set (pod_places e) \<union> set tmpl_places \<union> set job_places.
    list_all (\<lambda>c. c \<notin> {CHR 0x27, CHR ''='', CHR ''y'', CHR '':'', CHR ''!''}) l"
  by (auto simp: places_defs)

lemma places_pairs: "\<forall>l \<in> set (pod_places e) \<union> set tmpl_places \<union> set job_places.
    pair_free (CHR ''['') (CHR 0x27) l \<and> pair_free (CHR ''i'') (CHR ''m'') l \<and>
    pair_free (CHR ''c'') (CHR ''p'') l \<and> pair_free (CHR ''p'') (CHR ''r'') l"
  by (auto simp: places_defs pair_free_def)

lemma resource_check_facts:
  "tidy (resource_limit_check t)" "CHR 0x27 \<notin> set (resource_limit_check t)"
  "pair_free (CHR ''['') (CHR 0x27) (resource_limit_check t)"
  by (cases t; simp add: resource_limit_check_def tidy_lit js_ws_def pair_free_def)+

end
