(* ===== verification/VapKinds.thy ===== *)
theory VapKinds
  imports VapReadback
begin

text \<open>
  One validation of a generated policy, read back: for every rule kind, the reader that takes it
  is its own and what it reads is the rule. \<open>validation\<close> is the object the YAML of one rule's
  lines spells.
\<close>

definition validation :: "string \<Rightarrow> string \<Rightarrow> jsval" where
  "validation expr msg = JObj [(''expression'', JStr expr), (''message'', JStr msg), (''reason'', JStr ''Forbidden'')]"

lemma read_validation_unfold:
  "read_validation (validation e m) acc =
    (case parseExpressionToRule e m of
       Some r \<Rightarrow> Some (acc\<lparr> p_labels := p_labels acc @ [r] \<rparr>)
     | None \<Rightarrow> (case parseExpressionToAnnotationRule e m of
       Some r \<Rightarrow> Some (acc\<lparr> p_annotations := p_annotations acc @ [r] \<rparr>)
     | None \<Rightarrow> (case parseExpressionToImageRule e m of
       Some r \<Rightarrow> Some (acc\<lparr> p_images := p_images acc @ [r] \<rparr>)
     | None \<Rightarrow> (case parseExpressionToReplicaRule e m of
       Some r \<Rightarrow> Some (acc\<lparr> p_replicas := p_replicas acc @ [r] \<rparr>)
     | None \<Rightarrow> (case parseExpressionToResourceLimitRule e m of
       Some r \<Rightarrow> Some (acc\<lparr> p_limits := p_limits acc @ [r] \<rparr>)
     | None \<Rightarrow> (case parseExpressionToSecurityContextPart e of
       Some p \<Rightarrow> Some (acc\<lparr> p_parts := p_parts acc @ [(p, m)] \<rparr>)
     | None \<Rightarrow> (case parseExpressionToHostAccessPart e of
       Some h \<Rightarrow> Some (acc\<lparr> p_host := Some \<lparr> ha_checkType = h, ha_message = m \<rparr> \<rparr>)
     | None \<Rightarrow> None)))))))"
  by (simp add: read_validation_def validation_def text_or_empty_def)

section \<open>Resource limits\<close>

definition limits_text :: "resource_limit \<Rightarrow> string" where
  "limits_text t = (let c = resource_limit_check t in join_with '' && '' (container_words False c c c))"

lemma limits_text_facts:
  "tidy (limits_text t)" "CHR 0x27 \<notin> set (limits_text t)" "pair_free (CHR ''['') (CHR 0x27) (limits_text t)"
proof -
  show "tidy (limits_text t)"
    unfolding limits_text_def Let_def by (intro tidy_containers resource_check_facts)
  show "CHR 0x27 \<notin> set (limits_text t)"
    using chars_containers [of False "resource_limit_check t" "resource_limit_check t" "resource_limit_check t"]
      resource_check_facts(2) [of t] places_chars [of False]
    by (auto simp: limits_text_def Let_def list_all_iff)
  show "pair_free (CHR ''['') (CHR 0x27) (limits_text t)"
    unfolding limits_text_def Let_def
    by (rule pair_free_containers) (use resource_check_facts(3) places_pairs in auto)
qed

lemma containers_not_replica:
  "tidy (join_with '' && '' (container_words e p t j)) \<Longrightarrow>
   parseExpressionToReplicaRule (join_with '' && '' (container_words e p t j)) m = None"
proof (rule not_replica)
  let ?s = "join_with '' && '' (container_words e p t j)"
  have "prefix ''object.spec.?containers'' ?s" by (rule prefix_containers)
  then show "\<not> prefix ''request.resource'' ?s" "\<not> prefix ''object.spec.replicas'' ?s"
    by (auto simp: prefix_def)
qed

lemma limits_readback:
  "parseExpressionToResourceLimitRule (limits_text t) m = Some \<lparr> limitType = t, rl_message = m \<rparr>"
proof -
  have ch: "sublist w (limits_text t)" if "sublist w (resource_limit_check t)" for w
    unfolding limits_text_def Let_def using that by (rule check_in_containers)
  have y: "CHR ''y'' \<notin> set (limits_text CpuLimit)"
    using chars_containers [of False "resource_limit_check CpuLimit" "resource_limit_check CpuLimit" "resource_limit_check CpuLimit"]
      places_chars [of False]
    by (auto simp: limits_text_def Let_def list_all_iff resource_limit_check_def)
  have p: "pair_free (CHR ''c'') (CHR ''p'') (limits_text MemoryLimit)"
    unfolding limits_text_def Let_def
    by (rule pair_free_containers) (use places_pairs in \<open>auto simp: resource_limit_check_def pair_free_def\<close>)
  have in_check: "sublist (''has(c.resources.limits'') (resource_limit_check t)"
    "t \<noteq> MemoryLimit \<Longrightarrow> sublist (''has(c.resources.limits.cpu)'') (resource_limit_check t)"
    "t \<noteq> CpuLimit \<Longrightarrow> sublist (''has(c.resources.limits.memory)'') (resource_limit_check t)"
    by (cases t; simp add: resource_limit_check_def sublist_code)+
  have no_mem: "\<not> sublist (''has(c.resources.limits.memory)'') (limits_text CpuLimit)"
    by (rule absent_char [OF _ y]) simp
  have no_cpu: "\<not> sublist (''has(c.resources.limits.cpu)'') (limits_text MemoryLimit)"
    using absent_pair_at [OF p, of "''has(c.resources.limits.''" "''u)''"] by simp
  show ?thesis
    using no_mem no_cpu in_check [THEN ch]
    by (cases t) (simp_all add: parseExpressionToResourceLimitRule_def norm_ws_tidy limits_text_facts Let_def)
qed

section \<open>Security context\<close>

definition privileged_text :: string where
  "privileged_text = join_with '' && '' (container_words True PRIVILEGED_CHECK PRIVILEGED_CHECK PRIVILEGED_CHECK)"

definition non_root_text :: string where
  "non_root_text = join_with '' && '' (container_words True (non_root_check []) (non_root_check ''?template.?spec.'')
     (non_root_check ''?jobTemplate.?spec.?template.?spec.''))"

lemma privileged_check_facts:
  "tidy PRIVILEGED_CHECK" "CHR 0x27 \<notin> set PRIVILEGED_CHECK" "pair_free (CHR ''['') (CHR 0x27) PRIVILEGED_CHECK"
  "pair_free (CHR ''i'') (CHR ''m'') PRIVILEGED_CHECK"
  by (simp_all add: PRIVILEGED_CHECK_def tidy_lit js_ws_def pair_free_def)

lemma non_root_check_facts:
  assumes "q \<in> {[], ''?template.?spec.'', ''?jobTemplate.?spec.?template.?spec.''}"
  shows "tidy (non_root_check q)" "CHR 0x27 \<notin> set (non_root_check q)"
    "pair_free (CHR ''['') (CHR 0x27) (non_root_check q)" "pair_free (CHR ''i'') (CHR ''m'') (non_root_check q)"
    "pair_free (CHR ''p'') (CHR ''r'') (non_root_check q)"
  using assms by (auto simp: non_root_check_def tidy_lit js_ws_def pair_free_def)

lemma privileged_text_facts:
  "tidy privileged_text" "CHR 0x27 \<notin> set privileged_text" "pair_free (CHR ''['') (CHR 0x27) privileged_text"
  "pair_free (CHR ''i'') (CHR ''m'') privileged_text"
proof -
  show "tidy privileged_text"
    unfolding privileged_text_def by (intro tidy_containers privileged_check_facts)
  show "CHR 0x27 \<notin> set privileged_text"
    using chars_containers [of True PRIVILEGED_CHECK PRIVILEGED_CHECK PRIVILEGED_CHECK]
      privileged_check_facts(2) places_chars [of True]
    by (auto simp: privileged_text_def list_all_iff)
  show "pair_free (CHR ''['') (CHR 0x27) privileged_text" "pair_free (CHR ''i'') (CHR ''m'') privileged_text"
    unfolding privileged_text_def
    by (rule pair_free_containers; use privileged_check_facts places_pairs in auto)+
qed

lemma non_root_text_facts:
  "tidy non_root_text" "CHR 0x27 \<notin> set non_root_text" "pair_free (CHR ''['') (CHR 0x27) non_root_text"
  "pair_free (CHR ''i'') (CHR ''m'') non_root_text" "pair_free (CHR ''p'') (CHR ''r'') non_root_text"
proof -
  show "tidy non_root_text"
    unfolding non_root_text_def by (intro tidy_containers non_root_check_facts) auto
  show "CHR 0x27 \<notin> set non_root_text"
    using chars_containers [of True "non_root_check []" "non_root_check ''?template.?spec.''"
        "non_root_check ''?jobTemplate.?spec.?template.?spec.''"]
      non_root_check_facts(2) places_chars [of True]
    by (auto simp: non_root_text_def list_all_iff)
  show "pair_free (CHR ''['') (CHR 0x27) non_root_text" "pair_free (CHR ''i'') (CHR ''m'') non_root_text"
    "pair_free (CHR ''p'') (CHR ''r'') non_root_text"
    unfolding non_root_text_def
    by (rule pair_free_containers; use non_root_check_facts places_pairs in auto)+
qed

lemma security_readback:
  "parseExpressionToSecurityContextPart privileged_text = Some PartNoPrivileged"
  "parseExpressionToSecurityContextPart non_root_text = Some PartRunAsNonRoot"
proof -
  have "sublist (''c.securityContext.privileged == false'') PRIVILEGED_CHECK"
    by (simp add: PRIVILEGED_CHECK_def sublist_code)
  then have "sublist (''c.securityContext.privileged == false'') privileged_text"
    unfolding privileged_text_def by (rule check_in_containers)
  then show "parseExpressionToSecurityContextPart privileged_text = Some PartNoPrivileged"
    by (simp add: parseExpressionToSecurityContextPart_def norm_ws_tidy privileged_text_facts)
  have "\<not> sublist (''c.securityContext.privileged == false'') non_root_text"
    using absent_pair_at [OF non_root_text_facts(5), of "''c.securityContext.''" "''ivileged == false''"] by simp
  moreover have "sublist (''c.?securityContext.?runAsNonRoot.orValue('') (non_root_check [])"
    by (simp add: non_root_check_def sublist_code)
  then have "sublist (''c.?securityContext.?runAsNonRoot.orValue('') non_root_text"
    unfolding non_root_text_def by (rule check_in_containers)
  ultimately show "parseExpressionToSecurityContextPart non_root_text = Some PartRunAsNonRoot"
    by (simp add: parseExpressionToSecurityContextPart_def norm_ws_tidy non_root_text_facts)
qed

section \<open>Host access\<close>

lemma host_word_tidy: "f \<in> {''hostNetwork'', ''hostPID'', ''hostIPC''} \<Longrightarrow> tidy (host_path_check f) \<and> host_path_check f \<noteq> []"
  unfolding host_path_check_def
  by (rule conjI [OF tidy_join_and]) (auto simp: tidy_lit js_ws_def)

lemma tidy_host_expr: "tidy (host_expr c)"
  unfolding host_expr_def by (rule tidy_join_and) (use host_word_tidy in auto)

definition HOST_CHARS :: "char set" where
  "HOST_CHARS = set ''!object.spec.?template.?spec.?jobTemplate.orValue(false) && ''"

lemma host_chars: "set (host_path_check f) \<subseteq> HOST_CHARS \<union> set f"
  unfolding host_path_check_def HOST_CHARS_def by (rule subset_trans [OF set_join_with]) auto

definition host_fields :: "host_check \<Rightarrow> string list" where
  "host_fields c = (if c = NoHostNetwork \<or> c = AllHost then [''hostNetwork''] else [])
      @ (if c = NoHostPid \<or> c = AllHost then [''hostPID''] else [])
      @ (if c = NoHostIpc \<or> c = AllHost then [''hostIPC''] else [])"

lemma host_expr_fields: "host_expr c = join_with '' && '' (map host_path_check (host_fields c))"
  by (simp add: host_expr_def host_fields_def)

lemma host_expr_chars: "set (host_expr c) \<subseteq> HOST_CHARS \<union> \<Union> (set ` set (host_fields c))"
proof -
  have "set '' && '' \<subseteq> HOST_CHARS" by (simp add: HOST_CHARS_def)
  then show ?thesis unfolding host_expr_fields
    using host_chars by (intro subset_trans [OF set_join_with]) fastforce
qed

lemma host_char_absent:
  "x \<notin> HOST_CHARS \<Longrightarrow> \<forall>f \<in> set (host_fields c). x \<notin> set f \<Longrightarrow> x \<notin> set (host_expr c)"
  using host_expr_chars [of c] by auto

lemma host_start: "host_expr c \<noteq> [] \<and> hd (host_expr c) = CHR ''!''"
proof -
  have "host_path_check f \<noteq> [] \<and> hd (host_path_check f) = CHR ''!''" for f by (simp add: host_path_check_def)
  then show ?thesis unfolding host_expr_fields host_fields_def by (cases c) simp_all
qed

lemma host_pair: "pair_free (CHR ''i'') (CHR ''m'') (host_expr c)"
proof -
  have "pair_free (CHR ''i'') (CHR ''m'') (host_path_check f)" if "f \<in> set (host_fields c)" for f
    unfolding host_path_check_def
    by (rule pair_free_join) (use that in \<open>auto simp: host_fields_def pair_free_def split: if_splits\<close>)
  then show ?thesis unfolding host_expr_fields by (intro pair_free_join) auto
qed

lemma host_field_sublist: "sublist f (host_path_check f)"
proof -
  have "sublist f ((''!object.spec.?'' @ f @ ''.orValue(false)''))" by (auto simp: sublist_def) (metis append_Cons append_Nil)
  then show ?thesis unfolding host_path_check_def by (rule sublist_first)
qed

lemma sublist_later: "sublist w t \<Longrightarrow> sublist w (a @ t)"
  by (meson sublist_order.order_trans suffixI suffix_imp_sublist)

lemma sublist_member: "w \<in> set ws \<Longrightarrow> sublist w (join_with s ws)"
proof (induction ws rule: induct_list012)
  case (3 x y ws)
  show ?case
  proof (cases "w = x")
    case False
    then have "sublist w (join_with s (y # ws))" using 3 by auto
    then show ?thesis by (simp add: sublist_later)
  qed (simp add: sublist_appendI [of w "[]", simplified])
qed auto

lemma host_field_in: "f \<in> set (host_fields c) \<Longrightarrow> sublist f (host_expr c)"
  unfolding host_expr_fields
  by (rule sublist_order.order_trans [OF host_field_sublist sublist_member]) simp

lemma tidy_host: "tidy (host_expr c)"
  by (rule tidy_host_expr)

lemma host_readback: "parseExpressionToHostAccessPart (host_expr c) = Some c"
proof -
  have n: "CHR ''N'' \<notin> HOST_CHARS" "CHR ''D'' \<notin> HOST_CHARS" "CHR ''C'' \<notin> HOST_CHARS" by (simp_all add: HOST_CHARS_def)
  have net: "sublist ''hostNetwork'' (host_expr c) \<longleftrightarrow> c = NoHostNetwork \<or> c = AllHost"
    using host_field_in [of "''hostNetwork''" c] absent_char [of "CHR ''N''" "''hostNetwork''" "host_expr c"]
      host_char_absent [OF n(1), of c] by (cases c) (auto simp: host_fields_def)
  have pid: "sublist ''hostPID'' (host_expr c) \<longleftrightarrow> c = NoHostPid \<or> c = AllHost"
    using host_field_in [of "''hostPID''" c] absent_char [of "CHR ''D''" "''hostPID''" "host_expr c"]
      host_char_absent [OF n(2), of c] by (cases c) (auto simp: host_fields_def)
  have ipc: "sublist ''hostIPC'' (host_expr c) \<longleftrightarrow> c = NoHostIpc \<or> c = AllHost"
    using host_field_in [of "''hostIPC''" c] absent_char [of "CHR ''C''" "''hostIPC''" "host_expr c"]
      host_char_absent [OF n(3), of c] by (cases c) (auto simp: host_fields_def)
  show ?thesis
    using net pid ipc
    by (cases c) (simp_all add: parseExpressionToHostAccessPart_def norm_ws_tidy tidy_host Let_def)
qed

lemma host_not_security: "parseExpressionToSecurityContextPart (host_expr c) = None"
proof -
  have y: "CHR ''y'' \<notin> set (host_expr c)"
    by (rule host_char_absent) (auto simp: HOST_CHARS_def host_fields_def)
  have "\<not> sublist t (host_expr c)" if "CHR ''y'' \<in> set t" for t
    by (rule absent_char [OF that y])
  then show ?thesis by (simp add: parseExpressionToSecurityContextPart_def norm_ws_tidy tidy_host)
qed

lemma host_quote: "CHR 0x27 \<notin> set (host_expr c)" and host_bracket: "pair_free (CHR ''['') (CHR 0x27) (host_expr c)"
proof -
  show q: "CHR 0x27 \<notin> set (host_expr c)" by (rule host_char_absent) (auto simp: HOST_CHARS_def host_fields_def)
  have "y \<notin> set s \<Longrightarrow> pair_free x y s" for x y s
    by (induction s) (auto simp: pair_free_def successively_Cons)
  with q show "pair_free (CHR ''['') (CHR 0x27) (host_expr c)" by blast
qed

section \<open>Images\<close>

text \<open>Registry names the form is for: hosts, ports and repository paths.\<close>

definition registry_char :: "char \<Rightarrow> bool" where
  "registry_char c \<longleftrightarrow> token_char c \<or> c = CHR '':''"

definition registry_name :: "string \<Rightarrow> bool" where
  "registry_name s \<longleftrightarrow> s \<noteq> [] \<and> (\<forall>c \<in> set s. registry_char c)"

lemma registry_char_lower: "registry_char c \<Longrightarrow> registry_char (char_lower c)"
proof -
  have "is_lower (char_lower c)" if "is_upper c"
    using that by (auto simp: is_upper_def is_lower_def char_lower_def Let_def)
  moreover have "char_lower c = c" if "\<not> is_upper c" "registry_char c"
    using that by (auto simp: registry_char_def token_char_def alnum_def is_upper_def is_lower_def is_digit_def
        char_lower_def Let_def)
  ultimately show "registry_char c \<Longrightarrow> ?thesis"
    by (cases "is_upper c") (auto simp: registry_char_def token_char_def alnum_def)
qed

lemma registry_charD:
  "registry_char c \<Longrightarrow> \<not> js_ws c \<and> not_quote c \<and> c \<noteq> CHR 0x5C \<and> c \<noteq> CHR 0x27 \<and> c \<noteq> CHR ''!'' \<and> c \<noteq> CHR ''[''"
  using token_char_not [of c] by (auto simp: registry_char_def js_ws_def not_quote_def)

lemma image_prefix_chars:
  "registry_name (trim (ir_registry r)) \<Longrightarrow> registry_name (image_prefix r)"
proof -
  assume "registry_name (trim (ir_registry r))"
  moreover have "registry_char (CHR ''/'')" by (simp add: registry_char_def token_char_def)
  ultimately show ?thesis
    using registry_char_lower by (auto simp: registry_name_def image_prefix_def or_else_def to_lower_def Let_def)
qed

lemma escapeCel_registry: "registry_name s \<Longrightarrow> escapeCel s = s"
proof -
  assume s: "registry_name s"
  have "CHR 0x5C \<notin> set s" "CHR 0x27 \<notin> set s"
    using s registry_charD [of "CHR 0x5C"] registry_charD [of "CHR 0x27"] by (auto simp: registry_name_def)
  then show ?thesis by (simp add: escapeCel_def replace_char_absent)
qed

definition image_text :: "image_rule \<Rightarrow> string" where
  "image_text r = join_with '' && '' (container_words True (image_check r) (image_check r) (image_check r))"

definition image_ok :: "image_rule \<Rightarrow> bool" where
  "image_ok r \<longleftrightarrow> ir_type r = NoLatest \<or> registry_name (trim (ir_registry r))"

lemma image_check_parts:
  assumes "ir_type r = RequiredRegistry" "registry_name (trim (ir_registry r))"
  shows \<open>image_check r = (''all(c, c.image.lowerAscii().startsWith('' @ SQ) @ image_prefix r @ (SQ @ ''))'')\<close>
  using assms by (simp add: image_check_def escapeCel_registry image_prefix_chars)

lemma registry_nameD:
  assumes "registry_name s"
  shows "s \<noteq> []" "\<forall>c \<in> set s. \<not> js_ws c" "\<forall>c \<in> set s. not_quote c" "CHR ''!'' \<notin> set s" "CHR ''['' \<notin> set s"
proof -
  have "\<forall>c \<in> set s. registry_char c" using assms by (simp add: registry_name_def)
  then show "\<forall>c \<in> set s. \<not> js_ws c" "\<forall>c \<in> set s. not_quote c" "CHR ''!'' \<notin> set s" "CHR ''['' \<notin> set s"
    using registry_charD by blast+
  show "s \<noteq> []" using assms by (simp add: registry_name_def)
qed

lemma pair_free_absent: "x \<notin> set s \<Longrightarrow> pair_free x y s"
  by (induction s) (auto simp: pair_free_def successively_Cons)

lemma image_check_facts:
  assumes "image_ok r"
  shows "tidy (image_check r)" "pair_free (CHR ''['') (CHR 0x27) (image_check r)"
proof -
  have "tidy (image_check r) \<and> CHR ''['' \<notin> set (image_check r)"
  proof (cases "ir_type r")
    case NoLatest
    then show ?thesis by (simp add: image_check_def tidy_lit js_ws_def)
  next
    case RequiredRegistry
    then have n: "registry_name (trim (ir_registry r))" using assms by (simp add: image_ok_def)
    note d = registry_nameD [OF image_prefix_chars [OF n]]
    have "tidy ((''all(c, c.image.lowerAscii().startsWith('' @ SQ))" "tidy ((SQ @ ''))''))"
      by (simp_all add: tidy_lit js_ws_def)
    then show ?thesis
      unfolding image_check_parts [OF RequiredRegistry n] using d tidy_word [OF d(2)]
      by (intro conjI tidy_append [OF _ tidy_append]) (assumption | simp)+
  qed
  then show "tidy (image_check r)" "pair_free (CHR ''['') (CHR 0x27) (image_check r)"
    using pair_free_absent by blast+
qed

lemma image_text_facts:
  assumes "image_ok r"
  shows "tidy (image_text r)" "pair_free (CHR ''['') (CHR 0x27) (image_text r)"
proof -
  show "tidy (image_text r)"
    unfolding image_text_def by (intro tidy_containers image_check_facts assms)
  show "pair_free (CHR ''['') (CHR 0x27) (image_text r)"
    unfolding image_text_def
    by (rule pair_free_containers) (use image_check_facts(2) [OF assms] places_pairs in auto)
qed

lemma image_text_start:
  \<open>\<exists>w. image_text r = ''object.spec.?containers.orValue([]).'' @ image_check r @ w\<close>
proof -
  have "container_words True c c c = (''object.spec.?containers.orValue([]).'' @ c) # tl (container_words True c c c)" for c
    by (simp add: container_words_def places_defs)
  moreover have "\<exists>w. join_with '' && '' (x # xs) = x @ w" for x xs by (cases xs) auto
  ultimately obtain w where "join_with '' && '' (container_words True (image_check r) (image_check r) (image_check r)) =
      (''object.spec.?containers.orValue([]).'' @ image_check r) @ w"
    by metis
  then show ?thesis by (auto simp: image_text_def)
qed

lemma registry_search:
  assumes "registry_name s"
  shows "rx_search [Lit ((''c.image.lowerAscii().startsWith('' @ SQ)), Group not_quote, Lit ((SQ @ '')''))]
    ((''object.spec.?containers.orValue([]).all(c, c.image.lowerAscii().startsWith('' @ SQ) @ s @ (SQ @ ''))'') @ w) = Some [s]"
proof -
  let ?p = "[Lit ((''c.image.lowerAscii().startsWith('' @ SQ)), Group not_quote, Lit ((SQ @ '')''))]"
  have "rx_here [Group not_quote, Lit ((SQ @ '')''))] (s @ CHR 0x27 # (''))'' @ w)) = Some [s]"
    using registry_nameD [OF assms] by (intro rx_Group) (auto simp: not_quote_def)
  then have "rx_here ?p ((''c.image.lowerAscii().startsWith('' @ SQ) @ s @ CHR 0x27 # (''))'' @ w)) = Some [s]"
    by (rule rx_Lit)
  then have "rx_search ?p ((''c.image.lowerAscii().startsWith('' @ SQ) @ s @ CHR 0x27 # (''))'' @ w)) = Some [s]"
    by (rule rx_search_here)
  then show ?thesis by (simp add: rx_search_skip)
qed

lemma image_readback:
  assumes "image_ok r"
  shows "parseExpressionToImageRule (image_text r) m = Some \<lparr> ir_type = ir_type r,
     ir_registry = (if ir_type r = NoLatest then [] else image_prefix r), ir_message = m \<rparr>"
proof (cases "ir_type r")
  case NoLatest
  have "sublist ((''!c.image.endsWith('' @ SQ @ '':latest'' @ SQ @ '')'')) (image_check r)"
    using NoLatest by (simp add: image_check_def sublist_code)
  then have "sublist ((''!c.image.endsWith('' @ SQ @ '':latest'' @ SQ @ '')'')) (image_text r)"
    unfolding image_text_def by (rule check_in_containers)
  then show ?thesis using NoLatest
    by (simp add: parseExpressionToImageRule_def norm_ws_tidy image_text_facts assms)
next
  case RequiredRegistry
  then have n: "registry_name (trim (ir_registry r))" using assms by (simp add: image_ok_def)
  note d = registry_nameD [OF image_prefix_chars [OF n]]
  obtain w where "image_text r = ''object.spec.?containers.orValue([]).'' @ image_check r @ w"
    using image_text_start by blast
  then have t: "image_text r = (''object.spec.?containers.orValue([]).all(c, c.image.lowerAscii().startsWith('' @ SQ)
      @ image_prefix r @ (SQ @ ''))'') @ w"
    by (simp add: image_check_parts [OF RequiredRegistry n])
  have "CHR ''!'' \<notin> set (image_check r)"
    unfolding image_check_parts [OF RequiredRegistry n] using d(4) by simp
  then have "CHR ''!'' \<notin> set (image_text r)"
    using chars_containers [of True "image_check r" "image_check r" "image_check r"] places_chars [of True]
    by (auto simp: image_text_def list_all_iff)
  then have "\<not> sublist ((''!c.image.endsWith('' @ SQ @ '':latest'' @ SQ @ '')'')) (image_text r)"
    by (intro absent_char [of "CHR ''!''"]) simp_all
  moreover have "rx_search [Lit ((''c.image.lowerAscii().startsWith('' @ SQ)), Group not_quote, Lit ((SQ @ '')''))] (image_text r)
      = Some [image_prefix r]"
    using registry_search [OF image_prefix_chars [OF n], of w] by (simp add: t)
  ultimately show ?thesis using RequiredRegistry
    by (simp add: parseExpressionToImageRule_def norm_ws_tidy image_text_facts assms)
qed

section \<open>Replicas\<close>

lemma rx_Group_end: "w \<noteq> [] \<Longrightarrow> \<forall>c \<in> set w. P c \<Longrightarrow> rx_here [Group P, EndOfText] w = Some [w]"
proof -
  assume w: "w \<noteq> []" "\<forall>c \<in> set w. P c"
  then have "takeWhile P w = w" by (simp add: takeWhile_eq_all_conv)
  then show ?thesis using w(1)
    by (simp add: first_some_rev_last [where n = "length w"] Suc_le_eq del: takeWhile_eq_all_conv)
qed

lemma digits_not_ws: "is_digit c \<Longrightarrow> \<not> js_ws c"
  by (auto simp: is_digit_def js_ws_def Let_def)

lemma show_nat_facts: "show_nat n \<noteq> []" "\<forall>c \<in> set (show_nat n). is_digit c"
  using show_nat_digits [of n] by (auto simp: all_digits_def list_all_iff)

definition replica_head :: "replica_resource \<Rightarrow> string" where
  \<open>replica_head t = (case t of
      OnDeployments \<Rightarrow> (''request.resource.resource != '' @ SQ @ ''deployments'' @ SQ @ '' || object.spec.replicas <='')
    | OnStatefulSets \<Rightarrow> (''request.resource.resource != '' @ SQ @ ''statefulsets'' @ SQ @ '' || object.spec.replicas <='')
    | OnBoth \<Rightarrow> ''object.spec.replicas <='')\<close>

lemma replica_expr_parts:
  "maxReplicas r > 0 \<Longrightarrow>
   replica_expr r = replica_head (rr_resourceType r) @ '' '' @ show_nat (nat (maxReplicas r))"
  by (simp add: replica_expr_def replica_head_def show_int_def split: replica_resource.splits)

lemma tidy_replica:
  assumes "maxReplicas r > 0"
  shows "tidy (replica_expr r)"
proof -
  have "tidy (show_nat n)" for n
    using show_nat_facts(2) [of n] digits_not_ws by (intro tidy_word) blast
  moreover have "tidy (replica_head t) \<and> replica_head t \<noteq> []" for t
    by (cases t) (simp_all add: replica_head_def tidy_lit js_ws_def)
  ultimately show ?thesis
    unfolding replica_expr_parts [OF assms] by (intro tidy_blank) (auto simp: show_nat_facts)
qed

lemma rx_star_ws:
  assumes "\<not> js_ws c" "rx_here r (c # s) = Some cs"
  shows "rx_here (Star js_ws # r) (CHR '' '' # c # s) = Some cs"
proof -
  have "takeWhile js_ws (CHR '' '' # c # s) = '' ''" using assms(1) by (simp add: js_ws_def)
  moreover have "rev [0..<Suc (length '' '')] = [1, 0]" by (simp add: upt_rec)
  ultimately show ?thesis using assms(2) by simp
qed

lemma replica_whole:
  "rx_whole [Lit (''object.spec.replicas''), Star js_ws, Lit (''<=''), Star js_ws, Group is_digit]
     (''object.spec.replicas <= '' @ show_nat n) = Some [show_nat n]"
proof -
  obtain c s where n: "show_nat n = c # s" using show_nat_facts(1) [of n] by (cases "show_nat n") auto
  then have c: "\<not> js_ws c" using show_nat_facts(2) [of n] digits_not_ws by auto
  have "rx_here [Group is_digit, EndOfText] (c # s) = Some [show_nat n]"
    using rx_Group_end [OF show_nat_facts] n by metis
  then have "rx_here [Star js_ws, Group is_digit, EndOfText] (CHR '' '' # c # s) = Some [show_nat n]"
    by (rule rx_star_ws [OF c])
  then have "rx_here [Lit (''<=''), Star js_ws, Group is_digit, EndOfText] (CHR ''<'' # CHR ''='' # CHR '' '' # c # s) = Some [show_nat n]"
    by simp
  then have "rx_here [Star js_ws, Lit (''<=''), Star js_ws, Group is_digit, EndOfText]
      (CHR '' '' # CHR ''<'' # CHR ''='' # CHR '' '' # c # s) = Some [show_nat n]"
    by (intro rx_star_ws) (simp add: js_ws_def)
  then show ?thesis unfolding n by (simp add: rx_whole_def del: rx_here.simps(5))
qed

lemma replica_whole_head:
  "rx_whole [Lit w, Group is_digit] (w @ show_nat n) = Some [show_nat n]"
  unfolding rx_whole_def using rx_Lit [OF rx_Group_end [OF show_nat_facts]] by simp

lemma replica_readback:
  assumes "maxReplicas r > 0"
  shows "parseExpressionToReplicaRule (replica_expr r) m = Some (r\<lparr> rr_message := m \<rparr>)"
proof -
  let ?n = "show_nat (nat (maxReplicas r))"
  have num: "int (nat_of_digits ?n) = maxReplicas r" using assms by (simp add: nat_of_digits_show)
  note w = norm_ws_tidy [OF tidy_replica [OF assms]]
  show ?thesis
  proof (cases "rr_resourceType r")
    case OnDeployments
    then have e: "replica_expr r = ((''request.resource.resource != '' @ SQ @ ''deployments'' @ SQ @ '' || object.spec.replicas <= '')) @ ?n"
      by (simp add: replica_expr_parts [OF assms] replica_head_def)
    have "rx_whole [Lit ((''request.resource.resource != '' @ SQ @ ''deployments'' @ SQ @ '' || object.spec.replicas <= '')), Group is_digit] (replica_expr r) = Some [?n]"
      unfolding e by (rule replica_whole_head)
    then show ?thesis using OnDeployments num
      by (simp add: parseExpressionToReplicaRule_def w replica_of_def)
  next
    case OnStatefulSets
    then have e: "replica_expr r = ((''request.resource.resource != '' @ SQ @ ''statefulsets'' @ SQ @ '' || object.spec.replicas <= '')) @ ?n"
      by (simp add: replica_expr_parts [OF assms] replica_head_def)
    have "rx_whole [Lit ((''request.resource.resource != '' @ SQ @ ''deployments'' @ SQ @ '' || object.spec.replicas <= '')), Group is_digit] (replica_expr r) = None"
      by (simp add: e rx_whole_def)
    moreover have "rx_whole [Lit ((''request.resource.resource != '' @ SQ @ ''statefulsets'' @ SQ @ '' || object.spec.replicas <= '')), Group is_digit] (replica_expr r) = Some [?n]"
      unfolding e by (rule replica_whole_head)
    ultimately show ?thesis using OnStatefulSets num
      by (simp add: parseExpressionToReplicaRule_def w replica_of_def)
  next
    case OnBoth
    then have e: "replica_expr r = (''object.spec.replicas <= '') @ ?n"
      by (simp add: replica_expr_parts [OF assms] replica_head_def)
    have "rx_whole [Lit ((''request.resource.resource != '' @ SQ @ ''deployments'' @ SQ @ '' || object.spec.replicas <= '')), Group is_digit] (replica_expr r) = None"
      "rx_whole [Lit ((''request.resource.resource != '' @ SQ @ ''statefulsets'' @ SQ @ '' || object.spec.replicas <= '')), Group is_digit] (replica_expr r) = None"
      by (simp_all add: e rx_whole_def)
    moreover have "rx_whole [Lit (''object.spec.replicas''), Star js_ws, Lit (''<=''), Star js_ws, Group is_digit] (replica_expr r) = Some [?n]"
      unfolding e by (rule replica_whole)
    ultimately show ?thesis using OnBoth num
      by (simp add: parseExpressionToReplicaRule_def w replica_of_def)
  qed
qed

end
