(* ===== verification/VapReopen.thy ===== *)
theory VapReopen
  imports VapKinds
begin

text \<open>
  A builder's rules, saved and opened again. \<open>rule_sources\<close> are the expression lines and the
  message of every validation the builder writes; the lines of the manifest spell them, and
  reading the validations back gives the builder's rules in their saved form.
\<close>

section \<open>What the validations say\<close>

definition label_message :: "bool \<Rightarrow> label_rule \<Rightarrow> string" where
  "label_message isLabel r =
     or_else (trim (lr_message r)) (buildAutoMessage isLabel (lr_key r) (lr_condition r) (lr_value r))"

definition image_message :: "image_rule \<Rightarrow> string" where
  "image_message r = or_else (trim (ir_message r)) (autoImageMessage r)"

definition replica_message :: "replica_rule \<Rightarrow> string" where
  "replica_message r = or_else (trim (rr_message r)) (autoReplicaMessage r)"

definition limit_message :: "resource_limit_rule \<Rightarrow> string" where
  "limit_message r = or_else (trim (rl_message r)) (autoResourceLimitMessage r)"

definition security_message :: "security_context_rule \<Rightarrow> string" where
  "security_message r = or_else (trim (sc_message r)) (autoSecurityContextMessage r)"

definition host_message :: "host_access_rule \<Rightarrow> string" where
  "host_message r = or_else (trim (ha_message r)) (autoHostAccessMessage r)"

definition check_lines :: "bool \<Rightarrow> string \<Rightarrow> string list" where
  "check_lines e c = container_lines e c c c"

definition rule_sources :: "policy_builder \<Rightarrow> (string list \<times> string) list" where
  \<open>rule_sources b =
     (case pb_ruleType b of
        LabelType \<Rightarrow> map (\<lambda>r. (label_expr ''labels'' r, label_message True r)) (active_label_rules (labelRules b))
      | AnnotationType \<Rightarrow>
          map (\<lambda>r. (label_expr ''annotations'' r, label_message False r)) (active_label_rules (labelRules b))
      | ImageType \<Rightarrow> map (\<lambda>r. (check_lines True (image_check r), image_message r)) (active_image_rules (imageRules b))
      | ReplicaType \<Rightarrow> map (\<lambda>r. ([(''        '' @ (replica_expr r))], replica_message r)) (active_replica_rules (replicaRules b))
      | ResourceLimitsType \<Rightarrow>
          map (\<lambda>r. (check_lines False (resource_limit_check (limitType r)), limit_message r)) (resourceLimitRules b)
      | SecurityContextType \<Rightarrow>
          (let r = securityContextRule b
           in (if sc_checkType r \<noteq> RunAsNonRoot then [(check_lines True PRIVILEGED_CHECK, security_message r)] else [])
            @ (if sc_checkType r \<noteq> NoPrivileged
               then [(container_lines True (non_root_check []) (non_root_check ''?template.?spec.'')
                        (non_root_check ''?jobTemplate.?spec.?template.?spec.''), security_message r)] else []))
      | HostAccessType \<Rightarrow> [([(''        '' @ (host_expr (ha_checkType (hostAccessRule b))))], host_message (hostAccessRule b))]
      | ConfigMapSizeType \<Rightarrow> [] | SecretSizeType \<Rightarrow> [])\<close>

text \<open>One validation as the manifest spells it: replica rules are quoted, the others folded.\<close>

definition source_lines :: "policy_rule_type \<Rightarrow> string list \<times> string \<Rightarrow> string list" where
  \<open>source_lines t = (\<lambda>(ls, m).
     if t = ReplicaType
     then [(''    - expression: "'' @ (folded ls) @ ''"''), (''      message: "'' @ (escapeYaml m) @ ''"''), ''      reason: Forbidden'']
     else rule_lines ls (escapeYaml m))\<close>

definition source_validation :: "string list \<times> string \<Rightarrow> jsval" where
  "source_validation = (\<lambda>(ls, m). validation (folded ls) m)"

lemma folded_single [simp]: "folded [''        '' @ s] = s"
  by (simp add: folded_def)

text \<open>Rules of a kind the sources cover, filled in with characters the readers know.\<close>

definition builder_ok :: "policy_builder \<Rightarrow> bool" where
  "builder_ok b \<longleftrightarrow>
     (case pb_ruleType b of
        LabelType \<Rightarrow> active_label_rules (labelRules b) \<noteq> [] \<and>
          (\<forall>r \<in> set (active_label_rules (labelRules b)). token (trim (lr_key r)) \<and> token (trim (lr_value r)))
      | AnnotationType \<Rightarrow> active_label_rules (labelRules b) \<noteq> [] \<and>
          (\<forall>r \<in> set (active_label_rules (labelRules b)). token (trim (lr_key r)) \<and> token (trim (lr_value r)))
      | ImageType \<Rightarrow> active_image_rules (imageRules b) \<noteq> [] \<and> (\<forall>r \<in> set (active_image_rules (imageRules b)). image_ok r)
      | ReplicaType \<Rightarrow> active_replica_rules (replicaRules b) \<noteq> []
      | ResourceLimitsType \<Rightarrow> resourceLimitRules b \<noteq> []
      | SecurityContextType \<Rightarrow> True
      | HostAccessType \<Rightarrow> True
      | ConfigMapSizeType \<Rightarrow> False | SecretSizeType \<Rightarrow> False)"

lemma validation_lines_sources:
  assumes "builder_ok b"
  shows "validation_lines b = concat (map (source_lines (pb_ruleType b)) (rule_sources b))"
  using assms
  by (cases "pb_ruleType b"; cases "sc_checkType (securityContextRule b)")
    (simp_all add: builder_ok_def validation_lines_def rule_sources_def source_lines_def lines_or_default_def
      ruleToYamlLines_def [abs_def] annotationRuleToYamlLines_def [abs_def] imageRuleToYamlLines_def [abs_def] replicaRuleToYamlLines_def [abs_def]
      resourceLimitRuleToYamlLines_def [abs_def] securityContextRuleToYamlLines_def hostAccessRuleToYamlLines_def
      label_message_def image_message_def replica_message_def limit_message_def security_message_def
      host_message_def check_lines_def Let_def comp_def folded_def)

section \<open>The rules in their saved form\<close>

definition saved_label :: "bool \<Rightarrow> label_rule \<Rightarrow> label_rule" where
  "saved_label isLabel r = r\<lparr> lr_key := trim (lr_key r), lr_value := trim (lr_value r),
     lr_message := label_message isLabel r \<rparr>"

definition saved_image :: "image_rule \<Rightarrow> image_rule" where
  "saved_image r = r\<lparr> ir_registry := (if ir_type r = NoLatest then [] else image_prefix r),
     ir_message := image_message r \<rparr>"

definition saved_replica :: "replica_rule \<Rightarrow> replica_rule" where
  "saved_replica r = r\<lparr> rr_message := replica_message r \<rparr>"

definition saved_rules :: "policy_builder \<Rightarrow> parsed_rules" where
  "saved_rules b =
     (case pb_ruleType b of
        LabelType \<Rightarrow> no_rules\<lparr> p_labels := map (saved_label True) (active_label_rules (labelRules b)) \<rparr>
      | AnnotationType \<Rightarrow> no_rules\<lparr> p_annotations := map (saved_label False) (active_label_rules (labelRules b)) \<rparr>
      | ImageType \<Rightarrow> no_rules\<lparr> p_images := map saved_image (active_image_rules (imageRules b)) \<rparr>
      | ReplicaType \<Rightarrow> no_rules\<lparr> p_replicas := map saved_replica (active_replica_rules (replicaRules b)) \<rparr>
      | ResourceLimitsType \<Rightarrow>
          no_rules\<lparr> p_limits := map (\<lambda>r. r\<lparr> rl_message := limit_message r \<rparr>) (resourceLimitRules b) \<rparr>
      | SecurityContextType \<Rightarrow>
          (let r = securityContextRule b
           in no_rules\<lparr> p_parts :=
                (if sc_checkType r \<noteq> RunAsNonRoot then [(PartNoPrivileged, security_message r)] else [])
                @ (if sc_checkType r \<noteq> NoPrivileged then [(PartRunAsNonRoot, security_message r)] else []) \<rparr>)
      | HostAccessType \<Rightarrow>
          no_rules\<lparr> p_host := Some ((hostAccessRule b)\<lparr> ha_message := host_message (hostAccessRule b) \<rparr>) \<rparr>
      | ConfigMapSizeType \<Rightarrow> no_rules | SecretSizeType \<Rightarrow> no_rules)"

subsection \<open>One validation\<close>

lemma label_expr_trim:
  "label_expr f (r\<lparr> lr_key := trim (lr_key r), lr_value := trim (lr_value r) \<rparr>) = label_expr f r"
  by (simp add: label_expr_def)

lemma label_readback_trim:
  assumes "token (trim (lr_key r))" "token (trim (lr_value r))" "is_field f"
  shows "parse_label_expr f (folded (label_expr f r)) m =
      Some (r\<lparr> lr_key := trim (lr_key r), lr_value := trim (lr_value r), lr_message := m \<rparr>)"
    and "is_field g \<Longrightarrow> f \<noteq> g \<Longrightarrow> parse_label_expr g (folded (label_expr f r)) m = None"
  using label_readback [of "r\<lparr> lr_key := trim (lr_key r), lr_value := trim (lr_value r) \<rparr>" f m]
    label_not_other [of "r\<lparr> lr_key := trim (lr_key r), lr_value := trim (lr_value r) \<rparr>" f g m]
    assms by (simp_all add: label_expr_trim)

lemma fields: "is_field ''labels''" "is_field ''annotations''"
  by (simp_all add: is_field_def)

lemma read_label:
  assumes "token (trim (lr_key r))" "token (trim (lr_value r))"
  shows "read_validation (source_validation (label_expr ''labels'' r, label_message True r)) acc =
      Some (acc\<lparr> p_labels := p_labels acc @ [saved_label True r] \<rparr>)"
    and "read_validation (source_validation (label_expr ''annotations'' r, label_message False r)) acc =
      Some (acc\<lparr> p_annotations := p_annotations acc @ [saved_label False r] \<rparr>)"
  using label_readback_trim [OF assms fields(1)] label_readback_trim [OF assms fields(2)] fields
  by (simp_all add: source_validation_def read_validation_unfold parseExpressionToRule_def
      parseExpressionToAnnotationRule_def saved_label_def)

lemma read_image:
  assumes "image_ok r"
  shows "read_validation (source_validation (check_lines True (image_check r), image_message r)) acc =
      Some (acc\<lparr> p_images := p_images acc @ [saved_image r] \<rparr>)"
proof -
  have t: "folded (check_lines True (image_check r)) = image_text r"
    by (simp add: check_lines_def folded_containers image_text_def)
  show ?thesis
    by (simp add: source_validation_def t read_validation_unfold no_quote_not_label image_text_facts assms
        image_readback saved_image_def)
qed

lemma replica_bracket: "maxReplicas r > 0 \<Longrightarrow> CHR ''['' \<notin> set (replica_expr r) \<and> CHR '':'' \<notin> set (replica_expr r) \<and> CHR ''A'' \<notin> set (replica_expr r)"
  using show_nat_facts(2) [of "nat (maxReplicas r)"]
  by (cases "rr_resourceType r") (auto simp: replica_expr_parts replica_head_def is_digit_def)

lemma read_replica:
  assumes "maxReplicas r > 0"
  shows "read_validation (source_validation ([''        '' @ replica_expr r], replica_message r)) acc =
      Some (acc\<lparr> p_replicas := p_replicas acc @ [saved_replica r] \<rparr>)"
proof -
  note b = replica_bracket [OF assms]
  have "\<not> sublist ((''!c.image.endsWith('' @ SQ @ '':latest'' @ SQ @ '')'')) (replica_expr r)"
    by (rule absent_char [of "CHR '':''"]) (use b in simp_all)
  moreover have "rx_search [Lit ((''c.image.lowerAscii().startsWith('' @ SQ)), Group not_quote, Lit ((SQ @ '')''))] (replica_expr r) = None"
    by (rule rx_search_None [OF _ absent_char [of "CHR ''A''" "(''c.image.lowerAscii().startsWith('' @ SQ)"]])
      (use b in simp_all)
  ultimately have "parseExpressionToImageRule (replica_expr r) m = None" for m
    by (simp add: parseExpressionToImageRule_def norm_ws_tidy tidy_replica assms)
  moreover have "parseExpressionToRule (replica_expr r) m = None" "parseExpressionToAnnotationRule (replica_expr r) m = None" for m
    using no_quote_not_label tidy_replica [OF assms] pair_free_absent b by blast+
  ultimately show ?thesis
    by (simp add: source_validation_def read_validation_unfold replica_readback assms saved_replica_def del: append.simps)
qed

lemma read_limit:
  "read_validation (source_validation (check_lines False (resource_limit_check (limitType r)), limit_message r)) acc =
     Some (acc\<lparr> p_limits := p_limits acc @ [r\<lparr> rl_message := limit_message r \<rparr>] \<rparr>)"
proof -
  let ?t = "limits_text (limitType r)"
  have t: "folded (check_lines False (resource_limit_check (limitType r))) = ?t"
    by (simp add: check_lines_def folded_containers limits_text_def Let_def)
  have "parseExpressionToReplicaRule ?t m = None" for m
    using containers_not_replica limits_text_facts(1) [of "limitType r"] by (simp add: limits_text_def Let_def)
  then show ?thesis
    by (simp add: source_validation_def t read_validation_unfold no_quote_not_label no_quote_not_image
        limits_text_facts limits_readback)
qed

lemma read_security:
  "read_validation (source_validation (check_lines True PRIVILEGED_CHECK, m)) acc =
     Some (acc\<lparr> p_parts := p_parts acc @ [(PartNoPrivileged, m)] \<rparr>)"
  "read_validation (source_validation (container_lines True (non_root_check []) (non_root_check ''?template.?spec.'')
      (non_root_check ''?jobTemplate.?spec.?template.?spec.''), m)) acc =
     Some (acc\<lparr> p_parts := p_parts acc @ [(PartRunAsNonRoot, m)] \<rparr>)"
proof -
  have "parseExpressionToReplicaRule privileged_text m = None" "parseExpressionToReplicaRule non_root_text m = None" for m
    using containers_not_replica privileged_text_facts(1) non_root_text_facts(1)
    by (simp_all add: privileged_text_def non_root_text_def)
  then show "read_validation (source_validation (check_lines True PRIVILEGED_CHECK, m)) acc =
      Some (acc\<lparr> p_parts := p_parts acc @ [(PartNoPrivileged, m)] \<rparr>)"
    "read_validation (source_validation (container_lines True (non_root_check []) (non_root_check ''?template.?spec.'')
      (non_root_check ''?jobTemplate.?spec.?template.?spec.''), m)) acc =
      Some (acc\<lparr> p_parts := p_parts acc @ [(PartRunAsNonRoot, m)] \<rparr>)"
    by (simp_all add: source_validation_def check_lines_def folded_containers privileged_text_def [symmetric]
        non_root_text_def [symmetric] read_validation_unfold no_quote_not_label no_quote_not_image
        no_im_not_limit privileged_text_facts non_root_text_facts security_readback)
qed

lemma read_host:
  "read_validation (source_validation ([''        '' @ host_expr c], m)) acc =
     Some (acc\<lparr> p_host := Some \<lparr> ha_checkType = c, ha_message = m \<rparr> \<rparr>)"
proof -
  have "parseExpressionToReplicaRule (host_expr c) m = None" for m
    using host_start [of c] tidy_host [of c] by (intro not_replica) (auto simp: prefix_def)
  then show ?thesis
    by (simp add: source_validation_def read_validation_unfold no_quote_not_label no_quote_not_image tidy_host
        host_quote host_bracket host_pair no_im_not_limit host_not_security host_readback del: append.simps)
qed

subsection \<open>All validations\<close>

lemma read_validations_map:
  assumes "\<And>x acc. x \<in> set xs \<Longrightarrow> read_validation (f x) acc = Some (upd acc [g x])"
    and "\<And>acc us vs. upd (upd acc us) vs = upd acc (us @ vs)" "\<And>acc. upd acc [] = acc"
  shows "read_validations (map f xs) acc = Some (upd acc (map g xs))"
  using assms by (induction xs arbitrary: acc) auto

lemma saved_rules_read:
  assumes "builder_ok b"
  shows "read_validations (map source_validation (rule_sources b)) no_rules = Some (saved_rules b)"
proof (cases "pb_ruleType b")
  case LabelType
  then have "read_validations (map (\<lambda>r. source_validation (label_expr ''labels'' r, label_message True r))
        (active_label_rules (labelRules b))) no_rules
      = Some (no_rules\<lparr> p_labels := p_labels no_rules @ map (saved_label True) (active_label_rules (labelRules b)) \<rparr>)"
    using assms by (intro read_validations_map) (auto simp: builder_ok_def read_label)
  then show ?thesis using LabelType by (simp add: rule_sources_def saved_rules_def comp_def no_rules_def)
next
  case AnnotationType
  then have "read_validations (map (\<lambda>r. source_validation (label_expr ''annotations'' r, label_message False r))
        (active_label_rules (labelRules b))) no_rules
      = Some (no_rules\<lparr> p_annotations := p_annotations no_rules @ map (saved_label False) (active_label_rules (labelRules b)) \<rparr>)"
    using assms by (intro read_validations_map) (auto simp: builder_ok_def read_label)
  then show ?thesis using AnnotationType by (simp add: rule_sources_def saved_rules_def comp_def no_rules_def)
next
  case ImageType
  then have "read_validations (map (\<lambda>r. source_validation (check_lines True (image_check r), image_message r))
        (active_image_rules (imageRules b))) no_rules
      = Some (no_rules\<lparr> p_images := p_images no_rules @ map saved_image (active_image_rules (imageRules b)) \<rparr>)"
    using assms by (intro read_validations_map) (auto simp: builder_ok_def read_image)
  then show ?thesis using ImageType by (simp add: rule_sources_def saved_rules_def comp_def no_rules_def)
next
  case ReplicaType
  have "read_validations (map (\<lambda>r. source_validation ([''        '' @ replica_expr r], replica_message r))
        (active_replica_rules (replicaRules b))) no_rules
      = Some (no_rules\<lparr> p_replicas := p_replicas no_rules @ map saved_replica (active_replica_rules (replicaRules b)) \<rparr>)"
    by (intro read_validations_map) (auto simp: active_replica_rules_def read_replica simp del: append.simps)
  then show ?thesis using ReplicaType
    by (simp add: rule_sources_def saved_rules_def comp_def no_rules_def del: append.simps(2))
next
  case ResourceLimitsType
  have "read_validations (map (\<lambda>r. source_validation (check_lines False (resource_limit_check (limitType r)), limit_message r))
        (resourceLimitRules b)) no_rules
      = Some (no_rules\<lparr> p_limits := p_limits no_rules @ map (\<lambda>r. r\<lparr> rl_message := limit_message r \<rparr>) (resourceLimitRules b) \<rparr>)"
    by (intro read_validations_map) (auto simp: read_limit)
  then show ?thesis using ResourceLimitsType by (simp add: rule_sources_def saved_rules_def comp_def no_rules_def)
next
  case SecurityContextType
  then show ?thesis
    by (cases "sc_checkType (securityContextRule b)")
      (simp_all add: rule_sources_def saved_rules_def Let_def read_security no_rules_def)
next
  case HostAccessType
  then show ?thesis
    by (simp add: rule_sources_def saved_rules_def read_host [simplified] no_rules_def)
qed (use assms in \<open>simp_all add: builder_ok_def\<close>)

lemma saved_rules_kind:
  assumes "builder_ok b"
  shows "types_used (saved_rules b) = 1" "parsed_rule_type (saved_rules b) = pb_ruleType b"
  using assms
  by (cases "pb_ruleType b"; cases "sc_checkType (securityContextRule b)";
      simp add: builder_ok_def saved_rules_def types_used_def parsed_rule_type_def no_rules_def Let_def)+

section \<open>Saving the reopened builder\<close>

text \<open>
  The messages the form fills in survive a second save when they have no blank at their ends,
  because the second save trims them.
\<close>

definition messages_stable :: "policy_builder \<Rightarrow> bool" where
  "messages_stable b \<longleftrightarrow> (\<forall>(ls, m) \<in> set (rule_sources b). trim m = m \<and> m \<noteq> [])"

lemma active_saved_label:
  "active_label_rules (map (saved_label l) (active_label_rules rs)) = map (saved_label l) (active_label_rules rs)"
  by (auto simp: active_label_rules_def filter_id_conv saved_label_def)

lemma active_saved_image:
  "\<forall>r \<in> set (active_image_rules rs). image_ok r \<Longrightarrow>
   active_image_rules (map saved_image (active_image_rules rs)) = map saved_image (active_image_rules rs)"
proof -
  assume a: "\<forall>r \<in> set (active_image_rules rs). image_ok r"
  have "ir_type (saved_image r) = NoLatest \<or> trim (ir_registry (saved_image r)) \<noteq> []" if "image_ok r" for r
  proof (cases "ir_type r")
    case RequiredRegistry
    then have n: "registry_name (image_prefix r)" using that by (simp add: image_ok_def image_prefix_chars)
    then have "trim (image_prefix r) = image_prefix r" using registry_nameD(2) by (simp add: trim_no_ws)
    then show ?thesis using registry_nameD(1) [OF n] RequiredRegistry by (simp add: saved_image_def)
  qed (simp add: saved_image_def)
  with a show ?thesis by (auto simp: active_image_rules_def filter_id_conv)
qed

lemma char_lower_idem: "char_lower (char_lower c) = char_lower c"
  by (auto simp: char_lower_def Let_def)

lemma image_prefix_again:
  assumes "registry_name (trim (ir_registry r))"
  shows "image_prefix (r\<lparr> ir_registry := image_prefix r, ir_message := m \<rparr>) = image_prefix r"
proof -
  note n = image_prefix_chars [OF assms]
  have t: "trim (image_prefix r) = image_prefix r" using registry_nameD(2) [OF n] by (simp add: trim_no_ws)
  have sl: "char_lower (CHR ''/'') = CHR ''/''" by (simp add: char_lower_def)
  have "suffix ''/'' (image_prefix r)"
    by (auto simp: image_prefix_def to_lower_def Let_def suffix_def sl)
  moreover have "to_lower (image_prefix r) = image_prefix r"
    by (simp add: image_prefix_def to_lower_def Let_def comp_def char_lower_idem)
  ultimately have "image_prefix x = image_prefix r" if "ir_registry x = image_prefix r" for x
    using registry_nameD(1) [OF n] t that by (simp add: image_prefix_def [of x] or_else_def)
  then show ?thesis by simp
qed

lemma image_check_saved: "image_ok r \<Longrightarrow> image_check (saved_image r) = image_check r"
  using image_prefix_again [of r "image_message r"]
  by (cases "ir_type r") (simp_all add: image_check_def saved_image_def image_ok_def)

lemma or_else_ne: "m \<noteq> [] \<Longrightarrow> or_else m d = m"
  by (simp add: or_else_def)

lemma kept_messages:
  "lr_message r = m \<Longrightarrow> trim m = m \<Longrightarrow> m \<noteq> [] \<Longrightarrow> label_message l r = m"
  "ir_message i = m \<Longrightarrow> trim m = m \<Longrightarrow> m \<noteq> [] \<Longrightarrow> image_message i = m"
  "rr_message c = m \<Longrightarrow> trim m = m \<Longrightarrow> m \<noteq> [] \<Longrightarrow> replica_message c = m"
  "rl_message q = m \<Longrightarrow> trim m = m \<Longrightarrow> m \<noteq> [] \<Longrightarrow> limit_message q = m"
  by (simp_all add: label_message_def image_message_def replica_message_def limit_message_def or_else_ne)

lemma saved_messages:
  "trim (label_message l r) = label_message l r \<Longrightarrow> label_message l r \<noteq> [] \<Longrightarrow> label_message l (saved_label l r) = label_message l r"
  "trim (image_message i) = image_message i \<Longrightarrow> image_message i \<noteq> [] \<Longrightarrow> image_message (saved_image i) = image_message i"
  "trim (replica_message c) = replica_message c \<Longrightarrow> replica_message c \<noteq> [] \<Longrightarrow> replica_message (saved_replica c) = replica_message c"
  "trim (limit_message q) = limit_message q \<Longrightarrow> limit_message q \<noteq> [] \<Longrightarrow>
     limit_message (q\<lparr> rl_message := limit_message q \<rparr>) = limit_message q"
  by (rule kept_messages; simp add: saved_label_def saved_image_def saved_replica_def)+

text \<open>The builder the parser returns for a saved one.\<close>

definition reopened :: "policy_builder \<Rightarrow> policy_builder" where
  "reopened b = rules_builder (or_else (trim (pb_name b)) ''my-policy'')
     (if pb_ruleType b = LabelType \<or> pb_ruleType b = AnnotationType then pb_applyTo b else ''workloads'') (saved_rules b)"

lemma replica_saved [simp]:
  "active_replica_rules (map saved_replica (active_replica_rules rs)) = map saved_replica (active_replica_rules rs)"
  "replica_expr (saved_replica r) = replica_expr r"
  by (auto simp: active_replica_rules_def filter_id_conv saved_replica_def replica_expr_def)

lemma label_expr_saved: "label_expr f (saved_label l r) = label_expr f r"
  by (simp add: label_expr_def saved_label_def)

lemmas reopened_defs = reopened_def rules_builder_def blank_builder_def saved_rules_def no_rules_def
  parsed_rule_type_def builder_ok_def

lemma reopened_kind: "builder_ok b \<Longrightarrow> pb_ruleType (reopened b) = pb_ruleType b"
  using saved_rules_kind(2) by (simp add: reopened_def rules_builder_def blank_builder_def)

lemma reopened_sources:
  assumes "builder_ok b" "messages_stable b"
  shows "rule_sources (reopened b) = rule_sources b"
proof (cases "pb_ruleType b")
  case LabelType
  then have l: "labelRules (reopened b) = map (saved_label True) (active_label_rules (labelRules b))"
    by (simp add: reopened_defs)
  show ?thesis using LabelType assms
    by (auto simp: rule_sources_def reopened_kind l active_saved_label label_expr_saved messages_stable_def saved_messages)
next
  case AnnotationType
  then have l: "labelRules (reopened b) = map (saved_label False) (active_label_rules (labelRules b))"
    using assms(1) by (simp add: reopened_defs)
  show ?thesis using AnnotationType assms
    by (auto simp: rule_sources_def reopened_kind l active_saved_label label_expr_saved messages_stable_def saved_messages)
next
  case ImageType
  then have l: "imageRules (reopened b) = map saved_image (active_image_rules (imageRules b))"
    by (simp add: reopened_defs)
  have "\<forall>r \<in> set (active_image_rules (imageRules b)). image_ok r" using ImageType assms(1) by (simp add: builder_ok_def)
  then show ?thesis using ImageType assms
    by (auto simp: rule_sources_def reopened_kind l active_saved_image image_check_saved messages_stable_def saved_messages)
next
  case ReplicaType
  then have l: "replicaRules (reopened b) = map saved_replica (active_replica_rules (replicaRules b))"
    by (simp add: reopened_defs)
  show ?thesis using ReplicaType assms
    by (auto simp: rule_sources_def reopened_kind l messages_stable_def saved_messages)
next
  case ResourceLimitsType
  then have l: "resourceLimitRules (reopened b) = map (\<lambda>r. r\<lparr> rl_message := limit_message r \<rparr>) (resourceLimitRules b)"
    by (simp add: reopened_defs)
  show ?thesis using ResourceLimitsType assms
    by (auto simp: rule_sources_def reopened_kind l messages_stable_def saved_messages)
next
  case SecurityContextType
  let ?r = "securityContextRule b"
  have l: "securityContextRule (reopened b) = ?r\<lparr> sc_message := security_message ?r \<rparr>"
    using SecurityContextType
    by (cases "sc_checkType ?r") (simp_all add: reopened_defs parsed_security_def Let_def)
  have "trim (security_message ?r) = security_message ?r" "security_message ?r \<noteq> []"
    using assms(2) SecurityContextType
    by (cases "sc_checkType ?r"; simp add: messages_stable_def rule_sources_def Let_def)+
  then have "security_message (?r\<lparr> sc_message := security_message ?r \<rparr>) = security_message ?r"
    by (simp add: security_message_def [of "?r\<lparr> sc_message := security_message ?r \<rparr>"] or_else_ne)
  then show ?thesis using SecurityContextType assms(1) by (simp add: rule_sources_def reopened_kind l Let_def)
next
  case HostAccessType
  let ?r = "hostAccessRule b"
  have l: "hostAccessRule (reopened b) = ?r\<lparr> ha_message := host_message ?r \<rparr>"
    using HostAccessType by (simp add: reopened_defs)
  have "trim (host_message ?r) = host_message ?r" "host_message ?r \<noteq> []"
    using assms(2) HostAccessType by (simp_all add: messages_stable_def rule_sources_def)
  then have "host_message (?r\<lparr> ha_message := host_message ?r \<rparr>) = host_message ?r"
    by (simp add: host_message_def [of "?r\<lparr> ha_message := host_message ?r \<rparr>"] or_else_ne)
  then show ?thesis using HostAccessType assms(1) by (simp add: rule_sources_def reopened_kind l)
qed (use assms in \<open>simp_all add: builder_ok_def\<close>)

lemma trim_or_else: "s \<noteq> [] \<Longrightarrow> trim s = s \<Longrightarrow> trim (or_else (trim x) s) = or_else (trim x) s \<and> or_else (trim x) s \<noteq> []"
  by (simp add: or_else_def)

lemma reopened_ok:
  assumes "builder_ok b"
  shows "builder_ok (reopened b)"
proof (cases "pb_ruleType b")
  case ImageType
  then have l: "imageRules (reopened b) = map saved_image (active_image_rules (imageRules b))"
    by (simp add: reopened_defs)
  have a: "\<forall>r \<in> set (active_image_rules (imageRules b)). image_ok r" using ImageType assms by (simp add: builder_ok_def)
  have "image_ok (saved_image r)" if "image_ok r" for r
  proof (cases "ir_type r")
    case RequiredRegistry
    then have n: "registry_name (image_prefix r)" using that by (simp add: image_ok_def image_prefix_chars)
    then have "trim (image_prefix r) = image_prefix r" using registry_nameD(2) by (simp add: trim_no_ws)
    with n RequiredRegistry show ?thesis by (simp add: image_ok_def saved_image_def)
  qed (simp add: image_ok_def saved_image_def)
  then show ?thesis using a ImageType assms
    by (simp add: builder_ok_def [of "reopened b"] reopened_kind l active_saved_image) (simp add: builder_ok_def)
next
  case LabelType
  then have l: "labelRules (reopened b) = map (saved_label True) (active_label_rules (labelRules b))"
    by (simp add: reopened_defs)
  show ?thesis using LabelType assms
    by (simp add: builder_ok_def [of "reopened b"] reopened_kind l active_saved_label)
      (simp add: builder_ok_def saved_label_def)
next
  case AnnotationType
  then have l: "labelRules (reopened b) = map (saved_label False) (active_label_rules (labelRules b))"
    using assms by (simp add: reopened_defs)
  show ?thesis using AnnotationType assms
    by (simp add: builder_ok_def [of "reopened b"] reopened_kind l active_saved_label)
      (simp add: builder_ok_def saved_label_def)
next
  case ReplicaType
  then have l: "replicaRules (reopened b) = map saved_replica (active_replica_rules (replicaRules b))"
    by (simp add: reopened_defs)
  show ?thesis using ReplicaType assms
    by (simp add: builder_ok_def [of "reopened b"] reopened_kind l) (simp add: builder_ok_def)
next
  case ResourceLimitsType
  then show ?thesis using assms by (simp add: reopened_defs)
qed (use assms reopened_kind in \<open>simp_all add: builder_ok_def\<close>)

lemma reopened_same_text:
  assumes "builder_ok b" "messages_stable b"
  shows "generatePolicyYaml (reopened b) = generatePolicyYaml b"
proof -
  have v: "validation_lines (reopened b) = validation_lines b"
    using reopened_ok [OF assms(1)] assms
    by (simp add: validation_lines_sources reopened_sources reopened_kind)
  have n: "pb_name (reopened b) = or_else (trim (pb_name b)) ''my-policy''"
    and a: "pb_applyTo (reopened b) = (if pb_ruleType b = LabelType \<or> pb_ruleType b = AnnotationType then pb_applyTo b else ''workloads'')"
    by (simp_all add: reopened_def rules_builder_def blank_builder_def)
  have "trim ''my-policy'' = ''my-policy''" by (simp add: string_eval)
  then have m: "or_else (trim (or_else (trim x) ''my-policy'')) ''my-policy'' = or_else (trim x) ''my-policy''" for x
    by (simp add: or_else_def)
  have r: "resource_rule_lines (pb_ruleType b) (pb_applyTo (reopened b)) = resource_rule_lines (pb_ruleType b) (pb_applyTo b)"
    unfolding a using assms(1) by (cases "pb_ruleType b") (simp_all add: resource_rule_lines_def)
  have t: "pb_ruleType b \<noteq> ConfigMapSizeType" "pb_ruleType b \<noteq> SecretSizeType"
    using assms(1) by (auto simp: builder_ok_def)
  have l: "pb_applyTo (reopened b) = pb_applyTo b" if "pb_ruleType b = LabelType \<or> pb_ruleType b = AnnotationType"
    using that a by simp
  show ?thesis
    unfolding generatePolicyYaml_def Let_def reopened_kind [OF assms(1)] v n m r using t l by simp
qed

end
