(* ===== verification/VapText.thy ===== *)
theory VapText
  imports VapReopen
begin

text \<open>
  The text of a policy's rules, read by readers that know nothing of the builder: the lines of a YAML
  list of validations, YAML double-quoted scalars, CEL string literals. What the builder writes they read
  as its own expressions and messages, and in an expression the typed texts are the literals.
\<close>

section \<open>Escaping\<close>

text \<open>
  Readers of the two quoted forms the generator writes into: a YAML double-quoted scalar and a CEL
  string in apostrophes. Both start after the opening quote and return the text and what follows
  the closing quote.
\<close>

fun yaml_quoted :: "string \<Rightarrow> (string \<times> string) option" where
  "yaml_quoted [] = None"
| "yaml_quoted (c # s) =
     (if c = CHR 0x22 then Some ([], s)
      else if c = CHR 0x5C then
        (case s of [] \<Rightarrow> None
         | d # s' \<Rightarrow>
            (let e = (if d = CHR 0x5C \<or> d = CHR 0x22 then Some d
                      else if d = CHR ''n'' then Some (CHR 0x0A)
                      else if d = CHR ''r'' then Some (CHR 0x0D)
                      else if d = CHR ''t'' then Some (CHR 0x09) else None)
             in case e of None \<Rightarrow> None | Some x \<Rightarrow> map_option (\<lambda>(t, q). (x # t, q)) (yaml_quoted s')))
      else if c = CHR 0x0A \<or> c = CHR 0x0D then None
      else map_option (\<lambda>(t, q). (c # t, q)) (yaml_quoted s))"

fun cel_quoted :: "string \<Rightarrow> (string \<times> string) option" where
  "cel_quoted [] = None"
| "cel_quoted (c # s) =
     (if c = CHR 0x27 then Some ([], s)
      else if c = CHR 0x5C then
        (case s of [] \<Rightarrow> None
         | d # s' \<Rightarrow> if d = CHR 0x5C \<or> d = CHR 0x27
                     then map_option (\<lambda>(t, q). (d # t, q)) (cel_quoted s') else None)
      else if c = CHR 0x0A \<or> c = CHR 0x0D then None
      else map_option (\<lambda>(t, q). (c # t, q)) (cel_quoted s))"

lemma replace_char_append: "replace_char c r (s @ t) = replace_char c r s @ replace_char c r t"
  by (simp add: replace_char_def)

lemma escapeYaml_Cons: "escapeYaml (c # s) =
   (if c = CHR 0x5C then BS @ BS else if c = CHR 0x22 then BS @ DQ else if c = CHR 0x0A then BS @ ''n''
    else if c = CHR 0x0D then BS @ ''r'' else if c = CHR 0x09 then BS @ ''t'' else [c]) @ escapeYaml s"
  by (simp add: escapeYaml_def replace_char_def BS_def DQ_def)

lemma escapeCel_Cons: "escapeCel (c # s) =
   (if c = CHR 0x5C then BS @ BS else if c = CHR 0x27 then BS @ SQ else [c]) @ escapeCel s"
  by (simp add: escapeCel_def replace_char_def BS_def)

lemma yaml_quoted_escape: "yaml_quoted (escapeYaml s @ DQ @ rest) = Some (s, rest)"
proof (induction s)
  case Nil
  then show ?case by (simp add: escapeYaml_def replace_char_def DQ_def)
next
  case (Cons c s)
  then show ?case by (simp add: escapeYaml_Cons BS_def DQ_def)
qed

lemma cel_quoted_escape:
  "CHR 0x0A \<notin> set s \<Longrightarrow> CHR 0x0D \<notin> set s \<Longrightarrow> cel_quoted (escapeCel s @ SQ @ rest) = Some (s, rest)"
proof (induction s)
  case Nil
  then show ?case by (simp add: escapeCel_def replace_char_def)
next
  case (Cons c s)
  then show ?case by (auto simp: escapeCel_Cons BS_def)
qed

section \<open>The list of validations\<close>

text \<open>An expression: a folded block of lines indented by eight, or a double-quoted scalar on its line.\<close>

definition deep :: "string \<Rightarrow> bool" where
  "deep l \<longleftrightarrow> prefix ''        '' l"

definition take_expression :: "string list \<Rightarrow> (string \<times> string list) option" where
  \<open>take_expression ls = (case ls of [] \<Rightarrow> None
     | l # r \<Rightarrow>
         if l = ''    - expression: >-'' then Some (folded (takeWhile deep r), dropWhile deep r)
         else if prefix ''    - expression: "'' l
         then (case yaml_quoted (drop 19 l) of Some (t, []) \<Rightarrow> Some (t, r) | _ \<Rightarrow> None)
         else None)\<close>

definition take_message :: "string list \<Rightarrow> (string \<times> string list) option" where
  \<open>take_message ls = (case ls of
       l # l' # r \<Rightarrow>
         if prefix ''      message: "'' l \<and> l' = ''      reason: Forbidden''
         then (case yaml_quoted (drop 16 l) of Some (t, []) \<Rightarrow> Some (t, r) | _ \<Rightarrow> None)
         else None
     | _ \<Rightarrow> None)\<close>

lemma take_expression_shorter: "take_expression ls = Some (e, r) \<Longrightarrow> length r < length ls"
  using length_dropWhile_le [of deep]
  by (auto simp: take_expression_def less_Suc_eq_le split: list.splits if_splits option.splits prod.splits)

lemma take_message_shorter: "take_message ls = Some (m, r) \<Longrightarrow> length r < length ls"
  by (auto simp: take_message_def split: list.splits if_splits option.splits prod.splits)

function read_back :: "string list \<Rightarrow> (string \<times> string) list option" where
  "read_back ls =
     (if ls = [] then Some []
      else case take_expression ls of None \<Rightarrow> None
        | Some (e, r) \<Rightarrow> (case take_message r of None \<Rightarrow> None
            | Some (m, r') \<Rightarrow> map_option ((#) (e, m)) (read_back r')))"
  by pat_completeness auto

termination read_back
  by (relation "measure length") (auto dest!: take_expression_shorter take_message_shorter)

declare read_back.simps [simp del]

lemma read_back_Nil [simp]: "read_back [] = Some []"
  by (simp add: read_back.simps)

lemma read_back_step:
  "take_expression ls = Some (e, r) \<Longrightarrow> take_message r = Some (m, r') \<Longrightarrow>
   read_back ls = map_option ((#) (e, m)) (read_back r')"
  by (subst read_back.simps) (auto simp: take_expression_def)

lemma read_message:
  \<open>take_message ((''      message: "'' @ escapeYaml m @ ''"'') # ''      reason: Forbidden'' # r) = Some (m, r)\<close>
  using yaml_quoted_escape [of m "[]"] by (simp add: take_message_def DQ_def)

text \<open>Text without the two characters that end or escape a quoted scalar, or break its line.\<close>

definition quote_free :: "string \<Rightarrow> bool" where
  "quote_free s \<longleftrightarrow> list_all (\<lambda>c. c \<notin> {CHR 0x22, CHR 0x5C, CHR 0x0A, CHR 0x0D}) s"

lemma yaml_quoted_free: "quote_free s \<Longrightarrow> yaml_quoted (s @ CHR 0x22 # r) = Some (s, r)"
  by (induction s) (auto simp: quote_free_def)

lemma read_source:
  assumes "if t = ReplicaType then quote_free (folded ls) else list_all deep ls"
  shows "read_back (source_lines t (ls, m) @ r) = map_option ((#) (folded ls, m)) (read_back r)"
proof (cases "t = ReplicaType")
  case True
  then show ?thesis using assms read_message [of m r] yaml_quoted_free [of "folded ls" "[]"]
    by (intro read_back_step) (simp_all add: source_lines_def take_expression_def)
next
  case False
  then have "takeWhile deep (ls @ x # y) = ls" "dropWhile deep (ls @ x # y) = x # y" if "\<not> deep x" for x y
    using assms that by (simp_all add: takeWhile_append dropWhile_append list_all_iff)
  moreover have "\<not> deep (''      message: '' @ x)" for x by (simp add: deep_def)
  ultimately show ?thesis using False read_message [of m r]
    by (intro read_back_step) (simp_all add: source_lines_def take_expression_def rule_lines_def)
qed

lemma read_sources:
  assumes "\<forall>(ls, m) \<in> set ss. if t = ReplicaType then quote_free (folded ls) else list_all deep ls"
  shows "read_back (concat (map (source_lines t) ss)) = Some (map (\<lambda>(ls, m). (folded ls, m)) ss)"
  using assms
proof (induction ss)
  case (Cons x ss)
  then show ?case using read_source [of t "fst x" "snd x"] by (cases x) auto
qed simp

section \<open>Every validation the builder writes\<close>

text \<open>As \<open>rule_sources\<close>, for every builder: a kind without an active rule writes its default rule, and the
  two size kinds write one validation.\<close>

definition or_default :: "'a \<Rightarrow> 'a list \<Rightarrow> 'a list" where
  "or_default d rs = (if rs \<noteq> [] then rs else [d])"

definition written_labels :: "policy_builder \<Rightarrow> label_rule list" where
  "written_labels b = or_default emptyLabelRule (active_label_rules (labelRules b))"

definition written_images :: "policy_builder \<Rightarrow> image_rule list" where
  "written_images b = or_default emptyImageRule (active_image_rules (imageRules b))"

definition size_source :: "size_kind \<Rightarrow> size_limit_rule \<Rightarrow> string list \<times> string" where
  "size_source k r = (map (\<lambda>l. ''        '' @ l) SIZE_TOTAL_EXPR, or_else (trim (sl_message r)) (autoSizeLimitMessage k r))"

definition written_sources :: "policy_builder \<Rightarrow> (string list \<times> string) list" where
  \<open>written_sources b =
     (case pb_ruleType b of
        LabelType \<Rightarrow> map (\<lambda>r. (label_expr ''labels'' r, label_message True r)) (written_labels b)
      | AnnotationType \<Rightarrow> map (\<lambda>r. (label_expr ''annotations'' r, label_message False r)) (written_labels b)
      | ImageType \<Rightarrow> map (\<lambda>r. (check_lines True (image_check r), image_message r)) (written_images b)
      | ReplicaType \<Rightarrow> map (\<lambda>r. ([''        '' @ replica_expr r], replica_message r))
          (or_default emptyReplicaRule (active_replica_rules (replicaRules b)))
      | ResourceLimitsType \<Rightarrow> map (\<lambda>r. (check_lines False (resource_limit_check (limitType r)), limit_message r))
          (or_default emptyResourceLimitRule (resourceLimitRules b))
      | ConfigMapSizeType \<Rightarrow> [size_source ConfigMapSize (configMapSizeRule b)]
      | SecretSizeType \<Rightarrow> [size_source SecretSize (secretSizeRule b)]
      | _ \<Rightarrow> rule_sources b)\<close>

lemma lines_written: "lines_or_default f d rs = concat (map f (or_default d rs))"
  by (simp add: lines_or_default_def or_default_def)

lemma validation_lines_written:
  "validation_lines b = concat (map (source_lines (pb_ruleType b)) (written_sources b))"
proof (cases "pb_ruleType b")
  case SecurityContextType
  then show ?thesis
    using validation_lines_sources [of b] by (simp add: builder_ok_def written_sources_def)
next
  case HostAccessType
  then show ?thesis
    using validation_lines_sources [of b] by (simp add: builder_ok_def written_sources_def)
qed (simp_all add: validation_lines_def written_sources_def lines_written written_labels_def written_images_def comp_def
      source_lines_def size_source_def sizeRuleToYamlLines_def ruleToYamlLines_def [abs_def] annotationRuleToYamlLines_def [abs_def]
      imageRuleToYamlLines_def [abs_def] resourceLimitRuleToYamlLines_def [abs_def] replicaRuleToYamlLines_def [abs_def] label_message_def image_message_def
      limit_message_def replica_message_def check_lines_def folded_def Let_def)

lemma written_sources_ok: "builder_ok b \<Longrightarrow> written_sources b = rule_sources b"
  by (cases "pb_ruleType b") (simp_all add: builder_ok_def written_sources_def rule_sources_def or_default_def
      written_labels_def written_images_def)

lemma deep_lines:
  "list_all deep (label_expr f r)" "list_all deep (container_lines e p t j)" "list_all deep (check_lines e c)"
  "deep (''        '' @ s)"
  by (simp_all add: label_expr_def container_lines_def check_lines_def deep_def Let_def)

lemma show_digits_free: "quote_free (show_int i)"
proof -
  have d: "is_digit c \<Longrightarrow> c \<notin> {CHR 0x22, CHR 0x5C, CHR 0x0A, CHR 0x0D}" for c by (auto simp: is_digit_def)
  have "quote_free (show_nat n)" for n
    using show_nat_digits [of n] by (auto simp: quote_free_def all_digits_def list_all_iff dest!: d)
  then show ?thesis by (auto simp: show_int_def quote_free_def)
qed

lemma replica_free: "quote_free (replica_expr r)"
proof -
  have "quote_free s \<Longrightarrow> quote_free t \<Longrightarrow> quote_free (s @ t)" for s t by (simp add: quote_free_def)
  moreover have "quote_free ''request.resource.resource != ''" "quote_free (SQ @ ''deployments'' @ SQ)"
    "quote_free (SQ @ ''statefulsets'' @ SQ)" "quote_free '' || object.spec.replicas <= ''" "quote_free ''object.spec.replicas <= ''"
    by (simp_all add: quote_free_def)
  ultimately show ?thesis
    using show_digits_free [of "if maxReplicas r > 0 then maxReplicas r else 5"]
    by (cases "rr_resourceType r") (simp_all add: replica_expr_def Let_def quote_free_def)
qed

text \<open>Read as a list of validations, the lines are the builder's expressions and messages.\<close>

lemma rules_read:
  "read_back (validation_lines b) = Some (map (\<lambda>(ls, m). (folded ls, m)) (written_sources b))"
proof -
  have "\<forall>(ls, m) \<in> set (written_sources b). if pb_ruleType b = ReplicaType then quote_free (folded ls) else list_all deep ls"
    by (cases "pb_ruleType b")
      (auto simp: written_sources_def rule_sources_def size_source_def SIZE_TOTAL_EXPR_def deep_lines replica_free folded_def deep_def Let_def
        split: if_splits)
  then show ?thesis unfolding validation_lines_written by (rule read_sources)
qed

section \<open>String literals of an expression\<close>

text \<open>A CEL expression cut at its literals: the code around them, one piece more than literals, and what
  the literals say.\<close>

lemma cel_quoted_shorter: "cel_quoted s = Some (t, r) \<Longrightarrow> length r < length s"
proof (induction s arbitrary: t rule: cel_quoted.induct)
  case (2 c s)
  then show ?case by (fastforce split: if_splits list.splits)
qed simp

function cel_parts :: "string \<Rightarrow> (string list \<times> string list) option" where
  "cel_parts s =
     (case dropWhile (\<lambda>c. c \<noteq> CHR 0x27) s of
        [] \<Rightarrow> Some ([s], [])
      | q # r \<Rightarrow> (case cel_quoted r of None \<Rightarrow> None
          | Some (t, r') \<Rightarrow> map_option (\<lambda>(cs, ts). (takeWhile (\<lambda>c. c \<noteq> CHR 0x27) s # cs, t # ts)) (cel_parts r')))"
  by pat_completeness auto

lemma dropWhile_shorter: "dropWhile P s = q # r \<Longrightarrow> length r < length s"
  using length_dropWhile_le [of P s] by simp

termination cel_parts
  by (relation "measure length") (auto dest!: cel_quoted_shorter dropWhile_shorter)

declare cel_parts.simps [simp del]

lemma cel_parts_code: "CHR 0x27 \<notin> set s \<Longrightarrow> cel_parts s = Some ([s], [])"
proof -
  assume "CHR 0x27 \<notin> set s"
  then have "dropWhile (\<lambda>c. c \<noteq> CHR 0x27) s = []" by (auto simp: dropWhile_eq_Nil_conv)
  then show ?thesis by (subst cel_parts.simps) (simp only: list.case)
qed

definition one_line :: "string \<Rightarrow> bool" where
  "one_line s \<longleftrightarrow> CHR 0x0A \<notin> set s \<and> CHR 0x0D \<notin> set s"

lemma one_line_simps [simp]:
  "one_line []" "one_line (c # s) \<longleftrightarrow> c \<noteq> CHR 0x0A \<and> c \<noteq> CHR 0x0D \<and> one_line s" "one_line (s @ t) \<longleftrightarrow> one_line s \<and> one_line t"
  by (auto simp: one_line_def)

lemma cel_parts_literal:
  assumes "CHR 0x27 \<notin> set code" "one_line t"
  shows "cel_parts (code @ SQ @ escapeCel t @ SQ @ r) = map_option (\<lambda>(cs, ts). (code # cs, t # ts)) (cel_parts r)"
proof -
  let ?s = "code @ SQ @ escapeCel t @ SQ @ r"
  have "dropWhile (\<lambda>c. c \<noteq> CHR 0x27) ?s = CHR 0x27 # escapeCel t @ SQ @ r" "takeWhile (\<lambda>c. c \<noteq> CHR 0x27) ?s = code"
    using assms(1) by (auto simp: dropWhile_append takeWhile_append)
  then show ?thesis using assms(2) cel_quoted_escape [of t r]
    by (subst cel_parts.simps) (simp add: one_line_def)
qed

lemma one_line_trim: "one_line s \<Longrightarrow> one_line (trim s)"
  using set_trim [of s] by (auto simp: one_line_def)

lemma one_line_or_else: "one_line s \<Longrightarrow> one_line d \<Longrightarrow> one_line (or_else s d)"
  by (simp add: or_else_def)

lemma one_line_escapeCel: "one_line s \<Longrightarrow> one_line (escapeCel s)"
proof (induction s)
  case Nil
  then show ?case by (simp add: escapeCel_def replace_char_def)
next
  case (Cons c s)
  then show ?case by (simp add: escapeCel_Cons BS_def)
qed

lemma one_line_escapeYaml: "one_line (escapeYaml s)"
proof (induction s)
  case Nil
  then show ?case by (simp add: escapeYaml_def replace_char_def)
next
  case (Cons c s)
  then show ?case by (simp add: escapeYaml_Cons BS_def DQ_def)
qed

lemma char_lower_small: "char_lower c = x \<Longrightarrow> (of_char x :: nat) < 97 \<Longrightarrow> c = x"
  by (auto simp: char_lower_def Let_def split: if_splits)

lemma one_line_to_lower: "one_line s \<Longrightarrow> one_line (to_lower s)"
proof (induction s)
  case (Cons c s)
  then have "char_lower c \<noteq> CHR 0x0A" "char_lower c \<noteq> CHR 0x0D"
    using char_lower_small [of c "CHR 0x0A"] char_lower_small [of c "CHR 0x0D"] by auto
  then show ?case using Cons by (simp add: to_lower_def)
qed (simp add: to_lower_def)

text \<open>A label rule's expression: the key twice, the value once, in code that depends on the condition only.\<close>

definition label_code :: "string \<Rightarrow> label_condition \<Rightarrow> string list" where
  "label_code field c =
     (if c = CondEq
      then [''!has(object.metadata.'' @ field @ '') || !('',
            '' in object.metadata.'' @ field @ '') || object.metadata.'' @ field @ ''['', ''] != '', []]
      else [''has(object.metadata.'' @ field @ '') && '',
            '' in object.metadata.'' @ field @ '' && object.metadata.'' @ field @ ''['', ''] == '', []])"

definition label_texts :: "label_rule \<Rightarrow> string list" where
  "label_texts r = (let k = or_else (trim (lr_key r)) ''app'' in [k, k, or_else (trim (lr_value r)) ''value''])"

lemma label_literals:
  assumes "is_field field" "one_line (lr_key r)" "one_line (lr_value r)"
  shows "cel_parts (folded (label_expr field r)) = Some (label_code field (lr_condition r), label_texts r)"
proof -
  let ?k = "or_else (trim (lr_key r)) ''app''" and ?v = "or_else (trim (lr_value r)) ''value''"
  have l: "one_line ?k" "one_line ?v"
    using assms(2,3) by (simp_all add: one_line_or_else one_line_trim)
  have q: "CHR 0x27 \<notin> set field" using assms(1) by (auto simp: is_field_def)
  obtain a b c where code: "label_code field (lr_condition r) = [a, b, c, []]"
    by (cases "lr_condition r") (simp_all add: label_code_def)
  have e: "folded (label_expr field r) = a @ SQ @ escapeCel ?k @ SQ @ b @ SQ @ escapeCel ?k @ SQ @ c @ SQ @ escapeCel ?v @ SQ @ []"
    using code by (auto simp: folded_def label_expr_def label_code_def Let_def split: if_splits)
  have f: "CHR 0x27 \<notin> set a" "CHR 0x27 \<notin> set b" "CHR 0x27 \<notin> set c"
    using code q by (auto simp: label_code_def split: if_splits)
  have "cel_parts [] = Some ([[]], [])" by (simp add: cel_parts_code)
  then show ?thesis
    unfolding e cel_parts_literal [OF f(1) l(1)] cel_parts_literal [OF f(2) l(1)] cel_parts_literal [OF f(3) l(2)] code
    by (simp add: label_texts_def Let_def)
qed

text \<open>A registry rule's: the registry once for every list of containers.\<close>

fun registry_code :: "string \<Rightarrow> string list \<Rightarrow> string list" where
  "registry_code c [] = [c]"
| "registry_code c (p # ps) = (c @ p @ ''all(c, c.image.lowerAscii().startsWith('') #
     registry_code (''))'' @ (if ps = [] then [] else '' && '')) ps"

definition registry_places :: "string list" where
  "registry_places = pod_places True @ tmpl_places @ job_places"

lemma registry_literals_from:
  assumes "one_line t" "ps \<noteq> []" "CHR 0x27 \<notin> set c" "\<forall>p \<in> set ps. CHR 0x27 \<notin> set p"
  shows "cel_parts (c @ join_with '' && '' (map (\<lambda>p. p @ ''all(c, c.image.lowerAscii().startsWith('' @ SQ @ escapeCel t @ SQ @ ''))'') ps)) =
    Some (registry_code c ps, replicate (length ps) t)"
  using assms(2-4)
proof (induction ps arbitrary: c)
  case (Cons p ps)
  let ?pre = "''all(c, c.image.lowerAscii().startsWith(''"
  let ?more = "if ps = [] then [] else '' && ''"
  have free: "CHR 0x27 \<notin> set (c @ p @ ?pre)" using Cons.prems by simp
  have w: "c @ join_with '' && '' (map (\<lambda>p. p @ ?pre @ SQ @ escapeCel t @ SQ @ ''))'') (p # ps)) =
      (c @ p @ ?pre) @ SQ @ escapeCel t @ SQ @ (''))'' @ ?more) @
        join_with '' && '' (map (\<lambda>p. p @ ?pre @ SQ @ escapeCel t @ SQ @ ''))'') ps)"
    by (cases ps) simp_all
  have "cel_parts ((''))'' @ ?more) @ join_with '' && '' (map (\<lambda>p. p @ ?pre @ SQ @ escapeCel t @ SQ @ ''))'') ps)) =
      Some (registry_code (''))'' @ ?more) ps, replicate (length ps) t)"
  proof (cases "ps = []")
    case True
    then show ?thesis by (simp add: cel_parts_code)
  next
    case False
    then show ?thesis using Cons.IH [of "''))'' @ ?more"] Cons.prems(3) by simp
  qed
  then show ?case unfolding w cel_parts_literal [OF free assms(1)] by simp
qed simp

lemma registry_literals:
  assumes "ir_type r = RequiredRegistry" "one_line (ir_registry r)"
  shows "cel_parts (folded (check_lines True (image_check r))) =
    Some (registry_code [] registry_places, replicate 7 (image_prefix r))"
proof -
  have l: "one_line (image_prefix r)"
    using assms(2) by (simp add: image_prefix_def Let_def one_line_to_lower one_line_or_else one_line_trim)
  have "folded (check_lines True (image_check r)) = [] @ join_with '' && '' (map (\<lambda>p. p @ ''all(c, c.image.lowerAscii().startsWith('' @ SQ
      @ escapeCel (image_prefix r) @ SQ @ ''))'') registry_places)"
    using assms(1) by (simp add: check_lines_def folded_containers container_words_def registry_places_def image_check_def)
  moreover have "registry_places \<noteq> []" "\<forall>p \<in> set registry_places. CHR 0x27 \<notin> set p" "length registry_places = 7"
    by (simp_all add: registry_places_def places_defs)
  ultimately show ?thesis using registry_literals_from [OF l, of registry_places "[]"] by simp
qed

section \<open>Lines\<close>

text \<open>The fields whose text goes into an expression; none of them can be typed with a line break.\<close>

definition expression_fields :: "policy_builder \<Rightarrow> string list" where
  "expression_fields b =
     (case pb_ruleType b of
        LabelType \<Rightarrow> concat (map (\<lambda>r. [lr_key r, lr_value r]) (labelRules b))
      | AnnotationType \<Rightarrow> concat (map (\<lambda>r. [lr_key r, lr_value r]) (labelRules b))
      | ImageType \<Rightarrow> map ir_registry (imageRules b)
      | _ \<Rightarrow> [])"

lemma label_lines:
  "one_line f \<Longrightarrow> one_line (lr_key r) \<Longrightarrow> one_line (lr_value r) \<Longrightarrow> list_all one_line (label_expr f r)"
  by (simp add: label_expr_def Let_def one_line_escapeCel one_line_or_else one_line_trim)

lemma container_one_line:
  "one_line p \<Longrightarrow> one_line t \<Longrightarrow> one_line j \<Longrightarrow> list_all one_line (container_lines e p t j)"
  by (simp add: container_lines_def)

lemma image_one_line: "one_line (ir_registry r) \<Longrightarrow> one_line (image_check r)"
  by (simp add: image_check_def image_prefix_def Let_def one_line_escapeCel one_line_to_lower one_line_or_else one_line_trim)

lemma constant_one_line:
  "one_line (resource_limit_check t)" "one_line PRIVILEGED_CHECK" "one_line p \<Longrightarrow> one_line (non_root_check p)" "one_line (host_expr h)"
  by (cases t; simp add: resource_limit_check_def) (simp_all add: PRIVILEGED_CHECK_def non_root_check_def host_expr_def host_path_check_def)

lemma quote_free_line: "quote_free s \<Longrightarrow> one_line s"
  by (auto simp: quote_free_def one_line_def list_all_iff)

lemma written_fields:
  assumes "list_all one_line (expression_fields b)"
  shows "pb_ruleType b \<in> {LabelType, AnnotationType} \<Longrightarrow> \<forall>r \<in> set (written_labels b). one_line (lr_key r) \<and> one_line (lr_value r)"
    and "pb_ruleType b = ImageType \<Longrightarrow> \<forall>r \<in> set (written_images b). one_line (ir_registry r)"
  using assms
  by (auto simp: expression_fields_def written_labels_def written_images_def or_default_def active_label_rules_def
      active_image_rules_def emptyLabelRule_def emptyImageRule_def list_all_iff)

lemma sources_one_line:
  assumes "list_all one_line (expression_fields b)"
  shows "\<forall>(ls, m) \<in> set (written_sources b). list_all one_line ls"
  using written_fields [OF assms] quote_free_line [OF replica_free]
  by (cases "pb_ruleType b")
    (auto simp: written_sources_def rule_sources_def size_source_def SIZE_TOTAL_EXPR_def check_lines_def label_lines
      container_one_line image_one_line constant_one_line Let_def split: if_splits)

lemma folded_one_line: "list_all one_line ls \<Longrightarrow> one_line (folded ls)"
proof -
  assume a: "list_all one_line ls"
  have "set (folded ls) \<subseteq> {CHR '' ''} \<union> \<Union> (set ` set (map (drop 8) ls))"
    using set_join_with [of "'' ''" "map (drop 8) ls"] by (simp add: folded_def)
  then show ?thesis using a by (force simp: one_line_def list_all_iff dest: in_set_dropD)
qed

lemma validation_one_line:
  assumes "list_all one_line (expression_fields b)"
  shows "list_all one_line (validation_lines b)"
  using sources_one_line [OF assms] folded_one_line
  unfolding validation_lines_written
  by (fastforce simp: list_all_iff source_lines_def rule_lines_def one_line_escapeYaml split: if_splits)

lemma split_join: "ws \<noteq> [] \<Longrightarrow> \<forall>w \<in> set ws. c \<notin> set w \<Longrightarrow> split_on c (join_with [c] ws) = ws"
proof (induction ws rule: list_nonempty_induct)
  case (cons w ws)
  then show ?case by (cases ws) (simp_all add: split_on_append)
qed (simp add: split_on_free)

end
