(* ===== verification/VapProps.thy ===== *)
theory VapProps
  imports VapText
begin

text \<open>
  What the admission policy builder promises: reopening, resaving, and the registry check.
\<close>

section \<open>The policy text as a document\<close>

text \<open>
  What the text of a policy says once it is loaded, as far as the reader looks at it. The YAML
  library is not part of the code; that it loads the text as such a document is a hypothesis.
\<close>

definition spells :: "jsval \<Rightarrow> policy_builder \<Rightarrow> bool" where
  "spells doc b \<longleftrightarrow>
     is_obj doc \<and> getp doc ''kind'' = JStr ''ValidatingAdmissionPolicy'' \<and> builder_annotation doc \<and>
     metadataBeyondBuilder doc = Some False \<and>
     jopt (getp doc ''metadata'') ''name'' = JStr (or_else (trim (pb_name b)) ''my-policy'') \<and>
     jopt (jopt (getp doc ''metadata'') ''annotations'') ''sentinel.io/apply-to'' =
       (if pb_ruleType b = LabelType \<or> pb_ruleType b = AnnotationType then JStr (pb_applyTo b) else JUndef) \<and>
     is_obj (getp doc ''spec'') \<and> spec_stripped (getp doc ''spec'') \<noteq> None \<and>
     getp (getp doc ''spec'') ''validations'' = JArr (map source_validation (rule_sources b))"

lemma sources_nonempty: "builder_ok b \<Longrightarrow> rule_sources b \<noteq> []"
  by (cases "pb_ruleType b"; cases "sc_checkType (securityContextRule b)")
    (simp_all add: builder_ok_def rule_sources_def Let_def)

lemma size_expr_head: "hd (norm_ws (join_with '' '' SIZE_TOTAL_EXPR)) = CHR ''v''"
proof -
  have "tidy (join_with '' '' SIZE_TOTAL_EXPR)" by (simp add: SIZE_TOTAL_EXPR_def tidy_lit js_ws_def)
  then have "norm_ws (join_with '' '' SIZE_TOTAL_EXPR) = join_with '' '' SIZE_TOTAL_EXPR" by (rule norm_ws_tidy)
  then show ?thesis by (simp add: SIZE_TOTAL_EXPR_def)
qed

lemma containers_head: "hd (join_with '' && '' (container_words e p t j)) = CHR ''o''"
  using prefix_containers [of e p t j] by (auto simp: prefix_def)

lemma source_not_size:
  assumes "builder_ok b" "(ls, m) \<in> set (rule_sources b)"
  shows "norm_ws (folded ls) \<noteq> norm_ws (join_with '' '' SIZE_TOTAL_EXPR)"
proof -
  have "tidy (folded ls) \<and> hd (folded ls) \<noteq> CHR ''v''"
  proof (cases "pb_ruleType b")
    case LabelType
    then obtain r where r: "ls = label_expr ''labels'' r" "token (trim (lr_key r))" "token (trim (lr_value r))"
      using assms by (auto simp: builder_ok_def rule_sources_def)
    then have "folded ls = (if lr_condition r = CondEq then eq_text ''labels'' (trim (lr_key r)) (trim (lr_value r))
        else ne_text ''labels'' (trim (lr_key r)) (trim (lr_value r)))"
      using folded_label_expr [of "trim (lr_key r)" "trim (lr_value r)" "r\<lparr> lr_key := trim (lr_key r), lr_value := trim (lr_value r) \<rparr>"]
      by (simp add: label_expr_trim)
    then show ?thesis using tidy_label_texts [OF r(2,3) fields(1)] by (simp add: eq_text_def ne_text_def)
  next
    case AnnotationType
    then obtain r where r: "ls = label_expr ''annotations'' r" "token (trim (lr_key r))" "token (trim (lr_value r))"
      using assms by (auto simp: builder_ok_def rule_sources_def)
    then have "folded ls = (if lr_condition r = CondEq then eq_text ''annotations'' (trim (lr_key r)) (trim (lr_value r))
        else ne_text ''annotations'' (trim (lr_key r)) (trim (lr_value r)))"
      using folded_label_expr [of "trim (lr_key r)" "trim (lr_value r)" "r\<lparr> lr_key := trim (lr_key r), lr_value := trim (lr_value r) \<rparr>"]
      by (simp add: label_expr_trim)
    then show ?thesis using tidy_label_texts [OF r(2,3) fields(2)] by (simp add: eq_text_def ne_text_def)
  next
    case ImageType
    then obtain r where "ls = check_lines True (image_check r)" "image_ok r"
      using assms by (auto simp: builder_ok_def rule_sources_def)
    then show ?thesis using image_text_facts(1) [of r]
      by (simp add: check_lines_def folded_containers image_text_def containers_head)
  next
    case ReplicaType
    then obtain r where r: "ls = [''        '' @ replica_expr r]" "maxReplicas r > 0"
      using assms by (auto simp: rule_sources_def active_replica_rules_def)
    have "folded ls = replica_expr r" unfolding r(1) by (rule folded_single)
    moreover have "hd (replica_expr r) \<noteq> CHR ''v''"
      using r(2) by (cases "rr_resourceType r") (simp_all add: replica_expr_parts replica_head_def)
    ultimately show ?thesis using tidy_replica [OF r(2)] by simp
  next
    case ResourceLimitsType
    then obtain t where "ls = check_lines False (resource_limit_check t)"
      using assms by (auto simp: rule_sources_def)
    then show ?thesis using limits_text_facts(1) [of t]
      by (simp add: check_lines_def folded_containers limits_text_def containers_head Let_def)
  next
    case SecurityContextType
    then have "folded ls = privileged_text \<or> folded ls = non_root_text"
      using assms by (auto simp: rule_sources_def Let_def check_lines_def folded_containers privileged_text_def
          non_root_text_def split: if_splits)
    then show ?thesis using privileged_text_facts(1) non_root_text_facts(1)
      by (auto simp: privileged_text_def non_root_text_def containers_head)
  next
    case HostAccessType
    then have "folded ls = host_expr (ha_checkType (hostAccessRule b))"
      using assms folded_single by (auto simp: rule_sources_def)
    then show ?thesis using tidy_host host_start by auto
  qed (use assms in \<open>simp_all add: builder_ok_def\<close>)
  then show ?thesis using norm_ws_tidy size_expr_head by metis
qed

lemma not_sized:
  assumes "builder_ok b" "is_obj spec" "getp spec ''validations'' = JArr (map source_validation (rule_sources b))"
  shows "parseSizeLimitSpec spec = Some None"
proof (cases "length (rule_sources b) = 1")
  case True
  then obtain ls m where s: "rule_sources b = [(ls, m)]" by (cases "rule_sources b") auto
  have "norm_ws (folded ls) \<noteq> norm_ws (join_with '' '' SIZE_TOTAL_EXPR)"
    using source_not_size [OF assms(1)] s by simp
  then show ?thesis using assms s
    by (cases spec) (auto simp: parseSizeLimitSpec_def source_validation_def validation_def text_or_empty_def Let_def
        simp del: getp.simps(2))
next
  case False
  then show ?thesis using assms by (cases spec) (simp_all add: parseSizeLimitSpec_def Let_def)
qed

text \<open>Reading what was written gets as far as the comparison guard, with the saved rules.\<close>

lemma opens_up_to_guard:
  assumes "builder_ok b" "y_load Y (generatePolicyYaml b) = Some doc" "spells doc b" "pb_applyTo b \<noteq> []"
  shows "tryParseBuilderPolicy Y (generatePolicyYaml b) = accept_policy Y doc (reopened b)"
proof -
  let ?spec = "getp doc ''spec''"
  have sp: "is_obj doc" "is_obj ?spec" "getp ?spec ''validations'' = JArr (map source_validation (rule_sources b))"
    using assms(3) by (auto simp: spells_def)
  have len: "truthy (jopt (jopt ?spec ''validations'') ''length'')"
    using sp(2,3) sources_nonempty [OF assms(1)] by (cases ?spec) (simp_all add: jopt_def)
  show ?thesis
    using assms(2,3,4) sp len saved_rules_kind [OF assms(1)]
    by (cases doc) (auto simp: tryParseBuilderPolicy_def spells_def not_sized [OF assms(1)] text_or_empty_def
        saved_rules_read [OF assms(1)] reopened_def)
qed

lemma reopens:
  assumes "builder_ok b" "messages_stable b" "y_load Y (generatePolicyYaml b) = Some doc" "spells doc b"
    and "pb_applyTo b \<noteq> []"
  shows "tryParseBuilderPolicy Y (generatePolicyYaml b) = Some (reopened b)"
proof -
  have "is_obj doc" "spec_stripped (getp doc ''spec'') \<noteq> None" using assms(4) by (auto simp: spells_def)
  then have "same_spec Y (generatePolicyYaml (reopened b)) doc = Some True"
    using assms(3) reopened_same_text [OF assms(1,2)]
    by (cases doc) (auto simp: same_spec_def specForCompare_def)
  then show ?thesis
    using opens_up_to_guard [OF assms(1,3,4,5)] assms(4) by (simp add: accept_policy_def spells_def)
qed

section \<open>The registry check\<close>

text \<open>The host of an image reference, and what the generated check says of an image.\<close>

definition image_host :: "string \<Rightarrow> string" where
  "image_host img = takeWhile (\<lambda>c. c \<noteq> CHR ''/'') img"

definition registry_check :: "image_rule \<Rightarrow> string \<Rightarrow> bool" where
  "registry_check r img = prefix (image_prefix r) (to_lower img)"

lemma takeWhile_prefix_stop:
  "prefix p s \<Longrightarrow> x \<in> set p \<Longrightarrow> takeWhile (\<lambda>c. c \<noteq> x) s = takeWhile (\<lambda>c. c \<noteq> x) p"
  by (auto simp: prefix_def takeWhile_append1)

lemma char_lower_slash: "char_lower c = CHR ''/'' \<longleftrightarrow> c = CHR ''/''"
proof
  assume h: "char_lower c = CHR ''/''"
  show "c = CHR ''/''"
  proof (rule ccontr)
    assume "c \<noteq> CHR ''/''"
    then have "char_lower c \<noteq> c" using h by auto
    then have "char_lower c = char_of (of_char c + 32 :: nat)" "65 \<le> (of_char c :: nat)" "(of_char c :: nat) \<le> 222"
      by (auto simp: char_lower_def Let_def split: if_splits)
    then have "(of_char (char_lower c) :: nat) = of_char c + 32" by simp
    then show False using h \<open>65 \<le> (of_char c :: nat)\<close> by simp
  qed
qed (simp add: char_lower_def)

lemma image_host_lower: "to_lower (image_host s) = image_host (to_lower s)"
proof -
  have "takeWhile (\<lambda>c. c \<noteq> CHR ''/'') (map char_lower s) = map char_lower (takeWhile (\<lambda>c. c \<noteq> CHR ''/'') s)"
    by (induction s) (auto simp: char_lower_slash)
  then show ?thesis by (simp add: image_host_def to_lower_def)
qed

lemma image_host_slash: "image_host (s @ ''/'') = image_host s"
  by (induction s) (auto simp: image_host_def)

lemma registry_check_host:
  assumes "registry_check r img" "trim (ir_registry r) \<noteq> []"
  shows "to_lower (image_host img) = to_lower (image_host (trim (ir_registry r)))"
proof -
  let ?g = "trim (ir_registry r)"
  have sl: "char_lower (CHR ''/'') = CHR ''/''" by (simp add: char_lower_def)
  have p: "image_prefix r = to_lower (if suffix ''/'' ?g then ?g else ?g @ ''/'')"
    using assms(2) by (simp add: image_prefix_def or_else_def)
  have "CHR ''/'' \<in> set (image_prefix r)"
    unfolding p by (auto simp: to_lower_def suffix_def sl)
  then have "image_host (to_lower img) = image_host (image_prefix r)"
    using assms(1) unfolding registry_check_def image_host_def by (rule takeWhile_prefix_stop [rotated])
  also have "\<dots> = to_lower (image_host ?g)"
    unfolding p by (simp add: image_host_lower [symmetric] image_host_slash)
  finally show ?thesis by (simp add: image_host_lower)
qed

section \<open>Size caps\<close>

lemma js_Number_digits:
  assumes "0 < n" "n < 2 ^ 53"
  shows "js_Number (show_nat n) = Dec (int n) 0"
proof -
  let ?s = "show_nat n"
  note d = show_nat_facts [of n]
  have ws: "trim ?s = ?s" using d(2) digits_not_ws by (intro trim_no_ws) blast
  obtain c r where s: "?s = c # r" using d(1) by (cases ?s) auto
  have c: "is_digit c" using d(2) s by simp
  have x: "\<not> prefix [a, b] ?s" if "\<not> is_digit b" for a b
    using that d(2) by (auto simp: prefix_def)
  have sign: "c \<noteq> CHR ''-''" "c \<noteq> CHR ''+''" "?s \<noteq> ''Infinity''"
    using c d(2) by (auto simp: is_digit_def)
  have t: "takeWhile is_digit ?s = ?s" "dropWhile is_digit ?s = []"
    using d(2) by (simp_all add: takeWhile_eq_all_conv)
  have dec: "decimal_of ?s = Dec (int n) 0"
    using d(1) by (simp add: decimal_of_def digits_of_def t exponent_of_def nat_of_digits_show)
  have r: "\<not> rounds_to_infinity (int n) 0"
  proof -
    have "int n < 2 ^ 53" using assms(2) by (metis of_nat_less_iff of_nat_numeral of_nat_power)
    also have "(2 :: int) ^ 53 < 2 ^ 1024 - 2 ^ 970" by simp
    finally show ?thesis by (simp add: rounds_to_infinity_def)
  qed
  have nd: "\<not> is_digit (CHR ''x'')" "\<not> is_digit (CHR ''X'')" "\<not> is_digit (CHR ''o'')" "\<not> is_digit (CHR ''O'')"
    "\<not> is_digit (CHR ''b'')" "\<not> is_digit (CHR ''B'')" by (simp_all add: is_digit_def)
  have "hd ?s = c" using s by simp
  then show ?thesis
    unfolding js_Number_def Let_def ws using d(1) sign x nd dec r
    by simp
qed

lemma kbToBytes_digits: "0 < k \<Longrightarrow> k < 2 ^ 53 \<Longrightarrow> kbToBytes (show_nat k) = k * 1024"
  by (simp add: kbToBytes_def js_Number_digits nat_mult_distrib)

lemma whole_kb_digits:
  "0 < n \<Longrightarrow> n < 2 ^ 53 \<Longrightarrow> whole_kb (js_Number (show_nat n)) = (if n mod 1024 = 0 then Some (n div 1024) else None)"
proof -
  assume n: "0 < n" "n < 2 ^ 53"
  have "int n mod 1024 = 0 \<longleftrightarrow> n mod 1024 = 0"
    by (metis of_nat_0 of_nat_eq_iff of_nat_mod of_nat_numeral)
  moreover have "nat (int n div 1024) = n div 1024" by (simp add: nat_div_distrib)
  ultimately show ?thesis using n by (simp add: whole_kb_def js_Number_digits)
qed

section \<open>Properties\<close>

subsection \<open>Sample builders\<close>

definition sample_builder :: policy_builder where
  "sample_builder = (blank_builder '' no-host '' HostAccessType ''workloads'')"

definition sample_doc :: jsval where
  "sample_doc = JObj [
     (''kind'', JStr ''ValidatingAdmissionPolicy''),
     (''metadata'', JObj [(''name'', JStr ''no-host''), (''annotations'', JObj [(''sentinel.io/builder'', JStr ''true'')])]),
     (''spec'', JObj [(''failurePolicy'', JStr ''Fail''),
        (''validations'', JArr (map source_validation (rule_sources sample_builder)))])]"

text \<open>The concrete library, taught to read one more text.\<close>

definition taught :: "string \<Rightarrow> jsval \<Rightarrow> yaml_lib" where
  "taught text doc = toy_yaml\<lparr> y_load := (\<lambda>s. if s = text then Some doc else y_load toy_yaml s) \<rparr>"

lemma ser_not_ap: "\<not> prefix ''ap'' (ser v)"
proof (cases v)
  case (JArr xs)
  then show ?thesis by (cases xs) auto
qed auto

lemma taught_laws: "plain doc \<Longrightarrow> prefix ''ap'' text \<Longrightarrow> yaml_laws (taught text doc)"
proof -
  assume p: "plain doc" "prefix ''ap'' text"
  have "y_dump toy_yaml v \<noteq> text" for v using p(2) ser_not_ap by (auto simp: toy_yaml_def)
  moreover have "text \<noteq> []" using p(2) by auto
  ultimately show ?thesis using toy_yaml_laws p(1) by (auto simp: yaml_laws_def taught_def split: if_splits)
qed

abbreviation sample_yaml :: yaml_lib where
  "sample_yaml \<equiv> taught (generatePolicyYaml sample_builder) sample_doc"

lemma sample_laws: "yaml_laws sample_yaml"
proof (rule taught_laws)
  have "plain (source_validation x)" for x
    by (cases x) (simp add: source_validation_def validation_def js_ordered_Cons not_js_index is_digit_def)
  then have "list_all plain (map source_validation (rule_sources sample_builder))" by (simp add: list_all_iff)
  then have "plain (JArr (map source_validation (rule_sources sample_builder)))" by simp
  then show "plain sample_doc"
    by (simp add: sample_doc_def js_ordered_Cons not_js_index is_digit_def)
  show "prefix ''ap'' (generatePolicyYaml sample_builder)"
    by (simp add: generatePolicyYaml_def Let_def)
qed

lemma sample_ok: "builder_ok sample_builder" "messages_stable sample_builder" "pb_applyTo sample_builder \<noteq> []"
  by (simp_all add: sample_builder_def blank_builder_def builder_ok_def messages_stable_def rule_sources_def
      host_message_def autoHostAccessMessage_def emptyHostAccessRule_def or_else_def string_eval)

lemma sample_spells: "spells sample_doc sample_builder"
  by (simp add: spells_def sample_doc_def builder_annotation_def metadataBeyondBuilder_def obj_keys_def
      OWN_ANNOTATIONS_def spec_stripped_def strip_field_def sample_builder_def blank_builder_def or_else_def string_eval)

text \<open>C7: what the builder saves, the builder opens, for rules filled in with what its readers know. The
  policy is of a kind other than the two size kinds, with at least one active rule, keys, values and
  registries of the characters Kubernetes names have (\<open>builder_ok\<close>), messages that end and begin in no
  blank (\<open>messages_stable\<close>), and a target. When the YAML library loads the policy's text as the document
  it spells, the parser returns the same rules in their saved form: only active rows, trimmed, the
  messages filled in, registries with their slash.\<close>

theorem policy_builder_reopens:
  assumes "builder_ok b" "messages_stable b" "pb_applyTo b \<noteq> []"
    and "y_load Y (generatePolicyYaml b) = Some doc" "spells doc b"
  shows "tryParseBuilderPolicy Y (generatePolicyYaml b) = Some (reopened b)"
  by (rule reopens [OF assms(1,2,4,5,3)])

theorem policy_builder_reopens_witness:
  "tryParseBuilderPolicy sample_yaml (generatePolicyYaml sample_builder) = Some (reopened sample_builder)"
  by (rule policy_builder_reopens [OF sample_ok _ sample_spells]) (simp add: taught_def)

text \<open>C8: for rules filled in with the characters Kubernetes names have, of a kind other than the two size
  kinds: the lines of the manifest are exactly the builder's validations, and a reader of a YAML list of
  validations finds in them the expressions and messages that the builder's own readers are given; each of
  these is read by the reader of its own kind and by none of the six others, as the rule it was written
  from; and when no message has a blank at its ends, writing the rules that were read gives the same
  text again.\<close>

theorem rules_read_back:
  assumes "builder_ok b"
  shows "validation_lines b = concat (map (source_lines (pb_ruleType b)) (rule_sources b))
    \<and> read_back (validation_lines b) = Some (map (\<lambda>(ls, m). (folded ls, m)) (rule_sources b))
    \<and> read_validations (map source_validation (rule_sources b)) no_rules = Some (saved_rules b)
    \<and> types_used (saved_rules b) = 1 \<and> parsed_rule_type (saved_rules b) = pb_ruleType b
    \<and> (messages_stable b \<longrightarrow> generatePolicyYaml (reopened b) = generatePolicyYaml b)"
  using validation_lines_sources [OF assms] saved_rules_read [OF assms] saved_rules_kind [OF assms]
    reopened_same_text [OF assms] rules_read [of b] written_sources_ok [OF assms] by simp

theorem rules_read_back_witness:
  "generatePolicyYaml (reopened sample_builder) = generatePolicyYaml sample_builder"
  using rules_read_back [OF sample_ok(1)] sample_ok(2) by blast

text \<open>C9: a policy opens in the builder only when saving it unchanged keeps its spec, up to key order
  and the values the API server fills in; so opening and saving any number of times keeps it too.
  Labels and foreign annotations, which a save would drop, keep a policy out of the builder.\<close>

theorem policy_open_keeps_spec:
  assumes "yaml_laws Y" "tryParseBuilderPolicy Y raw = Some b"
  shows "vap_view Y (generatePolicyYaml b) = vap_view Y raw
    \<and> vap_view Y (resave (tryParseBuilderPolicy Y) generatePolicyYaml n raw) = vap_view Y raw
    \<and> (\<exists>doc. y_load Y raw = Some doc \<and> metadataBeyondBuilder doc = Some False)"
  using policy_guard.guard [OF assms] policy_guard.resave_view [OF assms(1)]
    tryParseBuilderPolicy_SomeD [OF assms(2)] accept_policy_SomeD by blast

theorem policy_open_keeps_spec_witness:
  "vap_view sample_yaml (generatePolicyYaml (reopened sample_builder)) =
     vap_view sample_yaml (generatePolicyYaml sample_builder)"
proof -
  have l: "y_load sample_yaml (generatePolicyYaml sample_builder) = Some sample_doc" by (simp add: taught_def)
  have "tryParseBuilderPolicy sample_yaml (generatePolicyYaml sample_builder) = Some (reopened sample_builder)"
    by (rule reopens [OF sample_ok(1,2) l sample_spells sample_ok(3)])
  from policy_open_keeps_spec [OF sample_laws this] show ?thesis by blast
qed

text \<open>The same for bindings: the form opens a binding only when saving it keeps its spec.\<close>

theorem binding_open_keeps_spec:
  assumes "yaml_laws Y" "tryParseBuilderBinding Y raw = Some b"
  shows "vap_view Y (generateBindingYaml b) = vap_view Y raw
    \<and> vap_view Y (resave (tryParseBuilderBinding Y) generateBindingYaml n raw) = vap_view Y raw"
  using binding_guard.guard [OF assms] binding_guard.resave_view [OF assms(1)] by blast

definition sample_binding :: binding_builder where
  "sample_binding = \<lparr> bb_name = ''b'', bb_policyName = ''p'', bb_nsMode = ExcludeNs,
     bb_namespaces = [''kube-system''], bb_actions = [''Deny''] \<rparr>"

definition sample_binding_doc :: jsval where
  "sample_binding_doc = JObj [
     (''kind'', JStr ''ValidatingAdmissionPolicyBinding''),
     (''metadata'', JObj [(''name'', JStr ''b''), (''annotations'', JObj [(''sentinel.io/builder'', JBool True)])]),
     (''spec'', JObj [(''policyName'', JStr ''p''), (''validationActions'', JArr [JStr ''Deny'']),
        (''matchResources'', JObj [(''matchPolicy'', JStr ''Equivalent''),
           (''namespaceSelector'', JObj [(''matchExpressions'', JArr [JObj [
              (''key'', JStr ''kubernetes.io/metadata.name''), (''operator'', JStr ''NotIn''),
              (''values'', JArr [JStr ''kube-system''])]])])])])]"

abbreviation binding_yaml :: yaml_lib where
  "binding_yaml \<equiv> taught (generateBindingYaml sample_binding) sample_binding_doc"

lemma binding_laws: "yaml_laws binding_yaml"
proof (rule taught_laws)
  show "plain sample_binding_doc"
    by (simp add: sample_binding_doc_def js_ordered_Cons not_js_index is_digit_def)
  show "prefix ''ap'' (generateBindingYaml sample_binding)"
    by (simp add: generateBindingYaml_def Let_def)
qed

lemma binding_opens: "tryParseBuilderBinding binding_yaml (generateBindingYaml sample_binding) = Some sample_binding"
proof -
  have l: "y_load binding_yaml (generateBindingYaml sample_binding) = Some sample_binding_doc"
    by (simp add: taught_def)
  have "same_spec binding_yaml (generateBindingYaml sample_binding) sample_binding_doc = Some True"
    by (simp add: same_spec_def l specForCompare_def) (simp add: sample_binding_doc_def spec_stripped_def
        strip_field_def strip_match_def strip_rules_def empty_obj_def obj_keys_def)
  then show ?thesis
    by (simp add: tryParseBuilderBinding_def l) (simp add: sample_binding_doc_def builder_annotation_def
        binding_scope_def text_or_empty_def binding_actions_def metadataBeyondBuilder_def obj_keys_def
        OWN_ANNOTATIONS_def sample_binding_def Let_def)
qed

theorem binding_open_keeps_spec_witness:
  "vap_view binding_yaml (resave (tryParseBuilderBinding binding_yaml) generateBindingYaml 2 (generateBindingYaml sample_binding))
     = vap_view binding_yaml (generateBindingYaml sample_binding)"
  using binding_open_keeps_spec [OF binding_laws binding_opens] by blast

end
