(* ===== verification/VapSafety.thy ===== *)
theory VapSafety
  imports VapProps
begin

text \<open>
  Further promises of the admission policy builder: values the API server fills in do not keep a
  policy out of the builder, text typed by the user stays inside its quotes, the registry check
  pins the host, size caps survive a reopen, and one message that does not.
\<close>

section \<open>Server defaults\<close>

lemma getp_default_field: "is_obj v \<Longrightarrow> k \<noteq> k' \<Longrightarrow> getp (default_field k x v) k' = getp v k'"
  by (simp add: default_field_def getp_jset)

lemma is_obj_default_field [simp]: "is_obj (default_field k x v) = is_obj v"
  by (simp add: default_field_def)

lemma truthy_obj: "is_obj v \<Longrightarrow> truthy v"
  by (cases v) auto

lemma is_obj_server_defaults: "is_obj mc \<Longrightarrow> is_obj (server_defaults mc)"
  by (simp add: server_defaults_def default_field_def)

lemma strip_field_defaults:
  assumes "plain spec" "is_obj (getp spec k)" "\<not> js_index k"
  shows "strip_field k (jset k (server_defaults (getp spec k)) spec) = strip_field k spec"
proof -
  have o: "is_obj spec" using assms(2,3) by (cases spec) (auto split: if_splits)
  have p: "plain (getp spec k)" using plain_getp [OF assms(1), of k] assms(2) by auto
  show ?thesis
    using o assms(2,3) strip_match_defaults [OF p assms(2)]
    by (simp add: strip_field_def getp_jset truthy_obj is_obj_server_defaults jset_jset)
qed

lemma spec_defaults_invisible:
  assumes "plain spec" "is_obj (getp spec ''matchConstraints'')"
  shows "spec_stripped (jset ''matchConstraints'' (server_defaults (getp spec ''matchConstraints'')) spec)
    = spec_stripped spec"
proof -
  have "is_obj spec" using assms(2) by (cases spec) (auto split: if_splits)
  then have "nvl spec (JObj []) = spec" "nvl (jset k x spec) (JObj []) = jset k x spec" for k x
    by (cases spec; simp)+
  then show ?thesis using strip_field_defaults [OF assms match_keys(6)] by (simp add: spec_stripped_def)
qed

text \<open>A stored policy: the document with the defaults the API server fills in.\<close>

definition stored_spec :: "jsval \<Rightarrow> jsval" where
  "stored_spec spec = jset ''matchConstraints'' (server_defaults (getp spec ''matchConstraints'')) spec"

definition stored_policy :: "jsval \<Rightarrow> jsval" where
  "stored_policy doc = jset ''spec'' (stored_spec (getp doc ''spec'')) doc"

lemma is_obj_owner: "is_obj (getp v k) \<Longrightarrow> \<not> js_index k \<Longrightarrow> is_obj v"
  by (cases v) (auto split: if_splits)

lemma jopt_of_obj: "is_obj v \<Longrightarrow> jopt v k = getp v k"
  by (cases v) (auto simp: jopt_def)

text \<open>The first rule of the match, whose resources tell a size policy, keeps them.\<close>

lemma default_scope_resources: "jopt (default_field ''scope'' x v) ''resources'' = jopt v ''resources''"
  by (cases v) (auto simp: default_field_def jopt_def getp_jset)

lemma first_rule_defaults: "jopt (jopt (JArr (map (default_field ''scope'' x) rs)) ''0'') ''resources'' = jopt (jopt (JArr rs) ''0'') ''resources''"
proof (cases rs)
  case Nil
  then show ?thesis by simp
next
  case (Cons r rest)
  then show ?thesis using default_scope_resources [of x r] by (simp add: jopt_def [of "JArr w" for w])
qed

lemma resources_default_rules:
  "is_obj mc \<Longrightarrow> jopt (jopt (jopt (default_rules ''resourceRules'' mc) ''resourceRules'') ''0'') ''resources'' =
     jopt (jopt (jopt mc ''resourceRules'') ''0'') ''resources''"
proof (cases "getp mc ''resourceRules''")
  case (JArr rs)
  assume o: "is_obj mc"
  then have "is_obj (default_rules ''resourceRules'' mc)" by simp
  then show ?thesis
    using o JArr first_rule_defaults [of "JStr ''*''" rs] by (simp add: jopt_of_obj default_rules_def getp_jset del: getp.simps)
qed (simp_all add: default_rules_def)

lemma first_resources_stored:
  assumes "is_obj (getp spec ''matchConstraints'')"
  shows "first_resources (stored_spec spec) = first_resources spec"
proof -
  let ?mc = "getp spec ''matchConstraints''"
  have o: "is_obj spec" using is_obj_owner [OF assms] by simp
  then have m: "jopt (stored_spec spec) ''matchConstraints'' = server_defaults ?mc" "jopt spec ''matchConstraints'' = ?mc"
    by (simp_all add: jopt_of_obj stored_spec_def getp_jset)
  have s: "is_obj (server_defaults ?mc)" using assms by (rule is_obj_server_defaults)
  have "jopt (server_defaults ?mc) ''resourceRules'' = jopt (default_rules ''resourceRules'' ?mc) ''resourceRules''"
    using assms by (simp add: jopt_of_obj server_defaults_def getp_default_field)
  then show ?thesis using resources_default_rules [OF assms] by (simp add: first_resources_def m)
qed

lemma getp_stored_spec: "k \<noteq> ''matchConstraints'' \<Longrightarrow> getp (stored_spec spec) k = getp spec k"
  by (simp add: stored_spec_def getp_jset)

lemma jopt_stored_spec: "k \<noteq> ''matchConstraints'' \<Longrightarrow> jopt (stored_spec spec) k = jopt spec k"
  by (cases spec) (simp_all add: stored_spec_def jopt_def getp_jset)

lemma getp_stored_policy: "k \<noteq> ''spec'' \<Longrightarrow> getp (stored_policy doc) k = getp doc k"
  by (simp add: stored_policy_def getp_jset)

lemma jopt_stored_policy: "k \<noteq> ''spec'' \<Longrightarrow> jopt (stored_policy doc) k = jopt doc k"
  by (cases doc) (simp_all add: stored_policy_def jopt_def getp_jset)

lemma size_spec_stored:
  "is_obj (getp spec ''matchConstraints'') \<Longrightarrow> parseSizeLimitSpec (stored_spec spec) = parseSizeLimitSpec spec"
  unfolding parseSizeLimitSpec_def by (simp add: jopt_stored_spec getp_stored_spec first_resources_stored cong: if_cong)

text \<open>C10: what the API server adds to a stored policy does not change how it opens. With matchPolicy
  Equivalent, the empty selectors and the scope "*" filled in where they were absent, the parser answers as
  for the policy without them: the same builder state, or the YAML editor for both.\<close>

theorem server_defaults_invisible:
  assumes "yaml_laws Y" "y_load Y raw = Some doc" "y_load Y raw' = Some (stored_policy doc)"
    and "is_obj (getp (getp doc ''spec'') ''matchConstraints'')"
  shows "tryParseBuilderPolicy Y raw' = tryParseBuilderPolicy Y raw"
proof -
  let ?spec = "getp doc ''spec''"
  have o: "is_obj ?spec" using is_obj_owner [OF assms(4)] by simp
  moreover have "\<not> js_index ''spec''" by (simp add: not_js_index is_digit_def)
  ultimately have d: "is_obj doc" by (rule is_obj_owner)
  have "plain ?spec" using yaml_load_plain [OF assms(1,2)] plain_getp [of doc "''spec''"] o by auto
  then have "spec_stripped (stored_spec ?spec) = spec_stripped ?spec"
    unfolding stored_spec_def using assms(4) by (rule spec_defaults_invisible)
  then have "same_spec Y t (stored_policy doc) = same_spec Y t doc" for t
    using d by (simp add: same_spec_def specForCompare_def stored_policy_def getp_jset cong: if_cong)
  moreover have "metadataBeyondBuilder (stored_policy doc) = metadataBeyondBuilder doc"
    by (simp add: metadataBeyondBuilder_def getp_stored_policy)
  ultimately have a: "accept_policy Y (stored_policy doc) b = accept_policy Y doc b" for b
    by (simp add: accept_policy_def cong: if_cong)
  have k: "''kind'' \<noteq> ''spec''" and m: "''metadata'' \<noteq> ''spec''" and v: "''validations'' \<noteq> ''matchConstraints''" by simp_all
  have s: "getp (stored_policy doc) ''spec'' = stored_spec ?spec" using d by (simp add: stored_policy_def getp_jset)
  show ?thesis
    unfolding tryParseBuilderPolicy_def assms(2,3) Option.bind.bind_lunit Let_def s a builder_annotation_def
      getp_stored_policy [OF m] jopt_stored_policy [OF k] getp_stored_spec [OF v] jopt_stored_spec [OF v]
      size_spec_stored [OF assms(4)] by (rule refl)
qed

lemma taught_more:
  assumes "yaml_laws Y" "plain doc" "text \<noteq> []" "\<And>v. y_dump Y v \<noteq> text"
  shows "yaml_laws (Y\<lparr> y_load := (y_load Y)(text \<mapsto> doc) \<rparr>)"
  using assms by (simp add: yaml_laws_def)

text \<open>The sample policy with a match, and the text of its stored form, which a library knows as well.\<close>

definition matched_doc :: jsval where
  "matched_doc = JObj [
     (''kind'', JStr ''ValidatingAdmissionPolicy''),
     (''metadata'', JObj [(''name'', JStr ''no-host''), (''annotations'', JObj [(''sentinel.io/builder'', JStr ''true'')])]),
     (''spec'', JObj [(''failurePolicy'', JStr ''Fail''),
        (''matchConstraints'', JObj [(''resourceRules'', JArr [JObj [(''resources'', JArr [JStr ''pods''])]])]),
        (''validations'', JArr (map source_validation (rule_sources sample_builder)))])]"

definition knows_stored :: yaml_lib where
  "knows_stored = (let Y = taught (generatePolicyYaml sample_builder) matched_doc
     in Y\<lparr> y_load := (y_load Y)(''ap'' \<mapsto> stored_policy matched_doc) \<rparr>)"

lemma policy_text_start: "prefix ''ap'' (generatePolicyYaml b)"
  by (simp add: generatePolicyYaml_def Let_def)

lemma plain_server_defaults: "plain mc \<Longrightarrow> plain (server_defaults mc)"
  by (simp add: server_defaults_def plain_default_field plain_default_rules)

lemma plain_matched_doc: "plain matched_doc" "plain (stored_policy matched_doc)"
proof -
  have "plain (source_validation x)" for x
    by (cases x) (simp add: source_validation_def validation_def js_ordered_Cons not_js_index is_digit_def)
  then have "plain (JArr (map source_validation (rule_sources sample_builder)))" by (simp add: list_all_iff)
  then show p: "plain matched_doc"
    by (simp add: matched_doc_def js_ordered_Cons not_js_index is_digit_def)
  have o: "is_obj (getp matched_doc ''spec'')" "is_obj (getp (getp matched_doc ''spec'') ''matchConstraints'')"
    by (simp_all add: matched_doc_def)
  have "plain (getp matched_doc ''spec'')" using plain_getp [OF p, of "''spec''"] o(1) by auto
  moreover from this have "plain (getp (getp matched_doc ''spec'') ''matchConstraints'')"
    using plain_getp [of "getp matched_doc ''spec''" "''matchConstraints''"] o(2) by auto
  ultimately show "plain (stored_policy matched_doc)"
    using p by (simp add: stored_policy_def stored_spec_def plain_jset plain_server_defaults)
qed

theorem server_defaults_invisible_witness:
  "tryParseBuilderPolicy knows_stored ''ap'' = Some (reopened sample_builder)"
proof -
  let ?text = "generatePolicyYaml sample_builder"
  have t: "?text \<noteq> ''ap''" by (simp add: generatePolicyYaml_def Let_def)
  have l: "y_load knows_stored ?text = Some matched_doc" "y_load knows_stored ''ap'' = Some (stored_policy matched_doc)"
    using t by (simp_all add: knows_stored_def taught_def Let_def)
  have laws: "yaml_laws knows_stored"
    unfolding knows_stored_def Let_def
  proof (rule taught_more [OF taught_laws [OF plain_matched_doc(1) policy_text_start] plain_matched_doc(2)])
    show "y_dump (taught u d) v \<noteq> ''ap''" for u d v
      using ser_not_ap [of v] by (auto simp: taught_def toy_yaml_def)
  qed simp
  have "spells matched_doc sample_builder"
    by (simp add: spells_def matched_doc_def builder_annotation_def metadataBeyondBuilder_def obj_keys_def jget_def
        OWN_ANNOTATIONS_def spec_stripped_def strip_field_def strip_match_def strip_rules_def strip_scope_def empty_obj_def
        sample_builder_def blank_builder_def or_else_def string_eval)
  from reopens [OF sample_ok(1,2) l(1) this sample_ok(3)] show ?thesis
    using server_defaults_invisible [OF laws l] by (simp add: matched_doc_def)
qed

section \<open>Typed text\<close>










section \<open>The registry check\<close>

text \<open>An image that passes the check of a required-registry rule comes from the registry's host,
  letter case aside: no longer host name with the registry as its beginning gets through.\<close>

theorem registry_pins_host:
  assumes "prefix (image_prefix r) (to_lower img)" "trim (ir_registry r) \<noteq> []"
  shows "to_lower (image_host img) = to_lower (image_host (trim (ir_registry r)))"
  using assms registry_check_host by (simp add: registry_check_def)

theorem registry_pins_host_witness:
  "to_lower (image_host ''reg.io/app'') =
   to_lower (image_host (trim (ir_registry \<lparr> ir_type = RequiredRegistry, ir_registry = ''Reg.io'', ir_message = [] \<rparr>)))"
  by (rule registry_pins_host) code_simp+

section \<open>Size caps\<close>

text \<open>The spec a size builder writes, as far as its reader looks.\<close>

definition size_doc :: "size_kind \<Rightarrow> size_limit_rule \<Rightarrow> jsval" where
  "size_doc k r = JObj [
     (''matchConstraints'', JObj [(''resourceRules'', JArr [JObj [(''resources'',
        JArr [JStr (case k of ConfigMapSize \<Rightarrow> ''configmaps'' | SecretSize \<Rightarrow> ''secrets'')])]])]),
     (''variables'', JArr [JObj [(''name'', JStr ''totalLimit''), (''expression'', JStr (show_nat (kbToBytes (totalKB r))))]]),
     (''validations'', JArr [JObj [(''expression'', JStr (join_with '' '' SIZE_TOTAL_EXPR)),
        (''message'', JStr (or_else (trim (sl_message r)) (autoSizeLimitMessage k r)))]])]"

lemma size_text_nonempty: "autoSizeLimitMessage k r \<noteq> []"
  by (cases k) (simp_all add: autoSizeLimitMessage_def Let_def)

text \<open>A size rule with a whole number of kilobytes is read back as the same cap, with the
  message blank when it is the default one.\<close>

theorem size_cap_reopens:
  assumes "0 < n" "n < 2 ^ 43"
  shows "parseSizeLimitSpec (size_doc k \<lparr> totalKB = show_nat n, sl_message = m \<rparr>) =
    Some (Some (k, \<lparr> totalKB = show_nat n, sl_message =
      (if trim m = autoSizeLimitMessage k \<lparr> totalKB = show_nat n, sl_message = [] \<rparr> then [] else trim m) \<rparr>))"
proof -
  have b: "kbToBytes (show_nat n) = n * 1024" using assms by (simp add: kbToBytes_digits)
  have w: "whole_kb (js_Number (show_nat (n * 1024))) = Some n"
    using assms by (simp add: whole_kb_digits)
  have a: "autoSizeLimitMessage k' \<lparr> totalKB = show_nat n, sl_message = m \<rparr> =
      autoSizeLimitMessage k' \<lparr> totalKB = show_nat n, sl_message = [] \<rparr>" for k' by (simp add: autoSizeLimitMessage_def)
  show ?thesis
    by (cases k) (auto simp: parseSizeLimitSpec_def size_doc_def b w a or_else_def text_or_empty_def
        resource_includes_def first_resources_def jopt_def Let_def)
qed

theorem size_cap_reopens_witness:
  "parseSizeLimitSpec (size_doc SecretSize \<lparr> totalKB = show_nat 64, sl_message = [] \<rparr>) =
     Some (Some (SecretSize, \<lparr> totalKB = show_nat 64, sl_message = [] \<rparr>))"
  using size_cap_reopens [of 64 SecretSize "[]"] size_text_nonempty by simp

section \<open>A message that is not kept\<close>

lemma getp_strip_rules:
  "strip_rules k mc = Some mc' \<Longrightarrow> k' \<noteq> k \<Longrightarrow> getp mc' k' = getp mc k'"
  by (auto simp: strip_rules_def getp_jset split: if_splits jsval.splits)

lemma getp_strip_field: "strip_field k spec = Some spec' \<Longrightarrow> k' \<noteq> k \<Longrightarrow> getp spec' k' = getp spec k'"
  by (auto simp: strip_field_def getp_jset split: if_splits)

lemma validations_stripped:
  "is_obj spec \<Longrightarrow> spec_stripped spec = Some s \<Longrightarrow> getp s ''validations'' = getp spec ''validations''"
  by (cases spec) (auto simp: spec_stripped_def bind_eq_Some_conv dest!: getp_strip_field [where k' = "''validations''"])

lemma same_view_same_validations:
  assumes "yaml_laws Y" "y_load Y t = Some doc" "y_load Y t' = Some doc'" "vap_view Y t = vap_view Y t'"
    and "is_obj (getp doc ''spec'')" "is_obj (getp doc' ''spec'')" "spec_stripped (getp doc ''spec'') \<noteq> None"
  shows "canon (getp (getp doc ''spec'') ''validations'') = canon (getp (getp doc' ''spec'') ''validations'')"
proof -
  obtain s where s1: "spec_stripped (getp doc ''spec'') = Some s" using assms(7) by auto
  then have "map_option canon (spec_stripped (getp doc' ''spec'')) = Some (canon s)"
    using assms(2,3,4) by (simp add: vap_view_def)
  then obtain s' where "spec_stripped (getp doc' ''spec'') = Some s'" "canon s = canon s'" by auto
  note s = s1 this
  have u: "plain (getp v ''spec'')" if "y_load Y x = Some v" "is_obj (getp v ''spec'')" for x v
    using yaml_load_plain [OF assms(1) that(1)] plain_getp [of v "''spec''"] that(2) by auto
  have p: "plain s" "plain s'" using plain_spec_stripped s u assms(2,3,5,6) by blast+
  have "canon (getp s ''validations'') = canon (getp s' ''validations'')"
    using getp_canon [OF p(1), of "''validations''"] getp_canon [OF p(2), of "''validations''"] s(3) by simp
  then show ?thesis using validations_stripped [OF assms(5) s(1)] validations_stripped [OF assms(6) s(2)] by simp
qed

text \<open>A value typed with a blank at its end: the key and value of the expression are trimmed, the
  default message is built from what was typed.\<close>

definition blank_rule :: label_rule where
  "blank_rule = \<lparr> lr_key = ''team'', lr_condition = CondNe, lr_value = ''a '', lr_message = [] \<rparr>"

definition blank_value_builder :: policy_builder where
  "blank_value_builder = (blank_builder ''p'' LabelType ''workloads'')\<lparr> labelRules := [blank_rule] \<rparr>"

lemma blank_rule_facts:
  "trim (lr_key blank_rule) = ''team''" "trim (lr_value blank_rule) = ''a''" "active_label_rules [blank_rule] = [blank_rule]"
  "label_message True blank_rule = ''Resources must have label team=a ''"
  "label_message True (saved_label True blank_rule) = ''Resources must have label team=a''"
  by (simp_all add: blank_rule_def active_label_rules_def label_message_def saved_label_def or_else_def
      buildAutoMessage_def string_eval)

lemma blank_ok: "builder_ok blank_value_builder"
  by (simp add: builder_ok_def blank_value_builder_def blank_builder_def blank_rule_facts)
    (simp add: token_def token_char_def alnum_def is_lower_def Let_def)

lemma blank_sources:
  "rule_sources blank_value_builder = [(label_expr ''labels'' blank_rule, ''Resources must have label team=a '')]"
  "rule_sources (reopened blank_value_builder) =
     [(label_expr ''labels'' (saved_label True blank_rule), ''Resources must have label team=a'')]"
proof -
  have a: "active_label_rules [saved_label True blank_rule] = [saved_label True blank_rule]"
    using active_saved_label [of True "[blank_rule]"] by (simp add: blank_rule_facts)
  show "rule_sources blank_value_builder = [(label_expr ''labels'' blank_rule, ''Resources must have label team=a '')]"
    by (simp add: rule_sources_def blank_value_builder_def blank_builder_def blank_rule_facts)
  show "rule_sources (reopened blank_value_builder) =
     [(label_expr ''labels'' (saved_label True blank_rule), ''Resources must have label team=a'')]"
    by (simp add: rule_sources_def reopened_defs blank_value_builder_def blank_rule_facts a parsed_rule_type_def)
qed

text \<open>A "must have" label rule whose value was typed with a trailing blank does not open in the
  builder that saved it: its default message ends in the blank, which the next save would trim, so
  the regenerated policy differs and the YAML editor opens instead.\<close>

theorem trailing_blank_not_reopened:
  assumes "yaml_laws Y"
    and "y_load Y (generatePolicyYaml blank_value_builder) = Some doc" "spells doc blank_value_builder"
    and "y_load Y (generatePolicyYaml (reopened blank_value_builder)) = Some doc'"
      "spells doc' (reopened blank_value_builder)"
  shows "tryParseBuilderPolicy Y (generatePolicyYaml blank_value_builder) = None"
proof (rule ccontr)
  let ?b = "blank_value_builder"
  assume "tryParseBuilderPolicy Y (generatePolicyYaml ?b) \<noteq> None"
  then obtain x where "accept_policy Y doc (reopened ?b) = Some x"
    using opens_up_to_guard [OF blank_ok assms(2,3)] by (auto simp: blank_value_builder_def blank_builder_def)
  then have "same_spec Y (generatePolicyYaml (reopened ?b)) doc = Some True" using accept_policy_SomeD by blast
  then have v: "vap_view Y (generatePolicyYaml (reopened ?b)) = vap_view Y (generatePolicyYaml ?b)"
    by (rule same_spec_view [OF assms(1,2)])
  have "canon (getp (getp doc' ''spec'') ''validations'') = canon (getp (getp doc ''spec'') ''validations'')"
    by (rule same_view_same_validations [OF assms(1,4,2) v]) (use assms(3,5) in \<open>auto simp: spells_def\<close>)
  then show False using assms(3,5)
    by (auto simp: spells_def blank_sources source_validation_def validation_def)
qed

text \<open>A library that knows both texts.\<close>

definition blank_doc :: "policy_builder \<Rightarrow> jsval" where
  "blank_doc b = JObj [
     (''kind'', JStr ''ValidatingAdmissionPolicy''),
     (''metadata'', JObj [(''name'', JStr ''p''), (''annotations'', JObj [(''sentinel.io/builder'', JStr ''true''),
        (''sentinel.io/apply-to'', JStr ''workloads'')])]),
     (''spec'', JObj [(''failurePolicy'', JStr ''Fail''), (''validations'', JArr (map source_validation (rule_sources b)))])]"

lemma plain_blank_doc: "plain (blank_doc b)"
proof -
  have "plain (source_validation x)" for x
    by (cases x) (simp add: source_validation_def validation_def js_ordered_Cons not_js_index is_digit_def)
  then have "plain (JArr (map source_validation (rule_sources b)))" by (simp add: list_all_iff)
  then show ?thesis
    by (simp add: blank_doc_def js_ordered_Cons not_js_index is_digit_def)
qed

lemma spells_blank_doc:
  "trim (pb_name b) = ''p'' \<Longrightarrow> pb_ruleType b = LabelType \<Longrightarrow> pb_applyTo b = ''workloads'' \<Longrightarrow> spells (blank_doc b) b"
  by (simp add: spells_def blank_doc_def builder_annotation_def metadataBeyondBuilder_def obj_keys_def
      OWN_ANNOTATIONS_def spec_stripped_def strip_field_def or_else_def)

definition knows_both :: yaml_lib where
  "knows_both =
     (let b = blank_value_builder; Y = taught (generatePolicyYaml b) (blank_doc b)
      in Y\<lparr> y_load := (y_load Y)(generatePolicyYaml (reopened b) \<mapsto> blank_doc (reopened b)) \<rparr>)"

lemma knows_both_laws: "yaml_laws knows_both"
  unfolding knows_both_def Let_def
proof (rule taught_more [OF taught_laws [OF plain_blank_doc policy_text_start] plain_blank_doc])
  show "generatePolicyYaml b \<noteq> []" for b using policy_text_start [of b] by auto
  show "y_dump (taught t d) v \<noteq> generatePolicyYaml b" for t d v b
    using ser_not_ap [of v] policy_text_start [of b] by (auto simp: taught_def toy_yaml_def)
qed

lemma blank_text_changes: "generatePolicyYaml blank_value_builder \<noteq> generatePolicyYaml (reopened blank_value_builder)"
  by code_simp

theorem trailing_blank_not_reopened_witness:
  "tryParseBuilderPolicy knows_both (generatePolicyYaml blank_value_builder) = None"
proof (rule trailing_blank_not_reopened [OF knows_both_laws])
  show "spells (blank_doc blank_value_builder) blank_value_builder"
    by (rule spells_blank_doc) (simp_all add: blank_value_builder_def blank_builder_def string_eval)
  show "spells (blank_doc (reopened blank_value_builder)) (reopened blank_value_builder)"
    by (rule spells_blank_doc)
      (simp_all add: reopened_defs blank_value_builder_def blank_rule_facts parsed_rule_type_def or_else_def string_eval)
  show "y_load knows_both (generatePolicyYaml blank_value_builder) = Some (blank_doc blank_value_builder)"
    using blank_text_changes by (simp add: knows_both_def Let_def taught_def)
  show "y_load knows_both (generatePolicyYaml (reopened blank_value_builder)) = Some (blank_doc (reopened blank_value_builder))"
    by (simp add: knows_both_def Let_def)
qed

end
