(* ===== verification/ApiClient.thy ===== *)
theory ApiClient
  imports JsValue
begin

text \<open>
  The HTTP client \<open>web/src/api/client.ts\<close>: one definition per exported function, giving the
  request it sends and what it reads from the response, the error interceptor, and the server's
  route table (\<open>internal/handler/handler.go\<close>), against which the requests are checked.
  Axios and the network are not part of the code: a request is the value handed to axios.
\<close>

section \<open>Requests\<close>

datatype http_method = HGet | HPost | HPut | HDelete

text \<open>Query parameters are passed as written; axios leaves out those that are undefined.\<close>

record api_request =
  rq_method :: http_method
  rq_path :: string
  rq_params :: "(string \<times> jsval) list"
  rq_body :: jsval
  rq_timeout :: "nat option"

definition api_get :: "string \<Rightarrow> api_request" where
  "api_get path = \<lparr> rq_method = HGet, rq_path = path, rq_params = [], rq_body = JUndef, rq_timeout = None \<rparr>"

definition api_post :: "string \<Rightarrow> jsval \<Rightarrow> api_request" where
  "api_post path body = \<lparr> rq_method = HPost, rq_path = path, rq_params = [], rq_body = body, rq_timeout = None \<rparr>"

definition api_put :: "string \<Rightarrow> jsval \<Rightarrow> api_request" where
  "api_put path body = \<lparr> rq_method = HPut, rq_path = path, rq_params = [], rq_body = body, rq_timeout = None \<rparr>"

definition api_delete :: "string \<Rightarrow> api_request" where
  "api_delete path = \<lparr> rq_method = HDelete, rq_path = path, rq_params = [], rq_body = JUndef, rq_timeout = None \<rparr>"

text \<open>An optional argument: left out is undefined.\<close>

definition opt_text :: "string option \<Rightarrow> jsval" where
  "opt_text v = (case v of None \<Rightarrow> JUndef | Some s \<Rightarrow> JStr s)"

text \<open>How a response is read: its data, its data or an empty list, one field of it.\<close>

definition data_or_empty :: "jsval \<Rightarrow> jsval" where
  "data_or_empty d = nvl d (JArr [])"

definition texts :: "string list \<Rightarrow> jsval" where
  "texts ss = JArr (map JStr ss)"

section \<open>Errors\<close>

text \<open>
  The interceptor: the server's own words replace the message, whether it sent text or an object
  with an \<open>error\<close> field. \<open>data\<close> is \<open>err?.response?.data\<close>.
\<close>

definition error_detail :: "jsval \<Rightarrow> jsval" where
  "error_detail data = (case data of JStr s \<Rightarrow> JStr (trim s) | _ \<Rightarrow> jopt data ''error'')"

definition intercepted_message :: "jsval \<Rightarrow> jsval \<Rightarrow> jsval" where
  "intercepted_message data message =
     (if truthy (error_detail data) then error_detail data else message)"

section \<open>Tracing policies, modes, namespaces, pods\<close>

definition policyApi_list :: api_request where
  "policyApi_list = api_get ''/policies''"

definition policyApi_get :: "string \<Rightarrow> string option \<Rightarrow> api_request" where
  "policyApi_get name namespace = (api_get (''/policies/'' @ name))\<lparr> rq_params := [(''namespace'', opt_text namespace)] \<rparr>"

definition policyApi_create :: "jsval \<Rightarrow> api_request" where
  "policyApi_create payload = api_post ''/policies'' payload"

text \<open>An update pins the namespace the policy was opened from; none is the empty text.\<close>

definition policyApi_update :: "string \<Rightarrow> jsval \<Rightarrow> string option \<Rightarrow> api_request" where
  "policyApi_update name payload namespace =
     (api_put (''/policies/'' @ name) payload)\<lparr> rq_params := [(''namespace'', nvl (opt_text namespace) (JStr []))] \<rparr>"

definition policyApi_delete :: "string \<Rightarrow> string option \<Rightarrow> api_request" where
  "policyApi_delete name namespace =
     (api_delete (''/policies/'' @ name))\<lparr> rq_params := [(''namespace'', opt_text namespace)] \<rparr>"

definition policyApi_setMode :: "string \<Rightarrow> string option \<Rightarrow> string \<Rightarrow> api_request" where
  "policyApi_setMode name namespace mode =
     (api_put (''/policies/'' @ name @ ''/mode'') (JObj [(''mode'', JStr mode)]))\<lparr> rq_params := [(''namespace'', opt_text namespace)] \<rparr>"

definition policyApi_preview :: "jsval \<Rightarrow> string \<Rightarrow> api_request" where
  "policyApi_preview form action = api_post ''/policies/preview'' (JObj [(''form'', form), (''action'', JStr action)])"

definition preview_result :: "jsval \<Rightarrow> jsval option" where
  "preview_result d = jget d ''yaml''"

definition modeApi_get :: api_request where
  "modeApi_get = api_get ''/mode''"

definition mode_result :: "jsval \<Rightarrow> jsval option" where
  "mode_result d = jget d ''mode''"

definition modeApi_set :: "string \<Rightarrow> api_request" where
  "modeApi_set mode = api_put ''/mode'' (JObj [(''mode'', JStr mode)])"

definition namespaceApi_list :: api_request where
  "namespaceApi_list = api_get ''/namespaces''"

definition podApi_labels :: "string \<Rightarrow> string \<Rightarrow> api_request" where
  "podApi_labels namespace pod = api_get (''/pods/'' @ namespace @ ''/'' @ pod @ ''/labels'')"

definition selectorApi_preview :: "string \<Rightarrow> (string \<times> string) list \<Rightarrow> api_request" where
  "selectorApi_preview namespace matchLabels = api_post ''/selector-preview''
     (JObj [(''namespace'', JStr namespace), (''matchLabels'', JObj (map (\<lambda>(k, v). (k, JStr v)) matchLabels))])"

section \<open>Sessions and users\<close>

definition authApi_login :: "string \<Rightarrow> string \<Rightarrow> api_request" where
  "authApi_login username password =
     api_post ''/auth/login'' (JObj [(''username'', JStr username), (''password'', JStr password)])"

definition authApi_logout :: api_request where
  "authApi_logout = api_post ''/auth/logout'' JUndef"

definition authApi_me :: api_request where
  "authApi_me = api_get ''/auth/me''"

datatype user_role = Admin | Viewer

fun role_name :: "user_role \<Rightarrow> string" where
  "role_name Admin = ''admin''"
| "role_name Viewer = ''viewer''"

definition userApi_list :: api_request where
  "userApi_list = api_get ''/users''"

definition userApi_create :: "string \<Rightarrow> string \<Rightarrow> user_role \<Rightarrow> api_request" where
  "userApi_create username password role = api_post ''/users''
     (JObj [(''username'', JStr username), (''password'', JStr password), (''role'', JStr (role_name role))])"

definition userApi_delete :: "string \<Rightarrow> api_request" where
  "userApi_delete username = api_delete (''/users/'' @ username)"

definition userApi_changePassword :: "string \<Rightarrow> string \<Rightarrow> string option \<Rightarrow> api_request" where
  "userApi_changePassword username password currentPassword = api_put (''/users/'' @ username @ ''/password'')
     (JObj [(''password'', JStr password), (''currentPassword'', opt_text currentPassword)])"

section \<open>Alert rules and log forwarding\<close>

record alert_rule =
  al_id :: string
  al_name :: string
  webhookURL :: string
  al_eventTypes :: "string list"
  al_severities :: "string list"
  al_namespaces :: "string list"
  al_policies :: "string list"
  cooldownMin :: int
  al_enabled :: bool

definition alert_body :: "alert_rule \<Rightarrow> (string \<times> jsval) list" where
  "alert_body a = [(''name'', JStr (al_name a)), (''webhookURL'', JStr (webhookURL a)),
     (''eventTypes'', texts (al_eventTypes a)), (''severities'', texts (al_severities a)),
     (''namespaces'', texts (al_namespaces a)), (''policies'', texts (al_policies a)),
     (''cooldownMin'', JNum (cooldownMin a)), (''enabled'', JBool (al_enabled a))]"

datatype log_protocol = Udp | Tcp

record rsyslog_config =
  rs_id :: string
  rs_name :: string
  rs_host :: string
  rs_port :: int
  rs_protocol :: log_protocol
  facility :: int
  rs_eventTypes :: "string list"
  rs_severities :: "string list"
  rs_namespaces :: "string list"
  rs_policies :: "string list"
  rs_enabled :: bool

definition rsyslog_body :: "rsyslog_config \<Rightarrow> (string \<times> jsval) list" where
  "rsyslog_body c = [(''name'', JStr (rs_name c)), (''host'', JStr (rs_host c)), (''port'', JNum (rs_port c)),
     (''protocol'', JStr (case rs_protocol c of Udp \<Rightarrow> ''udp'' | Tcp \<Rightarrow> ''tcp'')), (''facility'', JNum (facility c)),
     (''eventTypes'', texts (rs_eventTypes c)), (''severities'', texts (rs_severities c)),
     (''namespaces'', texts (rs_namespaces c)), (''policies'', texts (rs_policies c)), (''enabled'', JBool (rs_enabled c))]"

definition rsyslogApi_list :: api_request where
  "rsyslogApi_list = api_get ''/rsyslog''"

definition rsyslogApi_create :: "rsyslog_config \<Rightarrow> api_request" where
  "rsyslogApi_create cfg = api_post ''/rsyslog'' (JObj (rsyslog_body cfg))"

definition rsyslogApi_update :: "string \<Rightarrow> rsyslog_config \<Rightarrow> api_request" where
  "rsyslogApi_update id' cfg = api_put (''/rsyslog/'' @ id') (JObj ((''id'', JStr (rs_id cfg)) # rsyslog_body cfg))"

definition rsyslogApi_delete :: "string \<Rightarrow> api_request" where
  "rsyslogApi_delete id' = api_delete (''/rsyslog/'' @ id')"

definition rsyslogApi_test :: "jsval \<Rightarrow> api_request" where
  "rsyslogApi_test cfg = (api_post ''/rsyslog/test'' cfg)\<lparr> rq_timeout := Some 6000 \<rparr>"

definition alertsApi_list :: api_request where
  "alertsApi_list = api_get ''/alerts''"

definition alertsApi_create :: "alert_rule \<Rightarrow> api_request" where
  "alertsApi_create rule = api_post ''/alerts'' (JObj (alert_body rule))"

definition alertsApi_update :: "string \<Rightarrow> alert_rule \<Rightarrow> api_request" where
  "alertsApi_update id' rule = api_put (''/alerts/'' @ id') (JObj ((''id'', JStr (al_id rule)) # alert_body rule))"

definition alertsApi_delete :: "string \<Rightarrow> api_request" where
  "alertsApi_delete id' = api_delete (''/alerts/'' @ id')"

definition alertsApi_test :: "string \<Rightarrow> api_request" where
  "alertsApi_test url = api_post ''/alerts/test'' (JObj [(''webhookURL'', JStr url)])"

section \<open>Admission policies and events\<close>

record vap_record =
  vr_name :: string
  vr_namespace :: string
  failurePolicy :: string
  validationCount :: nat
  vr_createdBy :: string
  vr_createdAt :: string
  vr_rawYaml :: string

record vap_binding_record =
  br_name :: string
  br_namespace :: string
  br_policyName :: string
  validationActions :: "string list"
  br_createdBy :: string
  br_createdAt :: string
  br_rawYaml :: string

definition admissionApi_list :: api_request where
  "admissionApi_list = api_get ''/admission-events''"

definition manifest_body :: "string \<Rightarrow> jsval" where
  "manifest_body rawYaml = JObj [(''rawYaml'', JStr rawYaml)]"

definition vapApi_listPolicies :: api_request where
  "vapApi_listPolicies = api_get ''/vap''"

definition vapApi_getPolicy :: "string \<Rightarrow> api_request" where
  "vapApi_getPolicy name = api_get (''/vap/'' @ name)"

definition vapApi_applyPolicy :: "string \<Rightarrow> api_request" where
  "vapApi_applyPolicy rawYaml = api_post ''/vap'' (manifest_body rawYaml)"

definition vapApi_updatePolicy :: "string \<Rightarrow> string \<Rightarrow> api_request" where
  "vapApi_updatePolicy name rawYaml = api_put (''/vap/'' @ name) (manifest_body rawYaml)"

definition vapApi_deletePolicy :: "string \<Rightarrow> api_request" where
  "vapApi_deletePolicy name = api_delete (''/vap/'' @ name)"

definition vapApi_listBindings :: api_request where
  "vapApi_listBindings = api_get ''/vap-bindings''"

definition vapApi_getBinding :: "string \<Rightarrow> api_request" where
  "vapApi_getBinding name = api_get (''/vap-bindings/'' @ name)"

definition vapApi_applyBinding :: "string \<Rightarrow> api_request" where
  "vapApi_applyBinding rawYaml = api_post ''/vap-bindings'' (manifest_body rawYaml)"

definition vapApi_updateBinding :: "string \<Rightarrow> string \<Rightarrow> api_request" where
  "vapApi_updateBinding name rawYaml = api_put (''/vap-bindings/'' @ name) (manifest_body rawYaml)"

definition vapApi_deleteBinding :: "string \<Rightarrow> api_request" where
  "vapApi_deleteBinding name = api_delete (''/vap-bindings/'' @ name)"

section \<open>Cluster, audit, settings, retention, templates\<close>

definition clusterApi_cidr :: api_request where
  "clusterApi_cidr = api_get ''/cluster/cidr''"

record audit_entry =
  ae_id :: string
  ae_time :: string
  ae_user :: string
  ae_action :: string
  ae_target :: "string option"
  ae_method :: string
  ae_path :: string
  ae_status :: int

definition auditApi_list :: api_request where
  "auditApi_list = api_get ''/audit''"

definition settingsApi_getSessionTTL :: api_request where
  "settingsApi_getSessionTTL = api_get ''/settings/session-ttl''"

definition settingsApi_setSessionTTL :: "int \<Rightarrow> api_request" where
  "settingsApi_setSessionTTL seconds = api_put ''/settings/session-ttl'' (JObj [(''sessionTTL'', JNum seconds)])"

definition securityRetentionApi_get :: api_request where
  "securityRetentionApi_get = api_get ''/security-events/retention''"

definition securityRetentionApi_set :: "int \<Rightarrow> int \<Rightarrow> int \<Rightarrow> api_request" where
  "securityRetentionApi_set maxWarnings maxCriticals ttlDays = api_put ''/security-events/retention''
     (JObj [(''maxWarnings'', JNum maxWarnings), (''maxCriticals'', JNum maxCriticals), (''ttlDays'', JNum ttlDays)])"

definition admissionRetentionApi_get :: api_request where
  "admissionRetentionApi_get = api_get ''/admission-events/retention''"

definition admissionRetentionApi_set :: "int \<Rightarrow> int \<Rightarrow> api_request" where
  "admissionRetentionApi_set maxEvents ttlDays = api_put ''/admission-events/retention''
     (JObj [(''maxEvents'', JNum maxEvents), (''ttlDays'', JNum ttlDays)])"

record custom_template =
  ct_id :: string
  ct_name :: string
  ct_description :: "string option"
  ct_tags :: "string list option"
  ct_yaml :: string

definition template_body :: "custom_template \<Rightarrow> jsval" where
  "template_body t = JObj [(''id'', JStr (ct_id t)), (''name'', JStr (ct_name t)),
     (''description'', opt_text (ct_description t)),
     (''tags'', case ct_tags t of None \<Rightarrow> JUndef | Some ts \<Rightarrow> texts ts), (''yaml'', JStr (ct_yaml t))]"

definition templateApi_list :: api_request where
  "templateApi_list = api_get ''/templates''"

definition templateApi_create :: "custom_template \<Rightarrow> api_request" where
  "templateApi_create t = api_post ''/templates'' (template_body t)"

definition templateApi_update :: "string \<Rightarrow> custom_template \<Rightarrow> api_request" where
  "templateApi_update id' t = api_put (''/templates/'' @ id') (template_body t)"

definition templateApi_delete :: "string \<Rightarrow> api_request" where
  "templateApi_delete id' = api_delete (''/templates/'' @ id')"

section \<open>Network policies and quarantine\<close>

record cnp_record =
  cr_name :: string
  cr_namespace :: string          \<comment> \<open>empty for a cluster-wide one\<close>
  cr_scope :: string              \<comment> \<open>namespace or cluster\<close>
  cr_selector :: string
  ingressRules :: nat
  egressRules :: nat
  hasL7 :: bool
  defaultDeny :: string
  cr_createdBy :: string
  cr_createdAt :: string
  cr_rawYaml :: string

record cnp_list_response =
  cl_available :: bool
  cl_policies :: "cnp_record list option"
  cl_message :: "string option"

definition cnpApi_list :: api_request where
  "cnpApi_list = api_get ''/cnp''"

definition cnpApi_apply :: "string \<Rightarrow> api_request" where
  "cnpApi_apply rawYaml = api_post ''/cnp'' (manifest_body rawYaml)"

definition cnpApi_update :: "string \<Rightarrow> string \<Rightarrow> string \<Rightarrow> string \<Rightarrow> api_request" where
  "cnpApi_update name namespace scope rawYaml = (api_put (''/cnp/'' @ name) (manifest_body rawYaml))
     \<lparr> rq_params := [(''namespace'', JStr namespace), (''scope'', JStr scope)] \<rparr>"

definition cnpApi_delete :: "string \<Rightarrow> string \<Rightarrow> string \<Rightarrow> api_request" where
  "cnpApi_delete name scope namespace = (api_delete (''/cnp/'' @ name))
     \<lparr> rq_params := [(''scope'', JStr scope), (''namespace'', JStr namespace)] \<rparr>"

record quarantined_pod =
  qp_namespace :: string
  qp_pod :: string
  qp_node :: "string option"
  qp_by :: "string option"
  qp_at :: "string option"

definition quarantineApi_list :: api_request where
  "quarantineApi_list = api_get ''/quarantine''"

definition quarantineApi_add :: "string \<Rightarrow> string \<Rightarrow> api_request" where
  "quarantineApi_add namespace pod = api_post ''/quarantine'' (JObj [(''namespace'', JStr namespace), (''pod'', JStr pod)])"

definition quarantineApi_release :: "string \<Rightarrow> string \<Rightarrow> api_request" where
  "quarantineApi_release namespace pod = api_delete (''/quarantine/'' @ namespace @ ''/'' @ pod)"

end
