(* ===== verification/ApiRoutes.thy ===== *)
theory ApiRoutes
  imports ApiClient
begin

text \<open>
  The server's route table and the client's requests against it. The client puts names into paths as
  they are, so what a request asks for is decided by the URL rules on its way: the browser's (the query
  and the fragment cut off, dot segments, percent-encoding) and the server's (decoding). Names that are
  plain text to those rules reach the handler registered for the request; a user called
  \<open>bob?x\<close> does not.
\<close>

section \<open>The route table\<close>

text \<open>Method, pattern and handler, in the order they are registered; the audit webhook, which the
  console never calls, is left out. A pattern segment in braces takes one segment of the path.\<close>

definition SERVER_ROUTES :: "(http_method \<times> string \<times> string) list" where
  "SERVER_ROUTES = [
     (HPost, ''/api/auth/login'', ''loginHandler''),
     (HPost, ''/api/auth/logout'', ''logoutHandler''),
     (HGet, ''/api/auth/me'', ''meHandler''),
     (HGet, ''/api/policies'', ''listPolicies''),
     (HPost, ''/api/policies/preview'', ''previewPolicy''),
     (HGet, ''/api/policies/{name}'', ''getPolicy''),
     (HGet, ''/api/namespaces'', ''listNamespaces''),
     (HGet, ''/api/mode'', ''getMode''),
     (HGet, ''/api/events/stream'', ''streamTetragonEvents''),
     (HGet, ''/api/discovery/profiles'', ''getDiscoveryProfiles''),
     (HGet, ''/api/pods/{namespace}/{pod}/labels'', ''getPodLabels''),
     (HPost, ''/api/selector-preview'', ''selectorPreview''),
     (HGet, ''/api/tetragon/agents'', ''getTetragonAgents''),
     (HGet, ''/api/ingestion/health'', ''getIngestionHealth''),
     (HGet, ''/api/templates'', ''listTemplates''),
     (HGet, ''/api/cluster/cidr'', ''getClusterCIDR''),
     (HPut, ''/api/users/{username}/password'', ''changePasswordHandler''),
     (HGet, ''/api/settings/session-ttl'', ''getSessionTTLHandler''),
     (HGet, ''/api/alerts'', ''listAlerts''),
     (HGet, ''/api/admission-events'', ''listAdmissionEvents''),
     (HGet, ''/api/admission-events/stream'', ''streamAdmissionEvents''),
     (HGet, ''/api/security-events'', ''listSecurityEvents''),
     (HGet, ''/api/security-events/stream'', ''streamSecurityEvents''),
     (HGet, ''/api/security-events/retention'', ''getSecurityRetention''),
     (HGet, ''/api/admission-events/retention'', ''getAdmissionRetention''),
     (HGet, ''/api/network-topology'', ''getNetworkTopology''),
     (HGet, ''/api/cilium/status'', ''getCiliumStatus''),
     (HGet, ''/api/cilium/flows/stream'', ''streamCiliumFlows''),
     (HGet, ''/api/rsyslog'', ''listRsyslog''),
     (HGet, ''/api/vap'', ''listVAP''),
     (HGet, ''/api/vap/{name}'', ''getVAP''),
     (HGet, ''/api/vap-bindings'', ''listVAPBindings''),
     (HGet, ''/api/vap-bindings/{name}'', ''getVAPBinding''),
     (HGet, ''/api/cnp'', ''listCNP''),
     (HGet, ''/api/cnp/{name}'', ''getCNP''),
     (HGet, ''/api/quarantine'', ''listQuarantined''),
     (HGet, ''/api/audit'', ''listAudit''),
     (HPost, ''/api/policies'', ''createPolicy''),
     (HPut, ''/api/policies/{name}'', ''updatePolicy''),
     (HPut, ''/api/policies/{name}/mode'', ''setPolicyMode''),
     (HDelete, ''/api/policies/{name}'', ''deletePolicy''),
     (HPut, ''/api/mode'', ''setMode''),
     (HDelete, ''/api/discovery/profiles'', ''clearDiscoveryProfiles''),
     (HPost, ''/api/templates'', ''createTemplate''),
     (HPut, ''/api/templates/{id}'', ''updateTemplate''),
     (HDelete, ''/api/templates/{id}'', ''deleteTemplate''),
     (HGet, ''/api/users'', ''listUsersHandler''),
     (HPost, ''/api/users'', ''createUserHandler''),
     (HDelete, ''/api/users/{username}'', ''deleteUserHandler''),
     (HPut, ''/api/settings/session-ttl'', ''setSessionTTLHandler''),
     (HPost, ''/api/alerts/test'', ''testAlert''),
     (HPost, ''/api/alerts'', ''createAlert''),
     (HPut, ''/api/alerts/{id}'', ''updateAlert''),
     (HDelete, ''/api/alerts/{id}'', ''deleteAlert''),
     (HPost, ''/api/rsyslog/test'', ''testRsyslog''),
     (HPost, ''/api/vap'', ''applyVAP''),
     (HPut, ''/api/vap/{name}'', ''applyVAP''),
     (HDelete, ''/api/vap/{name}'', ''deleteVAP''),
     (HPost, ''/api/vap-bindings'', ''applyVAPBinding''),
     (HPut, ''/api/vap-bindings/{name}'', ''applyVAPBinding''),
     (HDelete, ''/api/vap-bindings/{name}'', ''deleteVAPBinding''),
     (HPost, ''/api/quarantine'', ''quarantinePod''),
     (HDelete, ''/api/quarantine/{namespace}/{pod}'', ''releasePod''),
     (HPost, ''/api/cnp'', ''applyCNP''),
     (HPut, ''/api/cnp/{name}'', ''applyCNP''),
     (HDelete, ''/api/cnp/{name}'', ''deleteCNP''),
     (HPost, ''/api/rsyslog'', ''createRsyslog''),
     (HPut, ''/api/rsyslog/{id}'', ''updateRsyslog''),
     (HDelete, ''/api/rsyslog/{id}'', ''deleteRsyslog''),
     (HPut, ''/api/security-events/retention'', ''setSecurityRetention''),
     (HPut, ''/api/admission-events/retention'', ''setAdmissionRetention'')]"

datatype pattern_segment = Fixed string | Param

definition pattern_segment_of :: "string \<Rightarrow> pattern_segment" where
  "pattern_segment_of s = (if prefix ''{'' s then Param else Fixed s)"

lemma pattern_segment_simps [simp]:
  "pattern_segment_of [] = Fixed []"
  "pattern_segment_of (c # s) = (if c = CHR ''{'' then Param else Fixed (c # s))"
  by (auto simp: pattern_segment_of_def)

fun match_segments :: "pattern_segment list \<Rightarrow> string list \<Rightarrow> string list option" where
  "match_segments [] [] = Some []"
| "match_segments (Param # ps) (s # ss) = (if s = [] then None else map_option ((#) s) (match_segments ps ss))"
| "match_segments (Fixed p # ps) (s # ss) = (if p = s then match_segments ps ss else None)"
| "match_segments _ _ = None"

abbreviation (input) slash :: char where
  "slash \<equiv> CHR ''/''"

text \<open>Every registered route that takes a request, with the values of its parameters.\<close>

definition routes_for :: "http_method \<Rightarrow> string list \<Rightarrow> (string \<times> string list) list" where
  "routes_for m segs = concat (map (\<lambda>(m', p, h).
     if m' = m then (case match_segments (map pattern_segment_of (split_on slash p)) segs of None \<Rightarrow> [] | Some xs \<Rightarrow> [(h, xs)]) else [])
     SERVER_ROUTES)"

section \<open>From a request to the router\<close>

text \<open>What axios asks the browser for: the base, the path as it was written, and a query when a parameter
  has a value; its text does not matter here.\<close>

definition request_url :: "api_request \<Rightarrow> string" where
  "request_url rq = ''/api'' @ rq_path rq @ (if list_ex (\<lambda>(k, v). \<not> nullish v) (rq_params rq) then ''?'' else [])"

text \<open>The characters a URL path carries as they are; the percent sign is kept too, for what may be
  encoded already. The others are written as a percent sign and two hexadecimal digits.\<close>

definition path_char :: "char \<Rightarrow> bool" where
  "path_char c \<longleftrightarrow> 32 < (of_char c :: nat) \<and> (of_char c :: nat) < 127 \<and>
     c \<notin> {CHR 0x22, CHR ''#'', CHR 0x25, CHR ''/'', CHR ''<'', CHR ''>'', CHR ''?'', CHR 0x5C, CHR ''^'', CHR 0x60, CHR ''{'', CHR ''}''}"

definition percent :: "char \<Rightarrow> string" where
  "percent c = (let n = of_char c :: nat in [CHR 0x25, hex_digit (n div 16), hex_digit (n mod 16)])"

definition path_encode :: "string \<Rightarrow> string" where
  "path_encode s = concat (map (\<lambda>c. if path_char c \<or> c = CHR 0x25 then [c] else percent c) s)"

definition single_dot :: "string \<Rightarrow> bool" where
  "single_dot s \<longleftrightarrow> s \<in> set [''.'', [CHR 0x25] @ ''2e'', [CHR 0x25] @ ''2E'']"

definition double_dot :: "string \<Rightarrow> bool" where
  "double_dot s \<longleftrightarrow> s \<in> set (concat (map (\<lambda>a. map (\<lambda>b. a @ b) [''.'', [CHR 0x25] @ ''2e'', [CHR 0x25] @ ''2E''])
     [''.'', [CHR 0x25] @ ''2e'', [CHR 0x25] @ ''2E'']))"

text \<open>Dot segments: one stays, two go up; at the end of the path they leave an empty segment.\<close>

fun resolve_dots :: "string list \<Rightarrow> string list \<Rightarrow> string list" where
  "resolve_dots acc [] = rev acc"
| "resolve_dots acc (s # ss) =
     (if double_dot s then resolve_dots ((if ss = [] then [[]] else []) @ drop 1 acc) ss
      else if single_dot s then resolve_dots ((if ss = [] then [[]] else []) @ acc) ss
      else resolve_dots (s # acc) ss)"

text \<open>The segments of the path the browser sends: blanks at the end of the URL, tabs and line breaks are
  dropped, the path ends at the query or the fragment, a backslash is a slash.\<close>

definition browser_path :: "string \<Rightarrow> string list" where
  "browser_path url =
     (let u = filter (\<lambda>c. c \<notin> {CHR 0x09, CHR 0x0A, CHR 0x0D}) (rev (dropWhile (\<lambda>c. (of_char c :: nat) \<le> 32) (rev url)));
          p = map (\<lambda>c. if c = CHR 0x5C then slash else c) (takeWhile (\<lambda>c. c \<noteq> CHR ''?'' \<and> c \<noteq> CHR ''#'') u)
      in map path_encode (resolve_dots [] (tl (split_on slash p))))"

text \<open>The server's reading (\<open>net/url\<close>): percent signs without two digits are refused; the router takes the
  decoded path when that, encoded again, is what was sent, and the path as it was sent otherwise.\<close>

fun url_unescape :: "string \<Rightarrow> string option" where
  "url_unescape [] = Some []"
| "url_unescape (c # s) =
     (if c \<noteq> CHR 0x25 then map_option ((#) c) (url_unescape s)
      else case s of
        a # b # r \<Rightarrow> (case (digit_value a, digit_value b) of
            (Some x, Some y) \<Rightarrow> map_option ((#) (char_of (16 * x + y))) (url_unescape r)
          | _ \<Rightarrow> None)
      | _ \<Rightarrow> None)"

definition url_escape :: "string \<Rightarrow> string" where
  "url_escape s = concat (map (\<lambda>c. if alnum c \<or> c \<in> set ''-_.~$&+,/:;=@'' then [c] else percent c) s)"

text \<open>The segments the routes are matched against. None: a malformed path, or one with an empty segment,
  which the server's multiplexer answers with a redirect before any route is asked.\<close>

definition router_path :: "string \<Rightarrow> string list option" where
  "router_path url =
     (let segs = browser_path url; raw = concat (map ((#) slash) segs)
      in if [] \<in> set (butlast segs) then None
         else map_option (\<lambda>d. split_on slash (if url_escape d = raw then d else raw)) (url_unescape raw))"

definition handled_by :: "api_request \<Rightarrow> (string \<times> string list) list" where
  "handled_by rq = (case router_path (request_url rq) of None \<Rightarrow> [] | Some segs \<Rightarrow> routes_for (rq_method rq) segs)"

text \<open>A name that is plain text to all of this: a path segment of characters that are carried as they are, and
  not a dot segment. The names of Kubernetes objects are such.\<close>

definition plain_name :: "string \<Rightarrow> bool" where
  "plain_name s \<longleftrightarrow> s \<noteq> [] \<and> list_all path_char s \<and> s \<noteq> ''.'' \<and> s \<noteq> ''..''"

section \<open>The client against the table\<close>

text \<open>Every function of the client, with the handler it is meant for and the names it passes.\<close>

definition client_calls ::
  "string \<Rightarrow> string \<Rightarrow> string option \<Rightarrow> jsval \<Rightarrow> string \<Rightarrow> (string \<times> string) list \<Rightarrow> int \<Rightarrow> user_role \<Rightarrow>
   alert_rule \<Rightarrow> rsyslog_config \<Rightarrow> custom_template \<Rightarrow> (api_request \<times> string \<times> string list) list" where
  "client_calls n k ns v s ls i role rule cfg tp = [
     (policyApi_list, ''listPolicies'', []),
     (policyApi_get n ns, ''getPolicy'', [n]),
     (policyApi_create v, ''createPolicy'', []),
     (policyApi_update n v ns, ''updatePolicy'', [n]),
     (policyApi_delete n ns, ''deletePolicy'', [n]),
     (policyApi_setMode n ns s, ''setPolicyMode'', [n]),
     (policyApi_preview v s, ''previewPolicy'', []),
     (modeApi_get, ''getMode'', []),
     (modeApi_set s, ''setMode'', []),
     (namespaceApi_list, ''listNamespaces'', []),
     (podApi_labels n k, ''getPodLabels'', [n, k]),
     (selectorApi_preview s ls, ''selectorPreview'', []),
     (authApi_login s s, ''loginHandler'', []),
     (authApi_logout, ''logoutHandler'', []),
     (authApi_me, ''meHandler'', []),
     (userApi_list, ''listUsersHandler'', []),
     (userApi_create s s role, ''createUserHandler'', []),
     (userApi_delete n, ''deleteUserHandler'', [n]),
     (userApi_changePassword n s ns, ''changePasswordHandler'', [n]),
     (rsyslogApi_list, ''listRsyslog'', []),
     (rsyslogApi_create cfg, ''createRsyslog'', []),
     (rsyslogApi_update n cfg, ''updateRsyslog'', [n]),
     (rsyslogApi_delete n, ''deleteRsyslog'', [n]),
     (rsyslogApi_test v, ''testRsyslog'', []),
     (alertsApi_list, ''listAlerts'', []),
     (alertsApi_create rule, ''createAlert'', []),
     (alertsApi_update n rule, ''updateAlert'', [n]),
     (alertsApi_delete n, ''deleteAlert'', [n]),
     (alertsApi_test s, ''testAlert'', []),
     (admissionApi_list, ''listAdmissionEvents'', []),
     (vapApi_listPolicies, ''listVAP'', []),
     (vapApi_getPolicy n, ''getVAP'', [n]),
     (vapApi_applyPolicy s, ''applyVAP'', []),
     (vapApi_updatePolicy n s, ''applyVAP'', [n]),
     (vapApi_deletePolicy n, ''deleteVAP'', [n]),
     (vapApi_listBindings, ''listVAPBindings'', []),
     (vapApi_getBinding n, ''getVAPBinding'', [n]),
     (vapApi_applyBinding s, ''applyVAPBinding'', []),
     (vapApi_updateBinding n s, ''applyVAPBinding'', [n]),
     (vapApi_deleteBinding n, ''deleteVAPBinding'', [n]),
     (clusterApi_cidr, ''getClusterCIDR'', []),
     (auditApi_list, ''listAudit'', []),
     (settingsApi_getSessionTTL, ''getSessionTTLHandler'', []),
     (settingsApi_setSessionTTL i, ''setSessionTTLHandler'', []),
     (securityRetentionApi_get, ''getSecurityRetention'', []),
     (securityRetentionApi_set i i i, ''setSecurityRetention'', []),
     (admissionRetentionApi_get, ''getAdmissionRetention'', []),
     (admissionRetentionApi_set i i, ''setAdmissionRetention'', []),
     (templateApi_list, ''listTemplates'', []),
     (templateApi_create tp, ''createTemplate'', []),
     (templateApi_update n tp, ''updateTemplate'', [n]),
     (templateApi_delete n, ''deleteTemplate'', [n]),
     (cnpApi_list, ''listCNP'', []),
     (cnpApi_apply s, ''applyCNP'', []),
     (cnpApi_update n s s s, ''applyCNP'', [n]),
     (cnpApi_delete n s s, ''deleteCNP'', [n]),
     (quarantineApi_list, ''listQuarantined'', []),
     (quarantineApi_add s s, ''quarantinePod'', []),
     (quarantineApi_release n k, ''releasePod'', [n, k])]"

text \<open>A name that stays one path segment.\<close>

definition segment :: "string \<Rightarrow> bool" where
  "segment s \<longleftrightarrow> s \<noteq> [] \<and> slash \<notin> set s"

lemma split_segment [simp]:
  "segment s \<Longrightarrow> split_on slash s = [s]" "segment s \<Longrightarrow> split_on slash (s @ CHR ''/'' # r) = s # split_on slash r"
  using split_on_free [of slash s] split_on_append [of slash s r] by (auto simp: segment_def)

lemma segment_ne: "segment s \<Longrightarrow> s \<noteq> []"
  by (simp add: segment_def)

section \<open>Plain names\<close>

lemma path_char_simps [simp]:
  "\<not> path_char (CHR 0x25)" "\<not> path_char (CHR ''/'')" "\<not> path_char (CHR ''?'')" "\<not> path_char (CHR ''#'')"
  "\<not> path_char (CHR 0x5C)" "\<not> path_char (CHR 0x09)" "\<not> path_char (CHR 0x0A)" "\<not> path_char (CHR 0x0D)"
  by (simp_all add: path_char_def)

lemma path_char_visible: "path_char c \<Longrightarrow> \<not> (of_char c :: nat) \<le> 32"
  by (simp add: path_char_def)

lemma plain_free: "plain_name s \<Longrightarrow> \<not> path_char c \<Longrightarrow> c \<notin> set s"
  by (auto simp: plain_name_def list_all_iff)

lemma plain_segment: "plain_name s \<Longrightarrow> segment s" "plain_name s \<Longrightarrow> s \<noteq> []"
  using plain_free [of s slash] by (auto simp: segment_def) (simp_all add: plain_name_def)

lemma plain_no_dots: "plain_name s \<Longrightarrow> \<not> double_dot s \<and> \<not> single_dot s"
  using plain_free [of s "CHR 0x25"] by (auto simp: double_dot_def single_dot_def plain_name_def)

lemma resolve_plain: "list_all plain_name ss \<Longrightarrow> resolve_dots acc ss = rev acc @ ss"
  by (induction ss arbitrary: acc) (auto simp: plain_no_dots)

lemma encode_chars: "list_all path_char s \<Longrightarrow> path_encode s = s"
  unfolding path_encode_def by (induction s) auto

lemma encode_plain: "plain_name s \<Longrightarrow> path_encode s = s"
  by (simp add: plain_name_def encode_chars)

lemma unescape_free: "CHR 0x25 \<notin> set s \<Longrightarrow> url_unescape s = Some s"
  by (induction s) auto

text \<open>A path of plain names: what the router sees is its segments.\<close>

definition plain_path :: "string \<Rightarrow> bool" where
  "plain_path p \<longleftrightarrow> (\<exists>ss. split_on slash p = [] # ss \<and> ss \<noteq> [] \<and> list_all plain_name ss)"

lemma plain_path_chars:
  assumes "plain_path p" "c \<in> set p"
  shows "path_char c \<or> c = slash"
proof -
  obtain ss where ss: "split_on slash p = [] # ss" "list_all plain_name ss" using assms(1) by (auto simp: plain_path_def)
  have "set p \<subseteq> {slash} \<union> \<Union> (set ` set ([] # ss))"
    using join_split [of slash p] set_join_with [of "[slash]" "split_on slash p"] ss(1) by simp
  then show ?thesis using assms(2) ss(2) by (auto simp: list_all_iff plain_name_def)
qed

lemma router_plain:
  assumes "plain_path p"
  shows "router_path p = Some (split_on slash p)" "router_path (p @ CHR ''?'' # t) = Some (split_on slash p)"
proof -
  obtain ss where ss: "split_on slash p = [] # ss" "ss \<noteq> []" "list_all plain_name ss"
    using assms by (auto simp: plain_path_def)
  note chars = plain_path_chars [OF assms]
  have p: "p = concat (map ((#) slash) ss)"
  proof -
    have "join_with [slash] ([] # ws) = concat (map ((#) slash) ws)" if "ws \<noteq> []" for ws
      using that by (induction ws rule: list_nonempty_induct) (auto simp: neq_Nil_conv)
    then show ?thesis using join_split [of slash p] ss(1,2) by simp
  qed
  have free: "c \<notin> set p" if "\<not> path_char c" "c \<noteq> slash" for c using chars that by blast
  have vis: "\<not> (of_char c :: nat) \<le> 32" if "c \<in> set p" for c
    using chars [OF that] path_char_visible by auto
  have cut: "takeWhile (\<lambda>c. c \<noteq> CHR ''?'' \<and> c \<noteq> CHR ''#'') (p @ r) =
      p @ takeWhile (\<lambda>c. c \<noteq> CHR ''?'' \<and> c \<noteq> CHR ''#'') r" for r
    using free [of "CHR ''?''"] free [of "CHR ''#''"] by (auto intro: takeWhile_append2)
  have keep: "filter (\<lambda>c. c \<notin> {CHR 0x09, CHR 0x0A, CHR 0x0D}) p = p"
    using free [of "CHR 0x09"] free [of "CHR 0x0A"] free [of "CHR 0x0D"] by (auto simp: filter_id_conv)
  have bs: "map (\<lambda>c. if c = CHR 0x5C then slash else c) p = p"
    using free [of "CHR 0x5C"] by (auto intro: map_idI)
  have seg: "map path_encode (resolve_dots [] (tl (split_on slash p))) = ss"
    using ss encode_plain by (simp add: resolve_plain list_all_iff map_idI)
  have strip: "rev (dropWhile (\<lambda>c. (of_char c :: nat) \<le> 32) (rev p)) = p"
    using vis by (cases p rule: rev_cases) auto
  have strip2: "rev (dropWhile (\<lambda>c. (of_char c :: nat) \<le> 32) (rev (p @ CHR ''?'' # t))) = p @ CHR ''?'' #
      rev (dropWhile (\<lambda>c. (of_char c :: nat) \<le> 32) (rev t))"
    by (simp add: dropWhile_append)
  have "browser_path p = ss"
    unfolding browser_path_def Let_def strip keep using cut [of "[]"] bs seg by (simp only: append_Nil2 takeWhile.simps)
  moreover have "browser_path (p @ CHR ''?'' # t) = ss"
    unfolding browser_path_def Let_def strip2 filter_append keep using bs seg by (simp add: cut)
  moreover have "router_path u = Some (split_on slash p)" if "browser_path u = ss" for u
  proof -
    have "[] \<notin> set (butlast ss)" using ss(3) by (auto simp: list_all_iff plain_name_def dest: in_set_butlastD)
    then show ?thesis unfolding router_path_def that p [symmetric] Let_def
      using unescape_free [OF free [of "CHR 0x25"]] by simp
  qed
  ultimately show "router_path p = Some (split_on slash p)" "router_path (p @ CHR ''?'' # t) = Some (split_on slash p)" by blast+
qed

lemma handled_plain:
  assumes "plain_path (''/api'' @ rq_path rq)"
  shows "handled_by rq = routes_for (rq_method rq) (split_on slash (''/api'' @ rq_path rq))"
proof -
  have "request_url rq = (''/api'' @ rq_path rq) @ (if list_ex (\<lambda>(k, v). \<not> nullish v) (rq_params rq) then [CHR ''?''] else [])"
    by (simp add: request_url_def)
  then have "router_path (request_url rq) = Some (split_on slash (''/api'' @ rq_path rq))"
    by (cases "list_ex (\<lambda>(k, v). \<not> nullish v) (rq_params rq)")
      (simp_all only: if_True if_False append_Nil2 router_plain [OF assms])
  then show ?thesis by (simp add: handled_by_def)
qed

definition SPLIT_ROUTES :: "(http_method \<times> pattern_segment list \<times> string) list" where
  "SPLIT_ROUTES = map (\<lambda>(m, p, h). (m, map pattern_segment_of (split_on slash p), h)) SERVER_ROUTES"

lemmas split_routes = SPLIT_ROUTES_def [unfolded SERVER_ROUTES_def, simplified]

lemma routes_for_split: "routes_for m segs = concat (map (\<lambda>(m', ps, h).
    if m' = m then (case match_segments ps segs of None \<Rightarrow> [] | Some xs \<Rightarrow> [(h, xs)]) else []) SPLIT_ROUTES)"
  unfolding routes_for_def SPLIT_ROUTES_def by (rule arg_cong [where f = concat]) (auto simp: list.map_comp)

lemmas routes_rules = list.map concat.simps prod.case http_method.simps if_True if_False append_Nil simp_thms

lemmas method_routes =
  routes_for_split [of HGet, unfolded split_routes, simplified routes_rules]
  routes_for_split [of HPost, unfolded split_routes, simplified routes_rules]
  routes_for_split [of HPut, unfolded split_routes, simplified routes_rules]
  routes_for_split [of HDelete, unfolded split_routes, simplified routes_rules]

lemmas client_defs = admissionApi_list_def admissionRetentionApi_get_def admissionRetentionApi_set_def alertsApi_create_def alertsApi_delete_def alertsApi_list_def alertsApi_test_def alertsApi_update_def auditApi_list_def authApi_login_def authApi_logout_def authApi_me_def clusterApi_cidr_def cnpApi_apply_def cnpApi_delete_def cnpApi_list_def cnpApi_update_def modeApi_get_def modeApi_set_def namespaceApi_list_def podApi_labels_def policyApi_create_def policyApi_delete_def policyApi_get_def policyApi_list_def policyApi_preview_def policyApi_setMode_def policyApi_update_def quarantineApi_add_def quarantineApi_list_def quarantineApi_release_def rsyslogApi_create_def rsyslogApi_delete_def rsyslogApi_list_def rsyslogApi_test_def rsyslogApi_update_def securityRetentionApi_get_def securityRetentionApi_set_def selectorApi_preview_def settingsApi_getSessionTTL_def settingsApi_setSessionTTL_def templateApi_create_def templateApi_delete_def templateApi_list_def templateApi_update_def userApi_changePassword_def userApi_create_def userApi_delete_def userApi_list_def vapApi_applyBinding_def vapApi_applyPolicy_def vapApi_deleteBinding_def vapApi_deletePolicy_def vapApi_getBinding_def vapApi_getPolicy_def vapApi_listBindings_def vapApi_listPolicies_def vapApi_updateBinding_def vapApi_updatePolicy_def

text \<open>The segments of the client's own paths are plain.\<close>

lemma plain_literal: "plain_name (c # s) \<longleftrightarrow> path_char c \<and> list_all path_char s \<and> c # s \<noteq> ''.'' \<and> c # s \<noteq> ''..''"
  by (simp add: plain_name_def)

lemmas request_simps = handled_plain plain_path_def plain_literal path_char_def plain_segment
  client_defs api_get_def api_post_def api_put_def api_delete_def method_routes

text \<open>C12: every request of the client is taken by exactly one route of the server, the one meant for
  it, and the server reads the names the request was built from, provided they are plain: of characters a
  URL path carries as they are, and not a dot segment. The names of Kubernetes objects are; the name of
  an account need not be.\<close>

theorem requests_reach_their_handler:
  assumes "plain_name n" "plain_name k"
  shows "list_all (\<lambda>(rq, h, xs). handled_by rq = [(h, xs)]) (client_calls n k ns v s ls i role rule cfg tp)"
  unfolding client_calls_def by (simp add: request_simps assms)

theorem requests_reach_their_handler_witness:
  "handled_by (cnpApi_update ''web'' ''shop'' ''namespace'' ''spec: {}'') = [(''applyCNP'', [''web''])]"
  using requests_reach_their_handler [of "''web''" "''web-0''" None JNull "''spec: {}''" "[]" 0 Viewer undefined undefined undefined]
  by (simp add: plain_name_def path_char_def client_calls_def request_simps)

section \<open>Account names\<close>

text \<open>The user form accepts any name. Deleting the account \<open>bob?x\<close> deletes the account \<open>bob\<close>: what follows the
  question mark is the query. A name that climbs out of its directory deletes something else.\<close>

theorem query_in_user_name:
  assumes "plain_name n"
  shows "handled_by (userApi_delete (n @ CHR ''?'' # t)) = [(''deleteUserHandler'', [n])]"
proof -
  have "plain_path (''/api/users/'' @ n)" using assms by (simp add: request_simps)
  then have "router_path ((''/api/users/'' @ n) @ CHR ''?'' # t) = Some (split_on slash (''/api/users/'' @ n))"
    by (rule router_plain(2))
  then show ?thesis using assms
    by (simp add: handled_by_def request_url_def userApi_delete_def api_delete_def method_routes plain_segment)
qed

theorem query_in_user_name_witness: "handled_by (userApi_delete ''bob?x'') = [(''deleteUserHandler'', [''bob''])]"
  using query_in_user_name [of "''bob''" "''x''"] by (simp add: plain_name_def path_char_def)

lemma dots_in_user_name: "handled_by (userApi_delete ''../policies/web'') = [(''deletePolicy'', [''web''])]"
  by code_simp

lemma split_twice: "c \<in> set s \<Longrightarrow> \<exists>a b r. split_on c s = a # b # r"
proof (induction s)
  case (Cons x s)
  obtain w ws where "split_on c s = w # ws" by (cases "split_on c s") auto
  with Cons show ?case by (cases "x = c") auto
qed simp

lemma split_on_concat: "split_on c (s @ c # t) = split_on c s @ split_on c t"
  by (induction s) (auto split: list.splits)

text \<open>A user whose name holds a slash can neither be deleted nor given a new password, even when the rest
  of the name is plain: no route of the server takes the request.\<close>

theorem slash_user_unreachable:
  assumes "slash \<in> set u" "list_all plain_name (split_on slash u)"
  shows "handled_by (userApi_delete u) = [] \<and> handled_by (userApi_changePassword u p c) = []
    \<and> handled_by (userApi_create u p role) = [(''createUserHandler'', [])]"
proof -
  obtain a b r where s: "split_on slash u = a # b # r" using split_twice [OF assms(1)] by blast
  have t: "split_on slash (u @ ''/password'') = a # b # r @ [''password'']"
    using split_on_concat [of slash u "''password''"] s by simp
  have "plain_name ''password''" by (simp add: plain_name_def path_char_def)
  then have "plain_path (''/api/users/'' @ u)" "plain_path (''/api/users/'' @ u @ ''/password'')"
    using assms(2) s t by (simp_all add: plain_path_def plain_literal path_char_def)
  then show ?thesis using s t
    by (cases r) (simp_all add: request_simps)
qed

theorem slash_user_unreachable_witness: "handled_by (userApi_delete ''ops/anna'') = []"
  using slash_user_unreachable [of "''ops/anna''"] by (simp add: plain_name_def path_char_def)

end
