(* ===== verification/PageBase.thy ===== *)
theory PageBase
  imports ApiClient Filters
begin

text \<open>
  What the console's pages share: the effects a handler asks for, the outcome of a request, and the
  contract of a submit button, which keeps a second request from starting while one is under way.

  A handler is a function from the page's state to the next state and its effects, in the order
  the code issues them. A handler that awaits a request is two functions: what happens up to the
  await, and what happens with the outcome. React's rendering is the pure reading of the state.
\<close>

datatype effect =
    Send api_request
  | ToastOk string
  | ToastErr string
  | Navigate string
  | NavigateReplace string

text \<open>How a request ends: well, or with the response data and status the server sent (undefined
  when it sent none).\<close>

datatype outcome = Done | Refused jsval jsval

text \<open>\<open>e?.response?.data || fallback\<close> for text data.\<close>

definition refusal_text :: "jsval \<Rightarrow> string \<Rightarrow> string" where
  "refusal_text data fallback = (if truthy data then js_string data else fallback)"

definition sends :: "effect list \<Rightarrow> api_request list" where
  "sends es = concat (map (\<lambda>e. case e of Send r \<Rightarrow> [r] | _ \<Rightarrow> []) es)"

lemma sends_simps [simp]:
  "sends [] = []" "sends (Send r # es) = r # sends es" "sends (ToastOk s # es) = sends es"
  "sends (ToastErr s # es) = sends es" "sends (Navigate s # es) = sends es" "sends (NavigateReplace s # es) = sends es"
  "sends (es @ fs) = sends es @ sends fs"
  by (simp_all add: sends_def)

section \<open>Numbers typed into a field\<close>

text \<open>\<open>parseInt(s, 10)\<close>: leading blanks, a sign, then as many digits as there are; None is NaN. Without
  the radix it agrees on what a number field can hold, which has no 0x form.\<close>

definition parseInt :: "string \<Rightarrow> int option" where
  "parseInt s =
     (let t = dropWhile js_ws s;
          neg = (t \<noteq> [] \<and> hd t = CHR ''-'');
          u = (if t \<noteq> [] \<and> (hd t = CHR ''-'' \<or> hd t = CHR ''+'') then tl t else t);
          ds = takeWhile is_digit u
      in if ds = [] then None else Some (if neg then - int (nat_of_digits ds) else int (nat_of_digits ds)))"

section \<open>One submit at a time\<close>

text \<open>A submit button is clicked, or the outcome of its request arrives.\<close>

datatype submit_move = Click | Arrive outcome

fun is_arrival :: "submit_move \<Rightarrow> bool" where
  "is_arrival Click = False"
| "is_arrival (Arrive r) = True"

text \<open>
  A page under a sequence of moves. \<open>start\<close> is the click, \<open>finish\<close> the outcome of the request
  under way; an outcome arrives only while there is one.
\<close>

fun submit_step :: "('s \<Rightarrow> bool) \<Rightarrow> ('s \<Rightarrow> 's \<times> effect list) \<Rightarrow> (outcome \<Rightarrow> 's \<Rightarrow> 's \<times> effect list) \<Rightarrow>
    submit_move \<Rightarrow> 's \<Rightarrow> 's \<times> effect list" where
  "submit_step busy start finish Click s = start s"
| "submit_step busy start finish (Arrive r) s = (if busy s then finish r s else (s, []))"

fun submit_run :: "('s \<Rightarrow> bool) \<Rightarrow> ('s \<Rightarrow> 's \<times> effect list) \<Rightarrow> (outcome \<Rightarrow> 's \<Rightarrow> 's \<times> effect list) \<Rightarrow>
    submit_move list \<Rightarrow> 's \<Rightarrow> 's \<times> effect list" where
  "submit_run busy start finish [] s = (s, [])"
| "submit_run busy start finish (m # ms) s =
     (let (s1, es) = submit_step busy start finish m s; (s2, fs) = submit_run busy start finish ms s1 in (s2, es @ fs))"

text \<open>How many requests that change something were sent.\<close>

definition written :: "effect list \<Rightarrow> nat" where
  "written es = length (filter (\<lambda>r. rq_method r \<noteq> HGet) (sends es))"

lemma written_append: "written (es @ fs) = written es + written fs"
  by (simp add: written_def)

text \<open>The contract of a submit: \<open>busy\<close> is the flag that disables the button.\<close>

locale single_flight =
  fixes busy :: "'s \<Rightarrow> bool"
    and start :: "'s \<Rightarrow> 's \<times> effect list"
    and finish :: "outcome \<Rightarrow> 's \<Rightarrow> 's \<times> effect list"
  assumes start_busy: "busy s \<Longrightarrow> start s = (s, [])"
    and start_writes: "\<not> busy s \<Longrightarrow> written (snd (start s)) = (if busy (fst (start s)) then 1 else 0)"
    and finish_free: "\<not> busy (fst (finish r s))"
    and finish_reads: "written (snd (finish r s)) = 0"
begin

lemma step_balance:
  "written (snd (submit_step busy start finish m s)) + (if busy s then 1 else 0)
     \<le> (if is_arrival m then 1 else 0) + (if busy (fst (submit_step busy start finish m s)) then 1 else 0)"
  by (cases m; cases "busy s") (simp_all add: start_busy start_writes finish_reads, simp_all add: written_def)

lemma run_balance:
  "written (snd (submit_run busy start finish ms s)) + (if busy s then 1 else 0)
     \<le> length (filter is_arrival ms) + (if busy (fst (submit_run busy start finish ms s)) then 1 else 0)"
proof (induction ms arbitrary: s)
  case (Cons m ms)
  obtain s1 es where s1: "submit_step busy start finish m s = (s1, es)" by fastforce
  obtain s2 fs where s2: "submit_run busy start finish ms s1 = (s2, fs)" by fastforce
  show ?case using step_balance [of m s] Cons.IH [of s1] by (simp add: s1 s2 written_append split: if_splits)
qed (simp add: written_def)

text \<open>However often the button is clicked, a request starts only once the one before it has ended.\<close>

lemma one_in_flight: "written (snd (submit_run busy start finish ms s)) \<le> length (filter is_arrival ms) + 1"
  using run_balance [of ms s] by (simp split: if_splits)

lemma submit_run_snoc:
  "fst (submit_run busy start finish (ms @ [m]) s) = fst (submit_step busy start finish m (fst (submit_run busy start finish ms s)))"
  by (induction ms arbitrary: s) (auto simp: case_prod_unfold Let_def)

text \<open>Whatever the outcome, the button is free again.\<close>

lemma free_after: "\<not> busy (fst (submit_run busy start finish (ms @ [Arrive r]) s))"
  by (simp add: submit_run_snoc finish_free)

end

end
