(* ===== verification/VapPage.thy ===== *)
theory VapPage
  imports VapReopen PageBase
begin

text \<open>
  The admission policy page of \<open>web/src/pages/VAPPage.tsx\<close>: which screen is up, the builder's and
  the binding form's state, the effect that follows the route, and the handlers that load, save and
  delete. Matching the URL is React Router's work: the effect gets the route that matched.
\<close>

section \<open>State\<close>

datatype target_kind = PolicyTarget | BindingTarget

record edit_target =
  et_kind :: target_kind
  et_name :: "string option"
  et_yaml :: string

datatype vap_tab = PoliciesTab | BindingsTab

record vap_page =
  vp_policies :: "vap_record list"
  vp_bindings :: "vap_binding_record list"
  vp_loading :: bool
  hasLoaded :: bool
  listsLoaded :: bool
  vp_editor :: "edit_target option"
  vp_editorYaml :: string
  vp_editorValid :: bool
  vp_editorKey :: nat
  vp_saving :: bool
  vp_deleteTarget :: "(target_kind \<times> string) option"
  activeTab :: vap_tab
  showBuilder :: bool
  builderEditName :: "string option"
  vp_form :: policy_builder
  builderSaving :: bool
  showBindingBuilder :: bool
  bindingEditName :: "string option"
  vp_binding :: binding_builder
  bindingBuilderSaving :: bool

definition blank_form :: policy_builder where
  "blank_form = \<lparr> pb_name = [], pb_ruleType = LabelType, pb_applyTo = ''workloads'',
     labelRules = [emptyLabelRule], imageRules = [emptyImageRule], replicaRules = [emptyReplicaRule],
     resourceLimitRules = [emptyResourceLimitRule], securityContextRule = emptySecurityContextRule,
     hostAccessRule = emptyHostAccessRule, configMapSizeRule = emptySizeLimitRule, secretSizeRule = emptySizeLimitRule \<rparr>"

definition blank_binding :: binding_builder where
  "blank_binding = \<lparr> bb_name = [], bb_policyName = [], bb_nsMode = AllNs, bb_namespaces = [], bb_actions = [''Deny''] \<rparr>"

definition vap_page_init :: vap_page where
  "vap_page_init = \<lparr> vp_policies = [], vp_bindings = [], vp_loading = True, hasLoaded = False, listsLoaded = False,
     vp_editor = None, vp_editorYaml = [], vp_editorValid = True, vp_editorKey = 0, vp_saving = False,
     vp_deleteTarget = None, activeTab = PoliciesTab, showBuilder = False, builderEditName = None,
     vp_form = blank_form, builderSaving = False, showBindingBuilder = False, bindingEditName = None,
     vp_binding = blank_binding, bindingBuilderSaving = False \<rparr>"

section \<open>Editing the rules\<close>

definition updateRule :: "nat \<Rightarrow> (label_rule \<Rightarrow> label_rule) \<Rightarrow> policy_builder \<Rightarrow> policy_builder" where
  "updateRule i f b = b\<lparr> labelRules := map_at i f (labelRules b) \<rparr>"

definition addRule :: "policy_builder \<Rightarrow> policy_builder" where
  "addRule b = b\<lparr> labelRules := labelRules b @ [emptyLabelRule] \<rparr>"

definition removeRule :: "nat \<Rightarrow> policy_builder \<Rightarrow> policy_builder" where
  "removeRule i b = b\<lparr> labelRules := remove_at i (labelRules b) \<rparr>"

definition updateImageRule :: "nat \<Rightarrow> (image_rule \<Rightarrow> image_rule) \<Rightarrow> policy_builder \<Rightarrow> policy_builder" where
  "updateImageRule i f b = b\<lparr> imageRules := map_at i f (imageRules b) \<rparr>"

definition addImageRule :: "policy_builder \<Rightarrow> policy_builder" where
  "addImageRule b = b\<lparr> imageRules := imageRules b @ [emptyImageRule] \<rparr>"

definition removeImageRule :: "nat \<Rightarrow> policy_builder \<Rightarrow> policy_builder" where
  "removeImageRule i b = b\<lparr> imageRules := remove_at i (imageRules b) \<rparr>"

text \<open>Leaving the registry field: a registry typed without its slash gets one.\<close>

definition blur_registry :: "nat \<Rightarrow> string \<Rightarrow> policy_builder \<Rightarrow> policy_builder" where
  "blur_registry i typed b =
     (let v = trim typed
      in if v \<noteq> [] \<and> \<not> suffix ''/'' v then updateImageRule i (\<lambda>r. r\<lparr> ir_registry := v @ ''/'' \<rparr>) b else b)"

definition updateReplicaRule :: "nat \<Rightarrow> (replica_rule \<Rightarrow> replica_rule) \<Rightarrow> policy_builder \<Rightarrow> policy_builder" where
  "updateReplicaRule i f b = b\<lparr> replicaRules := map_at i f (replicaRules b) \<rparr>"

text \<open>\<open>Math.max(1, parseInt(s) || 1)\<close>\<close>

definition max_replicas_input :: "string \<Rightarrow> int" where
  "max_replicas_input typed = max 1 (case parseInt typed of None \<Rightarrow> 1 | Some n \<Rightarrow> if n = 0 then 1 else n)"

definition set_max_replicas :: "string \<Rightarrow> policy_builder \<Rightarrow> policy_builder" where
  "set_max_replicas typed = updateReplicaRule 0 (\<lambda>r. r\<lparr> maxReplicas := max_replicas_input typed \<rparr>)"

definition updateResourceLimitRule :: "nat \<Rightarrow> (resource_limit_rule \<Rightarrow> resource_limit_rule) \<Rightarrow> policy_builder \<Rightarrow> policy_builder" where
  "updateResourceLimitRule i f b = b\<lparr> resourceLimitRules := map_at i f (resourceLimitRules b) \<rparr>"

text \<open>Picking a rule type clears the rules of every type and keeps the name and the target.\<close>

definition pick_rule_type :: "policy_rule_type \<Rightarrow> policy_builder \<Rightarrow> policy_builder" where
  "pick_rule_type t b = blank_form\<lparr> pb_name := pb_name b, pb_applyTo := pb_applyTo b, pb_ruleType := t \<rparr>"

definition resetBuilderForm :: "vap_page \<Rightarrow> vap_page" where
  "resetBuilderForm st = st\<lparr> builderEditName := None, vp_form := blank_form \<rparr>"

section \<open>Opening screens\<close>

definition openNew :: "target_kind \<Rightarrow> vap_page \<Rightarrow> vap_page" where
  "openNew kind st = st\<lparr> vp_editorYaml := [], vp_editorValid := True, vp_editorKey := Suc (vp_editorKey st),
     vp_editor := Some \<lparr> et_kind = kind, et_name = None, et_yaml = [] \<rparr> \<rparr>"

text \<open>Empty rule lists become one blank row, so the form has a row to show.\<close>

definition rows_or :: "'r \<Rightarrow> 'r list \<Rightarrow> 'r list" where
  "rows_or d rs = (if rs \<noteq> [] then rs else [d])"

definition form_of :: "policy_builder \<Rightarrow> policy_builder" where
  "form_of p = p\<lparr> labelRules := rows_or emptyLabelRule (labelRules p), imageRules := rows_or emptyImageRule (imageRules p),
     replicaRules := rows_or emptyReplicaRule (replicaRules p),
     resourceLimitRules := rows_or emptyResourceLimitRule (resourceLimitRules p) \<rparr>"

text \<open>\<open>new Set(xs)\<close> as the list of its elements in insertion order.\<close>

definition js_set :: "'a list \<Rightarrow> 'a list" where
  "js_set xs = rev (remdups (rev xs))"

definition open_yaml :: "target_kind \<Rightarrow> string \<Rightarrow> string \<Rightarrow> vap_page \<Rightarrow> vap_page" where
  "open_yaml kind name raw st = st\<lparr> vp_editorYaml := raw, vp_editorValid := True, vp_editorKey := Suc (vp_editorKey st),
     vp_editor := Some \<lparr> et_kind = kind, et_name = Some name, et_yaml = raw \<rparr> \<rparr>"

definition openEdit :: "yaml_lib \<Rightarrow> target_kind \<Rightarrow> string \<Rightarrow> string \<Rightarrow> vap_page \<Rightarrow> vap_page" where
  "openEdit Y kind name raw st =
     (case kind of
        PolicyTarget \<Rightarrow>
          (case tryParseBuilderPolicy Y raw of
             Some p \<Rightarrow> st\<lparr> builderEditName := Some name, vp_form := form_of p, showBuilder := True \<rparr>
           | None \<Rightarrow> open_yaml kind name raw st)
      | BindingTarget \<Rightarrow>
          (case tryParseBuilderBinding Y raw of
             Some p \<Rightarrow> st\<lparr> bindingEditName := Some name, vp_binding := p\<lparr> bb_actions := js_set (bb_actions p) \<rparr>,
                          showBindingBuilder := True \<rparr>
           | None \<Rightarrow> open_yaml kind name raw st))"

datatype vap_route =
    PolicyNewRoute bool      \<comment> \<open>\<open>/policies/admission/new\<close>, and whether \<open>mode=yaml\<close>\<close>
  | BindingNewRoute bool
  | PolicyEditRoute string
  | BindingEditRoute string
  | ListRoute

definition close_all :: "vap_page \<Rightarrow> vap_page" where
  "close_all st = resetBuilderForm (st\<lparr> showBuilder := False, showBindingBuilder := False, vp_editor := None,
     builderEditName := None, bindingEditName := None \<rparr>)"

definition edit_record :: "yaml_lib \<Rightarrow> target_kind \<Rightarrow> string \<Rightarrow> (string \<times> string) option \<Rightarrow> vap_page \<Rightarrow> vap_page \<times> effect list" where
  "edit_record Y kind name rec st =
     (case rec of
        None \<Rightarrow> (st, [ToastErr ((case kind of PolicyTarget \<Rightarrow> ''Policy '' | BindingTarget \<Rightarrow> ''Binding '') @ name @ '' no longer exists.''),
                    NavigateReplace ''/policies/admission''])
      | Some (n, raw) \<Rightarrow>
          (openEdit Y kind n raw (if kind = BindingTarget then st\<lparr> activeTab := BindingsTab \<rparr> else st), []))"

text \<open>The effect that follows the route; it runs when the route or \<open>listsLoaded\<close> changes.\<close>

fun route_effect :: "yaml_lib \<Rightarrow> vap_route \<Rightarrow> vap_page \<Rightarrow> vap_page \<times> effect list" where
  "route_effect Y (PolicyNewRoute yamlMode) st =
     (if yamlMode then openNew PolicyTarget st
      else (resetBuilderForm st)\<lparr> builderEditName := None, showBuilder := True \<rparr>, [])"
| "route_effect Y (BindingNewRoute yamlMode) st =
     ((if yamlMode then openNew BindingTarget st
       else st\<lparr> bindingEditName := None, vp_binding := blank_binding, showBindingBuilder := True \<rparr>)
        \<lparr> activeTab := BindingsTab \<rparr>, [])"
| "route_effect Y (PolicyEditRoute name) st =
     (if \<not> listsLoaded st then (st, [])
      else edit_record Y PolicyTarget name
             (map_option (\<lambda>r. (vr_name r, vr_rawYaml r)) (List.find (\<lambda>r. vr_name r = name) (vp_policies st))) st)"
| "route_effect Y (BindingEditRoute name) st =
     (if \<not> listsLoaded st then (st, [])
      else edit_record Y BindingTarget name
             (map_option (\<lambda>r. (br_name r, br_rawYaml r)) (List.find (\<lambda>r. br_name r = name) (vp_bindings st))) st)"
| "route_effect Y ListRoute st = (close_all st, [])"

text \<open>The screen on show: the builder before the binding form before the editor before the list.\<close>

datatype vap_screen = BuilderScreen | BindingScreen | EditorScreen edit_target | ListScreen

definition vap_screen :: "vap_page \<Rightarrow> vap_screen" where
  "vap_screen st =
     (if showBuilder st then BuilderScreen
      else if showBindingBuilder st then BindingScreen
      else (case vp_editor st of Some e \<Rightarrow> EditorScreen e | None \<Rightarrow> ListScreen))"

section \<open>Loading, saving, deleting\<close>

definition load_start :: "bool \<Rightarrow> vap_page \<Rightarrow> vap_page \<times> effect list" where
  "load_start showSpinner st =
     (if showSpinner then st\<lparr> vp_loading := True \<rparr> else st, [Send vapApi_listPolicies, Send vapApi_listBindings])"

text \<open>Both lists, or nothing when either request fails.\<close>

definition load_done :: "(vap_record list \<times> vap_binding_record list) option \<Rightarrow> vap_page \<Rightarrow> vap_page" where
  "load_done res st =
     (case res of
        Some (p, b) \<Rightarrow> st\<lparr> vp_policies := p, vp_bindings := b, listsLoaded := True, hasLoaded := True, vp_loading := False \<rparr>
      | None \<Rightarrow> st\<lparr> vp_loading := False \<rparr>)"

definition kind_label :: "target_kind \<Rightarrow> string" where
  "kind_label k = (case k of PolicyTarget \<Rightarrow> ''Policy'' | BindingTarget \<Rightarrow> ''Binding'')"

definition save_request :: "edit_target \<Rightarrow> string \<Rightarrow> api_request" where
  "save_request e yaml =
     (case (et_kind e, et_name e) of
        (PolicyTarget, Some n) \<Rightarrow> if n \<noteq> [] then vapApi_updatePolicy n yaml else vapApi_applyPolicy yaml
      | (PolicyTarget, None) \<Rightarrow> vapApi_applyPolicy yaml
      | (BindingTarget, Some n) \<Rightarrow> if n \<noteq> [] then vapApi_updateBinding n yaml else vapApi_applyBinding yaml
      | (BindingTarget, None) \<Rightarrow> vapApi_applyBinding yaml)"

text \<open>The button is disabled while the editor is invalid or saving.\<close>

definition handleSave_start :: "vap_page \<Rightarrow> vap_page \<times> effect list" where
  "handleSave_start st =
     (if vp_saving st then (st, [])
      else case vp_editor st of
        None \<Rightarrow> (st, [])
      | Some e \<Rightarrow> if \<not> vp_editorValid st then (st, [])
                else (st\<lparr> vp_saving := True \<rparr>, [Send (save_request e (vp_editorYaml st))]))"

text \<open>The outcome arrives in the closure of the click: the editor is the one that was saved.\<close>

definition handleSave_done :: "edit_target \<Rightarrow> outcome \<Rightarrow> vap_page \<Rightarrow> vap_page \<times> effect list" where
  "handleSave_done e r st =
     (case r of
        Done \<Rightarrow> (st\<lparr> activeTab := (if et_kind e = PolicyTarget then PoliciesTab else BindingsTab), vp_saving := False \<rparr>,
          [ToastOk (kind_label (et_kind e) @ '' applied.''), Send vapApi_listPolicies, Send vapApi_listBindings,
           Navigate ''/policies/admission''])
      | Refused data _ \<Rightarrow> (st\<lparr> vp_saving := False \<rparr>, [ToastErr (refusal_text data ''Failed to apply'')]))"

definition handleDelete_start :: "vap_page \<Rightarrow> effect list" where
  "handleDelete_start st =
     (case vp_deleteTarget st of
        None \<Rightarrow> []
      | Some (PolicyTarget, n) \<Rightarrow> [Send (vapApi_deletePolicy n)]
      | Some (BindingTarget, n) \<Rightarrow> [Send (vapApi_deleteBinding n)])"

definition handleDelete_done :: "target_kind \<Rightarrow> outcome \<Rightarrow> vap_page \<Rightarrow> vap_page \<times> effect list" where
  "handleDelete_done kind r st =
     (case r of
        Done \<Rightarrow> (st\<lparr> vp_deleteTarget := None \<rparr>,
          [ToastOk (kind_label kind @ '' deleted.''), Send vapApi_listPolicies, Send vapApi_listBindings])
      | Refused _ _ \<Rightarrow> (st, [ToastErr ''Failed to delete'']))"

text \<open>The rules check of the handler, and the one the Apply button is enabled by.\<close>

definition handler_rulesOk :: "policy_builder \<Rightarrow> bool" where
  "handler_rulesOk b =
     (case pb_ruleType b of
        LabelType \<Rightarrow> list_ex (\<lambda>r. trim (lr_key r) \<noteq> [] \<and> trim (lr_value r) \<noteq> []) (labelRules b)
      | AnnotationType \<Rightarrow> list_ex (\<lambda>r. trim (lr_key r) \<noteq> [] \<and> trim (lr_value r) \<noteq> []) (labelRules b)
      | ImageType \<Rightarrow> list_ex (\<lambda>r. ir_type r = NoLatest \<or> trim (ir_registry r) \<noteq> []) (imageRules b)
      | ResourceLimitsType \<Rightarrow> True
      | SecurityContextType \<Rightarrow> True
      | HostAccessType \<Rightarrow> True
      | _ \<Rightarrow> list_ex (\<lambda>r. maxReplicas r > 0) (replicaRules b))"

definition button_rulesOk :: "policy_builder \<Rightarrow> bool" where
  "button_rulesOk b =
     (case pb_ruleType b of
        ConfigMapSizeType \<Rightarrow> kbToBytes (totalKB (configMapSizeRule b)) > 0
      | SecretSizeType \<Rightarrow> kbToBytes (totalKB (secretSizeRule b)) > 0
      | _ \<Rightarrow> handler_rulesOk b)"

definition canApply :: "policy_builder \<Rightarrow> bool" where
  "canApply b \<longleftrightarrow> trim (pb_name b) \<noteq> [] \<and> button_rulesOk b"

definition apply_request :: "string option \<Rightarrow> string \<Rightarrow> api_request" where
  "apply_request editName y =
     (case editName of Some n \<Rightarrow> if n \<noteq> [] then vapApi_updatePolicy n y else vapApi_applyPolicy y
      | None \<Rightarrow> vapApi_applyPolicy y)"

definition handleBuilderApply :: "vap_page \<Rightarrow> vap_page \<times> effect list" where
  "handleBuilderApply st =
     (let b = vp_form st
      in if trim (pb_name b) = [] \<or> \<not> handler_rulesOk b then (st, [])
         else (st\<lparr> builderSaving := True \<rparr>, [Send (apply_request (builderEditName st) (generatePolicyYaml b))]))"

text \<open>A click on the Apply button, which is disabled until the form is complete.\<close>

definition click_apply :: "vap_page \<Rightarrow> vap_page \<times> effect list" where
  "click_apply st = (if \<not> canApply (vp_form st) \<or> builderSaving st then (st, []) else handleBuilderApply st)"

definition builder_done :: "outcome \<Rightarrow> vap_page \<Rightarrow> vap_page \<times> effect list" where
  "builder_done r st =
     (st\<lparr> builderSaving := False \<rparr>,
      case r of
        Done \<Rightarrow> [ToastOk ''Policy applied.'', Send vapApi_listPolicies, Send vapApi_listBindings, Navigate ''/policies/admission'']
      | Refused data _ \<Rightarrow> [ToastErr (refusal_text data ''Failed to apply'')])"

definition binding_request :: "string option \<Rightarrow> string \<Rightarrow> api_request" where
  "binding_request editName y =
     (case editName of Some n \<Rightarrow> if n \<noteq> [] then vapApi_updateBinding n y else vapApi_applyBinding y
      | None \<Rightarrow> vapApi_applyBinding y)"

definition handleBindingBuilderApply :: "vap_page \<Rightarrow> vap_page \<times> effect list" where
  "handleBindingBuilderApply st =
     (let b = vp_binding st
      in if bindingBuilderSaving st then (st, [])
         else if trim (bb_name b) = [] \<or> trim (bb_policyName b) = [] \<or> bb_actions b = [] then (st, [])
         else if bb_nsMode b \<noteq> AllNs \<and> bb_namespaces b = [] then (st, [])
         else (st\<lparr> bindingBuilderSaving := True \<rparr>,
               [Send (binding_request (bindingEditName st) (generateBindingYaml b))]))"

definition binding_done :: "outcome \<Rightarrow> vap_page \<Rightarrow> vap_page \<times> effect list" where
  "binding_done r st =
     (st\<lparr> bindingBuilderSaving := False \<rparr>,
      case r of
        Done \<Rightarrow> [ToastOk ''Binding applied.'', Send vapApi_listPolicies, Send vapApi_listBindings, Navigate ''/policies/admission'']
      | Refused data _ \<Rightarrow> [ToastErr (refusal_text data ''Failed to apply'')])"

definition toggleAction :: "string \<Rightarrow> vap_page \<Rightarrow> vap_page" where
  "toggleAction a st = st\<lparr> vp_binding := (vp_binding st)\<lparr> bb_actions := toggle_key (bb_actions (vp_binding st)) a \<rparr> \<rparr>"

text \<open>The rows of a list tab under its search box.\<close>

definition searched :: "('r \<Rightarrow> string) \<Rightarrow> string \<Rightarrow> 'r list \<Rightarrow> 'r list" where
  "searched name search rs = filter (\<lambda>r. search = [] \<or> js_includes (to_lower (name r)) (to_lower search)) rs"

end
