(* ===== verification/VapPageProps.thy ===== *)
theory VapPageProps
  imports VapPage VapSafety
begin

text \<open>
  What the admission policy page promises: it sends one request at a time, an enabled Apply button
  never does nothing, saving what was opened keeps the policy, and the screen follows the route.
\<close>

section \<open>Submitting\<close>

interpretation yaml_flight: single_flight vp_saving handleSave_start "handleSave_done e" for e
  by unfold_locales
    (auto simp: handleSave_start_def handleSave_done_def written_def save_request_def vapApi_updatePolicy_def
      vapApi_applyPolicy_def vapApi_updateBinding_def vapApi_applyBinding_def vapApi_listPolicies_def
      vapApi_listBindings_def api_put_def api_post_def api_get_def
      split: option.splits target_kind.splits outcome.splits)

interpretation builder_flight: single_flight builderSaving click_apply builder_done
  by unfold_locales
    (auto simp: click_apply_def handleBuilderApply_def builder_done_def written_def apply_request_def Let_def
      vapApi_updatePolicy_def vapApi_applyPolicy_def vapApi_listPolicies_def vapApi_listBindings_def
      api_put_def api_post_def api_get_def split: option.splits outcome.splits)

interpretation binding_flight: single_flight bindingBuilderSaving handleBindingBuilderApply binding_done
  by unfold_locales
    (auto simp: handleBindingBuilderApply_def binding_done_def written_def binding_request_def Let_def
      vapApi_updateBinding_def vapApi_applyBinding_def vapApi_listPolicies_def vapApi_listBindings_def
      api_put_def api_post_def api_get_def split: option.splits outcome.splits)

text \<open>C13: in any order of clicks and arriving outcomes, each of the page's three Apply buttons sends a
  request only when none of its own is under way, and is free again after every outcome.\<close>

theorem vap_one_request_in_flight:
  "written (snd (submit_run vp_saving handleSave_start (handleSave_done e) ms st)) \<le> length (filter is_arrival ms) + 1
   \<and> written (snd (submit_run builderSaving click_apply builder_done ms st)) \<le> length (filter is_arrival ms) + 1
   \<and> written (snd (submit_run bindingBuilderSaving handleBindingBuilderApply binding_done ms st)) \<le> length (filter is_arrival ms) + 1
   \<and> \<not> builderSaving (fst (submit_run builderSaving click_apply builder_done (ms @ [Arrive r]) st))"
  using yaml_flight.one_in_flight builder_flight.one_in_flight binding_flight.one_in_flight builder_flight.free_after
  by blast

section \<open>The Apply button\<close>

text \<open>The edits of the builder form.\<close>

inductive form_edit :: "policy_builder \<Rightarrow> policy_builder \<Rightarrow> bool" where
  edit_name: "form_edit b (b\<lparr> pb_name := s \<rparr>)"
| edit_target: "form_edit b (b\<lparr> pb_applyTo := s \<rparr>)"
| edit_type: "form_edit b (pick_rule_type t b)"
| edit_label: "form_edit b (updateRule i f b)"
| add_label: "form_edit b (addRule b)"
| remove_label: "form_edit b (removeRule i b)"
| edit_image: "form_edit b (updateImageRule i g b)"
| add_image: "form_edit b (addImageRule b)"
| remove_image: "form_edit b (removeImageRule i b)"
| leave_registry: "form_edit b (blur_registry i s b)"
| edit_replicas: "form_edit b (set_max_replicas s b)"
| edit_replica_kind: "form_edit b (updateReplicaRule 0 (\<lambda>r. r\<lparr> rr_resourceType := k \<rparr>) b)"
| edit_replica_message: "form_edit b (updateReplicaRule 0 (\<lambda>r. r\<lparr> rr_message := s \<rparr>) b)"
| edit_limit: "form_edit b (updateResourceLimitRule 0 h b)"
| edit_security: "form_edit b (b\<lparr> securityContextRule := sc \<rparr>)"
| edit_host: "form_edit b (b\<lparr> hostAccessRule := ha \<rparr>)"
| edit_configmap: "form_edit b (b\<lparr> configMapSizeRule := cs \<rparr>)"
| edit_secret: "form_edit b (b\<lparr> secretSizeRule := ss \<rparr>)"

text \<open>The forms the page can hold: a blank one or an opened policy, then any edits.\<close>

inductive form_reachable :: "yaml_lib \<Rightarrow> policy_builder \<Rightarrow> bool" for Y where
  blank: "form_reachable Y blank_form"
| opened: "tryParseBuilderPolicy Y raw = Some p \<Longrightarrow> form_reachable Y (form_of p)"
| edited: "form_reachable Y b \<Longrightarrow> form_edit b b' \<Longrightarrow> form_reachable Y b'"

inductive_cases form_editE: "form_edit b b'"

definition size_type :: "policy_rule_type \<Rightarrow> bool" where
  "size_type t \<longleftrightarrow> t = ConfigMapSizeType \<or> t = SecretSizeType"

definition form_inv :: "policy_builder \<Rightarrow> bool" where
  "form_inv b \<longleftrightarrow> (size_type (pb_ruleType b) \<longrightarrow> (\<exists>r \<in> set (replicaRules b). maxReplicas r > 0))"

lemma max_replicas_pos: "max_replicas_input s > 0"
  by (auto simp: max_replicas_input_def)

lemma map_at_ex: "x \<in> set xs \<Longrightarrow> (\<And>y. P y \<Longrightarrow> P (f y)) \<Longrightarrow> P x \<Longrightarrow> \<exists>z \<in> set (map_at i f xs). P z"
  by (metis in_set_conv_nth length_map_at nth_map_at nth_mem)

lemma blank_form_inv: "form_inv (pick_rule_type t b)" "form_inv blank_form"
  by (simp_all add: form_inv_def pick_rule_type_def blank_form_def emptyReplicaRule_def)

lemma form_edit_inv: "form_edit b b' \<Longrightarrow> form_inv b \<Longrightarrow> form_inv b'"
proof (induction rule: form_edit.induct)
  case (edit_replicas b s)
  then show ?case
    by (auto simp: form_inv_def set_max_replicas_def updateReplicaRule_def max_replicas_pos intro!: map_at_ex)
next
  case (leave_registry b i s)
  then show ?case by (simp add: form_inv_def blur_registry_def updateImageRule_def Let_def)
qed (auto simp: blank_form_inv, auto simp: form_inv_def updateRule_def addRule_def removeRule_def updateImageRule_def addImageRule_def
    removeImageRule_def updateReplicaRule_def updateResourceLimitRule_def intro!: map_at_ex)

lemma opened_inv: "tryParseBuilderPolicy Y raw = Some p \<Longrightarrow> form_inv (form_of p)"
proof -
  assume "tryParseBuilderPolicy Y raw = Some p"
  then have "(\<exists>n k r. p = sized_builder n k r) \<or> (\<exists>n a q. p = rules_builder n a q)"
    unfolding tryParseBuilderPolicy_def Let_def
    by (auto simp: bind_eq_Some_conv split: if_splits option.splits dest!: accept_policy_SomeD) blast+
  moreover have "replicaRules (sized_builder n k r) = []" for n k r
    by (cases k) (simp_all add: sized_builder_def blank_builder_def)
  moreover have "\<not> size_type (pb_ruleType (rules_builder n a q))" for n a q
    by (simp add: rules_builder_def blank_builder_def parsed_rule_type_def size_type_def)
  ultimately show ?thesis by (auto simp: form_inv_def form_of_def rows_or_def emptyReplicaRule_def)
qed

lemma reachable_inv: "form_reachable Y b \<Longrightarrow> form_inv b"
  by (induction rule: form_reachable.induct) (simp_all add: blank_form_inv opened_inv form_edit_inv)

lemma enabled_apply:
  assumes "form_reachable Y (vp_form st)" "canApply (vp_form st)" "\<not> builderSaving st"
  shows "click_apply st = (st\<lparr> builderSaving := True \<rparr>,
    [Send (apply_request (builderEditName st) (generatePolicyYaml (vp_form st)))])"
proof -
  have "handler_rulesOk (vp_form st)"
    using reachable_inv [OF assms(1)] assms(2)
    by (cases "pb_ruleType (vp_form st)")
      (auto simp: canApply_def button_rulesOk_def handler_rulesOk_def form_inv_def size_type_def list_ex_iff)
  then show ?thesis
    using assms(2,3) by (simp add: click_apply_def handleBuilderApply_def canApply_def Let_def)
qed

text \<open>C14: the handler repeats the button's check without its two size branches and falls through to the
  replica rows, yet a click on an enabled Apply button is never ignored: every form the page can
  hold has a replica row that passes. It sends one request with the text on show as the manifest.\<close>

theorem enabled_apply_sends:
  assumes "form_reachable Y (vp_form st)" "canApply (vp_form st)" "\<not> builderSaving st"
  shows "click_apply st = (st\<lparr> builderSaving := True \<rparr>,
    [Send (apply_request (builderEditName st) (generatePolicyYaml (vp_form st)))])"
  by (rule enabled_apply [OF assms])

definition capped_form :: policy_builder where
  "capped_form = (pick_rule_type SecretSizeType (blank_form\<lparr> pb_name := ''caps'' \<rparr>))
     \<lparr> secretSizeRule := \<lparr> totalKB = show_nat 64, sl_message = [] \<rparr> \<rparr>"

lemma capped_reachable: "form_reachable Y capped_form"
  unfolding capped_form_def
  by (rule form_reachable.edited [OF form_reachable.edited [OF form_reachable.edited [OF form_reachable.blank
    form_edit.edit_name] form_edit.edit_type] form_edit.edit_secret])

theorem enabled_apply_sends_witness:
  "snd (click_apply (vap_page_init\<lparr> vp_form := capped_form \<rparr>)) = [Send (vapApi_applyPolicy (generatePolicyYaml capped_form))]"
proof -
  have "canApply capped_form"
    by (simp add: canApply_def button_rulesOk_def capped_form_def pick_rule_type_def blank_form_def kbToBytes_digits string_eval)
  then have "click_apply (vap_page_init\<lparr> vp_form := capped_form \<rparr>) =
      (vap_page_init\<lparr> vp_form := capped_form, builderSaving := True \<rparr>,
       [Send (apply_request None (generatePolicyYaml capped_form))])"
    using enabled_apply_sends [of toy_yaml "vap_page_init\<lparr> vp_form := capped_form \<rparr>"] capped_reachable
    by (simp add: vap_page_init_def)
  then show ?thesis by (simp add: apply_request_def)
qed

section \<open>Opening and saving\<close>

text \<open>The blank rows an opened form is padded with do not change the text.\<close>

lemma form_text: "generatePolicyYaml (form_of p) = generatePolicyYaml p"
proof -
  have "active_label_rules [emptyLabelRule] = []" by (simp add: active_label_rules_def emptyLabelRule_def)
  moreover have "active_image_rules [emptyImageRule] = [emptyImageRule]"
    by (simp add: active_image_rules_def emptyImageRule_def)
  moreover have "active_replica_rules [emptyReplicaRule] = [emptyReplicaRule]"
    by (simp add: active_replica_rules_def emptyReplicaRule_def)
  ultimately have "validation_lines (form_of p) = validation_lines p"
    by (cases "pb_ruleType p")
      (simp_all add: validation_lines_def form_of_def rows_or_def lines_or_default_def active_label_rules_def
        active_image_rules_def active_replica_rules_def)
  moreover have "pb_name (form_of p) = pb_name p" "pb_ruleType (form_of p) = pb_ruleType p" "pb_applyTo (form_of p) = pb_applyTo p"
    "configMapSizeRule (form_of p) = configMapSizeRule p" "secretSizeRule (form_of p) = secretSizeRule p"
    by (simp_all add: form_of_def)
  ultimately show ?thesis by (simp only: generatePolicyYaml_def)
qed

lemma open_policy:
  "tryParseBuilderPolicy Y raw = Some p \<Longrightarrow> openEdit Y PolicyTarget name raw st =
     st\<lparr> builderEditName := Some name, vp_form := form_of p, showBuilder := True \<rparr>"
  by (simp add: openEdit_def)

text \<open>C15: a policy that opens in the builder and is saved as it is goes to the update route under its own
  name, and the manifest sent says the same as the one that was opened.\<close>

theorem opened_policy_saves_unchanged:
  assumes "yaml_laws Y" "tryParseBuilderPolicy Y raw = Some p" "name \<noteq> []"
    and "trim (pb_name p) \<noteq> []" "button_rulesOk (form_of p)" "\<not> builderSaving st"
  shows "vap_screen (openEdit Y PolicyTarget name raw st) = BuilderScreen
    \<and> snd (click_apply (openEdit Y PolicyTarget name raw st)) = [Send (vapApi_updatePolicy name (generatePolicyYaml p))]
    \<and> vap_view Y (generatePolicyYaml p) = vap_view Y raw"
proof -
  let ?st = "openEdit Y PolicyTarget name raw st"
  have "click_apply ?st = (?st\<lparr> builderSaving := True \<rparr>,
      [Send (apply_request (builderEditName ?st) (generatePolicyYaml (vp_form ?st)))])"
  proof (rule enabled_apply)
    show "form_reachable Y (vp_form ?st)" using assms(2) by (simp add: open_policy form_reachable.opened)
    show "canApply (vp_form ?st)" using assms(2,4,5) by (simp add: open_policy canApply_def) (simp add: form_of_def)
    show "\<not> builderSaving ?st" using assms(2,6) by (simp add: open_policy)
  qed
  then show ?thesis
    using policy_guard.guard [OF assms(1,2)] assms(2,3)
    by (simp add: open_policy vap_screen_def apply_request_def form_text)
qed

theorem opened_policy_saves_unchanged_witness:
  "snd (click_apply (openEdit sample_yaml PolicyTarget ''no-host'' (generatePolicyYaml sample_builder) vap_page_init)) =
     [Send (vapApi_updatePolicy ''no-host'' (generatePolicyYaml (reopened sample_builder)))]"
proof -
  have l: "y_load sample_yaml (generatePolicyYaml sample_builder) = Some sample_doc" by (simp add: taught_def)
  have p: "tryParseBuilderPolicy sample_yaml (generatePolicyYaml sample_builder) = Some (reopened sample_builder)"
    by (rule reopens [OF sample_ok(1,2) l sample_spells sample_ok(3)])
  have "pb_name (reopened sample_builder) = ''no-host'' \<and> pb_ruleType (reopened sample_builder) = HostAccessType"
    by (simp add: reopened_kind [OF sample_ok(1)])
      (simp add: reopened_def rules_builder_def blank_builder_def sample_builder_def or_else_def string_eval)
  then show ?thesis
    using opened_policy_saves_unchanged [OF sample_laws p, of "''no-host''" vap_page_init]
    by (simp add: vap_page_init_def button_rulesOk_def handler_rulesOk_def form_of_def string_eval)
qed

section \<open>Screens and routes\<close>

text \<open>The screen each route stands for.\<close>

definition edit_screen :: "yaml_lib \<Rightarrow> target_kind \<Rightarrow> string \<Rightarrow> string \<Rightarrow> vap_screen" where
  "edit_screen Y kind name raw =
     (if kind = PolicyTarget \<and> tryParseBuilderPolicy Y raw \<noteq> None then BuilderScreen
      else if kind = BindingTarget \<and> tryParseBuilderBinding Y raw \<noteq> None then BindingScreen
      else EditorScreen \<lparr> et_kind = kind, et_name = Some name, et_yaml = raw \<rparr>)"

fun screen_for :: "yaml_lib \<Rightarrow> vap_page \<Rightarrow> vap_route \<Rightarrow> vap_screen" where
  "screen_for Y st (PolicyNewRoute yamlMode) =
     (if yamlMode then EditorScreen \<lparr> et_kind = PolicyTarget, et_name = None, et_yaml = [] \<rparr> else BuilderScreen)"
| "screen_for Y st (BindingNewRoute yamlMode) =
     (if yamlMode then EditorScreen \<lparr> et_kind = BindingTarget, et_name = None, et_yaml = [] \<rparr> else BindingScreen)"
| "screen_for Y st (PolicyEditRoute name) =
     (case List.find (\<lambda>r. vr_name r = name) (vp_policies st) of
        Some r \<Rightarrow> edit_screen Y PolicyTarget name (vr_rawYaml r) | None \<Rightarrow> ListScreen)"
| "screen_for Y st (BindingEditRoute name) =
     (case List.find (\<lambda>r. br_name r = name) (vp_bindings st) of
        Some r \<Rightarrow> edit_screen Y BindingTarget name (br_rawYaml r) | None \<Rightarrow> ListScreen)"
| "screen_for Y st ListRoute = ListScreen"

lemma openEdit_screen:
  "\<not> showBuilder st \<Longrightarrow> \<not> showBindingBuilder st \<Longrightarrow> vap_screen (openEdit Y kind name raw st) = edit_screen Y kind name raw"
  by (cases kind) (auto simp: openEdit_def open_yaml_def vap_screen_def edit_screen_def split: option.splits)

lemma find_name: "List.find (\<lambda>r. f r = x) rs = Some r \<Longrightarrow> f r = x"
  by (auto simp: find_Some_iff)

text \<open>A route entered from the list brings up its own screen: the builder or the binding form for a
  new record and for one the form can hold, the YAML editor on the record's text for every other,
  and for a record that is gone the list, with a message and the way back.\<close>

theorem screen_follows_route:
  assumes "listsLoaded st"
  shows "vap_screen (fst (route_effect Y ListRoute st)) = ListScreen
    \<and> vap_screen (fst (route_effect Y r (fst (route_effect Y ListRoute st)))) = screen_for Y st r
    \<and> (snd (route_effect Y r (fst (route_effect Y ListRoute st))) \<noteq> [] \<longrightarrow> screen_for Y st r = ListScreen)"
proof -
  have c: "vap_screen (close_all s) = ListScreen" "\<not> showBuilder (close_all st)" "\<not> showBindingBuilder (close_all st)"
    "listsLoaded (close_all st)" "vp_policies (close_all st) = vp_policies st" "vp_bindings (close_all st) = vp_bindings st"
    "vp_editor (close_all st) = None" for s
    using assms by (simp_all add: close_all_def resetBuilderForm_def vap_screen_def)
  show ?thesis
    by (cases r)
      (auto simp: c edit_record_def openEdit_screen openNew_def resetBuilderForm_def vap_screen_def [of "_\<lparr> showBuilder := _ \<rparr>"]
        vap_screen_def [of "_\<lparr> activeTab := _ \<rparr>"] vap_screen_def [of "_\<lparr> vp_editor := _ \<rparr>"]
        dest: find_name [where f = vr_name] find_name [where f = br_name] split: option.splits)
qed

theorem screen_follows_route_witness:
  "vap_screen (fst (route_effect toy_yaml (PolicyEditRoute ''p'') (fst (route_effect toy_yaml ListRoute (vap_page_init\<lparr> listsLoaded := True \<rparr>))))) = ListScreen"
  using screen_follows_route [of "vap_page_init\<lparr> listsLoaded := True \<rparr>" toy_yaml "PolicyEditRoute ''p''"]
  by (simp add: vap_page_init_def)

text \<open>Entered straight from another route (the browser's history can jump over the list), a route
  may show the wrong screen: nothing closes the policy builder, which is drawn first, so the route
  of a new binding and of every binding shows the policy builder.\<close>

theorem screen_stale_after_jump:
  "vap_screen (fst (route_effect Y (BindingNewRoute m) (fst (route_effect Y (PolicyNewRoute False) st)))) = BuilderScreen
   \<and> vap_screen (fst (route_effect Y (BindingEditRoute name) (fst (route_effect Y (PolicyNewRoute False) st)))) = BuilderScreen"
proof -
  have "showBuilder (openEdit Y BindingTarget n raw s) = showBuilder s" for n raw s
    by (simp add: openEdit_def open_yaml_def split: option.splits)
  then show ?thesis
    by (auto simp: vap_screen_def openNew_def edit_record_def split: option.splits)
qed

end
