(* ===== verification/Users.thy ===== *)
theory Users
  imports PageBase
begin

text \<open>
  Accounts: \<open>web/src/pages/UsersPage.tsx\<close>, \<open>LoginPage.tsx\<close> and \<open>ForcePasswordChangePage.tsx\<close>.
\<close>

definition MIN_PASSWORD_LENGTH :: nat where
  "MIN_PASSWORD_LENGTH = 8"

section \<open>The users page\<close>

record users_page =
  newUsername :: string
  newPassword :: string
  newRole :: user_role
  creating :: bool
  up_deleteTarget :: "string option"
  pwTarget :: "string option"
  newPw :: string
  currentPw :: string
  ttlInput :: string

definition users_page_init :: users_page where
  "users_page_init = \<lparr> newUsername = [], newPassword = [], newRole = Viewer, creating = False,
     up_deleteTarget = None, pwTarget = None, newPw = [], currentPw = [], ttlInput = ''3600'' \<rparr>"

definition handleSaveTTL_start :: "users_page \<Rightarrow> effect list" where
  "handleSaveTTL_start st =
     (case parseInt (ttlInput st) of
        None \<Rightarrow> [ToastErr ''Please enter a valid number of seconds'']
      | Some val \<Rightarrow> if val \<le> 0 then [ToastErr ''Please enter a valid number of seconds'']
                    else [Send (settingsApi_setSessionTTL val)])"

definition handleSaveTTL_done :: "outcome \<Rightarrow> effect" where
  "handleSaveTTL_done r =
     (case r of
        Done \<Rightarrow> ToastOk ''Session timeout updated. Takes effect on next login.''
      | Refused _ _ \<Rightarrow> ToastErr ''Failed to update session timeout'')"

text \<open>What the page asks for when it opens, and the field once the answer is there; none on a failure.\<close>

definition users_mounted :: "effect list" where
  "users_mounted = [Send userApi_list, Send settingsApi_getSessionTTL]"

definition ttl_loaded :: "nat option \<Rightarrow> users_page \<Rightarrow> users_page" where
  "ttl_loaded ttl st = (case ttl of Some n \<Rightarrow> st\<lparr> ttlInput := show_nat n \<rparr> | None \<Rightarrow> st)"

text \<open>Only admins create users: a deep link of someone else goes back to the list.\<close>

definition create_guard :: "bool \<Rightarrow> user_role option \<Rightarrow> effect list" where
  "create_guard showForm me =
     (if showForm \<and> me \<noteq> None \<and> me \<noteq> Some Admin then [NavigateReplace ''/settings/users''] else [])"

text \<open>The form closes in one place, and the typed password with it.\<close>

definition closeForm :: "users_page \<Rightarrow> users_page \<times> effect list" where
  "closeForm st = (st\<lparr> newUsername := [], newPassword := [], newRole := Viewer \<rparr>, [Navigate ''/settings/users''])"

definition short_password_text :: string where
  "short_password_text = ''Password must be at least '' @ show_nat MIN_PASSWORD_LENGTH @ '' characters.''"

definition handleCreate_start :: "users_page \<Rightarrow> users_page \<times> effect list" where
  "handleCreate_start st =
     (if trim (newUsername st) = [] \<or> trim (newPassword st) = [] \<or> creating st then (st, [])
      else if length (newPassword st) < MIN_PASSWORD_LENGTH then (st, [ToastErr short_password_text])
      else (st\<lparr> creating := True \<rparr>,
            [Send (userApi_create (trim (newUsername st)) (trim (newPassword st)) (newRole st))]))"

text \<open>The name in the message is the one of the click, \<open>typed\<close>.\<close>

definition handleCreate_done :: "string \<Rightarrow> outcome \<Rightarrow> users_page \<Rightarrow> users_page \<times> effect list" where
  \<open>handleCreate_done typed r st =
     (case r of
        Done \<Rightarrow> ((fst (closeForm st))\<lparr> creating := False \<rparr>,
          ToastOk (''User "'' @ (trim typed) @ ''" created.'') # snd (closeForm st) @ [Send userApi_list])
      | Refused _ _ \<Rightarrow> (st\<lparr> creating := False \<rparr>, [ToastErr ''Failed to create user'']))\<close>

definition handleUserDelete_start :: "users_page \<Rightarrow> effect list" where
  "handleUserDelete_start st = (case up_deleteTarget st of None \<Rightarrow> [] | Some u \<Rightarrow> [Send (userApi_delete u)])"

definition handleUserDelete_done :: "string \<Rightarrow> outcome \<Rightarrow> users_page \<Rightarrow> users_page \<times> effect list" where
  \<open>handleUserDelete_done u r st =
     (case r of
        Done \<Rightarrow> (st\<lparr> up_deleteTarget := None \<rparr>, [ToastOk (''User "'' @ u @ ''" deleted.''), Send userApi_list])
      | Refused _ _ \<Rightarrow> (st, [ToastErr ''Failed to delete user'']))\<close>

text \<open>\<open>me\<close> is the signed-in user: changing one's own password takes the current one.\<close>

definition changingOwn :: "string option \<Rightarrow> users_page \<Rightarrow> bool" where
  "changingOwn me st \<longleftrightarrow> pwTarget st = me"

definition handleChangePassword_start :: "string option \<Rightarrow> users_page \<Rightarrow> effect list" where
  "handleChangePassword_start me st =
     (case pwTarget st of
        None \<Rightarrow> []
      | Some u \<Rightarrow>
          if trim (newPw st) = [] then []
          else if length (newPw st) < MIN_PASSWORD_LENGTH then [ToastErr short_password_text]
          else if changingOwn me st \<and> currentPw st = [] then [ToastErr ''Enter your current password.'']
          else [Send (userApi_changePassword u (trim (newPw st)) (if changingOwn me st then Some (currentPw st) else None))])"

definition handleChangePassword_done :: "outcome \<Rightarrow> users_page \<Rightarrow> users_page \<times> effect list" where
  "handleChangePassword_done r st =
     (case r of
        Done \<Rightarrow> (st\<lparr> pwTarget := None, newPw := [], currentPw := [] \<rparr>, [ToastOk ''Password updated.''])
      | Refused _ status \<Rightarrow> (st, [ToastErr (if status = JNum 403 then ''Current password is incorrect.''
                                          else ''Failed to update password'')]))"

section \<open>Signing in and the forced first change\<close>

text \<open>The Sign in button is disabled while either field is empty.\<close>

definition login_submit :: "string \<Rightarrow> string \<Rightarrow> bool \<Rightarrow> effect list" where
  "login_submit username password loading =
     (if loading \<or> username = [] \<or> password = [] then [] else [Send (authApi_login username password)])"

text \<open>The user on success, the error text otherwise; both end the loading state.\<close>

definition login_done :: "'u option \<Rightarrow> 'u option \<times> string" where
  "login_done answer = (case answer of Some u \<Rightarrow> (Some u, []) | None \<Rightarrow> (None, ''Invalid username or password''))"

record force_page =
  fp_newPassword :: string
  fp_confirm :: string
  fp_error :: string
  fp_saving :: bool

definition tooShort :: "force_page \<Rightarrow> bool" where
  "tooShort st \<longleftrightarrow> length (fp_newPassword st) > 0 \<and> length (fp_newPassword st) < MIN_PASSWORD_LENGTH"

definition mismatch :: "force_page \<Rightarrow> bool" where
  "mismatch st \<longleftrightarrow> length (fp_confirm st) > 0 \<and> fp_confirm st \<noteq> fp_newPassword st"

definition canSubmit :: "force_page \<Rightarrow> bool" where
  "canSubmit st \<longleftrightarrow>
     length (fp_newPassword st) \<ge> MIN_PASSWORD_LENGTH \<and> fp_confirm st = fp_newPassword st \<and> \<not> fp_saving st"

definition force_start :: "string \<Rightarrow> force_page \<Rightarrow> force_page \<times> effect list" where
  "force_start username st =
     (if \<not> canSubmit st then (st, [])
      else (st\<lparr> fp_error := [], fp_saving := True \<rparr>,
            [Send (userApi_changePassword username (fp_newPassword st) None)]))"

text \<open>Success calls \<open>onDone\<close>, which fetches the user again.\<close>

definition force_done :: "outcome \<Rightarrow> force_page \<Rightarrow> force_page \<times> effect list" where
  "force_done r st =
     (case r of
        Done \<Rightarrow> (st\<lparr> fp_saving := False \<rparr>, [Send authApi_me])
      | Refused _ _ \<Rightarrow> (st\<lparr> fp_error := ''Could not update the password. Please try again.'', fp_saving := False \<rparr>, []))"

section \<open>Properties\<close>

interpretation create_flight: single_flight creating handleCreate_start "handleCreate_done u" for u
  by unfold_locales
    (auto simp: handleCreate_start_def handleCreate_done_def closeForm_def written_def userApi_create_def
      userApi_list_def api_post_def api_get_def split: outcome.splits)

interpretation force_flight: single_flight fp_saving "force_start u" force_done for u
  by unfold_locales
    (auto simp: force_start_def force_done_def canSubmit_def written_def userApi_changePassword_def authApi_me_def
      api_put_def api_get_def split: outcome.splits)

text \<open>The create form sends one user at a time, and once the user is created no typed password is left
  in the page; the forced change sends one password at a time, only one that was typed twice.\<close>

theorem accounts_submit_once:
  "written (snd (submit_run creating handleCreate_start (handleCreate_done u) ms st)) \<le> length (filter is_arrival ms) + 1
   \<and> newPassword (fst (handleCreate_done u Done st)) = []
   \<and> written (snd (submit_run fp_saving (force_start v) force_done ms ft)) \<le> length (filter is_arrival ms) + 1
   \<and> (\<forall>r \<in> set (sends (snd (force_start v ft))). fp_confirm ft = fp_newPassword ft
        \<and> r = userApi_changePassword v (fp_newPassword ft) None)"
  using create_flight.one_in_flight [of u ms st] force_flight.one_in_flight [of v ms ft]
  by (auto simp: handleCreate_done_def closeForm_def force_start_def canSubmit_def)

theorem accounts_submit_once_witness:
  "newPassword (fst (handleCreate_done ''anna'' Done (users_page_init\<lparr> newPassword := ''secret12'' \<rparr>))) = []"
  using accounts_submit_once [of "''anna''" "[]" "users_page_init\<lparr> newPassword := ''secret12'' \<rparr>" "[]"
    "\<lparr> fp_newPassword = [], fp_confirm = [], fp_error = [], fp_saving = False \<rparr>"] by blast

text \<open>A password typed with a blank at either end is stored without it, while the sign-in page sends
  what is typed: the new user cannot sign in with the password that was set. The length check looks
  at the untrimmed text as well.\<close>

theorem blank_ended_password_is_lost:
  assumes "trim u \<noteq> []" "trim p \<noteq> []" "trim p \<noteq> p" "length p \<ge> MIN_PASSWORD_LENGTH"
  shows "snd (handleCreate_start (users_page_init\<lparr> newUsername := u, newPassword := p, newRole := role \<rparr>)) =
      [Send (userApi_create (trim u) (trim p) role)]
    \<and> login_submit (trim u) p False = [Send (authApi_login (trim u) p)]
    \<and> authApi_login (trim u) p \<noteq> authApi_login (trim u) (trim p)"
  using assms
  by (auto simp: handleCreate_start_def users_page_init_def login_submit_def authApi_login_def api_post_def)

theorem blank_ended_password_is_lost_witness:
  "snd (handleCreate_start (users_page_init\<lparr> newUsername := ''anna'', newPassword := '' a b c d'', newRole := Viewer \<rparr>)) =
     [Send (userApi_create ''anna'' ''a b c d'' Viewer)]"
  using blank_ended_password_is_lost [of "''anna''" "'' a b c d''" Viewer]
  by (simp add: MIN_PASSWORD_LENGTH_def string_eval)

end
