(* ===== verification/Discovery.thy ===== *)
theory Discovery
  imports PageBase "HOL-Library.Multiset"
begin

text \<open>
  Behavior discovery: the polling provider of \<open>web/src/layout/DiscoveryProvider.tsx\<close>, which
  discards responses that arrive out of order, and the grouping of pods by workload with the policy
  draft of \<open>web/src/pages/DiscoveryPage.tsx\<close>.
\<close>

section \<open>Profiles\<close>

record pod_profile =
  pp_namespace :: string
  pp_pod :: string
  pp_workloadKind :: string       \<comment> \<open>empty when the server sent none\<close>
  pp_workloadName :: string
  pp_binaries :: "string list option"
  pp_firstSeen :: string
  pp_lastSeen :: string

record workload_profile =
  wl_key :: string
  wl_namespace :: string
  wl_workloadKind :: string
  wl_workloadName :: string
  wl_pods :: "string list"
  wl_binaries :: "string list"
  wl_firstSeen :: string
  wl_lastSeen :: string

section \<open>The provider\<close>

text \<open>
  \<open>latest\<close> is the code's \<open>seq\<close>, the number of the newest poll; \<open>waiting\<close> holds the polls that
  have not been answered. A response, a failure and the end of a DELETE are callbacks of their own.
\<close>

record discovery =
  latest :: nat
  cancelled :: bool
  waiting :: "nat list"
  profiles :: "pod_profile list"

datatype discovery_event =
    Poll
  | Response nat "pod_profile list option"
  | PollFailed nat
  | Cleared
  | Unmounted

definition discovery_init :: discovery where
  "discovery_init = \<lparr> latest = 0, cancelled = False, waiting = [], profiles = [] \<rparr>"

text \<open>\<open>!cancelled && mySeq === seq\<close>\<close>

definition takes_response :: "nat \<Rightarrow> discovery \<Rightarrow> bool" where
  "takes_response n s \<longleftrightarrow> \<not> cancelled s \<and> n = latest s"

inductive discovery_step :: "discovery \<Rightarrow> discovery_event \<Rightarrow> discovery \<Rightarrow> bool" where
  poll: "\<not> cancelled s \<Longrightarrow>
    discovery_step s Poll (s\<lparr> latest := Suc (latest s), waiting := waiting s @ [Suc (latest s)] \<rparr>)"
| response: "n \<in> set (waiting s) \<Longrightarrow>
    discovery_step s (Response n data)
      (s\<lparr> waiting := remove1 n (waiting s),
         profiles := (if takes_response n s then (case data of None \<Rightarrow> [] | Some ps \<Rightarrow> ps) else profiles s) \<rparr>)"
| failed: "n \<in> set (waiting s) \<Longrightarrow> discovery_step s (PollFailed n) (s\<lparr> waiting := remove1 n (waiting s) \<rparr>)"
| cleared: "discovery_step s Cleared (s\<lparr> profiles := [] \<rparr>)"
| unmounted: "discovery_step s Unmounted (s\<lparr> cancelled := True \<rparr>)"

inductive_cases discovery_stepE [elim!]:
  "discovery_step s Poll s'" "discovery_step s (Response n d) s'" "discovery_step s (PollFailed n) s'"
  "discovery_step s Cleared s'" "discovery_step s Unmounted s'"

inductive_simps discovery_step_simps:
  "discovery_step s Poll s'" "discovery_step s (Response n d) s'" "discovery_step s (PollFailed n) s'"
  "discovery_step s Cleared s'" "discovery_step s Unmounted s'"

inductive discovery_run :: "discovery \<Rightarrow> discovery_event list \<Rightarrow> discovery \<Rightarrow> bool" where
  stop: "discovery_run s [] s"
| go: "discovery_step s e s1 \<Longrightarrow> discovery_run s1 es s2 \<Longrightarrow> discovery_run s (e # es) s2"

section \<open>Grouping\<close>

definition workload_key :: "pod_profile \<Rightarrow> string" where
  "workload_key p =
     (if pp_workloadKind p \<noteq> [] \<and> pp_workloadName p \<noteq> []
      then ((pp_namespace p) @ ''/'' @ (pp_workloadKind p) @ ''/'' @ (pp_workloadName p))
      else ((pp_namespace p) @ ''/pod/'' @ (pp_pod p)))"

definition profile_binaries :: "pod_profile \<Rightarrow> string list" where
  "profile_binaries p = (case pp_binaries p of None \<Rightarrow> [] | Some bs \<Rightarrow> bs)"

definition push_new :: "'a \<Rightarrow> 'a list \<Rightarrow> 'a list" where
  "push_new x xs = (if x \<in> set xs then xs else xs @ [x])"

definition merge_profile :: "pod_profile \<Rightarrow> workload_profile \<Rightarrow> workload_profile" where
  "merge_profile p g = g\<lparr> wl_pods := push_new (pp_pod p) (wl_pods g),
     wl_binaries := fold push_new (profile_binaries p) (wl_binaries g),
     wl_firstSeen := (if pp_firstSeen p < wl_firstSeen g then pp_firstSeen p else wl_firstSeen g),
     wl_lastSeen := (if pp_lastSeen p > wl_lastSeen g then pp_lastSeen p else wl_lastSeen g) \<rparr>"

definition new_group :: "pod_profile \<Rightarrow> workload_profile" where
  "new_group p = \<lparr> wl_key = workload_key p, wl_namespace = pp_namespace p,
     wl_workloadKind = (if pp_workloadKind p \<noteq> [] then pp_workloadKind p else ''Pod''),
     wl_workloadName = (if pp_workloadName p \<noteq> [] then pp_workloadName p else pp_pod p),
     wl_pods = [pp_pod p], wl_binaries = profile_binaries p,
     wl_firstSeen = pp_firstSeen p, wl_lastSeen = pp_lastSeen p \<rparr>"

text \<open>The loop body: the map, in insertion order, after one more profile.\<close>

definition add_profile :: "workload_profile list \<Rightarrow> pod_profile \<Rightarrow> workload_profile list" where
  "add_profile gs p =
     (if workload_key p \<in> wl_key ` set gs
      then map (\<lambda>g. if wl_key g = workload_key p then merge_profile p g else g) gs
      else gs @ [new_group p])"

text \<open>The browser's \<open>localeCompare\<close> is a parameter: \<open>le a b\<close> says that a does not come after b.\<close>

fun insert_by :: "('a \<Rightarrow> 'a \<Rightarrow> bool) \<Rightarrow> 'a \<Rightarrow> 'a list \<Rightarrow> 'a list" where
  "insert_by le x [] = [x]"
| "insert_by le x (y # ys) = (if le x y then x # y # ys else y # insert_by le x ys)"

definition sort_by :: "('a \<Rightarrow> 'a \<Rightarrow> bool) \<Rightarrow> 'a list \<Rightarrow> 'a list" where
  "sort_by le xs = foldr (insert_by le) xs []"

definition buildWorkloadGroups :: "(string \<Rightarrow> string \<Rightarrow> bool) \<Rightarrow> pod_profile list \<Rightarrow> workload_profile list" where
  "buildWorkloadGroups le ps =
     sort_by (\<lambda>a b. le (wl_namespace a @ wl_workloadName a) (wl_namespace b @ wl_workloadName b)) (foldl add_profile [] ps)"

section \<open>The page\<close>

definition discovery_filtered :: "string list \<Rightarrow> string \<Rightarrow> pod_profile list \<Rightarrow> pod_profile list" where
  "discovery_filtered nsFilter podSearch ps = filter (\<lambda>p.
     matchesScopeFilter ''namespaced'' (Some (pp_namespace p)) nsFilter
     \<and> (trim podSearch = [] \<or> js_includes (to_lower (pp_pod p)) (to_lower (trim podSearch)))) ps"

text \<open>The pods are asked for their labels one after another until one has any. \<open>answer\<close> is what the
  server says of a pod: its labels, or nothing when the request fails.\<close>

fun try_pods :: "string \<Rightarrow> (string \<Rightarrow> (string \<times> string) list option) \<Rightarrow> string list \<Rightarrow>
    api_request list \<times> (string \<times> string) list option" where
  "try_pods ns answer [] = ([], None)"
| "try_pods ns answer (pod # pods) =
     (case answer pod of
        Some ls \<Rightarrow> if length ls > 0 then ([podApi_labels ns pod], Some ls)
                   else (podApi_labels ns pod # fst (try_pods ns answer pods), snd (try_pods ns answer pods))
      | None \<Rightarrow> (podApi_labels ns pod # fst (try_pods ns answer pods), snd (try_pods ns answer pods)))"

record policy_prefill =
  pf_name :: string
  pf_namespace :: string
  pf_podSelector :: "(string \<times> string) list option"
  pf_process :: "string list option"     \<comment> \<open>one whitelist rule per binary\<close>

definition absolute_binaries :: "workload_profile \<Rightarrow> string list" where
  "absolute_binaries wl = filter (prefix ''/'') (wl_binaries wl)"

definition create_prefill :: "(string \<Rightarrow> (string \<times> string) list option) \<Rightarrow> workload_profile \<Rightarrow> policy_prefill" where
  "create_prefill answer wl = \<lparr> pf_name = ((wl_workloadName wl) @ ''-policy''),
     pf_namespace = (if wl_namespace wl \<noteq> [] then wl_namespace wl else ''default''),
     pf_podSelector = snd (try_pods (wl_namespace wl) answer (wl_pods wl)),
     pf_process = (if absolute_binaries wl \<noteq> [] then Some (absolute_binaries wl) else None) \<rparr>"

definition prefill_message :: "workload_profile \<Rightarrow> string" where
  "prefill_message wl =
     (let skipped = length (wl_binaries wl) - length (absolute_binaries wl)
      in if skipped > 0
         then (''Policy pre-filled. '' @ (show_nat skipped) @ '' entr'' @ (if skipped \<noteq> 1 then ''ies'' else ''y'') @ '' left out: no absolute path was observed for them.'')
         else ''Policy pre-filled.'')"

text \<open>How long ago a process was seen; the milliseconds of both clocks are arguments, and a time that
  does not parse shows nothing.\<close>

definition relative_label :: "int \<Rightarrow> int option \<Rightarrow> string option" where
  "relative_label now seen =
     (case seen of None \<Rightarrow> None | Some t \<Rightarrow>
        (let diff = nat (max 0 ((now - t) div 1000))
         in Some (if diff < 60 then ''just now''
                  else if diff < 3600 then show_nat (diff div 60) @ ''m ago''
                  else if diff < 86400 then show_nat (diff div 3600) @ ''h ago''
                  else show_nat (diff div 86400) @ ''d ago'')))"

text \<open>A card names its first eight binaries and counts the rest; its button waits for a binary, and
  while its own policy is being prepared.\<close>

definition card_binaries :: "workload_profile \<Rightarrow> string list \<times> nat" where
  "card_binaries wl = (take 8 (wl_binaries wl), length (wl_binaries wl) - 8)"

definition create_disabled :: "string option \<Rightarrow> workload_profile \<Rightarrow> bool" where
  "create_disabled creatingFor wl \<longleftrightarrow> wl_binaries wl = [] \<or> creatingFor = Some (wl_key wl)"

section \<open>Polling\<close>

text \<open>What the page can know of a run from its events alone: how many polls were sent, whether it was left,
  which polls were answered.\<close>

definition polls_sent :: "discovery_event list \<Rightarrow> nat" where
  "polls_sent es = length (filter (\<lambda>e. e = Poll) es)"

text \<open>Poll m is the newest one, and the page is still there.\<close>

definition newest_poll :: "discovery_event list \<Rightarrow> nat \<Rightarrow> bool" where
  "newest_poll es m \<longleftrightarrow> m = polls_sent es \<and> Unmounted \<notin> set es"

definition poll_inv :: "discovery_event list \<Rightarrow> discovery \<Rightarrow> bool" where
  "poll_inv es s \<longleftrightarrow> distinct (waiting s) \<and> (\<forall>n \<in> set (waiting s). n \<le> latest s)
     \<and> latest s = polls_sent es \<and> (cancelled s \<longleftrightarrow> Unmounted \<in> set es)
     \<and> (\<forall>n d. Response n d \<in> set es \<longrightarrow> n \<le> latest s \<and> n \<notin> set (waiting s))"

lemma poll_inv_step: "discovery_step s e s' \<Longrightarrow> poll_inv es s \<Longrightarrow> poll_inv (es @ [e]) s'"
proof (induction rule: discovery_step.induct)
  case (poll s)
  then show ?case by (auto simp: poll_inv_def polls_sent_def dest: bspec [where x = "Suc (latest s)"] intro: le_SucI)
next
  case (response n s data)
  then show ?case by (auto simp: poll_inv_def polls_sent_def dest: set_remove1_subset [THEN subsetD])
next
  case (failed n s)
  then show ?case by (auto simp: poll_inv_def polls_sent_def dest: set_remove1_subset [THEN subsetD])
qed (auto simp: poll_inv_def polls_sent_def)

lemma poll_inv_run: "discovery_run s es s' \<Longrightarrow> poll_inv pre s \<Longrightarrow> poll_inv (pre @ es) s'"
proof (induction arbitrary: pre rule: discovery_run.induct)
  case (go s e s1 es s2)
  then show ?case using poll_inv_step [of s e s1 pre] go.IH [of "pre @ [e]"] by simp
qed simp

lemma poll_inv_init: "poll_inv [] discovery_init"
  by (simp add: poll_inv_def discovery_init_def polls_sent_def)

inductive_simps discovery_run_simps: "discovery_run s [] s'" "discovery_run s (e # es) s'"

text \<open>C16: what the page shows changes in two ways only, whatever order responses arrive in: all is cleared, or
  the response to the newest poll arrives and is shown as it is. By then every response that came
  before was to an older poll, and an older one that comes later changes nothing: an older list never
  replaces a newer one.\<close>

theorem discovery_never_goes_back:
  assumes "discovery_run discovery_init es s" "discovery_step s e s'"
  shows "profiles s' = (case e of
         Response m d \<Rightarrow> if newest_poll es m then (case d of None \<Rightarrow> [] | Some ps \<Rightarrow> ps) else profiles s
       | Cleared \<Rightarrow> [] | _ \<Rightarrow> profiles s)
    \<and> (\<forall>m d n d'. e = Response m d \<longrightarrow> newest_poll es m \<longrightarrow> Response n d' \<in> set es \<longrightarrow> n < m)"
proof -
  have inv: "poll_inv es s" using poll_inv_run [OF assms(1) poll_inv_init] by simp
  then have t: "takes_response m s \<longleftrightarrow> newest_poll es m" for m
    by (auto simp: takes_response_def newest_poll_def poll_inv_def)
  have "profiles s' = (case e of
         Response m d \<Rightarrow> if newest_poll es m then (case d of None \<Rightarrow> [] | Some ps \<Rightarrow> ps) else profiles s
       | Cleared \<Rightarrow> [] | _ \<Rightarrow> profiles s)"
    using assms(2) by (cases rule: discovery_step.cases) (simp_all add: t)
  moreover have "n < m" if "e = Response m d" "newest_poll es m" "Response n d' \<in> set es" for m d n d'
  proof -
    have "m \<in> set (waiting s)" using assms(2) that(1) by auto
    then have "n \<noteq> m" "n \<le> latest s" using inv that(3) by (auto simp: poll_inv_def)
    then show ?thesis using inv that(2) by (simp add: newest_poll_def poll_inv_def)
  qed
  ultimately show ?thesis by blast
qed

definition shell_profile :: pod_profile where
  "shell_profile = \<lparr> pp_namespace = ''shop'', pp_pod = ''web-0'', pp_workloadKind = ''Deployment'', pp_workloadName = ''web'',
     pp_binaries = Some [''/bin/sh''], pp_firstSeen = ''10:00'', pp_lastSeen = ''10:05'' \<rparr>"

theorem discovery_never_goes_back_witness:
  "\<exists>s s'. discovery_run discovery_init [Poll, Poll, Response 2 (Some [shell_profile])] s \<and>
     discovery_step s (Response 1 None) s' \<and> profiles s = [shell_profile] \<and> profiles s' = [shell_profile]"
proof -
  obtain s where s: "discovery_run discovery_init [Poll, Poll, Response 2 (Some [shell_profile])] s"
      "profiles s = [shell_profile]" "waiting s = [1]"
    by (simp add: discovery_run_simps discovery_step_simps discovery_init_def takes_response_def)
  then obtain s' where s': "discovery_step s (Response 1 None) s'" using response [of 1 s None] by (metis list.set_intros(1))
  have "\<not> newest_poll [Poll, Poll, Response 2 (Some [shell_profile])] 1" by (simp add: newest_poll_def polls_sent_def)
  then have "profiles s' = [shell_profile]" using discovery_never_goes_back [OF s(1) s'] s(2) by simp
  then show ?thesis using s(1,2) s' by (intro exI conjI)
qed

text \<open>A server that answers each poll after the next one has been sent.\<close>

fun slow_events :: "(nat \<Rightarrow> pod_profile list option) \<Rightarrow> nat \<Rightarrow> nat \<Rightarrow> discovery_event list" where
  "slow_events answer k 0 = []"
| "slow_events answer k (Suc n) = Poll # Response k (answer k) # slow_events answer (Suc k) n"

definition waiting_for :: "nat \<Rightarrow> discovery" where
  "waiting_for k = \<lparr> latest = k, cancelled = False, waiting = [k], profiles = [] \<rparr>"

lemma slow_run:
  "discovery_run (waiting_for k) (slow_events answer k n) s \<longleftrightarrow> s = waiting_for (k + n)"
proof (induction n arbitrary: k)
  case 0
  show ?case by (auto simp: discovery_run_simps)
next
  case (Suc n)
  have p: "discovery_step (waiting_for k) Poll s1 \<longleftrightarrow> s1 = (waiting_for k)\<lparr> latest := Suc k, waiting := [k, Suc k] \<rparr>" for s1
    by (simp add: discovery_step_simps waiting_for_def)
  have r: "discovery_step ((waiting_for k)\<lparr> latest := Suc k, waiting := [k, Suc k] \<rparr>) (Response k d) s2 \<longleftrightarrow>
      s2 = waiting_for (Suc k)" for d s2
    by (simp add: discovery_step_simps waiting_for_def takes_response_def)
  show ?case
    by (simp add: discovery_run_simps p r Suc.IH)
qed

text \<open>When the server takes longer than the polling interval, nothing is ever shown: every response
  finds a newer poll under way and is discarded, however many arrive.\<close>

theorem slow_server_shows_nothing:
  "discovery_run discovery_init (Poll # slow_events answer 1 n) s \<longleftrightarrow> s = waiting_for (Suc n)"
proof -
  have p: "discovery_step discovery_init Poll s1 \<longleftrightarrow> s1 = waiting_for 1" for s1
    by (simp add: discovery_step_simps waiting_for_def discovery_init_def)
  show ?thesis by (simp add: discovery_run_simps p slow_run)
qed

section \<open>Groups\<close>

lemma set_push_new [simp]: "set (push_new x xs) = insert x (set xs)"
  by (auto simp: push_new_def)

lemma distinct_push_new: "distinct xs \<Longrightarrow> distinct (push_new x xs)"
  by (simp add: push_new_def)

lemma set_fold_push_new [simp]: "set (fold push_new ys xs) = set xs \<union> set ys"
  by (induction ys arbitrary: xs) auto

lemma mset_insert_by [simp]: "mset (insert_by le x xs) = add_mset x (mset xs)"
  by (induction xs) auto

lemma mset_sort_by [simp]: "mset (sort_by le xs) = mset xs"
  by (induction xs) (auto simp: sort_by_def)

lemma set_sort_by [simp]: "set (sort_by le xs) = set xs"
  using mset_sort_by mset_eq_setD by metis

text \<open>The profiles of a group, and what the group says of them.\<close>

definition members :: "string \<Rightarrow> pod_profile list \<Rightarrow> pod_profile set" where
  "members k ps = {p \<in> set ps. workload_key p = k}"

text \<open>\<open>a || b\<close>\<close>

definition or_text :: "string \<Rightarrow> string \<Rightarrow> string" where
  "or_text a b = (if a \<noteq> [] then a else b)"

definition summarises :: "workload_profile \<Rightarrow> pod_profile list \<Rightarrow> bool" where
  "summarises g ps \<longleftrightarrow> members (wl_key g) ps \<noteq> {}
     \<and> distinct (wl_pods g) \<and> set (wl_pods g) = pp_pod ` members (wl_key g) ps
     \<and> set (wl_binaries g) = \<Union> ((\<lambda>p. set (profile_binaries p)) ` members (wl_key g) ps)
     \<and> wl_firstSeen g = Min (pp_firstSeen ` members (wl_key g) ps)
     \<and> wl_lastSeen g = Max (pp_lastSeen ` members (wl_key g) ps)
     \<and> (\<exists>p \<in> members (wl_key g) ps. wl_namespace g = pp_namespace p
          \<and> wl_workloadKind g = or_text (pp_workloadKind p) ''Pod'' \<and> wl_workloadName g = or_text (pp_workloadName p) (pp_pod p))"

lemma members_snoc: "members k (ps @ [p]) = (if workload_key p = k then insert p (members k ps) else members k ps)"
  by (auto simp: members_def)

lemma finite_members [simp]: "finite (members k ps)"
  by (simp add: members_def)

text \<open>The earlier of two times and the later one.\<close>

lemma merged_times:
  fixes x :: string
  assumes "finite A" "A \<noteq> {}"
  shows "Min (insert x A) = (if x < Min A then x else Min A)" "Max (insert x A) = (if Max A < x then x else Max A)"
  using Min_insert [OF assms] Max_insert [OF assms] by (auto simp only: min_def max_def not_less split: if_split)

lemma summarises_merge:
  assumes "summarises g ps" "wl_key g = workload_key p"
  shows "summarises (merge_profile p g) (ps @ [p])"
proof -
  let ?M = "members (workload_key p) ps"
  have M: "members (workload_key p) (ps @ [p]) = insert p ?M" by (simp add: members_snoc)
  have ne: "?M \<noteq> {}" using assms by (simp add: summarises_def)
  have t: "Min (pp_firstSeen ` insert p ?M) = (if pp_firstSeen p < Min (pp_firstSeen ` ?M) then pp_firstSeen p else Min (pp_firstSeen ` ?M))"
    "Max (pp_lastSeen ` insert p ?M) = (if Max (pp_lastSeen ` ?M) < pp_lastSeen p then pp_lastSeen p else Max (pp_lastSeen ` ?M))"
    unfolding image_insert by (rule merged_times; simp add: ne)+
  have k: "wl_key (merge_profile p g) = workload_key p" using assms(2) by (simp add: merge_profile_def)
  have "set (wl_pods (merge_profile p g)) = pp_pod ` insert p ?M \<and> distinct (wl_pods (merge_profile p g))
      \<and> set (wl_binaries (merge_profile p g)) = \<Union> ((\<lambda>q. set (profile_binaries q)) ` insert p ?M)"
    using assms by (auto simp: summarises_def merge_profile_def distinct_push_new)
  moreover have "wl_firstSeen (merge_profile p g) = Min (pp_firstSeen ` insert p ?M)
      \<and> wl_lastSeen (merge_profile p g) = Max (pp_lastSeen ` insert p ?M)"
    unfolding t using assms by (simp add: summarises_def merge_profile_def)
  ultimately show ?thesis
    unfolding summarises_def k M using assms by (auto simp: summarises_def merge_profile_def)
qed

lemma summarises_other: "summarises g ps \<Longrightarrow> wl_key g \<noteq> workload_key p \<Longrightarrow> summarises g (ps @ [p])"
  by (simp add: summarises_def members_snoc)

lemma summarises_new: "workload_key p \<notin> workload_key ` set ps \<Longrightarrow> summarises (new_group p) (ps @ [p])"
proof -
  assume "workload_key p \<notin> workload_key ` set ps"
  then have "members (workload_key p) ps = {}" by (auto simp: members_def) (metis imageI)
  then show ?thesis by (simp add: summarises_def members_snoc new_group_def or_text_def)
qed

lemma groups_invariant:
  "distinct (map wl_key (foldl add_profile [] ps)) \<and> wl_key ` set (foldl add_profile [] ps) = workload_key ` set ps
   \<and> (\<forall>g \<in> set (foldl add_profile [] ps). summarises g ps)"
proof (induction ps rule: rev_induct)
  case (snoc p ps)
  define gs where "gs = foldl add_profile [] ps"
  define f where "f = (\<lambda>g. if wl_key g = workload_key p then merge_profile p g else g)"
  have IH: "distinct (map wl_key gs)" "wl_key ` set gs = workload_key ` set ps" "\<forall>g \<in> set gs. summarises g ps"
    using snoc.IH by (simp_all add: gs_def)
  have k: "wl_key (f g) = wl_key g" for g by (simp add: f_def merge_profile_def)
  have kf: "wl_key \<circ> f = wl_key" using k by auto
  show ?case
  proof (cases "workload_key p \<in> wl_key ` set gs")
    case True
    then have "foldl add_profile [] (ps @ [p]) = map f gs" by (simp add: add_profile_def f_def gs_def [symmetric])
    moreover have "\<forall>g \<in> set gs. summarises (f g) (ps @ [p])"
      using IH(3) by (auto simp: f_def summarises_merge summarises_other)
    ultimately show ?thesis using IH(1,2) True by (auto simp: kf image_comp)
  next
    case False
    then have "foldl add_profile [] (ps @ [p]) = gs @ [new_group p]" by (simp add: add_profile_def gs_def [symmetric])
    moreover have "\<forall>g \<in> set gs. summarises g (ps @ [p])" using IH(3) False by (metis summarises_other imageI)
    ultimately show ?thesis using IH(1,2) False summarises_new [of p ps] by (auto simp: new_group_def)
  qed
qed simp

text \<open>C17: every pod profile is in exactly one group, the one of its workload, and each group says of its
  profiles all there is: their pods once each, every binary seen in any of them, the earliest of their
  first sightings and the latest of their last ones, and the names one of them has; whatever order
  the browser sorts by, no group is lost.\<close>

theorem groups_partition_profiles:
  "distinct (map wl_key (buildWorkloadGroups le ps))
   \<and> wl_key ` set (buildWorkloadGroups le ps) = workload_key ` set ps
   \<and> list_all (\<lambda>g. summarises g ps) (buildWorkloadGroups le ps)"
proof -
  let ?gs = "foldl add_profile [] ps"
  let ?le = "\<lambda>a b. le (wl_namespace a @ wl_workloadName a) (wl_namespace b @ wl_workloadName b)"
  have "mset (map wl_key (sort_by ?le ?gs)) = mset (map wl_key ?gs)" by (simp only: mset_map mset_sort_by)
  from mset_eq_imp_distinct_iff [OF this] have "distinct (map wl_key (sort_by ?le ?gs))"
    using groups_invariant [of ps] by blast
  then show ?thesis using groups_invariant [of ps] by (simp add: buildWorkloadGroups_def list_all_iff)
qed

end
