(* ===== verification/CnpPage.thy ===== *)
theory CnpPage
  imports CnpProps PageBase
begin

text \<open>
  The network policy page, \<open>web/src/pages/CNPPage.tsx\<close>, with the selector preview of
  \<open>web/src/components/SelectorPreview.tsx\<close>: the form's edits, the effect that follows the route, and
  the handlers that load, save and delete. Matching the URL is React Router's work: the effect gets
  the route that matched.
\<close>

section \<open>Label rows\<close>

definition set_label_row :: "nat \<Rightarrow> (label_pair \<Rightarrow> label_pair) \<Rightarrow> label_pair list \<Rightarrow> label_pair list" where
  "set_label_row i f pairs = map_at i f pairs"

definition add_label_row :: "label_pair list \<Rightarrow> label_pair list" where
  "add_label_row pairs = pairs @ [emptyLabel]"

text \<open>The Remove button is there only beside another row.\<close>

definition remove_label_row :: "nat \<Rightarrow> label_pair list \<Rightarrow> label_pair list" where
  "remove_label_row i pairs = (if length pairs > 1 then remove_at i pairs else pairs)"

section \<open>Rule sections\<close>

definition section_set_mode :: "cnp_mode \<Rightarrow> cnp_section \<Rightarrow> cnp_section" where
  "section_set_mode m s = (if section_rules s \<noteq> [] then s\<lparr> section_mode := m \<rparr> else s)"

definition section_update_rule :: "nat \<Rightarrow> (cnp_rule \<Rightarrow> cnp_rule) \<Rightarrow> cnp_section \<Rightarrow> cnp_section" where
  "section_update_rule i f s = s\<lparr> section_rules := map_at i f (section_rules s) \<rparr>"

definition section_add_rule :: "cnp_section \<Rightarrow> cnp_section" where
  "section_add_rule s = s\<lparr> section_rules := section_rules s @ [emptyRule] \<rparr>"

definition section_remove_rule :: "nat \<Rightarrow> cnp_section \<Rightarrow> cnp_section" where
  "section_remove_rule i s = s\<lparr> section_rules := remove_at i (section_rules s) \<rparr>"

text \<open>FQDN peers exist on the egress allow side only; the other kinds can always be picked.\<close>

definition kind_offered :: "cnp_direction \<Rightarrow> cnp_section \<Rightarrow> peer_kind \<Rightarrow> bool" where
  "kind_offered d s k \<longleftrightarrow> k \<noteq> FqdnPeer \<or> (d = Egress \<and> section_mode s = Whitelist)"

definition rule_add_port :: "cnp_rule \<Rightarrow> cnp_rule" where
  "rule_add_port r = r\<lparr> rule_ports := rule_ports r @ [emptyPort] \<rparr>"

definition rule_set_port :: "nat \<Rightarrow> (port_entry \<Rightarrow> port_entry) \<Rightarrow> cnp_rule \<Rightarrow> cnp_rule" where
  "rule_set_port i f r = r\<lparr> rule_ports := map_at i f (rule_ports r) \<rparr>"

definition rule_remove_port :: "nat \<Rightarrow> cnp_rule \<Rightarrow> cnp_rule" where
  "rule_remove_port i r = r\<lparr> rule_ports := remove_at i (rule_ports r) \<rparr>"

definition rule_add_http :: "cnp_rule \<Rightarrow> cnp_rule" where
  "rule_add_http r = r\<lparr> rule_http := rule_http r @ [emptyHttp] \<rparr>"

definition rule_set_http :: "nat \<Rightarrow> (http_rule \<Rightarrow> http_rule) \<Rightarrow> cnp_rule \<Rightarrow> cnp_rule" where
  "rule_set_http i f r = r\<lparr> rule_http := map_at i f (rule_http r) \<rparr>"

text \<open>The method list has an entry of its own for no method.\<close>

definition http_choice :: "string \<Rightarrow> string" where
  "http_choice v = (if v = ''any'' then [] else v)"

definition rule_remove_http :: "nat \<Rightarrow> cnp_rule \<Rightarrow> cnp_rule" where
  "rule_remove_http i r = r\<lparr> rule_http := remove_at i (rule_http r) \<rparr>"

text \<open>Leaving the cluster scope drops the subject's namespace, which no field would show.\<close>

definition pick_scope :: "cnp_scope \<Rightarrow> cnp_form \<Rightarrow> cnp_form" where
  "pick_scope s f = f\<lparr> form_scope := s,
     form_subjectNamespace := (if s = ClusterScope then form_subjectNamespace f else []) \<rparr>"

section \<open>The page's state\<close>

datatype cnp_editor_mode = FormEditor | YamlEditor

record cnp_page =
  np_policies :: "cnp_record list"
  np_available :: "bool option"
  unavailableMsg :: string
  np_loading :: bool
  editorOpen :: bool
  np_editing :: "cnp_record option"
  yamlText :: string
  yamlValid :: bool
  np_mode :: cnp_editor_mode
  np_form :: cnp_form
  np_saving :: bool
  np_deleteTarget :: "cnp_record option"
  policiesLoaded :: bool

definition cnp_page_init :: cnp_page where
  "cnp_page_init = \<lparr> np_policies = [], np_available = None, unavailableMsg = [], np_loading = True,
     editorOpen = False, np_editing = None, yamlText = [], yamlValid = True, np_mode = FormEditor,
     np_form = emptyForm, np_saving = False, np_deleteTarget = None, policiesLoaded = False \<rparr>"

definition cnp_load_start :: "cnp_page \<Rightarrow> cnp_page \<times> effect list" where
  "cnp_load_start st = (st\<lparr> np_loading := True \<rparr>, [Send cnpApi_list])"

definition cnp_load_done :: "cnp_list_response option \<Rightarrow> cnp_page \<Rightarrow> cnp_page" where
  "cnp_load_done res st =
     (case res of
        Some r \<Rightarrow> st\<lparr> np_available := Some (cl_available r),
           unavailableMsg := (case cl_message r of Some m \<Rightarrow> m | None \<Rightarrow> []),
           np_policies := (case cl_policies r of Some ps \<Rightarrow> ps | None \<Rightarrow> []),
           policiesLoaded := True, np_loading := False \<rparr>
      | None \<Rightarrow> st\<lparr> np_available := Some False, unavailableMsg := ''Failed to reach the Sentinel API.'',
           np_loading := False \<rparr>)"

section \<open>Opening the editor\<close>

definition openCreate :: "cnp_editor_mode \<Rightarrow> cnp_page \<Rightarrow> cnp_page" where
  "openCreate m st = st\<lparr> np_editing := None, np_mode := m, np_form := emptyForm, yamlText := [],
     yamlValid := True, editorOpen := True \<rparr>"

text \<open>None when the parser raises: nothing catches it and the page is gone.\<close>

definition cnp_openEdit :: "yaml_lib \<Rightarrow> cnp_record \<Rightarrow> cnp_page \<Rightarrow> cnp_page option" where
  "cnp_openEdit Y p st =
     map_option (\<lambda>parsed. st\<lparr> np_editing := Some p,
         np_form := (case parsed of Some f \<Rightarrow> f | None \<Rightarrow> emptyForm),
         np_mode := (case parsed of Some f \<Rightarrow> FormEditor | None \<Rightarrow> YamlEditor),
         yamlText := cr_rawYaml p, yamlValid := True, editorOpen := True \<rparr>)
       (tryParseCNPForm Y (cr_rawYaml p))"

datatype cnp_route =
    CnpNewRoute bool                                     \<comment> \<open>whether \<open>mode=yaml\<close>\<close>
  | CnpEditRoute string "string option" "string option"  \<comment> \<open>name, and scope and namespace of the query\<close>
  | CnpListRoute

definition find_policy :: "string \<Rightarrow> string option \<Rightarrow> string option \<Rightarrow> cnp_record list \<Rightarrow> cnp_record option" where
  "find_policy name scope ns ps =
     (let scope' = (case scope of Some s \<Rightarrow> s | None \<Rightarrow> ''namespace''); ns' = (case ns of Some n \<Rightarrow> n | None \<Rightarrow> [])
      in List.find (\<lambda>x. cr_name x = name \<and> cr_scope x = scope' \<and> (scope' = ''cluster'' \<or> cr_namespace x = ns')) ps)"

fun cnp_route_effect :: "yaml_lib \<Rightarrow> cnp_route \<Rightarrow> cnp_page \<Rightarrow> (cnp_page \<times> effect list) option" where
  "cnp_route_effect Y (CnpNewRoute yaml) st = Some (openCreate (if yaml then YamlEditor else FormEditor) st, [])"
| "cnp_route_effect Y (CnpEditRoute name scope ns) st =
     (if \<not> policiesLoaded st then Some (st, [])
      else (case find_policy name scope ns (np_policies st) of
              None \<Rightarrow> Some (st, [ToastErr ((''Policy '' @ name @ '' no longer exists.'')), NavigateReplace ''/policies/network''])
            | Some p \<Rightarrow> map_option (\<lambda>st'. (st', [])) (cnp_openEdit Y p st)))"
| "cnp_route_effect Y CnpListRoute st = Some (st\<lparr> editorOpen := False, np_editing := None \<rparr>, [])"

section \<open>Saving and deleting\<close>

definition outgoingYaml :: "yaml_lib \<Rightarrow> cnp_page \<Rightarrow> string" where
  "outgoingYaml Y st = (if np_mode st = FormEditor then cnpFormToYaml Y (np_form st) else yamlText st)"

definition cnp_canApply :: "yaml_lib \<Rightarrow> cnp_page \<Rightarrow> bool" where
  "cnp_canApply Y st =
     (if np_mode st = FormEditor then validateCNPForm (np_form st) = [] \<and> cnpFormToYaml Y (np_form st) \<noteq> []
      else trim (yamlText st) \<noteq> [] \<and> yamlValid st)"

definition cnp_save_request :: "yaml_lib \<Rightarrow> cnp_page \<Rightarrow> api_request" where
  "cnp_save_request Y st =
     (case np_editing st of
        Some e \<Rightarrow> cnpApi_update (cr_name e) (cr_namespace e) (cr_scope e) (outgoingYaml Y st)
      | None \<Rightarrow> cnpApi_apply (outgoingYaml Y st))"

text \<open>The Apply button is disabled while a save is under way.\<close>

definition cnp_save_start :: "yaml_lib \<Rightarrow> cnp_page \<Rightarrow> cnp_page \<times> effect list" where
  "cnp_save_start Y st =
     (if np_saving st \<or> \<not> cnp_canApply Y st then (st, [])
      else (st\<lparr> np_saving := True \<rparr>, [Send (cnp_save_request Y st)]))"

text \<open>The outcome arrives in the closure of the click: \<open>edited\<close> says whether it was an edit.\<close>

definition cnp_save_done :: "bool \<Rightarrow> outcome \<Rightarrow> cnp_page \<Rightarrow> cnp_page \<times> effect list" where
  "cnp_save_done edited r st =
     (case r of
        Done \<Rightarrow> (st\<lparr> np_saving := False, np_loading := True \<rparr>,
          [ToastOk (if edited then ''Network policy updated.'' else ''Network policy created.''), Send cnpApi_list,
           Navigate ''/policies/network''])
      | Refused data _ \<Rightarrow> (st\<lparr> np_saving := False \<rparr>,
          [ToastErr (refusal_text (jopt data ''error'') ''Failed to apply network policy.'')]))"

definition confirmDelete_start :: "cnp_page \<Rightarrow> effect list" where
  "confirmDelete_start st =
     (case np_deleteTarget st of
        None \<Rightarrow> []
      | Some p \<Rightarrow> [Send (cnpApi_delete (cr_name p) (cr_scope p) (cr_namespace p))])"

definition confirmDelete_done :: "string \<Rightarrow> outcome \<Rightarrow> cnp_page \<Rightarrow> cnp_page \<times> effect list" where
  "confirmDelete_done name r st =
     (case r of
        Done \<Rightarrow> (st\<lparr> np_loading := True, np_deleteTarget := None \<rparr>, [ToastOk ((''Deleted '' @ name @ ''.'')), Send cnpApi_list])
      | Refused _ _ \<Rightarrow> (st\<lparr> np_deleteTarget := None \<rparr>, [ToastErr ''Failed to delete network policy.'']))"

section \<open>The list\<close>

definition deny_label :: "string \<Rightarrow> string" where
  "deny_label deny = (if deny = ''both'' then ''Ingress + Egress'' else if deny = ''ingress'' then ''Ingress'' else ''Egress'')"

definition cnp_filtered :: "string list \<Rightarrow> string \<Rightarrow> cnp_record list \<Rightarrow> cnp_record list" where
  "cnp_filtered nsFilter search ps = filter (\<lambda>p.
     matchesScopeFilter (cr_scope p) (Some (cr_namespace p)) nsFilter \<and>
     (search = [] \<or> (let q = to_lower search in js_includes (to_lower (cr_name p)) q
        \<or> js_includes (to_lower (cr_namespace p)) q \<or> js_includes (to_lower (cr_selector p)) q))) ps"

text \<open>The address of an edit; \<open>encode\<close> is the browser's \<open>encodeURIComponent\<close>.\<close>

definition edit_address :: "(string \<Rightarrow> string) \<Rightarrow> cnp_record \<Rightarrow> string" where
  "edit_address encode p =
     (''/policies/network/'' @ (cr_name p) @ ''/edit?scope='' @ (cr_scope p) @ ''&namespace='' @ (encode (cr_namespace p)))"

section \<open>The selector preview\<close>

text \<open>What the form shows below the subject: a hint, a refusal, nothing, or the answer to a query.\<close>

datatype subject_preview =
    ChooseNamespace
  | OtherNamespace string
  | NoPreview
  | Query string labels

text \<open>The plain pod labels of a selector, or None when one has a source that pods do not carry.\<close>

fun pod_labels_loop :: "labels \<Rightarrow> labels \<Rightarrow> labels option" where
  "pod_labels_loop out [] = Some out"
| "pod_labels_loop out ((k, v) # ls) =
     (if startsWith k ''k8s:'' then pod_labels_loop (obj_set (drop 4 k) v out) ls
      else if CHR '':'' \<notin> set k then pod_labels_loop (obj_set k v out) ls
      else None)"

definition subject_preview :: "cnp_form \<Rightarrow> subject_preview" where
  "subject_preview f =
     (let nsLabel = map_of (subjectMatchLabels f) NAMESPACE_KEY; rest = obj_del NAMESPACE_KEY (subjectMatchLabels f)
      in if form_scope f = Namespaced \<and> form_namespace f = [] then ChooseNamespace
         else case (if form_scope f = Namespaced then nsLabel else None) of
           Some n \<Rightarrow> if n \<noteq> [] \<and> n \<noteq> form_namespace f then OtherNamespace n
                     else (case pod_labels_loop [] rest of None \<Rightarrow> NoPreview | Some ls \<Rightarrow> Query (form_namespace f) ls)
         | None \<Rightarrow>
             (case pod_labels_loop [] rest of None \<Rightarrow> NoPreview
              | Some ls \<Rightarrow> Query (if form_scope f = Namespaced then form_namespace f
                                 else case nsLabel of Some n \<Rightarrow> n | None \<Rightarrow> []) ls))"

text \<open>
  The component that asks. A query is its own key, as its text encodes it; the state keeps the
  answer and the failure under the key that was asked. The result has the total and the pods,
  each with its namespace.
\<close>

record preview_state =
  pv_result :: "((string \<times> labels) \<times> nat \<times> (string \<times> string) list) option"
  failedKey :: "(string \<times> labels) option"
  pv_rendered :: bool

definition preview_init :: preview_state where
  "preview_init = \<lparr> pv_result = None, failedKey = None, pv_rendered = False \<rparr>"

definition wholeCluster :: "string \<times> labels \<Rightarrow> bool" where
  "wholeCluster q \<longleftrightarrow> snd q = [] \<and> fst q = []"

text \<open>The effect of a new key: the delay and the request it schedules, none for the whole cluster.\<close>

definition preview_effect :: "string \<times> labels \<Rightarrow> preview_state \<Rightarrow> preview_state \<times> (nat \<times> api_request) option" where
  "preview_effect q st =
     (if wholeCluster q then (st, None)
      else (st\<lparr> pv_rendered := True \<rparr>,
            Some (if pv_rendered st then 400 else 0, selectorApi_preview (fst q) (snd q))))"

text \<open>An answer to \<open>q\<close> while the component asks for \<open>now\<close>; a stale one is dropped.\<close>

definition preview_answer :: "string \<times> labels \<Rightarrow> string \<times> labels \<Rightarrow> (nat \<times> (string \<times> string) list) option \<Rightarrow>
    preview_state \<Rightarrow> preview_state" where
  "preview_answer now q ans st =
     (if q \<noteq> now then st
      else case ans of Some r \<Rightarrow> st\<lparr> pv_result := Some (q, r) \<rparr> | None \<Rightarrow> st\<lparr> failedKey := Some q \<rparr>)"

definition preview_where :: "string \<Rightarrow> string" where
  "preview_where ns = (if ns \<noteq> [] then (''in '' @ ns) else ''in the cluster'')"

text \<open>The line on show, None while there is nothing to say.\<close>

definition preview_line :: "string \<times> labels \<Rightarrow> preview_state \<Rightarrow> string option" where
  "preview_line q st =
     (let (ns, ls) = q
      in if wholeCluster q then Some ''No labels: selects every pod in the cluster.''
         else if failedKey st = Some q then Some ''Preview unavailable for this selector.''
         else case pv_result st of
           None \<Rightarrow> None
         | Some (k, n, pods) \<Rightarrow>
             if k \<noteq> q then None
             else if n = 0
             then Some ((''Selects no pods '' @ (preview_where ns) @ '' right now. A typo in a label selects nothing, silently.''))
             else (let names = map (\<lambda>(pns, pname). if ns \<noteq> [] then pname else pns @ ''/'' @ pname) pods;
                       more = int n - int (min 5 (length names))
                   in Some ((if ls \<noteq> []
                             then (''Selects '' @ (show_nat n) @ '' pod'' @ (if n = 1 then [] else ''s'') @ '' '' @ (preview_where ns) @ '': '')
                             else (''No labels: selects every pod '' @ (preview_where ns) @ '', currently '' @ (show_nat n) @ ''. ''))
                            @ join_with '', '' (take 5 names)
                            @ (if more > 0 then ('' and '' @ (show_nat (nat more)) @ '' more'') else []))))"

end
