(* ===== verification/CnpPageProps.thy ===== *)
theory CnpPageProps
  imports CnpPage
begin

text \<open>
  What the network policy page promises: an edit cannot rename, move or change the scope of the
  policy it opened, one save is under way at a time, and the selector preview asks for the pods the
  policy governs.
\<close>

section \<open>Edits\<close>

text \<open>One edit of a rule, of a section, and of the form. \<open>editing\<close> freezes the identity fields.\<close>

inductive rule_edit :: "cnp_direction \<Rightarrow> cnp_section \<Rightarrow> cnp_rule \<Rightarrow> cnp_rule \<Rightarrow> bool" where
  kind: "kind_offered d s k \<Longrightarrow> rule_edit d s r (r\<lparr> peerKind := k \<rparr>)"
| entity: "e \<in> set ENTITIES \<Longrightarrow> rule_edit d s r (r\<lparr> peerEntity := e \<rparr>)"
| cidr: "rule_edit d s r (r\<lparr> peerCIDR := t \<rparr>)"
| fqdn: "rule_edit d s r (r\<lparr> peerFQDN := t \<rparr>)"
| set_label: "rule_edit d s r (r\<lparr> peerLabels := set_label_row i g (peerLabels r) \<rparr>)"
| add_label: "rule_edit d s r (r\<lparr> peerLabels := add_label_row (peerLabels r) \<rparr>)"
| remove_label: "rule_edit d s r (r\<lparr> peerLabels := remove_label_row i (peerLabels r) \<rparr>)"
| peer_ns: "rule_edit d s r (r\<lparr> peerNamespace := t \<rparr>)"
| add_port: "rule_edit d s r (rule_add_port r)"
| set_port: "rule_edit d s r (rule_set_port i g' r)"
| remove_port: "rule_edit d s r (rule_remove_port i r)"
| add_http: "section_mode s = Whitelist \<Longrightarrow> rule_edit d s r (rule_add_http r)"
| set_method: "section_mode s = Whitelist \<Longrightarrow> m \<in> {''any''} \<union> set HTTP_METHODS \<Longrightarrow>
    rule_edit d s r (rule_set_http i (\<lambda>h. h\<lparr> hr_method := http_choice m \<rparr>) r)"
| set_path: "section_mode s = Whitelist \<Longrightarrow> rule_edit d s r (rule_set_http i (\<lambda>h. h\<lparr> hr_path := t \<rparr>) r)"
| remove_http: "rule_edit d s r (rule_remove_http i r)"

inductive section_edit :: "cnp_direction \<Rightarrow> cnp_section \<Rightarrow> cnp_section \<Rightarrow> bool" where
  mode: "section_edit d s (section_set_mode m s)"
| add: "section_edit d s (section_add_rule s)"
| remove: "section_edit d s (section_remove_rule i s)"
| update: "(\<And>r. rule_edit d s r (g r)) \<Longrightarrow> section_edit d s (section_update_rule i g s)"

inductive cnp_edit :: "bool \<Rightarrow> cnp_form \<Rightarrow> cnp_form \<Rightarrow> bool" for editing where
  name: "\<not> editing \<Longrightarrow> cnp_edit editing f (f\<lparr> form_name := t \<rparr>)"
| scope: "\<not> editing \<Longrightarrow> cnp_edit editing f (pick_scope sc f)"
| namespace: "\<not> editing \<Longrightarrow> form_scope f = Namespaced \<Longrightarrow> cnp_edit editing f (f\<lparr> form_namespace := t \<rparr>)"
| comment: "cnp_edit editing f (f\<lparr> form_comment := t \<rparr>)"
| set_subject: "cnp_edit editing f (f\<lparr> form_subject := set_label_row i g (form_subject f) \<rparr>)"
| add_subject: "cnp_edit editing f (f\<lparr> form_subject := add_label_row (form_subject f) \<rparr>)"
| remove_subject: "cnp_edit editing f (f\<lparr> form_subject := remove_label_row i (form_subject f) \<rparr>)"
| subject_ns: "form_scope f = ClusterScope \<Longrightarrow> cnp_edit editing f (f\<lparr> form_subjectNamespace := t \<rparr>)"
| ingress: "section_edit Ingress (form_ingress f) s \<Longrightarrow> cnp_edit editing f (f\<lparr> form_ingress := s \<rparr>)"
| egress: "section_edit Egress (form_egress f) s \<Longrightarrow> cnp_edit editing f (f\<lparr> form_egress := s \<rparr>)"

abbreviation cnp_edits :: "bool \<Rightarrow> cnp_form \<Rightarrow> cnp_form \<Rightarrow> bool" where
  "cnp_edits editing \<equiv> (cnp_edit editing)\<^sup>*\<^sup>*"

text \<open>What an edit of an opened policy leaves alone, and what every edit keeps.\<close>

definition identity :: "cnp_form \<Rightarrow> string \<times> cnp_scope \<times> string" where
  "identity f = (form_name f, form_scope f, form_namespace f)"

definition no_hidden_namespace :: "cnp_form \<Rightarrow> bool" where
  "no_hidden_namespace f \<longleftrightarrow> (form_scope f = Namespaced \<longrightarrow> form_subjectNamespace f = [])"

lemma cnp_edit_keeps: "cnp_edit editing f g \<Longrightarrow> (editing \<longrightarrow> identity g = identity f) \<and> (no_hidden_namespace f \<longrightarrow> no_hidden_namespace g)"
  by (induction rule: cnp_edit.induct) (auto simp: identity_def no_hidden_namespace_def pick_scope_def)

lemma cnp_edits_keep: "cnp_edits editing f g \<Longrightarrow> (editing \<longrightarrow> identity g = identity f) \<and> (no_hidden_namespace f \<longrightarrow> no_hidden_namespace g)"
  by (induction rule: rtranclp_induct) (auto dest: cnp_edit_keeps)

lemma opened_no_hidden:
  assumes "tryParseCNPForm Y raw = Some (Some f)"
  shows "no_hidden_namespace f"
proof -
  have falsy: "leaf v = Some s \<Longrightarrow> \<not> truthy v \<Longrightarrow> s = []" for v s
    by (cases v) (auto simp: leaf_def nvl_def split: if_splits)
  show ?thesis
    using assms unfolding tryParseCNPForm_def Let_def
    by (auto simp: bind_eq_Some_conv read_form_def no_hidden_namespace_def Let_def intro: falsy
        split: option.splits if_splits)
qed

lemma opened_namespace:
  assumes "tryParseCNPForm Y raw = Some (Some f)" "y_load Y raw = Some doc" "form_scope f = Namespaced"
  shows "leaf (jopt (getp doc ''metadata'') ''namespace'') = Some (form_namespace f)"
  using tryParse_SomeD [OF assms(1)] assms(2,3)
  by (auto simp: read_form_def bind_eq_Some_conv Let_def split: if_splits)

lemma opened_editor:
  assumes "cnp_openEdit Y p st = Some st1" "np_mode st1 = FormEditor"
  shows "tryParseCNPForm Y (cr_rawYaml p) = Some (Some (np_form st1)) \<and> np_editing st1 = Some p"
  using assms by (auto simp: cnp_openEdit_def split: option.splits)

section \<open>One save at a time\<close>

lemma save_request_writes: "rq_method (cnp_save_request Y st) \<noteq> HGet"
  by (auto simp: cnp_save_request_def cnpApi_update_def cnpApi_apply_def api_put_def api_post_def split: option.splits)

interpretation cnp_flight: single_flight np_saving "cnp_save_start Y" "cnp_save_done e" for Y e
  by unfold_locales
    (auto simp: cnp_save_start_def cnp_save_done_def written_def save_request_writes cnpApi_list_def api_get_def split: outcome.splits)

lemma cnp_one_request_in_flight:
  "written (snd (submit_run np_saving (cnp_save_start Y) (cnp_save_done e) ms st)) \<le> length (filter is_arrival ms) + 1"
  by (rule cnp_flight.one_in_flight)

section \<open>The properties\<close>

text \<open>C18: whatever is edited after a policy opened in the form, Apply sends one update to the policy's
  own route, and the manifest in it has the kind, the name and the namespace of the manifest that was
  opened. And its selector names a namespace of its own only where the form shows one: a namespaced
  policy's hidden subject namespace stays empty.\<close>

theorem cnp_edit_keeps_identity:
  assumes "yaml_laws Y" "cnp_openEdit Y p st = Some st1" "np_mode st1 = FormEditor" "\<not> np_saving st"
    and "cnp_edits True (np_form st1) g" "cnp_canApply Y (st1\<lparr> np_form := g \<rparr>)"
  shows "\<exists>doc. y_load Y (cr_rawYaml p) = Some doc \<and>
     sends (snd (cnp_save_start Y (st1\<lparr> np_form := g \<rparr>))) =
       [cnpApi_update (cr_name p) (cr_namespace p) (cr_scope p) (y_dump Y (cnp_manifest g))] \<and>
     getp (cnp_manifest g) ''kind'' = getp doc ''kind'' \<and>
     (\<exists>n. jopt (getp doc ''metadata'') ''name'' = JStr n \<and> getp (getp (cnp_manifest g) ''metadata'') ''name'' = JStr (trim n)) \<and>
     (form_scope g = Namespaced \<longrightarrow> form_subjectNamespace g = [] \<and>
       (\<exists>n. jopt (getp doc ''metadata'') ''namespace'' = JStr n \<and> getp (getp (cnp_manifest g) ''metadata'') ''namespace'' = JStr (trim n)))"
proof -
  let ?f = "np_form st1"
  have o: "tryParseCNPForm Y (cr_rawYaml p) = Some (Some ?f)" "np_editing st1 = Some p"
    using opened_editor [OF assms(2,3)] by auto
  obtain doc where d: "y_load Y (cr_rawYaml p) = Some doc" "valid_form ?f"
    "getp (cnp_manifest ?f) ''kind'' = getp doc ''kind''" "jopt (getp doc ''metadata'') ''name'' = JStr (form_name ?f)"
    using cnp_open_facts [OF assms(1) o(1)] by blast
  have i: "identity g = identity ?f" "no_hidden_namespace g"
    using cnp_edits_keep [OF assms(5)] opened_no_hidden [OF o(1)] by auto
  have ns: "jopt (getp doc ''metadata'') ''namespace'' = JStr (form_namespace ?f)" if "form_scope ?f = Namespaced"
  proof -
    have "form_namespace ?f \<noteq> []" using d(2) that by (auto simp: valid_form_def)
    then show ?thesis by (rule leaf_Some [OF opened_namespace [OF o(1) d(1) that]])
  qed
  have "np_saving st1 = np_saving st" using assms(2) by (auto simp: cnp_openEdit_def)
  then have s: "sends (snd (cnp_save_start Y (st1\<lparr> np_form := g \<rparr>))) =
      [cnpApi_update (cr_name p) (cr_namespace p) (cr_scope p) (y_dump Y (cnp_manifest g))]"
    using assms(3,4,6) o(2)
    by (simp add: cnp_save_start_def cnp_save_request_def outgoingYaml_def cnpFormToYaml_def cnp_canApply_def split: if_splits)
  show ?thesis
    using i d ns s by (auto simp: cnp_manifest_def identity_def no_hidden_namespace_def)
qed

definition sample_record :: cnp_record where
  "sample_record = \<lparr> cr_name = ''pol'', cr_namespace = ''shop'', cr_scope = ''namespace'', cr_selector = ''app=db'',
     ingressRules = 1, egressRules = 2, hasL7 = True, defaultDeny = ''egress'', cr_createdBy = ''ui'', cr_createdAt = [],
     cr_rawYaml = cnpFormToYaml toy_yaml sample_form \<rparr>"

definition opened_sample :: cnp_page where
  "opened_sample = the (cnp_openEdit toy_yaml sample_record cnp_page_init)"

definition edited_sample :: cnp_form where
  "edited_sample = (np_form opened_sample)\<lparr> form_comment := ''new'' \<rparr>"

lemma sample_opens:
  "cnp_openEdit toy_yaml sample_record cnp_page_init = Some opened_sample" "np_form opened_sample = norm_form sample_form"
  "np_mode opened_sample = FormEditor" "np_editing opened_sample = Some sample_record"
  using reopen_normal_form [OF toy_yaml_laws sample_valid sample_subject]
  by (simp_all add: opened_sample_def cnp_openEdit_def sample_record_def)

lemma sample_edit: "cnp_edits True (np_form opened_sample) edited_sample"
  unfolding edited_sample_def by (rule r_into_rtranclp, rule cnp_edit.comment)

lemma subject_labels_comment [simp]: "subjectMatchLabels (f\<lparr> form_comment := t \<rparr>) = subjectMatchLabels f"
  by (simp add: subjectMatchLabels_def Let_def cong: if_cong)

lemma sample_applies: "cnp_canApply toy_yaml (opened_sample\<lparr> np_form := edited_sample \<rparr>)"
proof -
  have "valid_form (norm_form sample_form)" using valid_norm_form sample_valid by (simp add: validate_Nil_iff)
  then have "valid_form edited_sample"
    by (simp add: edited_sample_def sample_opens(2) valid_form_def sectionsOf_def)
  then show ?thesis
    using yaml_dump_ne [OF toy_yaml_laws plain_cnp_manifest]
    by (simp add: cnp_canApply_def sample_opens(3) cnpFormToYaml_def validate_Nil_iff)
qed

theorem cnp_edit_keeps_identity_witness:
  "\<exists>y. sends (snd (cnp_save_start toy_yaml (opened_sample\<lparr> np_form := edited_sample \<rparr>))) = [cnpApi_update ''pol'' ''shop'' ''namespace'' y]"
  using cnp_edit_keeps_identity [OF toy_yaml_laws sample_opens(1,3) _ sample_edit sample_applies]
  by (auto simp: cnp_page_init_def sample_record_def)

section \<open>The selector preview\<close>

text \<open>The key without its \<open>k8s:\<close> source.\<close>

definition plain_key :: "string \<Rightarrow> string" where
  "plain_key k = (if startsWith k ''k8s:'' then drop 4 k else k)"

lemma set_obj_set_new: "k \<notin> fst ` set o' \<Longrightarrow> set (obj_set k v o') = insert (k, v) (set o')"
  by (simp add: obj_set_def set_index_insert)

lemma pod_labels_loop_set:
  "pod_labels_loop out ls = Some ls' \<Longrightarrow> distinct (map (plain_key \<circ> fst) ls) \<Longrightarrow>
   fst ` set out \<inter> (plain_key \<circ> fst) ` set ls = {} \<Longrightarrow>
   set ls' = set out \<union> (\<lambda>(k, v). (plain_key k, v)) ` set ls"
proof (induction out ls rule: pod_labels_loop.induct)
  case (2 out k v ls)
  have fresh: "plain_key k \<notin> fst ` set out" using 2(5) by auto
  have "pod_labels_loop (obj_set (plain_key k) v out) ls = Some ls'"
    using 2(3) by (auto simp: plain_key_def split: if_splits)
  moreover have "fst ` set (obj_set (plain_key k) v out) \<inter> (plain_key \<circ> fst) ` set ls = {}"
    using 2(4,5) set_obj_set_new [OF fresh, of v] by auto
  ultimately have "set ls' = set (obj_set (plain_key k) v out) \<union> (\<lambda>(k, v). (plain_key k, v)) ` set ls"
    using 2(1,2) 2(3,4) by (auto simp: plain_key_def split: if_splits)
  then show ?case using set_obj_set_new [OF fresh, of v] by auto
qed simp

text \<open>The pods the server's preview counts: those of the namespace, or of all when it is empty, that
  have all the labels.\<close>

definition preview_selects :: "string \<Rightarrow> labels \<Rightarrow> string \<Rightarrow> (string \<Rightarrow> string option) \<Rightarrow> bool" where
  "preview_selects ns ls pod_ns pod_labels \<longleftrightarrow> (ns = [] \<or> pod_ns = ns) \<and> (\<forall>(k, v) \<in> set ls. pod_labels k = Some v)"

text \<open>The pods a policy governs: those of its own namespace, when it has one, that its selector matches.\<close>

definition governed :: "(string \<Rightarrow> string \<Rightarrow> bool) \<Rightarrow> string \<Rightarrow> cnp_form \<Rightarrow> bool" where
  "governed carries pod_ns f \<longleftrightarrow> (form_scope f = Namespaced \<longrightarrow> pod_ns = trim (form_namespace f)) \<and>
     (\<forall>(k, v) \<in> set (subjectMatchLabels f). carries k v)"

lemma pod_labels_loop_subset:
  "pod_labels_loop out ls = Some ls' \<Longrightarrow> set ls' \<subseteq> set out \<union> (\<lambda>(k, v). (plain_key k, v)) ` set ls"
proof (induction out ls rule: pod_labels_loop.induct)
  case (2 out k v ls)
  have "pod_labels_loop (obj_set (plain_key k) v out) ls = Some ls'"
    using 2(3) by (auto simp: plain_key_def split: if_splits)
  then have "set ls' \<subseteq> set (obj_set (plain_key k) v out) \<union> (\<lambda>(k, v). (plain_key k, v)) ` set ls"
    using 2(1,2) 2(3) by (auto simp: plain_key_def split: if_splits)
  moreover have "set (obj_set (plain_key k) v out) \<subseteq> insert (plain_key k, v) (set out)"
    by (auto simp: obj_set_def set_index_insert split: if_splits)
  ultimately show ?case by auto
qed simp

lemma pod_labels_loop_sources:
  "pod_labels_loop out ls = Some ls' \<Longrightarrow> (k, v) \<in> set ls \<Longrightarrow> startsWith k ''k8s:'' \<or> CHR '':'' \<notin> set k"
  by (induction out ls rule: pod_labels_loop.induct) (auto split: if_splits)

lemma selects_loop:
  assumes loop: "pod_labels_loop [] rest = Some ls"
    and reads: "\<And>k v. (k, v) \<in> set rest \<Longrightarrow> startsWith k ''k8s:'' \<or> CHR '':'' \<notin> set k \<Longrightarrow> carries k v \<longleftrightarrow> pod_labels (plain_key k) = Some v"
  shows "(\<forall>(k, v) \<in> set rest. carries k v) \<longrightarrow> (\<forall>(k, v) \<in> set ls. pod_labels k = Some v)"
    "distinct (map (plain_key \<circ> fst) rest) \<longrightarrow> (\<forall>(k, v) \<in> set ls. pod_labels k = Some v) \<longrightarrow> (\<forall>(k, v) \<in> set rest. carries k v)"
proof -
  have all: "carries k v \<longleftrightarrow> pod_labels (plain_key k) = Some v" if "(k, v) \<in> set rest" for k v
    using reads [OF that pod_labels_loop_sources [OF loop that]] .
  show "(\<forall>(k, v) \<in> set rest. carries k v) \<longrightarrow> (\<forall>(k, v) \<in> set ls. pod_labels k = Some v)"
    using pod_labels_loop_subset [OF loop] all by fastforce
  show "distinct (map (plain_key \<circ> fst) rest) \<longrightarrow> (\<forall>(k, v) \<in> set ls. pod_labels k = Some v) \<longrightarrow> (\<forall>(k, v) \<in> set rest. carries k v)"
    using pod_labels_loop_set [OF loop] all by fastforce
qed

text \<open>C19: how the selector preview relates to the pods the policy governs. \<open>carries\<close> is Cilium's reading of a
  selector key on one pod: the namespace key is the pod's namespace, a key without a source is the pod's
  label, and so is what follows the \<open>k8s:\<close> source. Provided the selector does not write the namespace key
  with its source, and the namespace has no blanks around it: when the form asks the server, every
  governed pod is counted, and if no two of the selector's keys are the same label, only governed pods are;
  when the form says that the selector names another namespace, no pod is governed. When it shows neither
  (no namespace chosen yet, or a key of another source) nothing is claimed. The two provisos are needed:
  see \<open>two_spellings_overcounted\<close> and \<open>sourced_namespace_uncounted\<close> below.\<close>

theorem preview_counts_governed_pods:
  fixes carries :: "string \<Rightarrow> string \<Rightarrow> bool"
  assumes ns: "\<And>n. carries NAMESPACE_KEY n \<longleftrightarrow> pod_ns = n"
    and label: "\<And>k v. CHR '':'' \<notin> set k \<Longrightarrow> k \<noteq> NAMESPACE_KEY \<Longrightarrow> carries k v \<longleftrightarrow> pod_labels k = Some v"
    and source: "\<And>k v. k \<noteq> NAMESPACE_KEY \<Longrightarrow> carries (''k8s:'' @ k) v \<longleftrightarrow> pod_labels k = Some v"
    and key: "''k8s:'' @ NAMESPACE_KEY \<notin> fst ` set (subjectMatchLabels f)"
    and picked: "trim (form_namespace f) = form_namespace f"
  shows "case subject_preview f of
      Query n ls \<Rightarrow> (governed carries pod_ns f \<longrightarrow> preview_selects n ls pod_ns pod_labels)
        \<and> (distinct (map (plain_key \<circ> fst) (subjectMatchLabels f)) \<longrightarrow>
             preview_selects n ls pod_ns pod_labels \<longrightarrow> governed carries pod_ns f)
    | OtherNamespace n \<Rightarrow> \<not> governed carries pod_ns f
    | _ \<Rightarrow> True"
proof -
  let ?ls = "subjectMatchLabels f"
  let ?rest = "obj_del NAMESPACE_KEY ?ls"
  have inv: "distinct (map fst ?ls)" "\<And>k v. (k, v) \<in> set ?ls \<Longrightarrow> v \<noteq> []"
    using subjectMatchLabels_inv [of f] by (auto simp: wf_labels_def clean_labels_def)
  have plain: "carries k v \<longleftrightarrow> pod_labels (plain_key k) = Some v"
    if "(k, v) \<in> set ?rest" "startsWith k ''k8s:'' \<or> CHR '':'' \<notin> set k" for k v
  proof -
    have k: "k \<noteq> NAMESPACE_KEY" "k \<noteq> ''k8s:'' @ NAMESPACE_KEY" using that(1) key by (force simp: obj_del_def)+
    show ?thesis
    proof (cases "startsWith k ''k8s:''")
      case True
      then obtain t where "k = ''k8s:'' @ t" by (auto simp: prefix_def)
      then show ?thesis using k(2) source [of t v] by (simp add: plain_key_def)
    next
      case False
      then show ?thesis using that(2) k(1) label [of k v] by (simp add: plain_key_def)
    qed
  qed
  have rest: "distinct (map (plain_key \<circ> fst) ?ls) \<Longrightarrow> distinct (map (plain_key \<circ> fst) ?rest)"
    by (simp add: obj_del_def distinct_map_filter)
  note loop = selects_loop [where carries = carries and pod_labels = pod_labels and rest = ?rest, OF _ plain]
  have split: "(\<forall>(k, v) \<in> set ?ls. carries k v) \<longleftrightarrow>
      (\<forall>n. map_of ?ls NAMESPACE_KEY = Some n \<longrightarrow> pod_ns = n) \<and> (\<forall>(k, v) \<in> set ?rest. carries k v)"
    using ns inv(1) by (auto simp: obj_del_def map_of_eq_Some_iff)
  have val: "n \<noteq> []" if "map_of ?ls NAMESPACE_KEY = Some n" for n
    using inv(2) map_of_SomeD [OF that] .
  show ?thesis
  proof (cases "map_of ?ls NAMESPACE_KEY")
    case None
    then show ?thesis using loop rest split picked
      by (auto simp: subject_preview_def preview_selects_def governed_def Let_def split: option.splits)
  next
    case (Some n)
    then show ?thesis using loop rest split picked val
      by (auto simp: subject_preview_def preview_selects_def governed_def Let_def split: option.splits)
  qed
qed

definition shop_form :: cnp_form where
  "shop_form = emptyForm\<lparr> form_namespace := ''shop'', form_subject := [\<lparr> lp_key = ''k8s:app'', lp_value = ''db'' \<rparr>] \<rparr>"

text \<open>Cilium's reading of a key on a pod of namespace \<open>n\<close> with labels \<open>ls\<close>.\<close>

definition carried :: "string \<Rightarrow> labels \<Rightarrow> string \<Rightarrow> string \<Rightarrow> bool" where
  "carried n ls k v = (if plain_key k = NAMESPACE_KEY then n = v else map_of ls (plain_key k) = Some v)"

lemma carried_laws:
  "carried n ls NAMESPACE_KEY v \<longleftrightarrow> n = v"
  "CHR '':'' \<notin> set k \<Longrightarrow> k \<noteq> NAMESPACE_KEY \<Longrightarrow> carried n ls k v \<longleftrightarrow> map_of ls k = Some v"
  "k \<noteq> NAMESPACE_KEY \<Longrightarrow> carried n ls (''k8s:'' @ k) v \<longleftrightarrow> map_of ls k = Some v"
proof -
  have "plain_key NAMESPACE_KEY = NAMESPACE_KEY" by code_simp
  then show "carried n ls NAMESPACE_KEY v \<longleftrightarrow> n = v" by (simp add: carried_def)
  show "k \<noteq> NAMESPACE_KEY \<Longrightarrow> carried n ls (''k8s:'' @ k) v \<longleftrightarrow> map_of ls k = Some v"
    by (simp add: carried_def plain_key_def)
  assume k: "CHR '':'' \<notin> set k" "k \<noteq> NAMESPACE_KEY"
  then have "\<not> startsWith k ''k8s:''" by (auto simp del: prefix_code dest: set_mono_prefix)
  then show "carried n ls k v \<longleftrightarrow> map_of ls k = Some v" using k by (simp add: carried_def plain_key_def)
qed

theorem preview_counts_governed_pods_witness:
  "subject_preview shop_form = Query ''shop'' [(''app'', ''db'')] \<and>
   governed (carried ''shop'' [(''app'', ''db'')]) ''shop'' shop_form \<and>
   \<not> governed (carried ''shop'' [(''app'', ''web'')]) ''shop'' shop_form"
proof -
  have q: "subject_preview shop_form = Query ''shop'' [(''app'', ''db'')]" by code_simp
  have ls: "subjectMatchLabels shop_form = [(''k8s:app'', ''db'')]" by code_simp
  have k: "''k8s:'' @ NAMESPACE_KEY \<notin> fst ` set (subjectMatchLabels shop_form)"
    "trim (form_namespace shop_form) = form_namespace shop_form"
    by (simp_all add: ls NAMESPACE_KEY_def) (simp add: shop_form_def emptyForm_def trim_no_ws js_ws_def)
  have keys: "distinct (map (plain_key \<circ> fst) (subjectMatchLabels shop_form))" by (simp add: ls)
  have "governed (carried ''shop'' lbs) ''shop'' shop_form \<longleftrightarrow> preview_selects ''shop'' [(''app'', ''db'')] ''shop'' (map_of lbs)" for lbs
    using preview_counts_governed_pods [where carries = "carried ''shop'' lbs" and pod_ns = "''shop''" and pod_labels = "map_of lbs",
      OF carried_laws k] keys by (auto simp: q)
  then show ?thesis by (simp add: q preview_selects_def)
qed

text \<open>What the provisos exclude: a label written with and without its source previews the pods of the later
  value, though no pod has both; the namespace key written with its source is looked for among the pod's
  labels, though the policy reads it as the pod's namespace.\<close>

definition two_spellings :: cnp_form where
  "two_spellings = shop_form\<lparr> form_subject := [\<lparr> lp_key = ''app'', lp_value = ''web'' \<rparr>, \<lparr> lp_key = ''k8s:app'', lp_value = ''db'' \<rparr>] \<rparr>"

lemma two_spellings_overcounted:
  "subject_preview two_spellings = Query ''shop'' [(''app'', ''db'')]"
  "preview_selects ''shop'' [(''app'', ''db'')] ''shop'' (map_of [(''app'', ''db'')])"
  "\<not> governed (carried n ls) n two_spellings"
proof -
  show "subject_preview two_spellings = Query ''shop'' [(''app'', ''db'')]" by code_simp
  show "preview_selects ''shop'' [(''app'', ''db'')] ''shop'' (map_of [(''app'', ''db'')])" by code_simp
  have "subjectMatchLabels two_spellings = [(''app'', ''web''), (''k8s:app'', ''db'')]" by code_simp
  then show "\<not> governed (carried n ls) n two_spellings"
    by (auto simp: governed_def carried_def plain_key_def NAMESPACE_KEY_def)
qed

definition sourced_namespace :: cnp_form where
  "sourced_namespace = shop_form\<lparr> form_subject := [\<lparr> lp_key = ''k8s:'' @ NAMESPACE_KEY, lp_value = ''shop'' \<rparr>] \<rparr>"

lemma sourced_namespace_uncounted:
  "subject_preview sourced_namespace = Query ''shop'' [(NAMESPACE_KEY, ''shop'')]"
  "governed (carried ''shop'' ls) ''shop'' sourced_namespace"
  "pod_labels NAMESPACE_KEY = None \<Longrightarrow> \<not> preview_selects ''shop'' [(NAMESPACE_KEY, ''shop'')] ''shop'' pod_labels"
proof -
  show "subject_preview sourced_namespace = Query ''shop'' [(NAMESPACE_KEY, ''shop'')]" by code_simp
  have ls: "subjectMatchLabels sourced_namespace = [(''k8s:'' @ NAMESPACE_KEY, ''shop'')]" by code_simp
  have "trim (form_namespace sourced_namespace) = ''shop''" by code_simp
  then show "governed (carried ''shop'' ls) ''shop'' sourced_namespace"
    by (simp add: governed_def ls carried_def plain_key_def)
  show "pod_labels NAMESPACE_KEY = None \<Longrightarrow> \<not> preview_selects ''shop'' [(NAMESPACE_KEY, ''shop'')] ''shop'' pod_labels"
    by (simp add: preview_selects_def)
qed

end
