(* ===== verification/TracingForm.thy ===== *)
theory TracingForm
  imports Yaml CnpParse
begin

text \<open>
  Tracing policies: the form's data (\<open>web/src/api/types.ts\<close>), the manifest the server builds from it
  (\<open>internal/policy/builder.go\<close>), and \<open>yamlToForm\<close> (\<open>web/src/utils/yamlToForm.ts\<close>), which opens a
  manifest in the form. As for network policies, the outer option is the code's exceptions and the
  inner one its answer, and a leaf of another type than the form's counts as an exception at once.
\<close>

section \<open>Form data\<close>

datatype trace_mode = TraceWhitelist | TraceBlacklist
datatype permission = PermAll | PermRead | PermWrite

record file_rule =
  fr_paths :: "string list"
  fr_except :: "string list option"
  fr_permission :: "permission option"

text \<open>A rule list that is undefined reads as an empty one everywhere.\<close>

record tracing_form =
  tf_name :: string
  tf_namespace :: "string option"
  tf_podSelector :: "labels option"
  tf_processMode :: "trace_mode option"
  tf_process :: "string list list"
  tf_fileMode :: "trace_mode option"
  tf_file :: "file_rule list"

section \<open>The manifest the server builds\<close>

record arg_selector =
  as_index :: nat
  as_operator :: string
  as_values :: "string list"

record kprobe_selector =
  ks_binaries :: "(string \<times> string list) list"   \<comment> \<open>operator and values\<close>
  ks_args :: "arg_selector list"
  ks_actions :: "string list"

record kprobe =
  kp_call :: string
  kp_syscall :: bool
  kp_args :: "(nat \<times> string) list"
  kp_selectors :: "kprobe_selector list"

record tracing_policy =
  tp_kind :: string
  tp_name :: string
  tp_namespace :: string
  tp_podSelector :: labels
  tp_kprobes :: "kprobe list"

text \<open>Trimmed entries without the blank ones; the first relative one is an error. The trimming is JavaScript's;
  Go's also takes the control character U+0085.\<close>

fun clean_paths :: "(string \<Rightarrow> string) \<Rightarrow> string list \<Rightarrow> string + string list" where
  "clean_paths err [] = Inr []"
| "clean_paths err (p # ps) =
     (if trim p = [] then clean_paths err ps
      else if \<not> startsWith (trim p) ''/'' then Inl (err (trim p))
      else map_sum id ((#) (trim p)) (clean_paths err ps))"

definition quoted :: "string \<Rightarrow> string" where
  "quoted s = CHR 0x22 # s @ [CHR 0x22]"

definition process_error :: "string \<Rightarrow> string" where
  "process_error b = (''process rule '' @ (quoted b) @ '' must be an absolute path: a bare name would match that binary anywhere, including a copy dropped in /tmp'')"

definition file_error :: "string \<Rightarrow> string \<Rightarrow> string" where
  "file_error what p = (what @ '' '' @ (quoted p) @ '' must be an absolute path'')"

definition process_kprobe :: "trace_mode option \<Rightarrow> string list \<Rightarrow> string \<Rightarrow> kprobe" where
  "process_kprobe m bins action = \<lparr> kp_call = ''sys_execve'', kp_syscall = True, kp_args = [(0, ''string'')],
     kp_selectors = [\<lparr> ks_binaries = [],
       ks_args = [\<lparr> as_index = 0, as_operator = (if m = Some TraceBlacklist then ''Equal'' else ''NotEqual''), as_values = bins \<rparr>],
       ks_actions = [action] \<rparr>] \<rparr>"

definition perm_args :: "permission option \<Rightarrow> arg_selector list" where
  "perm_args p = (case p of
       Some PermRead \<Rightarrow> [\<lparr> as_index = 1, as_operator = ''Equal'', as_values = [''4''] \<rparr>]
     | Some PermWrite \<Rightarrow> [\<lparr> as_index = 1, as_operator = ''Equal'', as_values = [''2''] \<rparr>]
     | _ \<Rightarrow> [])"

definition file_selector :: "string \<Rightarrow> string list \<Rightarrow> permission option \<Rightarrow> string list \<Rightarrow> string \<Rightarrow> kprobe_selector" where
  "file_selector operator paths p bins action = \<lparr> ks_binaries = (if bins \<noteq> [] then [(''NotIn'', bins)] else []),
     ks_args = \<lparr> as_index = 0, as_operator = operator, as_values = paths \<rparr> # perm_args p,
     ks_actions = [action] \<rparr>"

definition excepted :: "file_rule \<Rightarrow> string list" where
  "excepted r = (case fr_except r of Some bs \<Rightarrow> bs | None \<Rightarrow> [])"

text \<open>The whitelist's loop: all paths, all exceptions and the first specific permission.\<close>

definition specific :: "permission option \<Rightarrow> bool" where
  "specific p \<longleftrightarrow> p \<noteq> None \<and> p \<noteq> Some PermAll"

fun whitelist_rules :: "file_rule list \<Rightarrow> string list \<Rightarrow> string list \<Rightarrow> permission option \<Rightarrow>
    string + (string list \<times> string list \<times> permission option)" where
  "whitelist_rules [] paths bins p = Inr (paths, bins, p)"
| "whitelist_rules (r # rs) paths bins p =
     (case clean_paths (file_error ''file rule path'') (fr_paths r) of
        Inl e \<Rightarrow> Inl e
      | Inr ps \<Rightarrow> (case clean_paths (file_error ''file rule exception'') (excepted r) of
          Inl e \<Rightarrow> Inl e
        | Inr bs \<Rightarrow> whitelist_rules rs (paths @ ps) (bins @ bs)
            (if p = None \<and> specific (fr_permission r) then fr_permission r else p)))"

fun blacklist_rules :: "string \<Rightarrow> file_rule list \<Rightarrow> string + kprobe_selector list" where
  "blacklist_rules action [] = Inr []"
| "blacklist_rules action (r # rs) =
     (case clean_paths (file_error ''file rule path'') (fr_paths r) of
        Inl e \<Rightarrow> Inl e
      | Inr [] \<Rightarrow> blacklist_rules action rs
      | Inr ps \<Rightarrow> (case clean_paths (file_error ''file rule exception'') (excepted r) of
          Inl e \<Rightarrow> Inl e
        | Inr bs \<Rightarrow> map_sum id ((#) (file_selector ''Prefix'' ps (fr_permission r) bs action)) (blacklist_rules action rs)))"

definition file_selectors :: "tracing_form \<Rightarrow> string \<Rightarrow> string + kprobe_selector list" where
  "file_selectors f action =
     (if tf_fileMode f = Some TraceWhitelist
      then (case whitelist_rules (tf_file f) [] [] None of
          Inl e \<Rightarrow> Inl e
        | Inr (paths, bins, p) \<Rightarrow>
            if paths = [] \<and> bins \<noteq> []
            then Inl ''a file whitelist needs at least one excluded path; exception processes alone have no effect''
            else Inr (if paths = [] then [] else [file_selector ''NotPrefix'' paths p bins action]))
      else blacklist_rules action (tf_file f))"

definition file_kprobe :: "kprobe_selector list \<Rightarrow> kprobe" where
  "file_kprobe sels = \<lparr> kp_call = ''security_file_permission'', kp_syscall = False,
     kp_args = [(0, ''file''), (1, ''int'')], kp_selectors = sels \<rparr>"

text \<open>The form never sends the network fields, which \<open>Build\<close> refuses.\<close>

definition build_policy :: "tracing_form \<Rightarrow> string \<Rightarrow> string + tracing_policy" where
  "build_policy f action =
     (case clean_paths process_error (concat (tf_process f)) of
        Inl e \<Rightarrow> Inl e
      | Inr bins \<Rightarrow> (case file_selectors f action of
          Inl e \<Rightarrow> Inl e
        | Inr sels \<Rightarrow>
            (let ns = (case tf_namespace f of Some n \<Rightarrow> n | None \<Rightarrow> []);
                 kps = (if bins \<noteq> [] then [process_kprobe (tf_processMode f) bins action] else [])
                       @ (if sels \<noteq> [] then [file_kprobe sels] else [])
             in if kps = [] then Inl ''a policy needs at least one process or file rule''
                else Inr \<lparr> tp_kind = (if ns \<noteq> [] then ''TracingPolicyNamespaced'' else ''TracingPolicy''),
                  tp_name = tf_name f, tp_namespace = ns,
                  tp_podSelector = (case tf_podSelector f of Some ls \<Rightarrow> ls | None \<Rightarrow> []), tp_kprobes = kps \<rparr>)))"

section \<open>The manifest as a document\<close>

text \<open>The field tags of \<open>internal/policy/types.go\<close>; an empty field with \<open>omitempty\<close> is left out. The
  cluster's copy carries the defaults the CRD fills in and metadata of its own.\<close>

definition arg_value :: "arg_selector \<Rightarrow> jsval" where
  "arg_value a = JObj [(''index'', JNum (int (as_index a))), (''operator'', JStr (as_operator a)),
     (''values'', JArr (map JStr (as_values a)))]"

definition selector_value :: "kprobe_selector \<Rightarrow> jsval" where
  "selector_value s = JObj
     ((if ks_binaries s \<noteq> [] then [(''matchBinaries'', JArr (map (\<lambda>(op, vs).
          JObj [(''operator'', JStr op), (''values'', JArr (map JStr vs))]) (ks_binaries s)))] else [])
      @ (if ks_args s \<noteq> [] then [(''matchArgs'', JArr (map arg_value (ks_args s)))] else [])
      @ [(''matchActions'', JArr (map (\<lambda>a. JObj [(''action'', JStr a)]) (ks_actions s)))])"

definition kprobe_value :: "(string \<times> jsval) list \<Rightarrow> kprobe \<Rightarrow> jsval" where
  "kprobe_value defaults k = JObj
     ([(''call'', JStr (kp_call k)), (''syscall'', JBool (kp_syscall k)),
       (''args'', JArr (map (\<lambda>(i, t). JObj [(''index'', JNum (int i)), (''type'', JStr t)]) (kp_args k))),
       (''selectors'', JArr (map selector_value (kp_selectors k)))] @ defaults)"

definition policy_value :: "(string \<times> jsval) list \<Rightarrow> (string \<times> jsval) list \<Rightarrow> tracing_policy \<Rightarrow> jsval" where
  "policy_value meta defaults tp = JObj [
     (''apiVersion'', JStr ''cilium.io/v1alpha1''), (''kind'', JStr (tp_kind tp)),
     (''metadata'', JObj ((''name'', JStr (tp_name tp))
        # (if tp_namespace tp \<noteq> [] then [(''namespace'', JStr (tp_namespace tp))] else []) @ meta)),
     (''spec'', JObj
        ((if tp_podSelector tp \<noteq> [] then [(''podSelector'', JObj [(''matchLabels'', labels_val (tp_podSelector tp))])] else [])
         @ (if tp_kprobes tp \<noteq> [] then [(''kprobes'', JArr (map (kprobe_value defaults) (tp_kprobes tp)))] else [])))]"

section \<open>What the form can show\<close>

definition KPROBE_UNSUPPORTED :: "string list" where
  "KPROBE_UNSUPPORTED = [''return'', ''returnArg'', ''message'', ''tags'']"

definition SELECTOR_UNSUPPORTED :: "string list" where
  "SELECTOR_UNSUPPORTED = [''matchNamespaces'', ''matchCapabilities'', ''matchPIDs'', ''matchReturnArgs'',
     ''matchNamespaceChanges'', ''matchCapabilityChanges'']"

definition PROCESS_OPERATORS :: "string list" where
  "PROCESS_OPERATORS = [''Equal'', ''NotEqual'', ''Postfix'', ''NotPostfix'']"

definition FILE_OPERATORS :: "string list" where
  "FILE_OPERATORS = [''Prefix'', ''NotPrefix'']"

text \<open>\<open>KPROBE_DEFAULTS[k]\<close>, undefined for a field without a default.\<close>

definition kprobe_default :: "string \<Rightarrow> jsval" where
  "kprobe_default k = (if k = ''return'' then JBool False else JUndef)"

text \<open>\<open>xs.some(p)\<close> for a predicate that may raise, and a loop that ends on the first false.\<close>

fun some_m :: "('a \<Rightarrow> bool option) \<Rightarrow> 'a list \<Rightarrow> bool option" where
  "some_m p [] = Some False"
| "some_m p (x # xs) = do { b \<leftarrow> p x; if b then Some True else some_m p xs }"

fun every_m :: "('a \<Rightarrow> bool option) \<Rightarrow> 'a list \<Rightarrow> bool option" where
  "every_m p [] = Some True"
| "every_m p (x # xs) = do { b \<leftarrow> p x; if b then every_m p xs else Some False }"

fun more_than_one :: "jsval \<Rightarrow> bool" where
  "more_than_one (JNum n) = (n > 1)"
| "more_than_one _ = False"

text \<open>\<open>v.k ?? []\<close> of a value that must not be null, as the list a loop or an array method goes over.\<close>

definition list_field :: "(jsval \<Rightarrow> jsval list option) \<Rightarrow> jsval \<Rightarrow> string \<Rightarrow> jsval list option" where
  "list_field read v k = do { x \<leftarrow> jget v k; read (nvl x (JArr [])) }"

definition representable_selector :: "string list \<Rightarrow> jsval \<Rightarrow> bool option" where
  "representable_selector ops sel = do {
     extra \<leftarrow> some_m (\<lambda>k. map_option (\<lambda>v. v \<noteq> JUndef) (jget sel k)) SELECTOR_UNSUPPORTED;
     if extra then Some False else do {
       raw \<leftarrow> jget sel ''matchActions'';
       let actions = nvl raw (JArr []);
       if more_than_one (getp actions ''length'') then Some False else do {
         as \<leftarrow> as_arr actions;
         beside \<leftarrow> some_m (\<lambda>a. map_option (\<lambda>ks. length ks > 1) (obj_keys a)) as;
         if beside then Some False else do {
           bins \<leftarrow> list_field as_arr sel ''matchBinaries'';
           other \<leftarrow> some_m (\<lambda>mb. map_option (\<lambda>v. v \<noteq> JStr ''NotIn'') (jget mb ''operator'')) bins;
           if other then Some False else do {
             args \<leftarrow> list_field iter sel ''matchArgs'';
             every_m (\<lambda>ma. map_option (\<lambda>i. \<not> (i = JNum 0 \<and> getp ma ''operator'' \<notin> JStr ` set ops)) (jget ma ''index'')) args
           } } } } }"

definition representable :: "jsval \<Rightarrow> string list \<Rightarrow> bool option" where
  "representable kp ops = do {
     extra \<leftarrow> some_m (\<lambda>k. map_option (\<lambda>v. v \<noteq> JUndef \<and> v \<noteq> kprobe_default k) (jget kp k)) KPROBE_UNSUPPORTED;
     if extra then Some False else do {
       sels \<leftarrow> list_field iter kp ''selectors'';
       every_m (representable_selector ops) sels
     } }"

section \<open>Opening a manifest\<close>

text \<open>The loop's state: the form so far and the process mode seen first.\<close>

record trace_reader =
  rd_process :: "string list list"
  rd_file :: "file_rule list"
  rd_processMode :: trace_mode
  rd_fileMode :: "trace_mode option"
  processModeSeen :: "trace_mode option"

text \<open>A loop whose body may raise, refuse the policy, or go on with a new state.\<close>

fun loop :: "('a \<Rightarrow> 's \<Rightarrow> 's option option) \<Rightarrow> 'a list \<Rightarrow> 's \<Rightarrow> 's option option" where
  "loop body [] s = Some (Some s)"
| "loop body (x # xs) s =
     (case body x s of
        None \<Rightarrow> None
      | Some None \<Rightarrow> Some None
      | Some (Some s') \<Rightarrow> loop body xs s')"

text \<open>The truthy values of a list, as text.\<close>

definition texts_of :: "jsval list \<Rightarrow> string list option" where
  "texts_of vs = those (map as_str (filter truthy vs))"

definition absolute :: "string \<Rightarrow> string" where
  "absolute bin = (if startsWith bin ''/'' then bin else ''/'' @ bin)"

definition push_binaries :: "jsval list \<Rightarrow> trace_reader \<Rightarrow> trace_reader option" where
  "push_binaries vs s = map_option (\<lambda>bins. s\<lparr> rd_process := rd_process s @ map (\<lambda>b. [absolute b]) bins \<rparr>) (texts_of vs)"

definition process_mode_of :: "jsval \<Rightarrow> trace_mode option" where
  "process_mode_of operator =
     (if operator \<in> {JStr ''NotEqual'', JStr ''NotPostfix''} then Some TraceWhitelist
      else if operator \<in> {JStr ''Equal'', JStr ''Postfix''} then Some TraceBlacklist else None)"

definition read_process_arg :: "jsval \<Rightarrow> trace_reader \<Rightarrow> trace_reader option option" where
  "read_process_arg ma s = do {
     operator \<leftarrow> jget ma ''operator'';
     case process_mode_of operator of
       Some m \<Rightarrow>
         if processModeSeen s \<noteq> None \<and> processModeSeen s \<noteq> Some m then Some None
         else do { vs \<leftarrow> list_field iter ma ''values'';
                   map_option Some (push_binaries vs (s\<lparr> processModeSeen := Some m, rd_processMode := m \<rparr>)) }
     | None \<Rightarrow> do { vs \<leftarrow> list_field iter ma ''values''; map_option Some (push_binaries vs s) }
   }"

text \<open>Old policies name their binaries in \<open>matchBinaries\<close>, which is read when there is no argument.\<close>

definition read_process_selector :: "jsval \<Rightarrow> trace_reader \<Rightarrow> trace_reader option option" where
  "read_process_selector sel s = do {
     args \<leftarrow> list_field as_arr sel ''matchArgs'';
     other \<leftarrow> some_m (\<lambda>a. map_option (\<lambda>i. i \<noteq> JNum 0) (jget a ''index'')) args;
     if other \<or> length args > 1 then Some None
     else if args \<noteq> [] then loop read_process_arg args s
     else do {
       mbs \<leftarrow> list_field iter sel ''matchBinaries'';
       loop (\<lambda>mb s. do { vs \<leftarrow> list_field iter mb ''values''; map_option Some (push_binaries vs s) }) mbs s }
   }"

text \<open>The permission argument: at most one, index 1, Equal, a single 4 or 2.\<close>

definition read_permission :: "jsval \<Rightarrow> permission \<times> nat \<Rightarrow> (permission \<times> nat) option option" where
  "read_permission ma st = do {
     i \<leftarrow> jget ma ''index'';
     if i = JNum 0 then Some (Some (fst st, Suc (snd st)))
     else if i \<noteq> JNum 1 \<or> getp ma ''operator'' \<noteq> JStr ''Equal'' then Some None
     else do {
       vals \<leftarrow> list_field as_arr ma ''values'';
       (case map js_string vals of
          [v] \<Rightarrow>
            if v \<noteq> ''4'' \<and> v \<noteq> ''2'' then Some None
            else if fst st \<noteq> PermAll then Some None
            else Some (Some (if v = ''4'' then PermRead else PermWrite, snd st))
        | _ \<Rightarrow> Some None) }
   }"

definition flat_values :: "jsval \<Rightarrow> jsval list" where
  "flat_values v = (case v of JArr xs \<Rightarrow> xs | _ \<Rightarrow> [v])"

definition except_binaries :: "jsval \<Rightarrow> string list option" where
  "except_binaries sel = do {
     mbs \<leftarrow> list_field as_arr sel ''matchBinaries'';
     ops \<leftarrow> those (map (\<lambda>mb. jget mb ''operator'') mbs);
     texts_of (concat (map (\<lambda>mb. flat_values (nvl (getp mb ''values'') (JArr [])))
       (filter (\<lambda>mb. getp mb ''operator'' = JStr ''NotIn'') mbs)))
   }"

definition file_mode_of :: "jsval \<Rightarrow> trace_mode option" where
  "file_mode_of operator =
     (if operator = JStr ''NotPrefix'' then Some TraceWhitelist
      else if operator = JStr ''Prefix'' then Some TraceBlacklist else None)"

definition read_file_arg :: "string list \<Rightarrow> permission \<Rightarrow> jsval \<Rightarrow> trace_reader \<Rightarrow> trace_reader option option" where
  "read_file_arg bins perm ma s =
     (case file_mode_of (getp ma ''operator'') of
        None \<Rightarrow> Some (Some s)
      | Some m \<Rightarrow>
          if rd_fileMode s \<noteq> None \<and> rd_fileMode s \<noteq> Some m then Some None
          else do {
            vs \<leftarrow> list_field as_arr ma ''values'';
            paths \<leftarrow> texts_of vs;
            let rule = (\<lambda>ps. \<lparr> fr_paths = ps, fr_except = (if bins \<noteq> [] then Some bins else None),
                               fr_permission = (if perm \<noteq> PermAll then Some perm else None) \<rparr>);
            Some (Some (s\<lparr> rd_fileMode := Some m,
              rd_file := rd_file s @ (if paths = [] then []
                else if m = TraceWhitelist then [rule paths] else map (\<lambda>p. rule [p]) paths) \<rparr>)) })"

definition read_file_selector :: "jsval \<Rightarrow> trace_reader \<Rightarrow> trace_reader option option" where
  "read_file_selector sel s = do {
     bins \<leftarrow> except_binaries sel;
     args \<leftarrow> list_field iter sel ''matchArgs'';
     perm \<leftarrow> loop read_permission args (PermAll, 0);
     case perm of
       None \<Rightarrow> Some None
     | Some (p, count) \<Rightarrow>
         if count > 1 then Some None
         else loop (read_file_arg bins p) (filter (\<lambda>a. getp a ''index'' = JNum 0) args) s
   }"

definition FILE_CALLS :: "string list" where
  "FILE_CALLS = [''security_file_permission'', ''sys_read'', ''sys_write'', ''sys_openat'']"

definition read_selectors :: "(jsval \<Rightarrow> trace_reader \<Rightarrow> trace_reader option option) \<Rightarrow> string list \<Rightarrow> jsval \<Rightarrow>
    trace_reader \<Rightarrow> trace_reader option option" where
  "read_selectors body ops kp s = do {
     ok \<leftarrow> representable kp ops;
     if \<not> ok then Some None
     else do { sels \<leftarrow> list_field iter kp ''selectors''; loop body sels s }
   }"

text \<open>One kprobe. One that contributed nothing the form can show refuses the policy.\<close>

definition read_kprobe :: "jsval \<Rightarrow> trace_reader \<Rightarrow> trace_reader option option" where
  "read_kprobe kp s = do {
     c \<leftarrow> jget kp ''call'';
     call \<leftarrow> leaf c;
     res \<leftarrow>
       (if js_includes call ''sys_execve'' then read_selectors read_process_selector PROCESS_OPERATORS kp s
        else if call = ''tcp_connect'' \<or> call = ''inet_csk_accept'' then Some None
        else if call \<in> set FILE_CALLS then read_selectors read_file_selector FILE_OPERATORS kp s
        else Some (Some s));
     case res of
       None \<Rightarrow> Some None
     | Some s' \<Rightarrow>
         if length (rd_process s') + length (rd_file s') = length (rd_process s) + length (rd_file s)
         then Some None else Some (Some s')
   }"

definition read_labels :: "jsval \<Rightarrow> labels option option" where
  "read_labels ls =
     (if truthy ls \<and> typeof_object ls
      then do { kvs \<leftarrow> entries ls;
                if kvs = [] then Some None else map_option Some (str_labels kvs) }
      else Some None)"

definition yamlToForm :: "yaml_lib \<Rightarrow> string \<Rightarrow> tracing_form option option" where
  "yamlToForm Y rawYaml =
     (if trim rawYaml = [] then Some None
      else case y_load Y rawYaml of
        None \<Rightarrow> Some None
      | Some doc \<Rightarrow>
          if \<not> truthy doc \<or> \<not> typeof_object doc \<or> \<not> truthy (jopt (getp doc ''metadata'') ''name'') then Some None
          else do {
            let meta = getp doc ''metadata'';
            let spec = getp doc ''spec'';
            ls \<leftarrow> read_labels (jopt (jopt spec ''podSelector'') ''matchLabels'');
            name \<leftarrow> as_str (getp meta ''name'');
            ns \<leftarrow> (if truthy (getp meta ''namespace'') then map_option Some (as_str (getp meta ''namespace'')) else Some None);
            kps \<leftarrow> iter (nvl (jopt spec ''kprobes'') (JArr []));
            res \<leftarrow> loop read_kprobe kps \<lparr> rd_process = [], rd_file = [], rd_processMode = TraceWhitelist,
                     rd_fileMode = None, processModeSeen = None \<rparr>;
            Some (map_option (\<lambda>s. \<lparr> tf_name = name, tf_namespace = ns, tf_podSelector = ls,
              tf_processMode = Some (rd_processMode s), tf_process = rd_process s,
              tf_fileMode = rd_fileMode s, tf_file = rd_file s \<rparr>) res)
          })"

end
