(* ===== verification/TracingProps.thy ===== *)
theory TracingProps
  imports TracingForm
begin

text \<open>
  The tracing policy form and the server's builder agree: a policy the builder wrote opens in the form
  as its normal form, and what the reader does not look at is lost on the next save.
\<close>

section \<open>Clean lists\<close>

definition kept :: "string list \<Rightarrow> string list" where
  "kept ps = filter (\<lambda>p. p \<noteq> []) (map trim ps)"

lemma clean_paths_Inr: "clean_paths err ps = Inr qs \<longleftrightarrow> qs = kept ps \<and> (\<forall>q \<in> set (kept ps). startsWith q ''/'')"
proof (induction ps arbitrary: qs)
  case (Cons p ps)
  then show ?case by (cases "clean_paths err ps") (auto simp: kept_def)
qed (auto simp: kept_def)

lemma kept_kept [simp]: "kept (kept ps) = kept ps"
  by (induction ps) (auto simp: kept_def)

lemma kept_append [simp]: "kept (ps @ qs) = kept ps @ kept qs"
  by (simp add: kept_def)

lemma kept_singles: "concat (map (\<lambda>b. [b]) ps) = ps"
  by (induction ps) auto

lemma kept_ne: "\<forall>q \<in> set (kept ps). q \<noteq> []"
  by (simp add: kept_def)

lemma clean_paths_kept: "clean_paths err ps = Inr qs \<Longrightarrow> clean_paths err qs = Inr qs"
  by (auto simp: clean_paths_Inr)

lemma excepted_simps [simp]:
  "excepted \<lparr> fr_paths = ps, fr_except = Some bs, fr_permission = p \<rparr> = bs"
  "excepted \<lparr> fr_paths = ps, fr_except = None, fr_permission = p \<rparr> = []"
  by (simp_all add: excepted_def)

section \<open>The normal form of a saved form\<close>

definition saved_rule :: "string list \<Rightarrow> string list \<Rightarrow> permission option \<Rightarrow> file_rule" where
  "saved_rule paths bins p = \<lparr> fr_paths = paths, fr_except = (if bins \<noteq> [] then Some bins else None),
     fr_permission = (if specific p then p else None) \<rparr>"

fun first_specific :: "file_rule list \<Rightarrow> permission option" where
  "first_specific [] = None"
| "first_specific (r # rs) = (if specific (fr_permission r) then fr_permission r else first_specific rs)"

definition saved_files :: "tracing_form \<Rightarrow> file_rule list" where
  "saved_files f =
     (if tf_fileMode f = Some TraceWhitelist
      then (let paths = kept (concat (map fr_paths (tf_file f)))
            in if paths = [] then []
               else [saved_rule paths (kept (concat (map excepted (tf_file f)))) (first_specific (tf_file f))])
      else concat (map (\<lambda>r. map (\<lambda>p. saved_rule [p] (kept (excepted r)) (fr_permission r)) (kept (fr_paths r))) (tf_file f)))"

definition saved_form :: "tracing_form \<Rightarrow> tracing_form" where
  "saved_form f =
     (let bins = kept (concat (tf_process f))
      in \<lparr> tf_name = tf_name f,
           tf_namespace = (case tf_namespace f of Some n \<Rightarrow> if n \<noteq> [] then Some n else None | None \<Rightarrow> None),
           tf_podSelector = (case tf_podSelector f of Some ls \<Rightarrow> if ls \<noteq> [] then Some ls else None | None \<Rightarrow> None),
           tf_processMode = Some (if bins \<noteq> [] \<and> tf_processMode f = Some TraceBlacklist then TraceBlacklist else TraceWhitelist),
           tf_process = map (\<lambda>b. [b]) bins,
           tf_fileMode = (if saved_files f = [] then None
                          else Some (if tf_fileMode f = Some TraceWhitelist then TraceWhitelist else TraceBlacklist)),
           tf_file = saved_files f \<rparr>)"

section \<open>Reading what the builder wrote\<close>

lemma texts_of_JStr: "\<forall>q \<in> set qs. q \<noteq> [] \<Longrightarrow> texts_of (map JStr qs) = Some qs"
  by (induction qs) (auto simp: texts_of_def)

lemma list_field_obj: "list_field read (JObj kvs) k = read (nvl (getp (JObj kvs) k) (JArr []))"
  by (simp add: list_field_def)

lemmas reader_defs = list_field_obj jget_def

definition default_fields :: "(string \<times> jsval) list \<Rightarrow> bool" where
  "default_fields defaults \<longleftrightarrow> (\<forall>(k, v) \<in> set defaults. k \<in> set KPROBE_UNSUPPORTED \<longrightarrow> v = kprobe_default k)"

lemma some_m_False: "\<forall>x \<in> set xs. p x = Some False \<Longrightarrow> some_m p xs = Some False"
  by (induction xs) auto

lemma every_m_True: "\<forall>x \<in> set xs. p x = Some True \<Longrightarrow> every_m p xs = Some True"
  by (induction xs) auto

lemma kprobe_extra:
  assumes "default_fields defaults"
  shows "some_m (\<lambda>k. map_option (\<lambda>v. v \<noteq> JUndef \<and> v \<noteq> kprobe_default k) (jget (kprobe_value defaults kp) k)) KPROBE_UNSUPPORTED = Some False"
proof (rule some_m_False, intro ballI)
  fix k assume k: "k \<in> set KPROBE_UNSUPPORTED"
  have "getp (kprobe_value defaults kp) k = (case map_of defaults k of Some v \<Rightarrow> v | None \<Rightarrow> JUndef)"
    using k by (auto simp: kprobe_value_def KPROBE_UNSUPPORTED_def)
  then show "map_option (\<lambda>v. v \<noteq> JUndef \<and> v \<noteq> kprobe_default k) (jget (kprobe_value defaults kp) k) = Some False"
    using assms k map_of_SomeD [of defaults k]
    by (auto simp: jget_def kprobe_value_def default_fields_def split: option.splits)
qed

lemma representable_built:
  assumes "default_fields defaults" "\<forall>s \<in> set (kp_selectors kp). representable_selector ops (selector_value s) = Some True"
  shows "representable (kprobe_value defaults kp) ops = Some True"
proof -
  have "list_field iter (kprobe_value defaults kp) ''selectors'' = Some (map selector_value (kp_selectors kp))"
    by (simp add: kprobe_value_def list_field_obj)
  moreover have "every_m (representable_selector ops) (map selector_value (kp_selectors kp)) = Some True"
    using assms(2) by (intro every_m_True) auto
  ultimately show ?thesis using kprobe_extra [OF assms(1)] by (simp add: representable_def)
qed

lemma selector_extra: "some_m (\<lambda>k. map_option (\<lambda>v. v \<noteq> JUndef) (jget (selector_value s) k)) SELECTOR_UNSUPPORTED = Some False"
  by (simp add: SELECTOR_UNSUPPORTED_def selector_value_def)

lemma representable_selector_built:
  assumes "ks_actions s = [a]" "\<forall>(op, vs) \<in> set (ks_binaries s). op = ''NotIn''"
    "\<forall>g \<in> set (ks_args s). as_index g = 0 \<longrightarrow> as_operator g \<in> set ops"
  shows "representable_selector ops (selector_value s) = Some True"
proof -
  have "some_m (\<lambda>mb. map_option (\<lambda>v. v \<noteq> JStr ''NotIn'') (jget mb ''operator''))
      (map (\<lambda>(op, vs). JObj [(''operator'', JStr op), (''values'', JArr (map JStr vs))]) (ks_binaries s)) = Some False"
    using assms(2) by (intro some_m_False) auto
  moreover have "every_m (\<lambda>ma. map_option (\<lambda>i. \<not> (i = JNum 0 \<and> getp ma ''operator'' \<notin> JStr ` set ops)) (jget ma ''index''))
      (map arg_value (ks_args s)) = Some True"
    using assms(3) by (intro every_m_True) (auto simp: arg_value_def)
  ultimately show ?thesis
    using assms(1) selector_extra [of s]
    by (auto simp: representable_selector_def selector_value_def list_field_obj obj_keys_def)
qed

lemma absolute_kept: "\<forall>q \<in> set qs. startsWith q ''/'' \<Longrightarrow> map (\<lambda>b. [absolute b]) qs = map (\<lambda>b. [b]) qs"
  by (simp add: absolute_def)

text \<open>The process kprobe.\<close>

lemma read_process_built:
  assumes "default_fields defaults" "bins \<noteq> []" "\<forall>b \<in> set bins. b \<noteq> [] \<and> startsWith b ''/''" "processModeSeen s = None"
  shows "read_kprobe (kprobe_value defaults (process_kprobe m bins action)) s =
     Some (Some (s\<lparr> rd_process := rd_process s @ map (\<lambda>b. [b]) bins,
       rd_processMode := (if m = Some TraceBlacklist then TraceBlacklist else TraceWhitelist),
       processModeSeen := Some (if m = Some TraceBlacklist then TraceBlacklist else TraceWhitelist) \<rparr>))"
proof -
  let ?k = "process_kprobe m bins action"
  let ?sel = "hd (kp_selectors ?k)"
  have rep: "representable (kprobe_value defaults ?k) PROCESS_OPERATORS = Some True"
    by (intro representable_built [OF assms(1)] ballI representable_selector_built [where a = action])
      (auto simp: process_kprobe_def PROCESS_OPERATORS_def)
  have sel: "read_process_selector (selector_value ?sel) s =
     Some (Some (s\<lparr> rd_process := rd_process s @ map (\<lambda>b. [b]) bins,
       rd_processMode := (if m = Some TraceBlacklist then TraceBlacklist else TraceWhitelist),
       processModeSeen := Some (if m = Some TraceBlacklist then TraceBlacklist else TraceWhitelist) \<rparr>))"
    using assms(3,4)
    by (simp add: read_process_selector_def read_process_arg_def process_kprobe_def selector_value_def arg_value_def
        list_field_obj process_mode_of_def push_binaries_def texts_of_JStr absolute_kept)
  have call: "getp (kprobe_value defaults ?k) ''call'' = JStr ''sys_execve''"
    "list_field iter (kprobe_value defaults ?k) ''selectors'' = Some [selector_value ?sel]"
    by (simp_all add: kprobe_value_def process_kprobe_def list_field_obj)
  have "jget (kprobe_value defaults ?k) ''call'' = Some (JStr ''sys_execve'')"
    using call(1) by (simp add: jget_def kprobe_value_def)
  then show ?thesis
    using rep sel call(2) assms(2)
    by (simp add: read_kprobe_def read_selectors_def leaf_def)
qed

text \<open>One file selector.\<close>

definition mode_operator :: "trace_mode \<Rightarrow> string" where
  "mode_operator m = (if m = TraceWhitelist then ''NotPrefix'' else ''Prefix'')"

definition read_rules :: "trace_mode \<Rightarrow> string list \<Rightarrow> string list \<Rightarrow> permission option \<Rightarrow> file_rule list" where
  "read_rules m paths bins p =
     (if m = TraceWhitelist then [saved_rule paths bins p] else map (\<lambda>q. saved_rule [q] bins p) paths)"

lemma loop_append: "loop body (xs @ ys) s =
    (case loop body xs s of None \<Rightarrow> None | Some None \<Rightarrow> Some None | Some (Some t) \<Rightarrow> loop body ys t)"
  by (induction xs arbitrary: s) (auto split: option.splits)

lemma read_perm_args:
  "loop read_permission (map arg_value (perm_args p)) (PermAll, n) =
   Some (Some (if p = Some PermRead then PermRead else if p = Some PermWrite then PermWrite else PermAll, n))"
  by (cases p; cases "the p") (auto simp: perm_args_def arg_value_def read_permission_def list_field_obj)

lemma perm_args_not_0: "filter (\<lambda>a. getp a ''index'' = JNum 0) (map arg_value (perm_args p)) = []"
  by (cases p; cases "the p") (auto simp: perm_args_def arg_value_def)

lemma read_file_built:
  assumes "paths \<noteq> []" "\<forall>q \<in> set paths. q \<noteq> []" "\<forall>b \<in> set bins. b \<noteq> []" "rd_fileMode s = None \<or> rd_fileMode s = Some m"
  shows "read_file_selector (selector_value (file_selector (mode_operator m) paths p bins action)) s =
     Some (Some (s\<lparr> rd_fileMode := Some m, rd_file := rd_file s @ read_rules m paths bins p \<rparr>))"
proof -
  let ?sel = "selector_value (file_selector (mode_operator m) paths p bins action)"
  let ?arg = "arg_value \<lparr> as_index = 0, as_operator = mode_operator m, as_values = paths \<rparr>"
  let ?p = "if p = Some PermRead then PermRead else if p = Some PermWrite then PermWrite else PermAll"
  have b: "except_binaries ?sel = Some bins"
    using assms(3) by (simp add: except_binaries_def file_selector_def selector_value_def list_field_obj flat_values_def texts_of_JStr)
      (simp add: texts_of_def)
  have a: "list_field iter ?sel ''matchArgs'' = Some (?arg # map arg_value (perm_args p))"
    by (simp add: file_selector_def selector_value_def list_field_obj)
  have l: "loop read_permission (?arg # map arg_value (perm_args p)) (PermAll, 0) = Some (Some (?p, 1))"
    using read_perm_args [of p 1] by (simp add: read_permission_def arg_value_def)
  have f: "filter (\<lambda>a. getp a ''index'' = JNum 0) (?arg # map arg_value (perm_args p)) = [?arg]"
    using perm_args_not_0 [of p] by (simp add: arg_value_def)
  have r: "read_file_arg bins ?p ?arg s = Some (Some (s\<lparr> rd_fileMode := Some m, rd_file := rd_file s @ read_rules m paths bins p \<rparr>))"
    using assms(1,2,4)
    by (cases m; cases p; cases "the p")
      (auto simp: read_file_arg_def arg_value_def mode_operator_def file_mode_of_def list_field_obj texts_of_JStr
        read_rules_def saved_rule_def specific_def Let_def)
  then have "loop (read_file_arg bins ?p) [?arg] s =
      Some (Some (s\<lparr> rd_fileMode := Some m, rd_file := rd_file s @ read_rules m paths bins p \<rparr>))" by simp
  then show ?thesis
    using b a l f by (simp add: read_file_selector_def del: loop.simps filter.simps)
qed

lemma read_rules_ne: "paths \<noteq> [] \<Longrightarrow> read_rules m paths bins p \<noteq> []"
  by (simp add: read_rules_def)

text \<open>A selector to write: its paths, permission and exceptions.\<close>

definition good_selector :: "string list \<times> permission option \<times> string list \<Rightarrow> bool" where
  "good_selector t \<longleftrightarrow> (case t of (ps, p, bs) \<Rightarrow> ps \<noteq> [] \<and> (\<forall>q \<in> set ps. q \<noteq> []) \<and> (\<forall>b \<in> set bs. b \<noteq> []))"

definition write_selector :: "trace_mode \<Rightarrow> string \<Rightarrow> string list \<times> permission option \<times> string list \<Rightarrow> kprobe_selector" where
  "write_selector m action t = (case t of (ps, p, bs) \<Rightarrow> file_selector (mode_operator m) ps p bs action)"

definition rules_of :: "trace_mode \<Rightarrow> string list \<times> permission option \<times> string list \<Rightarrow> file_rule list" where
  "rules_of m t = (case t of (ps, p, bs) \<Rightarrow> read_rules m ps bs p)"

lemma read_files_loop:
  "\<forall>t \<in> set ts. good_selector t \<Longrightarrow> rd_fileMode s = None \<or> rd_fileMode s = Some m \<Longrightarrow>
   loop read_file_selector (map (selector_value \<circ> write_selector m action) ts) s =
     Some (Some (s\<lparr> rd_fileMode := (if ts = [] then rd_fileMode s else Some m),
                    rd_file := rd_file s @ concat (map (rules_of m) ts) \<rparr>))"
proof (induction ts arbitrary: s)
  case (Cons t ts)
  obtain ps p bs where t: "t = (ps, p, bs)" by (cases t)
  show ?case
    using read_file_built [of ps bs s m p action] Cons
    by (simp add: t good_selector_def write_selector_def rules_of_def)
qed simp

lemma read_file_kprobe:
  assumes "default_fields defaults" "ts \<noteq> []" "\<forall>t \<in> set ts. good_selector t" "rd_fileMode s = None"
  shows "read_kprobe (kprobe_value defaults (file_kprobe (map (write_selector m action) ts))) s =
     Some (Some (s\<lparr> rd_fileMode := Some m, rd_file := rd_file s @ concat (map (rules_of m) ts) \<rparr>))"
proof -
  let ?k = "file_kprobe (map (write_selector m action) ts)"
  have rep: "representable (kprobe_value defaults ?k) FILE_OPERATORS = Some True"
  proof (rule representable_built [OF assms(1)], rule ballI)
    fix x assume "x \<in> set (kp_selectors ?k)"
    then obtain t where t: "x = write_selector m action t" by (auto simp: file_kprobe_def)
    obtain ps p bs where "t = (ps, p, bs)" by (cases t)
    with t show "representable_selector FILE_OPERATORS (selector_value x) = Some True"
      by (cases p; cases "the p")
        (auto intro!: representable_selector_built [where a = action]
          simp: write_selector_def file_selector_def perm_args_def mode_operator_def FILE_OPERATORS_def)
  qed
  have call: "jget (kprobe_value defaults ?k) ''call'' = Some (JStr ''security_file_permission'')"
    "list_field iter (kprobe_value defaults ?k) ''selectors'' = Some (map (selector_value \<circ> write_selector m action) ts)"
    by (simp_all add: kprobe_value_def file_kprobe_def list_field_obj jget_def)
  have "\<not> js_includes ''security_file_permission'' ''sys_execve''" by code_simp
  moreover have "concat (map (rules_of m) ts) \<noteq> []"
    using assms(2,3) read_rules_ne by (cases ts) (auto simp: rules_of_def good_selector_def)
  ultimately show ?thesis
    using rep call read_files_loop [OF assms(3), of s m action] assms(2,4)
    by (simp add: read_kprobe_def read_selectors_def leaf_def FILE_CALLS_def)
qed

section \<open>What the builder writes\<close>

lemma blacklist_rules_Inr:
  "blacklist_rules action rs = Inr sels \<Longrightarrow>
   sels = map (\<lambda>r. write_selector TraceBlacklist action (kept (fr_paths r), fr_permission r, kept (excepted r)))
     (filter (\<lambda>r. kept (fr_paths r) \<noteq> []) rs)"
proof (induction rs arbitrary: sels)
  case (Cons r rs)
  then show ?case
    by (cases "blacklist_rules action rs")
      (auto simp: write_selector_def mode_operator_def clean_paths_Inr split: sum.splits list.splits)
qed simp

lemma whitelist_rules_Inr:
  "whitelist_rules rs ps bs p = Inr (a, b, c) \<Longrightarrow>
   a = ps @ kept (concat (map fr_paths rs)) \<and> b = bs @ kept (concat (map excepted rs)) \<and>
   c = (if p = None then first_specific rs else p)"
proof (induction rs arbitrary: ps bs p)
  case (Cons r rs)
  then show ?case
    by (fastforce simp: clean_paths_Inr specific_def split: sum.splits if_splits)
qed (auto simp: kept_def)

definition file_mode :: "tracing_form \<Rightarrow> trace_mode" where
  "file_mode f = (if tf_fileMode f = Some TraceWhitelist then TraceWhitelist else TraceBlacklist)"

lemma kept_good: "ps \<noteq> [] \<Longrightarrow> ps = kept qs \<Longrightarrow> good_selector (ps, p, kept bs)"
  using kept_ne [of qs] kept_ne [of bs] by (simp add: good_selector_def)

lemma file_selectors_Inr:
  assumes "file_selectors f action = Inr sels"
  shows "\<exists>ts. sels = map (write_selector (file_mode f) action) ts \<and> (\<forall>t \<in> set ts. good_selector t) \<and>
     saved_files f = concat (map (rules_of (file_mode f)) ts)"
proof (cases "tf_fileMode f = Some TraceWhitelist")
  case True
  obtain paths bins p where w: "whitelist_rules (tf_file f) [] [] None = Inr (paths, bins, p)"
    using assms True by (auto simp: file_selectors_def split: sum.splits)
  have e: "paths = kept (concat (map fr_paths (tf_file f)))" "bins = kept (concat (map excepted (tf_file f)))"
    "p = first_specific (tf_file f)"
    using whitelist_rules_Inr [OF w] by auto
  let ?ts = "if paths = [] then [] else [(paths, p, bins)]"
  have "sels = map (write_selector TraceWhitelist action) ?ts"
    using assms True w by (auto simp: file_selectors_def write_selector_def mode_operator_def split: if_splits)
  then show ?thesis using True e kept_good [of paths]
    by (intro exI [of _ ?ts]) (auto simp: file_mode_def saved_files_def rules_of_def read_rules_def)
next
  case False
  let ?ts = "map (\<lambda>r. (kept (fr_paths r), fr_permission r, kept (excepted r))) (filter (\<lambda>r. kept (fr_paths r) \<noteq> []) (tf_file f))"
  have "sels = map (write_selector TraceBlacklist action) ?ts"
    using assms False blacklist_rules_Inr [of action "tf_file f" sels] by (simp add: file_selectors_def)
  moreover have "concat (map (\<lambda>r. map (\<lambda>p. saved_rule [p] (kept (excepted r)) (fr_permission r)) (kept (fr_paths r))) rs)
      = concat (map (rules_of TraceBlacklist) (map (\<lambda>r. (kept (fr_paths r), fr_permission r, kept (excepted r)))
          (filter (\<lambda>r. kept (fr_paths r) \<noteq> []) rs)))" for rs
    by (induction rs) (auto simp: rules_of_def read_rules_def)
  ultimately show ?thesis using False kept_good
    by (intro exI [of _ ?ts]) (auto simp: file_mode_def saved_files_def)
qed

lemma str_labels_val: "str_labels (map (\<lambda>(k, v). (k, JStr v)) ls) = Some ls"
  by (induction ls) (auto simp: str_labels_def)

lemma read_labels_built: "ls \<noteq> [] \<Longrightarrow> read_labels (labels_val ls) = Some (Some ls)"
  by (simp add: read_labels_def labels_val_def str_labels_val)

lemma read_labels_undef: "read_labels JUndef = Some None"
  by (simp add: read_labels_def)

section \<open>Saving again\<close>

lemma perm_args_saved: "perm_args (if specific p then p else None) = perm_args p"
  by (auto simp: perm_args_def specific_def split: option.splits permission.splits)

lemma file_selector_saved: "file_selector op ps (if specific p then p else None) bs a = file_selector op ps p bs a"
  by (simp add: file_selector_def perm_args_saved)

lemma saved_rule_simps [simp]:
  "fr_paths (saved_rule ps bs p) = ps" "excepted (saved_rule ps bs p) = bs"
  "fr_permission (saved_rule ps bs p) = (if specific p then p else None)"
  by (simp_all add: saved_rule_def excepted_def)

lemma blacklist_again:
  "blacklist_rules action rs = Inr sels \<Longrightarrow> \<forall>r \<in> set rs. length (kept (fr_paths r)) \<le> 1 \<Longrightarrow>
   blacklist_rules action (concat (map (\<lambda>r. map (\<lambda>p. saved_rule [p] (kept (excepted r)) (fr_permission r)) (kept (fr_paths r))) rs)) = Inr sels"
proof (induction rs arbitrary: sels)
  case (Cons r rs)
  show ?case
  proof (cases "kept (fr_paths r)")
    case Nil
    then show ?thesis using Cons by (auto simp: clean_paths_Inr split: sum.splits)
  next
    case (Cons p ps)
    then have one: "kept (fr_paths r) = [p]" using Cons.prems(2) by simp
    obtain e where "clean_paths (file_error ''file rule path'') (fr_paths r) = e" by simp
    have c: "clean_paths (file_error ''file rule path'') (fr_paths r) = Inr [p]"
      using Cons.prems(1) one by (cases "clean_paths (file_error ''file rule path'') (fr_paths r)") (auto simp: clean_paths_Inr)
    obtain bs where b: "clean_paths (file_error ''file rule exception'') (excepted r) = Inr bs"
      using Cons.prems(1) c by (auto split: sum.splits)
    obtain rest where rest: "blacklist_rules action rs = Inr rest" "sels = file_selector ''Prefix'' [p] (fr_permission r) bs action # rest"
      using Cons.prems(1) c b by (cases "blacklist_rules action rs") auto
    have k: "bs = kept (excepted r)" using b by (simp add: clean_paths_Inr)
    show ?thesis
      using Cons.IH [OF rest(1)] Cons.prems(2) one rest(2) clean_paths_kept [OF c] clean_paths_kept [OF b] k
      by (simp add: file_selector_saved)
  qed
qed simp

lemma first_specific_specific: "first_specific rs = None \<or> specific (first_specific rs)"
  by (induction rs) auto

lemma whitelist_clean:
  "whitelist_rules rs ps bs p = Inr (a, b, c) \<Longrightarrow> clean_paths e ps = Inr ps \<Longrightarrow> clean_paths e' bs = Inr bs \<Longrightarrow>
   clean_paths e a = Inr a \<and> clean_paths e' b = Inr b"
proof (induction rs arbitrary: ps bs p)
  case (Cons r rs)
  then show ?case
    by (fastforce simp: clean_paths_Inr split: sum.splits if_splits)
qed simp

lemma file_selectors_again:
  assumes "file_selectors f action = Inr sels"
    and "tf_fileMode f = Some TraceWhitelist \<or> (\<forall>r \<in> set (tf_file f). length (kept (fr_paths r)) \<le> 1)"
  shows "file_selectors (saved_form f) action = Inr sels"
proof (cases "tf_fileMode f = Some TraceWhitelist")
  case True
  obtain paths bins p where w: "whitelist_rules (tf_file f) [] [] None = Inr (paths, bins, p)"
    using assms(1) True by (auto simp: file_selectors_def split: sum.splits)
  have e: "paths = kept (concat (map fr_paths (tf_file f)))" "bins = kept (concat (map excepted (tf_file f)))"
    "p = first_specific (tf_file f)"
    using whitelist_rules_Inr [OF w] by auto
  have c: "clean_paths (file_error ''file rule path'') paths = Inr paths"
    "clean_paths (file_error ''file rule exception'') bins = Inr bins"
    using whitelist_clean [OF w] by auto
  show ?thesis
  proof (cases "paths = []")
    case True
    then show ?thesis using assms(1) w e \<open>tf_fileMode f = _\<close>
      by (auto simp: file_selectors_def saved_form_def saved_files_def Let_def split: if_splits)
  next
    case False
    then have "saved_files f = [saved_rule paths bins p]" using True e by (simp add: saved_files_def)
    then show ?thesis
      using assms(1) w c True False first_specific_specific [of "tf_file f"] e(3)
      by (auto simp: file_selectors_def saved_form_def Let_def)
  qed
next
  case False
  then have b: "blacklist_rules action (tf_file f) = Inr sels" using assms(1) by (simp add: file_selectors_def)
  have "blacklist_rules action (saved_files f) = Inr sels"
    using blacklist_again [OF b] assms(2) False by (simp add: saved_files_def)
  then show ?thesis using False by (auto simp: file_selectors_def saved_form_def Let_def)
qed

section \<open>The properties\<close>

text \<open>The builder's result, taken apart.\<close>

lemma build_policy_Inr:
  assumes "build_policy f action = Inr tp"
  shows "\<exists>bins sels. clean_paths process_error (concat (tf_process f)) = Inr bins \<and> file_selectors f action = Inr sels \<and>
     tp_name tp = tf_name f \<and> tp_namespace tp = (case tf_namespace f of Some n \<Rightarrow> n | None \<Rightarrow> []) \<and>
     tp_podSelector tp = (case tf_podSelector f of Some ls \<Rightarrow> ls | None \<Rightarrow> []) \<and>
     tp_kprobes tp = (if bins \<noteq> [] then [process_kprobe (tf_processMode f) bins action] else [])
       @ (if sels \<noteq> [] then [file_kprobe sels] else []) \<and> tp_kprobes tp \<noteq> []"
proof -
  obtain bins where b: "clean_paths process_error (concat (tf_process f)) = Inr bins"
    using assms by (cases "clean_paths process_error (concat (tf_process f))") (auto simp: build_policy_def)
  obtain sels where s: "file_selectors f action = Inr sels"
    using assms b by (cases "file_selectors f action") (auto simp: build_policy_def)
  show ?thesis using assms unfolding build_policy_def b s sum.case Let_def
    by (intro exI [of _ bins] exI [of _ sels]) (auto simp: b s split: if_split_asm)
qed

lemma read_kprobes_built:
  assumes "clean_paths process_error (concat (tf_process f)) = Inr bins" "file_selectors f action = Inr sels" "default_fields defaults"
  shows "loop read_kprobe (map (kprobe_value defaults) ((if bins \<noteq> [] then [process_kprobe (tf_processMode f) bins action] else [])
       @ (if sels \<noteq> [] then [file_kprobe sels] else [])))
     \<lparr> rd_process = [], rd_file = [], rd_processMode = TraceWhitelist, rd_fileMode = None, processModeSeen = None \<rparr> =
   Some (Some \<lparr> rd_process = tf_process (saved_form f), rd_file = tf_file (saved_form f),
     rd_processMode = the (tf_processMode (saved_form f)), rd_fileMode = tf_fileMode (saved_form f),
     processModeSeen = (if bins = [] then None else tf_processMode (saved_form f)) \<rparr>)"
proof -
  have bins: "bins = kept (concat (tf_process f))" "\<forall>b \<in> set bins. b \<noteq> [] \<and> startsWith b ''/''"
    using assms(1) kept_ne [of "concat (tf_process f)"] by (auto simp: clean_paths_Inr)
  obtain ts where ts: "sels = map (write_selector (file_mode f) action) ts" "\<forall>t \<in> set ts. good_selector t"
    "saved_files f = concat (map (rules_of (file_mode f)) ts)"
    using file_selectors_Inr [OF assms(2)] by blast
  have emp: "saved_files f = [] \<longleftrightarrow> ts = []"
    using ts(2,3) read_rules_ne by (cases ts) (auto simp: rules_of_def good_selector_def)
  let ?s = "\<lparr> rd_process = [], rd_file = [], rd_processMode = TraceWhitelist, rd_fileMode = None, processModeSeen = None \<rparr>"
  let ?m = "if tf_processMode f = Some TraceBlacklist then TraceBlacklist else TraceWhitelist"
  define s1 where "s1 = (if bins = [] then ?s else ?s\<lparr> rd_process := map (\<lambda>b. [b]) bins, rd_processMode := ?m, processModeSeen := Some ?m \<rparr>)"
  have procs: "loop read_kprobe (map (kprobe_value defaults) (if bins \<noteq> [] then [process_kprobe (tf_processMode f) bins action] else [])) ?s
      = Some (Some s1)"
    using read_process_built [OF assms(3) _ bins(2), of ?s "tf_processMode f" action] by (simp add: s1_def)
  have s1: "rd_fileMode s1 = None" "rd_file s1 = []" by (simp_all add: s1_def)
  have files: "loop read_kprobe (map (kprobe_value defaults) (if sels \<noteq> [] then [file_kprobe sels] else [])) s1
      = Some (Some (s1\<lparr> rd_fileMode := (if ts = [] then None else Some (file_mode f)), rd_file := saved_files f \<rparr>))"
  proof (cases "ts = []")
    case True
    then show ?thesis using ts(1,3) s1 by simp
  next
    case False
    then show ?thesis using read_file_kprobe [OF assms(3) False ts(2) s1(1)] ts(1,3) s1(2) by simp
  qed
  have "s1\<lparr> rd_fileMode := (if ts = [] then None else Some (file_mode f)), rd_file := saved_files f \<rparr> =
     \<lparr> rd_process = tf_process (saved_form f), rd_file = tf_file (saved_form f),
       rd_processMode = the (tf_processMode (saved_form f)), rd_fileMode = tf_fileMode (saved_form f),
       processModeSeen = (if bins = [] then None else tf_processMode (saved_form f)) \<rparr>"
    using bins(1) emp by (simp add: s1_def saved_form_def Let_def file_mode_def)
  then show ?thesis by (simp only: map_append loop_append procs files option.case)
qed

text \<open>C20: a policy the server built from the form opens in the form again, as the form's normal form:
  texts are trimmed, blank rows are gone and each listed path is a rule of its own. The cluster may add
  metadata and the defaults of its schema. When every blacklist rule has one path, as the form writes
  them, saving the opened form builds the same policy again.\<close>

theorem tracing_policy_reopens:
  assumes "build_policy f action = Inr tp" "tf_name f \<noteq> []"
    and "y_load Y raw = Some (policy_value meta defaults tp)" "trim raw \<noteq> []"
    and "default_fields defaults" "map_of meta ''namespace'' = None"
  shows "yamlToForm Y raw = Some (Some (saved_form f)) \<and>
     (tf_fileMode f = Some TraceWhitelist \<or> (\<forall>r \<in> set (tf_file f). length (kept (fr_paths r)) \<le> 1) \<longrightarrow>
      build_policy (saved_form f) action = Inr tp)"
proof -
  obtain bins sels where b: "clean_paths process_error (concat (tf_process f)) = Inr bins" "file_selectors f action = Inr sels"
    "tp_name tp = tf_name f" "tp_namespace tp = (case tf_namespace f of Some n \<Rightarrow> n | None \<Rightarrow> [])"
    "tp_podSelector tp = (case tf_podSelector f of Some ls \<Rightarrow> ls | None \<Rightarrow> [])"
    "tp_kprobes tp = (if bins \<noteq> [] then [process_kprobe (tf_processMode f) bins action] else [])
       @ (if sels \<noteq> [] then [file_kprobe sels] else [])" "tp_kprobes tp \<noteq> []"
    using build_policy_Inr [OF assms(1)] by blast
  note l = read_kprobes_built [OF b(1,2) assms(5), folded b(6)]
  let ?doc = "policy_value meta defaults tp"
  have meta: "jopt (getp ?doc ''metadata'') ''name'' = JStr (tf_name f)" "getp (getp ?doc ''metadata'') ''name'' = JStr (tf_name f)"
    "getp (getp ?doc ''metadata'') ''namespace'' = (if tp_namespace tp \<noteq> [] then JStr (tp_namespace tp) else JUndef)"
    using b(3) assms(6) by (simp_all add: policy_value_def)
  have spec: "jopt (jopt (getp ?doc ''spec'') ''podSelector'') ''matchLabels'' =
      (if tp_podSelector tp \<noteq> [] then labels_val (tp_podSelector tp) else JUndef)"
    "jopt (getp ?doc ''spec'') ''kprobes'' = JArr (map (kprobe_value defaults) (tp_kprobes tp))"
    using b(7) by (simp_all add: policy_value_def)
  have ls: "read_labels (if tp_podSelector tp \<noteq> [] then labels_val (tp_podSelector tp) else JUndef) = Some (tf_podSelector (saved_form f))"
    using read_labels_built [of "tp_podSelector tp"] b(5) read_labels_undef
    by (auto simp: saved_form_def Let_def split: option.splits)
  have doc: "truthy ?doc" "typeof_object ?doc" by (simp_all add: policy_value_def)
  have ns: "(if truthy (getp (getp ?doc ''metadata'') ''namespace'') then map_option Some (as_str (getp (getp ?doc ''metadata'') ''namespace''))
      else Some None) = Some (tf_namespace (saved_form f))"
    unfolding meta(3) b(4) by (simp add: saved_form_def Let_def split: option.split)
  have eta: "\<lparr> tf_name = tf_name f, tf_namespace = tf_namespace (saved_form f), tf_podSelector = tf_podSelector (saved_form f),
      tf_processMode = Some (the (tf_processMode (saved_form f))), tf_process = tf_process (saved_form f),
      tf_fileMode = tf_fileMode (saved_form f), tf_file = tf_file (saved_form f) \<rparr> = saved_form f"
    by (simp add: saved_form_def Let_def)
  have opened: "yamlToForm Y raw = Some (Some (saved_form f))"
    unfolding yamlToForm_def assms(3) option.case Let_def spec(1) ls ns
    using assms(2,4) by (simp add: doc meta(1,2) spec(2) l eta)
  have "clean_paths process_error (concat (tf_process (saved_form f))) = Inr bins"
    using clean_paths_kept [OF b(1)] b(1) by (simp add: saved_form_def Let_def kept_singles clean_paths_Inr)
  moreover have "process_kprobe (tf_processMode (saved_form f)) bins action = process_kprobe (tf_processMode f) bins action" if "bins \<noteq> []"
    using b(1) that by (simp add: saved_form_def Let_def clean_paths_Inr process_kprobe_def)
  moreover have "(case tf_namespace (saved_form f) of Some n \<Rightarrow> n | None \<Rightarrow> []) = (case tf_namespace f of Some n \<Rightarrow> n | None \<Rightarrow> [])"
    "(case tf_podSelector (saved_form f) of Some ls \<Rightarrow> ls | None \<Rightarrow> []) = (case tf_podSelector f of Some ls \<Rightarrow> ls | None \<Rightarrow> [])"
    "tf_name (saved_form f) = tf_name f"
    by (simp_all add: saved_form_def Let_def split: option.split)
  ultimately have "build_policy (saved_form f) action = build_policy f action" if "file_selectors (saved_form f) action = Inr sels"
    unfolding build_policy_def b(1,2) that by (simp add: Let_def)
  with opened file_selectors_again [OF b(2)] assms(1) show ?thesis by simp
qed


definition shell_form :: tracing_form where
  "shell_form = \<lparr> tf_name = ''shells'', tf_namespace = Some ''shop'', tf_podSelector = Some [(''app'', ''web'')],
     tf_processMode = Some TraceBlacklist, tf_process = [['' /bin/sh''], [[]]],
     tf_fileMode = Some TraceBlacklist,
     tf_file = [\<lparr> fr_paths = [''/etc/shadow''], fr_except = Some [''/usr/bin/passwd''], fr_permission = Some PermRead \<rparr>] \<rparr>"

definition shell_policy :: tracing_policy where
  "shell_policy = (case build_policy shell_form ''Sigkill'' of Inr tp \<Rightarrow> tp)"

definition return_default :: "(string \<times> jsval) list" where
  "return_default = [(''return'', JBool False)]"

lemma shell_built: "build_policy shell_form ''Sigkill'' = Inr shell_policy"
  by code_simp

text \<open>A serialised object is not blank.\<close>

lemma trim_ne: "\<not> js_ws c \<Longrightarrow> trim (c # s) \<noteq> []"
  by (auto simp: trim_def dropWhile_append)

lemma dumped_object: "trim (y_dump toy_yaml (JObj kvs)) \<noteq> []"
  using trim_ne [of "CHR ''o''"] by (simp add: toy_yaml_def js_ws_def)

lemma shell_plain: "plain (policy_value [] return_default shell_policy)"
  by code_simp

lemma shell_text: "y_load toy_yaml (y_dump toy_yaml (policy_value [] return_default shell_policy))
    = Some (policy_value [] return_default shell_policy)"
  "trim (y_dump toy_yaml (policy_value [] return_default shell_policy)) \<noteq> []"
  by (rule yaml_load_dump [OF toy_yaml_laws shell_plain]) (simp add: policy_value_def dumped_object)

lemma return_is_default: "default_fields return_default"
  by (simp add: default_fields_def return_default_def kprobe_default_def)

theorem tracing_policy_reopens_witness:
  "yamlToForm toy_yaml (y_dump toy_yaml (policy_value [] return_default shell_policy)) = Some (Some (saved_form shell_form))
   \<and> build_policy (saved_form shell_form) ''Sigkill'' = Inr shell_policy"
proof -
  have "\<forall>r \<in> set (tf_file shell_form). length (kept (fr_paths r)) \<le> 1" by code_simp
  then show ?thesis
    using tracing_policy_reopens [OF shell_built _ shell_text return_is_default]
    by (simp add: shell_form_def)
qed

section \<open>What is lost\<close>

text \<open>A process rule with an exception: kill every shell but the one entrypoint runs. The pod selector
  has a label and an expression.\<close>

definition exempting_kprobe :: jsval where
  "exempting_kprobe = JObj [
           (''call'', JStr ''sys_execve''), (''syscall'', JBool True),
           (''args'', JArr [JObj [(''index'', JNum 0), (''type'', JStr ''string'')]]),
           (''selectors'', JArr [JObj [
              (''matchBinaries'', JArr [JObj [(''operator'', JStr ''NotIn''), (''values'', JArr [JStr ''/entrypoint''])]]),
              (''matchArgs'', JArr [JObj [(''index'', JNum 0), (''operator'', JStr ''Equal''), (''values'', JArr [JStr ''/bin/sh''])]]),
              (''matchActions'', JArr [JObj [(''action'', JStr ''Sigkill'')]])]])]"

definition exempting_doc :: jsval where
  "exempting_doc = JObj [(''apiVersion'', JStr ''cilium.io/v1alpha1''), (''kind'', JStr ''TracingPolicy''),
     (''metadata'', JObj [(''name'', JStr ''shells'')]),
     (''spec'', JObj [
        (''podSelector'', JObj [
           (''matchLabels'', JObj [(''app'', JStr ''web'')]),
           (''matchExpressions'', JArr [JObj [(''key'', JStr ''tier''), (''operator'', JStr ''Exists'')]])]),
        (''kprobes'', JArr [exempting_kprobe])])]"

definition exempting_form :: tracing_form where
  "exempting_form = \<lparr> tf_name = ''shells'', tf_namespace = None, tf_podSelector = Some [(''app'', ''web'')],
     tf_processMode = Some TraceBlacklist, tf_process = [[''/bin/sh'']], tf_fileMode = None, tf_file = [] \<rparr>"

lemma exempting_plain: "plain exempting_doc"
  by code_simp

text \<open>A policy with process exceptions and selector expressions opens in the form although the form
  shows neither, and saving it unchanged builds a policy without them: the exempted process is killed
  too, and the pods the expression left out are governed.\<close>

theorem exceptions_lost_on_save:
  assumes "yaml_laws Y" "trim (y_dump Y exempting_doc) \<noteq> []"
  shows "yamlToForm Y (y_dump Y exempting_doc) = Some (Some exempting_form) \<and>
     (\<exists>tp. build_policy exempting_form ''Sigkill'' = Inr tp \<and>
        getp (policy_value [] [] tp) ''spec'' = JObj [
          (''podSelector'', JObj [(''matchLabels'', JObj [(''app'', JStr ''web'')])]),
          (''kprobes'', JArr [kprobe_value [] (process_kprobe (Some TraceBlacklist) [''/bin/sh''] ''Sigkill'')])] \<and>
        (\<forall>kp \<in> set (tp_kprobes tp). \<forall>sel \<in> set (kp_selectors kp). ks_binaries sel = []))"
proof
  have sel: "representable exempting_kprobe PROCESS_OPERATORS = Some True"
    by (simp add: exempting_kprobe_def representable_def representable_selector_def KPROBE_UNSUPPORTED_def SELECTOR_UNSUPPORTED_def
        PROCESS_OPERATORS_def list_field_obj obj_keys_def)
  have inc: "js_includes ''sys_execve'' ''sys_execve''" by simp
  have r: "loop read_kprobe [exempting_kprobe]
      \<lparr> rd_process = [], rd_file = [], rd_processMode = TraceWhitelist, rd_fileMode = None, processModeSeen = None \<rparr> =
    Some (Some \<lparr> rd_process = [[''/bin/sh'']], rd_file = [], rd_processMode = TraceBlacklist, rd_fileMode = None,
      processModeSeen = Some TraceBlacklist \<rparr>)"
    using sel
    by (simp add: read_kprobe_def read_selectors_def leaf_def)
      (simp add: exempting_kprobe_def read_selectors_def leaf_def list_field_obj read_process_selector_def read_process_arg_def process_mode_of_def
        push_binaries_def texts_of_def absolute_def)
  have ls: "read_labels (JObj [(''app'', JStr ''web'')]) = Some (Some [(''app'', ''web'')])" by code_simp
  show "yamlToForm Y (y_dump Y exempting_doc) = Some (Some exempting_form)"
  proof -
    have d: "truthy exempting_doc" "typeof_object exempting_doc"
      "jopt (getp exempting_doc ''metadata'') ''name'' = JStr ''shells''" "getp (getp exempting_doc ''metadata'') ''name'' = JStr ''shells''"
      "getp (getp exempting_doc ''metadata'') ''namespace'' = JUndef"
      "jopt (jopt (getp exempting_doc ''spec'') ''podSelector'') ''matchLabels'' = JObj [(''app'', JStr ''web'')]"
      "jopt (getp exempting_doc ''spec'') ''kprobes'' = JArr [exempting_kprobe]"
      "''shells'' \<noteq> []"
      by code_simp+
    show ?thesis
      unfolding yamlToForm_def yaml_load_dump [OF assms(1) exempting_plain] option.case Let_def d(6) ls
      using assms(2) by (simp only: d r truthy.simps typeof_object.simps nvl_simps iter.simps as_str.simps exempting_form_def
          option.map trace_reader.select_convs if_True if_False simp_thms Option.bind.simps list.simps option.simps)
  qed
  have "build_policy exempting_form ''Sigkill'' = Inr \<lparr> tp_kind = ''TracingPolicy'', tp_name = ''shells'', tp_namespace = [],
      tp_podSelector = [(''app'', ''web'')], tp_kprobes = [process_kprobe (Some TraceBlacklist) [''/bin/sh''] ''Sigkill''] \<rparr>"
    by code_simp
  then show "\<exists>tp. build_policy exempting_form ''Sigkill'' = Inr tp \<and>
        getp (policy_value [] [] tp) ''spec'' = JObj [
          (''podSelector'', JObj [(''matchLabels'', JObj [(''app'', JStr ''web'')])]),
          (''kprobes'', JArr [kprobe_value [] (process_kprobe (Some TraceBlacklist) [''/bin/sh''] ''Sigkill'')])] \<and>
        (\<forall>kp \<in> set (tp_kprobes tp). \<forall>sel \<in> set (kp_selectors kp). ks_binaries sel = [])"
    by (simp add: policy_value_def labels_val_def process_kprobe_def)
qed

theorem exceptions_lost_on_save_witness:
  "yamlToForm toy_yaml (y_dump toy_yaml exempting_doc) = Some (Some exempting_form)"
proof -
  have "trim (y_dump toy_yaml exempting_doc) \<noteq> []" by (simp add: exempting_doc_def dumped_object)
  then show ?thesis using exceptions_lost_on_save [OF toy_yaml_laws] by blast
qed

end
