(* ===== verification/PageView.thy ===== *)
theory PageView
  imports Prelude
begin

text \<open>
  What a form puts on the screen. A form is drawn by a pure function of the page's state; what the
  operator reads there are captions, the text in fields, and in a drop-down the label of the item
  that is chosen, which is blank when the value is none of the items on offer. Layout, icons and
  styles are left out. The locale is what the pages promise about it: two states that look the same
  send the same request.
\<close>

section \<open>Fields\<close>

datatype shown =
    TextField string string string          \<comment> \<open>caption, text, placeholder\<close>
  | Choice string "string option"           \<comment> \<open>caption, label of the chosen item\<close>

definition select_field :: "string \<Rightarrow> ('v \<times> string) list \<Rightarrow> 'v \<Rightarrow> shown" where
  "select_field caption items v = Choice caption (map_of items v)"

text \<open>A placeholder is seen while its field is empty.\<close>

fun field_reads :: "shown \<Rightarrow> string option" where
  "field_reads (TextField c s p) = Some (if s = [] then p else s)"
| "field_reads (Choice c l) = l"

text \<open>\<open>rules.map((rule, i) => ...)\<close>\<close>

definition numbered :: "(nat \<Rightarrow> 'r \<Rightarrow> 'c) \<Rightarrow> 'r list \<Rightarrow> 'c list" where
  "numbered f rs = map (\<lambda>(i, r). f i r) (zip [0..<length rs] rs)"

lemma length_numbered [simp]: "length (numbered f rs) = length rs"
  by (simp add: numbered_def)

lemma nth_numbered [simp]: "i < length rs \<Longrightarrow> numbered f rs ! i = f i (rs ! i)"
  by (simp add: numbered_def)

lemma numbered_simps [simp]: "numbered f [] = []" "numbered f [r] = [f 0 r]"
  by (simp_all add: numbered_def)

text \<open>Rows that look the same one by one.\<close>

lemma numbered_rel:
  assumes "numbered f xs = numbered g ys" "\<And>i x y. f i x = g i y \<Longrightarrow> R x y"
  shows "list_all2 R xs ys"
proof (rule list_all2_all_nthI)
  show len: "length xs = length ys" using assms(1) by (metis length_numbered)
  fix i assume "i < length xs"
  then show "R (xs ! i) (ys ! i)" using assms(1) len assms(2) by (metis nth_numbered)
qed

lemma numbered_same:
  assumes "numbered f xs = numbered g ys" "\<And>i x y. f i x = g i y \<Longrightarrow> v x = v y"
  shows "map v xs = map v ys"
  using numbered_rel [OF assms(1), of "\<lambda>x y. v x = v y"] assms(2) by (simp add: list_all2_conv_all_nth list_eq_iff_nth_eq)

text \<open>Two values on offer with different labels are told apart.\<close>

definition labels_distinct :: "('v \<times> string) list \<Rightarrow> bool" where
  "labels_distinct items \<longleftrightarrow> distinct (map fst items) \<and> distinct (map snd items)"

lemma select_field_eq:
  assumes "labels_distinct items" "v \<in> fst ` set items"
  shows "select_field c items v = select_field d items w \<longleftrightarrow> c = d \<and> v = w"
proof -
  have "v = w" if same: "map_of items v = map_of items w"
  proof -
    obtain l where "map_of items v = Some l" using assms(2) by (cases "map_of items v") (auto simp: map_of_eq_None_iff)
    then have "(v, l) \<in> set items" "(w, l) \<in> set items" using same by (auto dest: map_of_SomeD)
    then show "v = w"
      using assms(1) by (metis labels_distinct_def distinct_map inj_onD prod.inject snd_conv)
  qed
  then show ?thesis by (auto simp: select_field_def)
qed

section \<open>Picking a namespace\<close>

text \<open>The picker the policy forms share, \<open>web/src/components/NamespaceSelect.tsx\<close>.\<close>

definition NONE :: string where
  "NONE = ''__none__''"

text \<open>What the picker shows for a value, what it reports for a choice, and what it offers: nothing, when
  the namespaces could not be loaded and one is required.\<close>

definition shown_namespace :: "string option \<Rightarrow> string \<Rightarrow> string" where
  "shown_namespace noneLabel v = (if v \<noteq> [] then v else if noneLabel \<noteq> None then NONE else [])"

definition picked_namespace :: "string \<Rightarrow> string" where
  "picked_namespace v = (if v = NONE then [] else v)"

definition offered_namespaces :: "string option \<Rightarrow> string option \<Rightarrow> string list \<Rightarrow> (string \<times> string) list option" where
  "offered_namespaces noneLabel clearLabel nss =
     (let noneOption = (if noneLabel \<noteq> None then noneLabel else clearLabel)
      in if nss = [] \<and> (noneOption = None \<or> noneOption = Some []) then None
         else Some ((case noneOption of Some l \<Rightarrow> if l \<noteq> [] then [(NONE, l)] else [] | None \<Rightarrow> [])
                    @ map (\<lambda>n. (n, n)) nss))"

text \<open>The picker as a field: the placeholder while nothing is chosen, then the label of the value, which is
  blank for a namespace the list does not have.\<close>

definition namespace_field :: "string \<Rightarrow> string option \<Rightarrow> string option \<Rightarrow> string list \<Rightarrow> string \<Rightarrow> shown" where
  "namespace_field caption noneLabel clearLabel nss v =
     (case offered_namespaces noneLabel clearLabel nss of
        None \<Rightarrow> TextField caption [] ''No namespaces available''
      | Some items \<Rightarrow>
          (if shown_namespace noneLabel v = [] then TextField caption [] ''Select a namespace''
           else select_field caption items (shown_namespace noneLabel v)))"

text \<open>The values the picker shows as they are: none, or a namespace of the list.\<close>

definition namespace_ok :: "string list \<Rightarrow> string \<Rightarrow> bool" where
  "namespace_ok nss v \<longleftrightarrow> (v = [] \<or> v \<in> set nss) \<and> NONE \<notin> set nss"

lemma map_of_same: "map_of (map (\<lambda>n. (n, n)) ns) u = (if u \<in> set ns then Some u else None)"
  by (induction ns) auto

lemma namespace_field_inj:
  assumes "namespace_ok nss v" "namespace_ok nss w"
    and "namespace_field c None cl nss v = namespace_field c None cl nss w"
  shows "v = w"
proof -
  have ne: "v = [] \<or> v \<noteq> NONE" "w = [] \<or> w \<noteq> NONE" using assms(1,2) by (auto simp: namespace_ok_def)
  show ?thesis
    using assms ne by (auto simp: namespace_field_def namespace_ok_def offered_namespaces_def shown_namespace_def
        select_field_def map_of_same map_add_def Let_def split: if_splits option.splits)
qed

section \<open>The screen decides\<close>

locale screen_decides =
  fixes ok :: "'s \<Rightarrow> bool" and screen :: "'s \<Rightarrow> 'v" and outcome :: "'s \<Rightarrow> 'r"
  assumes decides: "ok s \<Longrightarrow> ok t \<Longrightarrow> screen s = screen t \<Longrightarrow> outcome s = outcome t"
begin

text \<open>Steps nobody can see do not change what is sent.\<close>

lemma unseen_steps:
  assumes "list_all (\<lambda>f. \<forall>s. ok s \<longrightarrow> ok (f s) \<and> screen (f s) = screen s) fs" "ok s"
  shows "outcome (foldl (\<lambda>s f. f s) s fs) = outcome s"
  using assms
proof (induction fs arbitrary: s)
  case (Cons f fs)
  then have "ok (f s)" "screen (f s) = screen s" by simp_all
  then show ?case using Cons decides [of "f s" s] by simp
qed simp

text \<open>What is sent is a function of what is seen.\<close>

lemma function_of_screen: "\<exists>f. \<forall>s. ok s \<longrightarrow> outcome s = f (screen s)"
proof (intro exI allI impI)
  fix s assume "ok s"
  then show "outcome s = outcome (SOME t. ok t \<and> screen t = screen s)"
    by (rule decides) (use \<open>ok s\<close> in \<open>auto intro: someI2 [where a = s]\<close>)
qed

end

end
