(* ===== verification/TracingPage.thy ===== *)
theory TracingPage
  imports TracingForm Utils Discovery PageView
begin

text \<open>
  The tracing policy editor: the form's sections (\<open>web/src/components/PolicyForm\<close>)
  and the page around them
  (\<open>web/src/pages/PolicyEditPage.tsx\<close>).
\<close>

section \<open>The form as a payload\<close>

definition mode_text :: "trace_mode \<Rightarrow> string" where
  "mode_text m = (case m of TraceWhitelist \<Rightarrow> ''whitelist'' | TraceBlacklist \<Rightarrow> ''blacklist'')"

definition perm_text :: "permission \<Rightarrow> string" where
  "perm_text p = (case p of PermAll \<Rightarrow> ''all'' | PermRead \<Rightarrow> ''read'' | PermWrite \<Rightarrow> ''write'')"

definition file_rule_value :: "file_rule \<Rightarrow> jsval" where
  "file_rule_value r = JObj [(''paths'', texts (fr_paths r)),
     (''exceptBinaries'', case fr_except r of Some bs \<Rightarrow> texts bs | None \<Rightarrow> JUndef),
     (''permission'', opt_text (map_option perm_text (fr_permission r)))]"

definition form_value :: "tracing_form \<Rightarrow> jsval" where
  "form_value f = JObj [(''name'', JStr (tf_name f)), (''namespace'', opt_text (tf_namespace f)),
     (''podSelector'', case tf_podSelector f of Some ls \<Rightarrow> labels_val ls | None \<Rightarrow> JUndef),
     (''processMode'', opt_text (map_option mode_text (tf_processMode f))),
     (''process'', JArr (map (\<lambda>bs. JObj [(''binaries'', texts bs)]) (tf_process f))),
     (''fileMode'', opt_text (map_option mode_text (tf_fileMode f))),
     (''file'', JArr (map file_rule_value (tf_file f)))]"

section \<open>Process and file sections\<close>

text \<open>Each process rule is one row; a rule without a binary shows as an empty row.\<close>

definition process_rows :: "tracing_form \<Rightarrow> string list" where
  "process_rows f = map (\<lambda>bs. case bs of b # _ \<Rightarrow> b | [] \<Rightarrow> []) (tf_process f)"

definition setProcessBinaries :: "string list \<Rightarrow> tracing_form \<Rightarrow> tracing_form" where
  "setProcessBinaries bins f = f\<lparr> tf_process := map (\<lambda>b. [b]) bins \<rparr>"

definition process_update :: "nat \<Rightarrow> string \<Rightarrow> string list \<Rightarrow> string list" where
  "process_update i v bins = bins[i := v]"

definition process_add :: "string list \<Rightarrow> string list" where
  "process_add bins = bins @ [[]]"

definition process_remove :: "nat \<Rightarrow> string list \<Rightarrow> string list" where
  "process_remove i bins = remove_at i bins"

definition setFileRules :: "file_rule list \<Rightarrow> tracing_form \<Rightarrow> tracing_form" where
  "setFileRules rules f = f\<lparr> tf_file := rules \<rparr>"

text \<open>A path list: set, add and remove a row, and the rows that get the hint about absolute paths.\<close>

definition path_list_edit :: "nat \<Rightarrow> string \<Rightarrow> string list \<Rightarrow> string list" where
  "path_list_edit i v vs = vs[i := v]"

definition path_list_remove :: "nat \<Rightarrow> string list \<Rightarrow> string list" where
  "path_list_remove i vs = remove_at i vs"

definition path_list_add :: "string list \<Rightarrow> string list" where
  "path_list_add vs = vs @ [[]]"

definition relative_hint :: "string \<Rightarrow> bool" where
  "relative_hint v \<longleftrightarrow> v \<noteq> [] \<and> \<not> startsWith v ''/''"

definition blank_file_rule :: file_rule where
  "blank_file_rule = \<lparr> fr_paths = [[]], fr_except = Some [], fr_permission = Some PermAll \<rparr>"

text \<open>\<open>rules.map(r => r.permission).find(p => p && p !== 'all') ?? 'all'\<close>\<close>

definition shared_permission :: "file_rule list \<Rightarrow> permission" where
  "shared_permission rules =
     (case List.find specific (map fr_permission rules) of Some (Some p) \<Rightarrow> p | _ \<Rightarrow> PermAll)"

text \<open>The whitelist is one group over all rules; writing it leaves one rule.\<close>

definition whitelist_group :: "file_rule list \<Rightarrow> file_rule" where
  "whitelist_group rules = \<lparr> fr_paths = concat (map fr_paths rules), fr_except = Some (concat (map excepted rules)),
     fr_permission = Some (shared_permission rules) \<rparr>"

definition whitelist_write :: "(file_rule \<Rightarrow> file_rule) \<Rightarrow> file_rule list \<Rightarrow> file_rule list" where
  "whitelist_write patch rules = [patch (whitelist_group rules)]"

definition whitelist_open :: "file_rule list" where
  "whitelist_open = [blank_file_rule]"

definition blacklist_update :: "nat \<Rightarrow> (file_rule \<Rightarrow> file_rule) \<Rightarrow> file_rule list \<Rightarrow> file_rule list" where
  "blacklist_update i patch rules = map_at i patch rules"

definition blacklist_add :: "file_rule list \<Rightarrow> file_rule list" where
  "blacklist_add rules = rules @ [blank_file_rule]"

definition blacklist_remove :: "nat \<Rightarrow> file_rule list \<Rightarrow> file_rule list" where
  "blacklist_remove i rules = remove_at i rules"

text \<open>Switching the file mode rewrites the rules into the shape of the mode.\<close>

definition setFileMode :: "trace_mode \<Rightarrow> tracing_form \<Rightarrow> tracing_form" where
  "setFileMode mode f =
     (let rules = tf_file f;
          paths = filter (\<lambda>p. p \<noteq> []) (concat (map fr_paths rules));
          bins = filter (\<lambda>b. b \<noteq> []) (concat (map excepted rules));
          file = (if mode = TraceWhitelist
                  then (if length paths > 0 \<or> length bins > 0
                        then [\<lparr> fr_paths = paths, fr_except = Some bins, fr_permission = Some (shared_permission rules) \<rparr>]
                        else [])
                  else concat (map (\<lambda>r. map (\<lambda>p. r\<lparr> fr_paths := [p] \<rparr>) (filter (\<lambda>p. p \<noteq> []) (fr_paths r))) rules))
      in f\<lparr> tf_fileMode := Some mode, tf_file := file \<rparr>)"

section \<open>Pod labels\<close>

text \<open>The rows are the component's, the selector the form's. Writing rows sets both; then the effect
  that follows the selector runs, and reloads the rows when the selector is another one.\<close>

definition selector_entries :: "tracing_form \<Rightarrow> labels" where
  "selector_entries f = (case tf_podSelector f of Some ls \<Rightarrow> ls | None \<Rightarrow> [])"

definition label_effect :: "tracing_form \<Rightarrow> labels \<times> tracing_form \<Rightarrow> labels \<times> tracing_form" where
  "label_effect old st =
     (if map_of (selector_entries (snd st)) \<noteq> map_of (selector_entries old)
      then (selector_entries (snd st), snd st) else st)"

definition syncLabelsToParent :: "labels \<Rightarrow> tracing_form \<Rightarrow> labels \<times> tracing_form" where
  "syncLabelsToParent rows f =
     (let selector = completePairs rows
      in (rows, f\<lparr> tf_podSelector := (if selector \<noteq> [] then Some selector else None) \<rparr>))"

definition edit_labels :: "(labels \<Rightarrow> labels) \<Rightarrow> labels \<times> tracing_form \<Rightarrow> labels \<times> tracing_form" where
  "edit_labels change st = label_effect (snd st) (syncLabelsToParent (change (fst st)) (snd st))"

definition addLabel :: "labels \<times> tracing_form \<Rightarrow> labels \<times> tracing_form" where
  "addLabel = edit_labels (\<lambda>rows. rows @ [([], [])])"

definition removeLabel :: "nat \<Rightarrow> labels \<times> tracing_form \<Rightarrow> labels \<times> tracing_form" where
  "removeLabel i = edit_labels (remove_at i)"

definition updateLabel :: "nat \<Rightarrow> (string \<times> string \<Rightarrow> string \<times> string) \<Rightarrow> labels \<times> tracing_form \<Rightarrow> labels \<times> tracing_form" where
  "updateLabel i patch = edit_labels (map_at i patch)"

section \<open>The preview of the manifest\<close>

record form_preview =
  yamlPreview :: string
  previewError :: string
  previewSeq :: nat
  fp_rendered :: bool

text \<open>The effect of a change: the request with its delay and number, none for a form without a name.\<close>

definition preview_changed :: "tracing_form \<Rightarrow> string \<Rightarrow> form_preview \<Rightarrow> form_preview \<times> (nat \<times> nat \<times> api_request) option" where
  "preview_changed f action st =
     (if tf_name f = [] then (st\<lparr> yamlPreview := [], previewError := [] \<rparr>, None)
      else (st\<lparr> previewSeq := Suc (previewSeq st), fp_rendered := True \<rparr>,
            Some (if fp_rendered st then 300 else 0, Suc (previewSeq st), policyApi_preview (form_value f) action)))"

text \<open>The answer to request \<open>seq\<close>: the text, or the message of the error.\<close>

definition preview_arrives :: "nat \<Rightarrow> string + string \<Rightarrow> form_preview \<Rightarrow> form_preview" where
  "preview_arrives seq answer st =
     (if seq \<noteq> previewSeq st then st
      else (case answer of
              Inr yaml \<Rightarrow> st\<lparr> yamlPreview := yaml, previewError := [] \<rparr>
            | Inl msg \<Rightarrow> st\<lparr> previewError := (if msg \<noteq> [] then msg else ''Could not render the policy''), yamlPreview := [] \<rparr>))"

section \<open>The page\<close>

record policy_record =
  po_name :: string
  po_namespace :: "string option"
  po_scope :: string
  po_mode :: string
  po_createdBy :: string
  po_createdAt :: string
  po_rawYaml :: string

datatype trace_editor = TraceFormEditor | TraceYamlEditor

record edit_page =
  ep_namespaces :: "string list"
  policyMode :: string
  formValues :: tracing_form
  yamlContent :: string
  ep_yamlValid :: bool
  ep_mode :: trace_editor
  ep_loading :: bool
  pageLoading :: bool
  formCapable :: bool

definition EMPTY_FORM :: tracing_form where
  "EMPTY_FORM = \<lparr> tf_name = [], tf_namespace = Some ''default'', tf_podSelector = None, tf_processMode = Some TraceWhitelist,
     tf_process = [], tf_fileMode = None, tf_file = [] \<rparr>"

text \<open>A draft handed over by Behavior Discovery replaces the fields it has.\<close>

definition prefilled :: "policy_prefill \<Rightarrow> tracing_form" where
  "prefilled d = EMPTY_FORM\<lparr> tf_name := pf_name d, tf_namespace := Some (pf_namespace d), tf_podSelector := pf_podSelector d,
     tf_processMode := Some TraceWhitelist, tf_process := map (\<lambda>b. [b]) (case pf_process d of Some bs \<Rightarrow> bs | None \<Rightarrow> []) \<rparr>"

definition edit_page_init :: "bool \<Rightarrow> bool \<Rightarrow> policy_prefill option \<Rightarrow> edit_page" where
  "edit_page_init isNew yamlMode prefill = \<lparr> ep_namespaces = [], policyMode = ''Monitoring'',
     formValues = (case prefill of Some d \<Rightarrow> if isNew then prefilled d else EMPTY_FORM | None \<Rightarrow> EMPTY_FORM),
     yamlContent = [], ep_yamlValid = True, ep_mode = (if yamlMode then TraceYamlEditor else TraceFormEditor),
     ep_loading = False, pageLoading = \<not> isNew, formCapable = False \<rparr>"

definition edit_action :: "edit_page \<Rightarrow> string" where
  "edit_action st = (if policyMode st = ''Protect'' then ''Sigkill'' else ''Post'')"

definition edit_mounted :: "string option \<Rightarrow> string option \<Rightarrow> effect list" where
  "edit_mounted name namespace =
     Send namespaceApi_list # (case name of Some n \<Rightarrow> if n \<noteq> [] then [Send (policyApi_get n namespace)] else [] | None \<Rightarrow> [])"

text \<open>Viewers cannot create a policy.\<close>

definition viewer_guard :: "bool \<Rightarrow> bool \<Rightarrow> effect list" where
  "viewer_guard isAdmin isNew = (if \<not> isAdmin \<and> isNew then [NavigateReplace ''/policies/tracing''] else [])"

text \<open>The record arrives. An exception of the reader leaves what was set before it.\<close>

definition policy_loaded :: "yaml_lib \<Rightarrow> policy_record \<Rightarrow> edit_page \<Rightarrow> edit_page" where
  "policy_loaded Y r st =
     (let st1 = st\<lparr> yamlContent := po_rawYaml r, policyMode := (if po_mode r = ''Protect'' then ''Protect'' else ''Monitoring'') \<rparr>
      in if po_createdBy r = ''k8s-apply''
         then (case yamlToForm Y (po_rawYaml r) of
                 None \<Rightarrow> st1\<lparr> ep_mode := TraceYamlEditor \<rparr>
               | Some p \<Rightarrow> st1\<lparr> ep_mode := TraceYamlEditor, formCapable := p \<noteq> None \<rparr>)
         else (case yamlToForm Y (po_rawYaml r) of
                 None \<Rightarrow> st1
               | Some (Some f) \<Rightarrow> st1\<lparr> formValues := f \<rparr>
               | Some None \<Rightarrow> st1\<lparr> ep_mode := TraceYamlEditor \<rparr>))"

definition edit_payload :: "edit_page \<Rightarrow> jsval" where
  "edit_payload st =
     (if ep_mode st = TraceFormEditor
      then JObj [(''source'', JStr ''form''), (''form'', form_value (formValues st)), (''action'', JStr (edit_action st))]
      else JObj [(''source'', JStr ''yaml''), (''rawYaml'', JStr (yamlContent st))])"

definition edit_request :: "string option \<Rightarrow> string option \<Rightarrow> edit_page \<Rightarrow> api_request" where
  "edit_request name namespace st =
     (case name of
        Some n \<Rightarrow> if n \<noteq> [] then policyApi_update n (edit_payload st) namespace else policyApi_create (edit_payload st)
      | None \<Rightarrow> policyApi_create (edit_payload st))"

text \<open>The Apply button is disabled while a save is under way.\<close>

definition edit_save_start :: "string option \<Rightarrow> string option \<Rightarrow> edit_page \<Rightarrow> edit_page \<times> effect list" where
  "edit_save_start name namespace st =
     (if ep_loading st then (st, [])
      else if ep_mode st = TraceFormEditor \<and> trim (tf_name (formValues st)) = [] then (st, [ToastErr ''Policy name is required''])
      else if ep_mode st = TraceYamlEditor \<and> trim (yamlContent st) = [] then (st, [ToastErr ''Write or paste a manifest before saving''])
      else if ep_mode st = TraceYamlEditor \<and> \<not> ep_yamlValid st then (st, [ToastErr ''Fix YAML errors before saving''])
      else (st\<lparr> ep_loading := True \<rparr>, [Send (edit_request name namespace st)]))"

text \<open>\<open>own\<close> is the library's message of the failed request, which the server's words replace; \<open>ed\<close> is the
  editor of the click.\<close>

definition edit_save_done :: "trace_editor \<Rightarrow> string \<Rightarrow> outcome \<Rightarrow> edit_page \<Rightarrow> edit_page \<times> effect list" where
  "edit_save_done ed own r st =
     (st\<lparr> ep_loading := False \<rparr>,
      case r of
        Done \<Rightarrow> [ToastOk ''Policy applied'', Navigate ''/policies/tracing'']
      | Refused data _ \<Rightarrow>
          (let m = intercepted_message data (JStr own)
           in [ToastErr (if truthy m then js_string m
                         else if ed = TraceFormEditor then ''Failed to apply policy'' else ''Failed to apply YAML'')]))"

text \<open>Opening the YAML on screen in the form; None is an exception.\<close>

definition open_in_form :: "yaml_lib \<Rightarrow> edit_page \<Rightarrow> (edit_page \<times> effect list) option" where
  "open_in_form Y st =
     map_option (\<lambda>p. case p of
         Some f \<Rightarrow> (st\<lparr> formValues := f, ep_mode := TraceFormEditor \<rparr>, [])
       | None \<Rightarrow> (st, [ToastErr ''The current YAML holds rules the form cannot show. Fix it or save as YAML.'']))
     (yamlToForm Y (yamlContent st))"

definition yaml_typed :: "string \<Rightarrow> bool \<Rightarrow> edit_page \<Rightarrow> edit_page" where
  "yaml_typed v valid st = st\<lparr> yamlContent := v, ep_yamlValid := valid \<rparr>"

end
