(* ===== verification/TracingPageProps.thy ===== *)
theory TracingPageProps
  imports TracingPage TracingProps
begin

text \<open>
  What the tracing policy editor promises and where it breaks its promise: switching the file mode
  keeps the policy, one save is under way at a time, a draft from Behavior Discovery builds, and a label row
  that is not complete is lost with the next edit of another.
\<close>

section \<open>One save at a time\<close>

lemma edit_request_writes: "rq_method (edit_request name ns st) \<noteq> HGet"
  by (auto simp: edit_request_def policyApi_update_def policyApi_create_def api_put_def api_post_def split: option.splits)

interpretation edit_flight: single_flight ep_loading "edit_save_start name ns" "edit_save_done ed own" for name ns ed own
  by unfold_locales
    (auto simp: edit_save_start_def edit_save_done_def written_def edit_request_writes Let_def split: outcome.splits)

lemma edit_one_request_in_flight:
  "written (snd (submit_run ep_loading (edit_save_start name ns) (edit_save_done ed own) ms st)) \<le> length (filter is_arrival ms) + 1"
  by (rule edit_flight.one_in_flight)

section \<open>Switching the file mode\<close>

lemma kept_filter_ne [simp]: "kept (filter (\<lambda>p. p \<noteq> []) ps) = kept ps"
  by (induction ps) (auto simp: kept_def)

lemma clean_paths_filter: "clean_paths e (filter (\<lambda>p. p \<noteq> []) ps) = Inr qs \<longleftrightarrow> clean_paths e ps = Inr qs"
  by (simp add: clean_paths_Inr)

lemma clean_paths_append:
  "clean_paths e (ps @ qs) = Inr rs \<longleftrightarrow> (\<exists>as bs. clean_paths e ps = Inr as \<and> clean_paths e qs = Inr bs \<and> rs = as @ bs)"
  by (auto simp: clean_paths_Inr)

lemma shared_first: "(if specific (Some (shared_permission rs)) then Some (shared_permission rs) else None) = first_specific rs"
proof (induction rs)
  case (Cons r rs)
  show ?case
  proof (cases "specific (fr_permission r)")
    case True
    then obtain p where "fr_permission r = Some p" by (auto simp: specific_def)
    with True show ?thesis by (simp add: shared_permission_def)
  next
    case False
    then have "shared_permission (r # rs) = shared_permission rs" by (simp add: shared_permission_def)
    then show ?thesis using Cons.IH False by (simp only: first_specific.simps if_False)
  qed
qed (simp add: shared_permission_def specific_def)

text \<open>The whitelist's loop succeeds exactly when the two concatenated lists are clean.\<close>

lemma whitelist_rules_iff:
  "whitelist_rules rs ps bs p = Inr (a, b, c) \<longleftrightarrow>
   (\<exists>a' b'. clean_paths (file_error ''file rule path'') (concat (map fr_paths rs)) = Inr a' \<and>
     clean_paths (file_error ''file rule exception'') (concat (map excepted rs)) = Inr b' \<and>
     a = ps @ a' \<and> b = bs @ b' \<and> c = (if p = None then first_specific rs else p))"
proof (induction rs arbitrary: ps bs p)
  case (Cons r rs)
  show ?case
    using Cons
    by (cases "clean_paths (file_error ''file rule path'') (fr_paths r)"; cases "clean_paths (file_error ''file rule exception'') (excepted r)")
      (auto simp: clean_paths_append specific_def)
qed auto

lemma file_selectors_whitelist:
  assumes "tf_fileMode f = Some TraceWhitelist"
  shows "file_selectors f a = Inr sels \<longleftrightarrow> (\<exists>ps bs.
     clean_paths (file_error ''file rule path'') (concat (map fr_paths (tf_file f))) = Inr ps \<and>
     clean_paths (file_error ''file rule exception'') (concat (map excepted (tf_file f))) = Inr bs \<and>
     (ps = [] \<longrightarrow> bs = []) \<and> sels = (if ps = [] then [] else [file_selector ''NotPrefix'' ps (first_specific (tf_file f)) bs a]))"
  (is "_ \<longleftrightarrow> ?R")
proof -
  note w = whitelist_rules_iff [of "tf_file f" "[]" "[]" None]
  show ?thesis
  proof (cases "whitelist_rules (tf_file f) [] [] None")
    case (Inl e)
    then show ?thesis using assms w by (auto simp: file_selectors_def)
  next
    case (Inr t)
    obtain x y z where "t = (x, y, z)" by (cases t)
    then show ?thesis using assms w [of x y z] Inr by (auto simp: file_selectors_def)
  qed
qed

lemma switched_files:
  "concat (map fr_paths (tf_file (setFileMode TraceWhitelist f))) = filter (\<lambda>p. p \<noteq> []) (concat (map fr_paths (tf_file f)))"
  "concat (map excepted (tf_file (setFileMode TraceWhitelist f))) = filter (\<lambda>b. b \<noteq> []) (concat (map excepted (tf_file f)))"
  by (auto simp: setFileMode_def Let_def)

lemma switched_selectors:
  "file_selectors (setFileMode TraceWhitelist f) action = Inr sels \<longleftrightarrow>
   file_selectors (f\<lparr> tf_fileMode := Some TraceWhitelist \<rparr>) action = Inr sels"
proof -
  let ?g = "setFileMode TraceWhitelist f" and ?h = "f\<lparr> tf_fileMode := Some TraceWhitelist \<rparr>"
  let ?ps = "concat (map fr_paths (tf_file f))" and ?bs = "concat (map excepted (tf_file f))"
  have m: "tf_fileMode ?g = Some TraceWhitelist" "tf_fileMode ?h = Some TraceWhitelist" "tf_file ?h = tf_file f"
    by (simp_all add: setFileMode_def Let_def)
  have p: "first_specific (tf_file ?g) = first_specific (tf_file f)" if "kept ?ps \<noteq> []"
  proof -
    have "filter (\<lambda>p. p \<noteq> []) ?ps \<noteq> []" using that kept_filter_ne [of ?ps] by (auto simp: kept_def)
    then show ?thesis using shared_first [of "tf_file f"] by (auto simp: setFileMode_def Let_def)
  qed
  show ?thesis
    unfolding file_selectors_whitelist [OF m(1)] file_selectors_whitelist [OF m(2)] switched_files clean_paths_filter m(3)
    using p by (auto simp: clean_paths_Inr)
qed

text \<open>C21: switching the file rules to the whitelist keeps the policy: the form with its rules merged into the one
  group the whitelist shows builds exactly what the form with its rules as they were builds in that mode,
  and is refused exactly when that is.\<close>

theorem mode_switch_keeps_policy:
  "build_policy (setFileMode TraceWhitelist f) action = Inr tp \<longleftrightarrow>
   build_policy (f\<lparr> tf_fileMode := Some TraceWhitelist \<rparr>) action = Inr tp"
proof -
  let ?g = "setFileMode TraceWhitelist f" and ?h = "f\<lparr> tf_fileMode := Some TraceWhitelist \<rparr>"
  have same: "tf_process ?g = tf_process ?h" "tf_processMode ?g = tf_processMode ?h" "tf_name ?g = tf_name ?h"
    "tf_namespace ?g = tf_namespace ?h" "tf_podSelector ?g = tf_podSelector ?h"
    by (simp_all add: setFileMode_def Let_def)
  note sel = switched_selectors [of f action]
  show ?thesis
  proof (cases "file_selectors ?g action")
    case (Inl e)
    then obtain e' where "file_selectors ?h action = Inl e'"
      using sel by (cases "file_selectors ?h action") auto
    with Inl show ?thesis by (cases "clean_paths process_error (concat (tf_process ?h))") (auto simp: build_policy_def same)
  next
    case (Inr sels)
    then have "file_selectors ?h action = Inr sels" using sel by blast
    with Inr show ?thesis by (simp only: build_policy_def same)
  qed
qed

section \<open>Label rows\<close>

lemma completePairs_complete:
  assumes "(k, v) \<in> set (completePairs rows)"
  shows "trim k \<noteq> [] \<and> trim v \<noteq> []"
proof -
  have "map_of (completePairs rows) k = Some v"
    using assms completePairs_distinct by (simp add: map_of_eq_Some_iff)
  then have "(k, v) \<in> set (complete_rows rows)"
    using map_of_SomeD by (fastforce simp: completePairs_map)
  then show ?thesis by (auto simp: complete_rows_def)
qed

text \<open>The rows of the pod selector are kept apart from the selector so that a row can be typed in
  steps, but they are not: whenever an edit changes the selector, the rows on screen become exactly its
  complete pairs. A row whose key or value is still blank is gone, and so is a row whose value is cleared
  to be typed anew.\<close>

theorem half_filled_rows_lost:
  assumes "map_of (completePairs (change (fst st))) \<noteq> map_of (selector_entries (snd st))"
  shows "fst (edit_labels change st) = completePairs (change (fst st)) \<and>
     (\<forall>(k, v) \<in> set (fst (edit_labels change st)). trim k \<noteq> [] \<and> trim v \<noteq> [])"
proof -
  have "fst (edit_labels change st) = completePairs (change (fst st))"
    using assms by (auto simp: edit_labels_def label_effect_def syncLabelsToParent_def Let_def selector_entries_def)
  then show ?thesis using completePairs_complete by auto
qed

definition typing :: "labels \<times> tracing_form" where
  "typing = ([(''app'', ''web''), (''tier'', [])], EMPTY_FORM\<lparr> tf_podSelector := Some [(''app'', ''web'')] \<rparr>)"

theorem half_filled_rows_lost_witness:
  "fst (updateLabel 0 (\<lambda>(k, v). (k, [])) typing) = []"
proof -
  let ?c = "map_at 0 (\<lambda>(k, v). (k, []))"
  have c: "completePairs (?c (fst typing)) = []" by code_simp
  have "map_of (completePairs (?c (fst typing))) \<noteq> map_of (selector_entries (snd typing))"
    unfolding c by (auto simp: typing_def selector_entries_def fun_eq_iff)
  then show ?thesis using half_filled_rows_lost [of ?c typing] c by (simp add: updateLabel_def)
qed


section \<open>Drafts from Behavior Discovery\<close>

lemma trim_slash:
  assumes "startsWith b ''/''"
  shows "trim b \<noteq> [] \<and> startsWith (trim b) ''/''"
proof -
  obtain s where b: "b = CHR ''/'' # s" using assms by (cases b) auto
  have "\<not> js_ws CHR ''/''" by (simp add: js_ws_def)
  then obtain zs where "dropWhile js_ws (rev s @ [CHR ''/'']) = zs @ [CHR ''/'']"
    using dropWhile_snoc_not [of js_ws "CHR ''/''" "rev s"] by auto
  then show ?thesis using \<open>\<not> js_ws CHR ''/''\<close> by (simp add: trim_def b)
qed

lemma clean_absolute: "\<forall>b \<in> set bs. startsWith b ''/'' \<Longrightarrow> clean_paths e bs = Inr (map trim bs)"
  using trim_slash by (induction bs) auto

text \<open>A draft made from a discovered workload builds. Only the observed binaries with an absolute path
  go into it, so if there is one the server accepts the draft unchanged, and the policy it builds allows
  exactly the trimmed absolute paths.\<close>

theorem draft_builds:
  assumes "absolute_binaries wl \<noteq> []"
  shows "\<exists>tp. build_policy (prefilled (create_prefill answer wl)) action = Inr tp \<and>
     tp_name tp = wl_workloadName wl @ ''-policy'' \<and> tp_kind tp = ''TracingPolicyNamespaced'' \<and>
     tp_kprobes tp = [process_kprobe (Some TraceWhitelist) (map trim (absolute_binaries wl)) action]"
proof -
  let ?f = "prefilled (create_prefill answer wl)"
  have "\<forall>b \<in> set (absolute_binaries wl). startsWith b ''/''" by (simp add: absolute_binaries_def)
  note c = clean_absolute [OF this, of process_error]
  have p: "(case pf_process (create_prefill answer wl) of Some bs \<Rightarrow> bs | None \<Rightarrow> []) = absolute_binaries wl"
    "pf_name (create_prefill answer wl) = wl_workloadName wl @ ''-policy''"
    "pf_namespace (create_prefill answer wl) = (if wl_namespace wl \<noteq> [] then wl_namespace wl else ''default'')"
    using assms by (simp_all add: create_prefill_def)
  have f: "tf_process ?f = map (\<lambda>b. [b]) (absolute_binaries wl)" "tf_fileMode ?f = None" "tf_file ?f = []"
    "tf_processMode ?f = Some TraceWhitelist" "tf_name ?f = wl_workloadName wl @ ''-policy''"
    "tf_namespace ?f = Some (if wl_namespace wl \<noteq> [] then wl_namespace wl else ''default'')"
    unfolding prefilled_def p by (simp_all only: tracing_form.simps EMPTY_FORM_def)
  have s: "file_selectors ?f action = Inr []" by (simp only: file_selectors_def f) simp
  have ne: "(case tf_namespace ?f of Some n \<Rightarrow> n | None \<Rightarrow> []) \<noteq> []" by (simp add: f(6))
  have "map trim (absolute_binaries wl) \<noteq> []" using assms by simp
  then show ?thesis
    using ne by (simp only: build_policy_def f(1,4,5) kept_singles c s sum.case Let_def) simp
qed

theorem draft_builds_witness:
  "\<exists>tp. build_policy (prefilled (create_prefill (\<lambda>_. None) (new_group \<lparr> pp_namespace = ''shop'', pp_pod = ''web-1'',
     pp_workloadKind = ''Deployment'', pp_workloadName = ''web'', pp_binaries = Some [''nginx'', ''/usr/sbin/nginx''],
     pp_firstSeen = [], pp_lastSeen = [] \<rparr>))) ''Post'' = Inr tp \<and>
   tp_kprobes tp = [process_kprobe (Some TraceWhitelist) [''/usr/sbin/nginx''] ''Post'']"
proof -
  let ?wl = "new_group \<lparr> pp_namespace = ''shop'', pp_pod = ''web-1'', pp_workloadKind = ''Deployment'',
     pp_workloadName = ''web'', pp_binaries = Some [''nginx'', ''/usr/sbin/nginx''], pp_firstSeen = [], pp_lastSeen = [] \<rparr>"
  have a: "map trim (absolute_binaries ?wl) = [''/usr/sbin/nginx'']" by code_simp
  then have "absolute_binaries ?wl \<noteq> []" by auto
  from draft_builds [OF this] show ?thesis unfolding a by blast
qed

end
