(* ===== verification/EventPages.thy ===== *)
theory EventPages
  imports Events Utils PageBase
begin

text \<open>
  The pages that read the event streams: \<open>SecurityEventsPage.tsx\<close> with its export
  (\<open>exportEvents.ts\<close>), \<open>AdmissionEventsPage.tsx\<close>, \<open>AuditLogPage.tsx\<close>, and \<open>RelativeTime.tsx\<close>. The
  local time format is the browser's: \<open>fmt\<close>.
\<close>

section \<open>Times\<close>

text \<open>\<open>seen\<close> is the time in milliseconds, None when it does not parse.\<close>

definition RelativeTime :: "int \<Rightarrow> int option \<Rightarrow> string \<Rightarrow> string option" where
  "RelativeTime now seen stamp =
     (if stamp = [] then None
      else case seen of
        None \<Rightarrow> Some stamp
      | Some t \<Rightarrow>
          (let diffSec = nat (max 0 ((now - t) div 1000))
           in Some (if diffSec < 60 then ''just now''
                    else if diffSec < 3600 then show_nat (diffSec div 60) @ ''m ago''
                    else if diffSec < 86400 then show_nat (diffSec div 3600) @ ''h ago''
                    else show_nat (diffSec div 86400) @ ''d ago'')))"

section \<open>Pausing the stream\<close>

record pause_view =
  paused :: bool
  pendingCount :: nat
  pendingRef :: "display_event list"
  prevLength :: nat
  displayEvents :: "display_event list"

definition pause_init :: "display_event list \<Rightarrow> pause_view" where
  "pause_init allEvents = \<lparr> paused = False, pendingCount = 0, pendingRef = [], prevLength = length allEvents, displayEvents = [] \<rparr>"

text \<open>The effect that follows the stream and the pause flag.\<close>

definition pause_effect :: "display_event list \<Rightarrow> pause_view \<Rightarrow> pause_view" where
  "pause_effect allEvents st =
     (if paused st
      then (if length allEvents \<noteq> prevLength st
            then (let newOnes = filter (\<lambda>e. \<not> list_ex (\<lambda>d. ev_id d = ev_id e) (displayEvents st)) allEvents;
                      pending = newOnes @ pendingRef st
                  in st\<lparr> pendingRef := pending, pendingCount := length pending, prevLength := length allEvents \<rparr>)
            else st)
      else st\<lparr> displayEvents := allEvents, prevLength := length allEvents \<rparr>)"

definition shown_events :: "display_event list \<Rightarrow> pause_view \<Rightarrow> display_event list" where
  "shown_events allEvents st = (if paused st then displayEvents st else allEvents)"

text \<open>The button, with the effect that runs after it.\<close>

definition togglePause :: "display_event list \<Rightarrow> pause_view \<Rightarrow> pause_view" where
  "togglePause allEvents st =
     pause_effect allEvents
       (if paused st then st\<lparr> paused := False, pendingRef := [], pendingCount := 0, displayEvents := allEvents \<rparr>
        else st\<lparr> paused := True \<rparr>)"

section \<open>The security events page\<close>

definition opt_or :: "string option \<Rightarrow> string" where
  "opt_or v = (case v of Some s \<Rightarrow> s | None \<Rightarrow> [])"

definition rule_name :: "rule_type \<Rightarrow> string" where
  "rule_name t = (case t of FileRule \<Rightarrow> ''File'' | NetworkRule \<Rightarrow> ''Network'' | ProcessRule \<Rightarrow> ''Process'' | KernelRule \<Rightarrow> ''Kernel'')"

record event_filter =
  ef_severities :: "string list"
  ef_ruleTypes :: "string list"
  ef_namespaces :: "string list"
  ef_podSearch :: string

definition security_filtered :: "event_filter \<Rightarrow> display_event list \<Rightarrow> display_event list" where
  "security_filtered ef es = filter (\<lambda>e.
     matchesFilter (ef_severities ef) (Some (ev_severity e)) \<and>
     matchesFilter (ef_ruleTypes ef) (map_option rule_name (ruleType (opt_or (ev_function e)))) \<and>
     matchesScopeFilter ''namespaced'' (Some (ev_namespace e)) (ef_namespaces ef) \<and>
     (trim (ef_podSearch ef) = [] \<or> js_includes (to_lower (ev_pod e)) (to_lower (trim (ef_podSearch ef))))) es"

definition severity_count :: "string \<Rightarrow> display_event list \<Rightarrow> nat" where
  "severity_count s es = length (filter (\<lambda>e. ev_severity e = s) es)"

definition security_isFiltered :: "event_filter \<Rightarrow> bool" where
  "security_isFiltered ef \<longleftrightarrow> length (ef_severities ef) > 0 \<or> length (ef_ruleTypes ef) > 0 \<or>
     length (ef_namespaces ef) > 0 \<or> trim (ef_podSearch ef) \<noteq> []"

definition pod_key :: "string \<Rightarrow> string \<Rightarrow> string" where
  "pod_key ns pod = ns @ ''/'' @ pod"

text \<open>The contained pods; a failed load leaves the last known ones.\<close>

definition quarantined_loaded :: "quarantined_pod list option \<Rightarrow> string set \<Rightarrow> string set" where
  "quarantined_loaded res known =
     (case res of Some ps \<Rightarrow> set (map (\<lambda>p. pod_key (qp_namespace p) (qp_pod p)) ps) | None \<Rightarrow> known)"

definition isQuarantined :: "string set \<Rightarrow> display_event \<Rightarrow> bool" where
  "isQuarantined quarantined e \<longleftrightarrow> ev_pod e \<noteq> [] \<and> pod_key (ev_namespace e) (ev_pod e) \<in> quarantined"

definition toggle_expanded :: "string \<Rightarrow> string set \<Rightarrow> string set" where
  "toggle_expanded k open' = (if k \<in> open' then open' - {k} else insert k open')"

datatype quarantine_offer = NoOffer | AlreadyContained | OfferQuarantine

definition quarantine_action :: "bool \<Rightarrow> bool \<Rightarrow> display_event \<Rightarrow> quarantine_offer" where
  "quarantine_action quarantined isAdmin e =
     (if ev_pod e = [] \<or> ev_namespace e = [] then NoOffer
      else if quarantined then AlreadyContained
      else if \<not> isAdmin then NoOffer else OfferQuarantine)"

definition quarantine_run :: "display_event \<Rightarrow> effect list" where
  "quarantine_run e = [Send (quarantineApi_add (ev_namespace e) (ev_pod e))]"

text \<open>\<open>message\<close> is the error's, None when what was thrown is no error.\<close>

definition quarantine_done :: "display_event \<Rightarrow> string option option \<Rightarrow> effect list" where
  "quarantine_done e failed =
     (case failed of
        None \<Rightarrow> [ToastOk (((ev_pod e) @ '' quarantined. Network cut off, container left running.'')), Send quarantineApi_list]
      | Some (Some message) \<Rightarrow> [ToastErr message]
      | Some None \<Rightarrow> [ToastErr ((''Could not quarantine '' @ (ev_pod e)))])"

text \<open>The lines of an expanded event, in order.\<close>

definition given :: "string option \<Rightarrow> bool" where
  "given v \<longleftrightarrow> v \<noteq> None \<and> v \<noteq> Some []"

definition user_text :: "nat \<Rightarrow> string" where
  "user_text uid = (if uid = 0 then ''root (uid=0)'' else (''uid='' @ (show_nat uid)))"

definition item :: "string \<Rightarrow> string option \<Rightarrow> (string \<times> string) list" where
  "item label v = (if given v then [(label, opt_or v)] else [])"

definition parent_items :: "display_event \<Rightarrow> (string \<times> string) list" where
  "parent_items e =
     (if given (ev_parentBin e)
      then (let isRunc = js_includes (opt_or (ev_parentBin e)) ''runc''
            in [(''Parent'', if isRunc \<and> given (ev_arguments e)
                             then opt_or (ev_parentBin e) @ '' '' @ opt_or (ev_arguments e) else opt_or (ev_parentBin e))]
               @ (if \<not> isRunc then item ''Arguments'' (ev_arguments e) else []))
      else item ''Arguments'' (ev_arguments e))"

definition pod_items :: "display_event \<Rightarrow> (string \<times> string) list" where
  "pod_items e =
     (if ev_pod e \<noteq> []
      then [(''Pod / Container'', if given (ev_container e) then ev_pod e @ '' / '' @ opt_or (ev_container e) else ev_pod e)]
           @ (if js_includes (opt_or (ev_container e)) '', '' \<and> js_includes (opt_or (ev_function e)) ''deny''
              then [(''Container'', ''cannot be narrowed: all containers in a pod share one network namespace'')] else [])
      else [])"

definition detail_items :: "(string \<Rightarrow> string) \<Rightarrow> display_event \<Rightarrow> (string \<times> string) list" where
  "detail_items fmt e =
     (let isInbound = (ev_function e = Some ''inet_csk_accept'')
      in (if given (ev_filePath e)
          then [(if given (ev_fileOp e) then (''File ('' @ (opt_or (ev_fileOp e)) @ '')'') else ''File'', opt_or (ev_filePath e))] else [])
         @ item (if isInbound then ''Inbound From'' else ''Destination'') (ev_netDest e)
         @ item (if isInbound then ''Service Port'' else ''Source'') (ev_netSrc e)
         @ item ''Binary'' (ev_binary e)
         @ parent_items e
         @ (case ev_processUid e of Some uid \<Rightarrow> [(''User'', user_text uid)] | None \<Rightarrow> [])
         @ item ''Namespace'' (Some (ev_namespace e))
         @ pod_items e
         @ item ''Policy'' (ev_policyName e)
         @ item ''Function'' (ev_function e)
         @ item ''Hook'' (ev_hook e)
         @ item ''Drop Reason'' (ev_dropReason e)
         @ item ''Node'' (ev_nodeName e)
         @ [(''Time'', fmt (ev_time e))])"

section \<open>Export\<close>

definition char_upper :: "char \<Rightarrow> char" where
  "char_upper c = (if is_lower c then char_of (of_char c - 32 :: nat) else c)"

definition userLabel :: "nat option \<Rightarrow> string" where
  "userLabel uid = (case uid of None \<Rightarrow> [] | Some n \<Rightarrow> user_text n)"

definition EXPORT_COLUMNS :: "string list" where
  "EXPORT_COLUMNS = [''Time'', ''Severity'', ''Rule'', ''Namespace'', ''Pod'', ''Binary'', ''Policy'', ''Node'', ''User'',
     ''File Op'', ''File Path'', ''Destination'', ''Source'']"

definition toRow :: "display_event \<Rightarrow> string list" where
  "toRow e = [ev_time e, map char_upper (ev_severity e),
     (case ruleType (opt_or (ev_function e)) of Some t \<Rightarrow> rule_name t | None \<Rightarrow> []),
     ev_namespace e, ev_pod e @ (if given (ev_container e) then '' / '' @ opt_or (ev_container e) else []),
     opt_or (ev_binary e), opt_or (ev_policyName e), opt_or (ev_nodeName e), userLabel (ev_processUid e),
     opt_or (ev_fileOp e), opt_or (ev_filePath e), opt_or (ev_netDest e), opt_or (ev_netSrc e)]"

definition export_text :: "display_event list \<Rightarrow> string" where
  "export_text es = csv_text EXPORT_COLUMNS (map toRow es)"

section \<open>The admission events page\<close>

record admission_filter =
  af_search :: string
  af_namespaces :: "string list"
  af_severities :: "string list"
  af_sources :: "string list"

definition admission_filter_init :: admission_filter where
  "admission_filter_init = \<lparr> af_search = [], af_namespaces = [], af_severities = [], af_sources = [''audit''] \<rparr>"

definition sourceVisible :: "admission_filter \<Rightarrow> admission_event list \<Rightarrow> admission_event list" where
  "sourceVisible af es = filter (\<lambda>e. matchesFilter (af_sources af) (Some (ae_source e))) es"

definition set_sources :: "string list \<Rightarrow> admission_filter \<Rightarrow> admission_filter" where
  "set_sources v af = af\<lparr> af_sources := v, af_namespaces := [] \<rparr>"

definition admission_filtered :: "admission_filter \<Rightarrow> admission_event list \<Rightarrow> admission_event list" where
  "admission_filtered af es = filter (\<lambda>e.
     matchesScopeFilter ''namespaced'' (Some (ae_namespace e)) (af_namespaces af) \<and>
     matchesFilter (af_severities af) (Some (ae_severity e)) \<and>
     matchesFilter (af_sources af) (Some (ae_source e)) \<and>
     (af_search af = [] \<or> (let q = to_lower (af_search af) in js_includes (to_lower (ae_involvedName e)) q
        \<or> js_includes (to_lower (ae_name e)) q \<or> js_includes (to_lower (ae_policyName e)) q))) es"

definition admission_isFiltered :: "admission_filter \<Rightarrow> bool" where
  "admission_isFiltered af \<longleftrightarrow> length (af_severities af) > 0 \<or> af_sources af \<noteq> [''audit''] \<or>
     length (af_namespaces af) > 0 \<or> trim (af_search af) \<noteq> []"

section \<open>The audit log\<close>

definition statusText :: "int \<Rightarrow> string" where
  "statusText status =
     (if status \<ge> 200 \<and> status < 300 then ''Success''
      else if status = 400 then ''Rejected''
      else if status = 401 then ''Unauthorized''
      else if status = 403 then ''Denied''
      else if status = 404 then ''Not found''
      else if status = 409 then ''Conflict''
      else if status = 429 then ''Rate limited''
      else if status \<ge> 500 then ''Error'' else ''Failed'')"

definition audit_filtered :: "string \<Rightarrow> audit_entry list \<Rightarrow> audit_entry list" where
  "audit_filtered search es =
     (let q = to_lower (trim search)
      in if q \<noteq> [] then filter (\<lambda>e. js_includes (to_lower (ae_user e)) q \<or> js_includes (to_lower (ae_action e)) q
            \<or> js_includes (to_lower (opt_or (ae_target e))) q) es
         else es)"

definition audit_rows :: "(string \<Rightarrow> string) \<Rightarrow> audit_entry list \<Rightarrow> string list list" where
  "audit_rows fmt es = map (\<lambda>e. [fmt (audit_entry.ae_time e), ae_user e, ae_action e, opt_or (ae_target e),
     statusText (ae_status e), ae_method e, ae_path e]) es"

definition audit_csv :: "(string \<Rightarrow> string) \<Rightarrow> string \<Rightarrow> audit_entry list \<Rightarrow> string" where
  "audit_csv fmt search es =
     csv_text [''Time'', ''User'', ''Action'', ''Target'', ''Status'', ''Method'', ''Path''] (audit_rows fmt (audit_filtered search es))"

section \<open>What the pause counts\<close>

text \<open>Events that arrive one by one while the view is paused, newest first in the buffer.\<close>

fun arrivals :: "display_event list \<Rightarrow> display_event list \<Rightarrow> pause_view \<Rightarrow> pause_view" where
  "arrivals buffer [] st = st"
| "arrivals buffer (e # es) st = arrivals (e # buffer) es (pause_effect (e # buffer) st)"

text \<open>The effect counts every event that is not on screen again at each arrival, so n events are
  announced as n (n + 1) / 2.\<close>

lemma pause_overcounts:
  assumes "paused st" "displayEvents st = shown" "pendingRef st = []" "prevLength st = length shown"
    and "distinct (map ev_id (rev es @ shown))"
  shows "2 * length (pendingRef (arrivals shown es st)) = length es * (length es + 1)"
proof -
  have "2 * length (pendingRef (arrivals (new @ shown) es st)) =
      2 * length (pendingRef st) + (length new + length es) * (length new + length es + 1) - length new * (length new + 1)"
    if "paused st" "displayEvents st = shown" "prevLength st = length (new @ shown)" "distinct (map ev_id (rev es @ new @ shown))"
    for new st
    using that
  proof (induction es arbitrary: new st)
    case (Cons e es)
    have keep: "filter (\<lambda>x. \<not> list_ex (\<lambda>d. ev_id d = ev_id x) shown) (e # new @ shown) = e # new"
    proof -
      have "filter (\<lambda>x. \<not> list_ex (\<lambda>d. ev_id d = ev_id x) shown) (e # new) = e # new"
        unfolding filter_id_conv list_ex_iff
      proof (intro ballI notI, elim bexE)
        fix x d assume "x \<in> set (e # new)" "d \<in> set shown" "ev_id d = ev_id x"
        then have "ev_id x \<in> ev_id ` set (e # new)" "ev_id x \<in> ev_id ` set shown" by (metis imageI)+
        then show False using Cons.prems(4) by auto
      qed
      moreover have "filter (\<lambda>x. \<not> list_ex (\<lambda>d. ev_id d = ev_id x) shown) shown = []"
        by (subst filter_empty_conv) (auto simp: list_ex_iff)
      ultimately show ?thesis by (metis append_Cons append_Nil2 filter_append)
    qed
    let ?st = "pause_effect (e # new @ shown) st"
    have "paused ?st" "displayEvents ?st = shown" "prevLength ?st = length ((e # new) @ shown)"
      "length (pendingRef ?st) = Suc (length new) + length (pendingRef st)"
      using Cons.prems keep by (simp_all add: pause_effect_def Let_def)
    then show ?case using Cons.IH [of ?st "e # new"] Cons.prems(4) by (simp add: algebra_simps)
  qed simp
  from this [of st "[]"] show ?thesis using assms by simp
qed

text \<open>At the cap the buffer keeps its length, and nothing is counted at all.\<close>

lemma pause_undercounts: "paused st \<Longrightarrow> length allEvents = prevLength st \<Longrightarrow> pause_effect allEvents st = st"
  by (simp add: pause_effect_def)

text \<open>Resuming shows the live buffer and starts counting from zero.\<close>

lemma resume_shows_all:
  "paused st \<Longrightarrow> shown_events es (togglePause es st) = es \<and> pendingCount (togglePause es st) = 0"
  by (simp add: togglePause_def pause_effect_def shown_events_def)

end
