(* ===== verification/Notify.thy ===== *)
theory Notify
  imports PageBase
begin

text \<open>
  The two pages that send events elsewhere: \<open>web/src/pages/AlertsPage.tsx\<close> (webhooks) and
  \<open>RsyslogPage.tsx\<close>, each with its form, its routes and its handlers. Both keep the same routes, so the
  contract of an edit route is stated once.
\<close>

section \<open>The comma-separated fields\<close>

text \<open>What the field shows for a list, and the list it makes of what is typed.\<close>

definition comma_show :: "string list \<Rightarrow> string" where
  "comma_show xs = join_with '','' xs"

definition comma_read :: "string \<Rightarrow> string list" where
  "comma_read v = filter (\<lambda>s. s \<noteq> []) (map trim (split_on (CHR '','') v))"

text \<open>One key typed at the end of the field: the field shows the list, and the change is read back.\<close>

definition type_key :: "char \<Rightarrow> string list \<Rightarrow> string list" where
  "type_key c xs = comma_read (comma_show xs @ [c])"

definition parseInt_or :: "int \<Rightarrow> string \<Rightarrow> int" where
  "parseInt_or d v = (case parseInt v of None \<Rightarrow> d | Some n \<Rightarrow> if n = 0 then d else n)"

section \<open>Edit routes\<close>

datatype 'r config_screen = ListScreen | NoScreen | FormScreen "'r option"

text \<open>A page whose items are edited under a route of their own: \<open>known\<close> says whether the list has
  loaded, \<open>target\<close> finds the item an address names.\<close>

locale edit_route =
  fixes known :: "'s \<Rightarrow> bool"
    and target :: "string option \<Rightarrow> 's \<Rightarrow> 'r option"
    and screen :: "bool \<Rightarrow> bool \<Rightarrow> string option \<Rightarrow> 's \<Rightarrow> 'r config_screen"
    and deep_link :: "string option \<Rightarrow> 's \<Rightarrow> effect list"
  assumes viewer_list: "screen False isNew eid s = ListScreen"
    and list_route: "screen adm False None s = ListScreen"
    and new_route: "screen True True None s = FormScreen None"
    and edit_screen: "e \<noteq> [] \<Longrightarrow> screen True isNew (Some e) s =
      (case target (Some e) s of None \<Rightarrow> NoScreen | Some r \<Rightarrow> FormScreen (Some r))"
    and leaves: "e \<noteq> [] \<Longrightarrow> deep_link (Some e) s \<noteq> [] \<longleftrightarrow> known s \<and> target (Some e) s = None"
begin

text \<open>Once the list has loaded, an address shows the item it names or the page leaves it.\<close>

lemma resolves:
  "e \<noteq> [] \<Longrightarrow> known s \<Longrightarrow> (\<exists>r. screen True isNew (Some e) s = FormScreen (Some r)) \<noteq> (deep_link (Some e) s \<noteq> [])"
  by (simp add: edit_screen leaves split: option.splits)

text \<open>Until it has, the page is empty and stays where it is.\<close>

lemma blank: "e \<noteq> [] \<Longrightarrow> \<not> known s \<Longrightarrow> target (Some e) s = None \<Longrightarrow>
    screen True isNew (Some e) s = NoScreen \<and> deep_link (Some e) s = []"
  using leaves [of e s] by (simp add: edit_screen)

end

section \<open>Alert rules\<close>

definition EMPTY_RULE :: alert_rule where
  "EMPTY_RULE = \<lparr> al_id = [], al_name = [], webhookURL = [], al_eventTypes = [''security'', ''admission''],
     al_severities = [''warning'', ''critical''], al_namespaces = [], al_policies = [], cooldownMin = 5, al_enabled = True \<rparr>"

definition alert_toggleSeverity :: "string \<Rightarrow> alert_rule \<Rightarrow> alert_rule" where
  "alert_toggleSeverity s f = f\<lparr> al_severities := toggle_key (al_severities f) s \<rparr>"

definition alert_toggleEventType :: "string \<Rightarrow> alert_rule \<Rightarrow> alert_rule" where
  "alert_toggleEventType t f = f\<lparr> al_eventTypes := toggle_key (al_eventTypes f) t \<rparr>"

definition alert_setCooldown :: "string \<Rightarrow> alert_rule \<Rightarrow> alert_rule" where
  "alert_setCooldown v f = f\<lparr> cooldownMin := parseInt_or 0 v \<rparr>"

definition alert_setNamespaces :: "string \<Rightarrow> alert_rule \<Rightarrow> alert_rule" where
  "alert_setNamespaces v f = f\<lparr> al_namespaces := comma_read v \<rparr>"

definition alert_setPolicies :: "string \<Rightarrow> alert_rule \<Rightarrow> alert_rule" where
  "alert_setPolicies v f = f\<lparr> al_policies := comma_read v \<rparr>"

record alerts_page =
  ap_rules :: "alert_rule list"
  ap_loaded :: bool
  ap_deleteTarget :: "alert_rule option"
  ap_saving :: bool
  ap_testing :: "string option"

definition alerts_init :: alerts_page where
  "alerts_init = \<lparr> ap_rules = [], ap_loaded = False, ap_deleteTarget = None, ap_saving = False, ap_testing = None \<rparr>"

text \<open>The answer of the list request; a failure is ignored.\<close>

definition alerts_load_done :: "alert_rule list option \<Rightarrow> alerts_page \<Rightarrow> alerts_page" where
  "alerts_load_done res st = (case res of None \<Rightarrow> st | Some rs \<Rightarrow> st\<lparr> ap_rules := rs, ap_loaded := True \<rparr>)"

definition some_id :: "string option \<Rightarrow> bool" where
  "some_id editId \<longleftrightarrow> editId \<noteq> None \<and> editId \<noteq> Some []"

definition alert_target :: "string option \<Rightarrow> alerts_page \<Rightarrow> alert_rule option" where
  "alert_target editId st =
     (if some_id editId then find (\<lambda>r. Some (al_id r) = editId) (ap_rules st) else None)"

definition alerts_deep_link :: "string option \<Rightarrow> alerts_page \<Rightarrow> effect list" where
  "alerts_deep_link editId st =
     (if some_id editId \<and> ap_loaded st \<and> alert_target editId st = None
      then [ToastErr ''That alert rule no longer exists.'', NavigateReplace ''/security/alerts''] else [])"

definition alerts_screen :: "bool \<Rightarrow> bool \<Rightarrow> string option \<Rightarrow> alerts_page \<Rightarrow> alert_rule config_screen" where
  "alerts_screen isAdmin isNew editId st =
     (if isAdmin \<and> (isNew \<or> some_id editId)
      then (if some_id editId \<and> alert_target editId st = None then NoScreen else FormScreen (alert_target editId st))
      else ListScreen)"

text \<open>Save: the button is disabled while a save is under way or a required field is blank; it updates
  the rule the address names and creates one otherwise.\<close>

definition alert_save_start :: "string option \<Rightarrow> alert_rule \<Rightarrow> alerts_page \<Rightarrow> alerts_page \<times> effect list" where
  "alert_save_start editId form st =
     (if ap_saving st \<or> trim (al_name form) = [] \<or> trim (webhookURL form) = [] then (st, [])
      else (st\<lparr> ap_saving := True \<rparr>,
            [Send (case alert_target editId st of
                     Some r \<Rightarrow> alertsApi_update (al_id r) (form\<lparr> al_id := al_id r \<rparr>)
                   | None \<Rightarrow> alertsApi_create form)]))"

definition alert_save_done :: "bool \<Rightarrow> outcome \<Rightarrow> alerts_page \<Rightarrow> alerts_page \<times> effect list" where
  "alert_save_done updating res st = (st\<lparr> ap_saving := False \<rparr>,
     (case res of
        Done \<Rightarrow> [ToastOk (if updating then ''Alert rule updated.'' else ''Alert rule created.''),
                 Send alertsApi_list, Navigate ''/security/alerts'']
      | Refused _ _ \<Rightarrow> [ToastErr (if updating then ''Failed to update alert rule'' else ''Failed to create alert rule'')]))"

definition alert_toggle :: "alert_rule \<Rightarrow> effect list" where
  "alert_toggle rule = [Send (alertsApi_update (al_id rule) (rule\<lparr> al_enabled := \<not> al_enabled rule \<rparr>))]"

definition alert_toggle_done :: "outcome \<Rightarrow> effect list" where
  "alert_toggle_done res = (case res of Done \<Rightarrow> [Send alertsApi_list] | Refused _ _ \<Rightarrow> [ToastErr ''Failed to toggle rule''])"

definition alert_delete :: "alerts_page \<Rightarrow> effect list" where
  "alert_delete st = (case ap_deleteTarget st of None \<Rightarrow> [] | Some r \<Rightarrow> [Send (alertsApi_delete (al_id r))])"

definition alert_delete_done :: "outcome \<Rightarrow> alerts_page \<Rightarrow> alerts_page \<times> effect list" where
  "alert_delete_done res st =
     (case res of
        Done \<Rightarrow> (st\<lparr> ap_deleteTarget := None \<rparr>, [ToastOk ''Alert rule deleted.'', Send alertsApi_list])
      | Refused _ _ \<Rightarrow> (st, [ToastErr ''Failed to delete alert rule'']))"

definition alert_test :: "alert_rule \<Rightarrow> alerts_page \<Rightarrow> alerts_page \<times> effect list" where
  "alert_test rule st = (st\<lparr> ap_testing := Some (al_id rule) \<rparr>, [Send (alertsApi_test (webhookURL rule))])"

text \<open>\<open>failed\<close> is None when the test went through, and else the message of the error, if what was
  thrown is one.\<close>

definition alert_test_done :: "string option option \<Rightarrow> alerts_page \<Rightarrow> alerts_page \<times> effect list" where
  "alert_test_done failed st = (st\<lparr> ap_testing := None \<rparr>,
     [case failed of
        None \<Rightarrow> ToastOk ''Test payload sent successfully.''
      | Some msg \<Rightarrow> ToastErr (case msg of Some m \<Rightarrow> m | None \<Rightarrow> ''Test failed'')])"

interpretation alert_route: edit_route ap_loaded alert_target alerts_screen alerts_deep_link
  by unfold_locales (auto simp: alerts_screen_def alert_target_def alerts_deep_link_def some_id_def split: option.splits)

interpretation alert_flight: single_flight ap_saving "alert_save_start eid form" "alert_save_done u" for eid form u
  by unfold_locales
    (auto simp: alert_save_start_def alert_save_done_def written_def alertsApi_update_def alertsApi_create_def
      alertsApi_list_def api_put_def api_post_def api_get_def split: option.splits outcome.splits)

section \<open>Log forwarding\<close>

definition EMPTY_CONFIG :: rsyslog_config where
  "EMPTY_CONFIG = \<lparr> rs_id = [], rs_name = [], rs_host = [], rs_port = 514, rs_protocol = Udp, facility = 16,
     rs_eventTypes = [''security'', ''admission''], rs_severities = [''warning'', ''critical''],
     rs_namespaces = [], rs_policies = [], rs_enabled = True \<rparr>"

definition rsyslog_toggleSeverity :: "string \<Rightarrow> rsyslog_config \<Rightarrow> rsyslog_config" where
  "rsyslog_toggleSeverity s f = f\<lparr> rs_severities := toggle_key (rs_severities f) s \<rparr>"

definition rsyslog_toggleEventType :: "string \<Rightarrow> rsyslog_config \<Rightarrow> rsyslog_config" where
  "rsyslog_toggleEventType t f = f\<lparr> rs_eventTypes := toggle_key (rs_eventTypes f) t \<rparr>"

definition rsyslog_setPort :: "string \<Rightarrow> rsyslog_config \<Rightarrow> rsyslog_config" where
  "rsyslog_setPort v f = f\<lparr> rs_port := parseInt_or 514 v \<rparr>"

definition rsyslog_setNamespaces :: "string \<Rightarrow> rsyslog_config \<Rightarrow> rsyslog_config" where
  "rsyslog_setNamespaces v f = f\<lparr> rs_namespaces := comma_read v \<rparr>"

definition rsyslog_setPolicies :: "string \<Rightarrow> rsyslog_config \<Rightarrow> rsyslog_config" where
  "rsyslog_setPolicies v f = f\<lparr> rs_policies := comma_read v \<rparr>"

record rsyslog_page =
  rp_configs :: "rsyslog_config list"
  rp_loaded :: bool
  rp_deleteTarget :: "rsyslog_config option"
  rp_saving :: bool
  rp_testing :: "string option"

definition rsyslog_init :: rsyslog_page where
  "rsyslog_init = \<lparr> rp_configs = [], rp_loaded = False, rp_deleteTarget = None, rp_saving = False, rp_testing = None \<rparr>"

definition rsyslog_load_done :: "rsyslog_config list option \<Rightarrow> rsyslog_page \<Rightarrow> rsyslog_page" where
  "rsyslog_load_done res st = (case res of None \<Rightarrow> st | Some cs \<Rightarrow> st\<lparr> rp_configs := cs, rp_loaded := True \<rparr>)"

definition rsyslog_target :: "string option \<Rightarrow> rsyslog_page \<Rightarrow> rsyslog_config option" where
  "rsyslog_target editId st =
     (if some_id editId then find (\<lambda>c. Some (rs_id c) = editId) (rp_configs st) else None)"

definition rsyslog_deep_link :: "string option \<Rightarrow> rsyslog_page \<Rightarrow> effect list" where
  "rsyslog_deep_link editId st =
     (if some_id editId \<and> rp_loaded st \<and> rsyslog_target editId st = None
      then [ToastErr ''That syslog config no longer exists.'', NavigateReplace ''/security/rsyslog''] else [])"

definition rsyslog_screen :: "bool \<Rightarrow> bool \<Rightarrow> string option \<Rightarrow> rsyslog_page \<Rightarrow> rsyslog_config config_screen" where
  "rsyslog_screen isAdmin isNew editId st =
     (if isAdmin \<and> (isNew \<or> some_id editId)
      then (if some_id editId \<and> rsyslog_target editId st = None then NoScreen else FormScreen (rsyslog_target editId st))
      else ListScreen)"

definition rsyslog_save_start :: "string option \<Rightarrow> rsyslog_config \<Rightarrow> rsyslog_page \<Rightarrow> rsyslog_page \<times> effect list" where
  "rsyslog_save_start editId form st =
     (if rp_saving st \<or> trim (rs_name form) = [] \<or> trim (rs_host form) = [] then (st, [])
      else (st\<lparr> rp_saving := True \<rparr>,
            [Send (case rsyslog_target editId st of
                     Some c \<Rightarrow> rsyslogApi_update (rs_id c) (form\<lparr> rs_id := rs_id c \<rparr>)
                   | None \<Rightarrow> rsyslogApi_create form)]))"

definition rsyslog_save_done :: "bool \<Rightarrow> outcome \<Rightarrow> rsyslog_page \<Rightarrow> rsyslog_page \<times> effect list" where
  "rsyslog_save_done updating res st = (st\<lparr> rp_saving := False \<rparr>,
     (case res of
        Done \<Rightarrow> [ToastOk (if updating then ''rsyslog config updated.'' else ''rsyslog config created.''),
                 Send rsyslogApi_list, Navigate ''/security/rsyslog'']
      | Refused _ _ \<Rightarrow> [ToastErr (if updating then ''Failed to update rsyslog config'' else ''Failed to create rsyslog config'')]))"

definition rsyslog_toggle :: "rsyslog_config \<Rightarrow> effect list" where
  "rsyslog_toggle cfg = [Send (rsyslogApi_update (rs_id cfg) (cfg\<lparr> rs_enabled := \<not> rs_enabled cfg \<rparr>))]"

definition rsyslog_toggle_done :: "outcome \<Rightarrow> effect list" where
  "rsyslog_toggle_done res = (case res of Done \<Rightarrow> [Send rsyslogApi_list] | Refused _ _ \<Rightarrow> [ToastErr ''Failed to toggle config''])"

definition rsyslog_delete :: "rsyslog_page \<Rightarrow> effect list" where
  "rsyslog_delete st = (case rp_deleteTarget st of None \<Rightarrow> [] | Some c \<Rightarrow> [Send (rsyslogApi_delete (rs_id c))])"

definition rsyslog_delete_done :: "outcome \<Rightarrow> rsyslog_page \<Rightarrow> rsyslog_page \<times> effect list" where
  "rsyslog_delete_done res st =
     (case res of
        Done \<Rightarrow> (st\<lparr> rp_deleteTarget := None \<rparr>, [ToastOk ''rsyslog config deleted.'', Send rsyslogApi_list])
      | Refused _ _ \<Rightarrow> (st, [ToastErr ''Failed to delete rsyslog config'']))"

definition rsyslog_test :: "rsyslog_config \<Rightarrow> rsyslog_page \<Rightarrow> rsyslog_page \<times> effect list" where
  "rsyslog_test cfg st = (st\<lparr> rp_testing := Some (rs_id cfg) \<rparr>,
     [Send (rsyslogApi_test (JObj [(''host'', JStr (rs_host cfg)), (''port'', JNum (rs_port cfg)),
        (''protocol'', JStr (case rs_protocol cfg of Udp \<Rightarrow> ''udp'' | Tcp \<Rightarrow> ''tcp'')), (''facility'', JNum (facility cfg))]))])"

text \<open>\<open>res\<close> is the server's message, or the response text, if there is one, with the message of the
  error, if what was thrown is one.\<close>

definition rsyslog_test_done :: "(string option \<times> string option) + string \<Rightarrow> rsyslog_page \<Rightarrow> rsyslog_page \<times> effect list" where
  "rsyslog_test_done res st = (st\<lparr> rp_testing := None \<rparr>,
     [case res of
        Inr message \<Rightarrow> ToastOk message
      | Inl (data, message) \<Rightarrow>
          ToastErr (case data of
              Some d \<Rightarrow> if trim d \<noteq> [] then trim d else (case message of Some m \<Rightarrow> m | None \<Rightarrow> ''Connection failed'')
            | None \<Rightarrow> (case message of Some m \<Rightarrow> m | None \<Rightarrow> ''Connection failed''))])"

interpretation rsyslog_route: edit_route rp_loaded rsyslog_target rsyslog_screen rsyslog_deep_link
  by unfold_locales (auto simp: rsyslog_screen_def rsyslog_target_def rsyslog_deep_link_def some_id_def split: option.splits)

interpretation rsyslog_flight: single_flight rp_saving "rsyslog_save_start eid form" "rsyslog_save_done u" for eid form u
  by unfold_locales
    (auto simp: rsyslog_save_start_def rsyslog_save_done_def written_def rsyslogApi_update_def rsyslogApi_create_def
      rsyslogApi_list_def api_put_def api_post_def api_get_def split: option.splits outcome.splits)

section \<open>Properties\<close>

text \<open>A key at the end of one entry: blanks and commas vanish at once, everything else is appended.\<close>

definition name_char :: "char \<Rightarrow> bool" where
  "name_char c \<longleftrightarrow> c \<noteq> CHR '','' \<and> \<not> js_ws c"

definition one_entry :: "string \<Rightarrow> string list" where
  "one_entry s = (if s = [] then [] else [s])"

lemma trim_blank: "js_ws c \<Longrightarrow> \<forall>x \<in> set s. \<not> js_ws x \<Longrightarrow> trim (s @ [c]) = s"
proof (cases s rule: rev_cases)
  case (snoc t x)
  assume "js_ws c" "\<forall>y \<in> set s. \<not> js_ws y"
  with snoc show ?thesis by (cases t) (simp_all add: trim_def)
qed (simp add: trim_def)

lemma type_key_entry:
  assumes "\<forall>x \<in> set s. name_char x"
  shows "type_key c (one_entry s) = one_entry (if name_char c then s @ [c] else s)"
proof -
  have free: "CHR '','' \<notin> set s" and solid: "\<forall>x \<in> set s. \<not> js_ws x" using assms by (auto simp: name_char_def)
  have key: "type_key c (one_entry s) = comma_read (s @ [c])" by (simp add: type_key_def comma_show_def one_entry_def)
  show ?thesis
  proof (cases "c = CHR '',''")
    case True
    then show ?thesis using split_on_append [OF free, of "[]"] trim_no_ws [OF solid]
      unfolding key by (simp add: comma_read_def one_entry_def name_char_def)
  next
    case False
    then have one: "split_on (CHR '','') (s @ [c]) = [s @ [c]]" using free by (intro split_on_free) auto
    show ?thesis
    proof (cases "js_ws c")
      case True
      then show ?thesis using one trim_blank [OF True solid]
        unfolding key by (simp add: comma_read_def one_entry_def name_char_def)
    next
      case solid_c: False
      then have "trim (s @ [c]) = s @ [c]" using solid by (intro trim_no_ws) auto
      then show ?thesis using one False solid_c
        unfolding key by (simp add: comma_read_def one_entry_def name_char_def)
    qed
  qed
qed

text \<open>C27: a list of namespaces or policies cannot be typed. Typed key by key, whatever text, the
  field ends with at most one entry: the typed characters without the commas and blanks. Typing the
  text of the field's own placeholder makes a rule for a namespace that does not exist.\<close>

theorem typed_list_collapses:
  "fold type_key s [] = one_entry (filter name_char s)"
proof -
  have "fold type_key s (one_entry t) = one_entry (t @ filter name_char s)" if "\<forall>x \<in> set t. name_char x" for t
    using that
  proof (induction s arbitrary: t)
    case (Cons c s)
    then show ?case using type_key_entry [OF Cons.prems, of c] by (cases "name_char c") simp_all
  qed simp
  from this [of "[]"] show ?thesis by (simp add: one_entry_def)
qed

text \<open>Pasted as a whole, the list is read.\<close>

lemma pasted_list_read:
  "\<forall>w \<in> set ws. w \<noteq> [] \<and> (\<forall>c \<in> set w. name_char c) \<Longrightarrow> comma_read (comma_show ws) = ws"
proof (induction ws)
  case Nil
  then show ?case by (simp add: comma_show_def comma_read_def)
next
  case (Cons w ws)
  then have w: "w \<noteq> []" "CHR '','' \<notin> set w" "trim w = w" by (auto simp: name_char_def intro: trim_no_ws)
  show ?case
  proof (cases ws)
    case Nil
    then show ?thesis using w by (simp add: comma_show_def comma_read_def split_on_free)
  next
    case (Cons v vs)
    then show ?thesis using w Cons.IH Cons.prems split_on_append [OF w(2)]
      by (simp add: comma_show_def comma_read_def)
  qed
qed

end
