(* ===== verification/AppShell.thy ===== *)
theory AppShell
  imports PageBase ApiRoutes
begin

text \<open>
  The frame around the pages: the signed-in user (\<open>web/src/layout/AuthContext.tsx\<close>), what \<open>App.tsx\<close> puts
  on screen and its route table, the navigation (\<open>AppSidebar.tsx\<close>) and the header's trail and mode badge
  (\<open>AppHeader.tsx\<close>). Which route an address takes is the subject of \<open>Navigation\<close>, the sidebar's own state that of \<open>Frame\<close>.
\<close>

section \<open>The signed-in user\<close>

record auth_user =
  au_username :: string
  au_role :: user_role
  mustChangePassword :: bool

record auth_state =
  auth_user :: "auth_user option"
  auth_loading :: bool

definition auth_init :: auth_state where
  "auth_init = \<lparr> auth_user = None, auth_loading = True \<rparr>"

text \<open>The answer of \<open>/auth/me\<close>, None when the request failed: on mounting, and on \<open>refresh\<close>.\<close>

definition auth_mounted :: "auth_user option \<Rightarrow> auth_state \<Rightarrow> auth_state" where
  "auth_mounted me st = st\<lparr> auth_user := me, auth_loading := False \<rparr>"

definition auth_refreshed :: "auth_user option \<Rightarrow> auth_state \<Rightarrow> auth_state" where
  "auth_refreshed me st = st\<lparr> auth_user := me \<rparr>"

text \<open>Signing out, once the request has ended, well or not.\<close>

definition auth_logged_out :: "outcome \<Rightarrow> auth_state \<Rightarrow> auth_state" where
  "auth_logged_out r st = st\<lparr> auth_user := None \<rparr>"

definition is_admin :: "auth_state \<Rightarrow> bool" where
  "is_admin st \<longleftrightarrow> map_option au_role (auth_user st) = Some Admin"

section \<open>What is on screen\<close>

datatype app_view = NothingYet | SignIn | ForcedChange string | Console auth_user

definition AppRoutes :: "auth_state \<Rightarrow> app_view" where
  "AppRoutes st =
     (if auth_loading st then NothingYet
      else case auth_user st of
        None \<Rightarrow> SignIn
      | Some u \<Rightarrow> if mustChangePassword u then ForcedChange (au_username u) else Console u)"

datatype console_page = DashboardPage | PolicyListPage | PolicyEditPage | PolicyTemplatesPage | ModePage | TetragonStatusPage
  | SecurityEventsPage | DiscoveryPage | UsersPage | AlertsPage | RsyslogPage | SecurityRetentionPage | AuditLogPage
  | AdmissionEventsPage | VAPPage | CNPPage | QuarantinePage | NetworkTopologyPage

datatype route_target = Page console_page | RedirectTo string

definition APP_ROUTES :: "(string \<times> route_target) list" where
  "APP_ROUTES = [
     (''/'', RedirectTo ''/dashboard''),
     (''/dashboard'', Page DashboardPage),
     (''/policies'', RedirectTo ''/policies/tracing''),
     (''/policies/tracing'', Page PolicyListPage),
     (''/policies/tracing/new'', Page PolicyEditPage),
     (''/policies/templates'', Page PolicyTemplatesPage),
     (''/policies/tracing/:name/edit'', Page PolicyEditPage),
     (''/cluster/mode'', Page ModePage),
     (''/cluster/tetragon'', Page TetragonStatusPage),
     (''/security/events'', Page SecurityEventsPage),
     (''/security/discovery'', Page DiscoveryPage),
     (''/settings/users'', Page UsersPage),
     (''/settings/users/new'', Page UsersPage),
     (''/security/alerts'', Page AlertsPage),
     (''/security/alerts/new'', Page AlertsPage),
     (''/security/alerts/:id/edit'', Page AlertsPage),
     (''/security/rsyslog'', Page RsyslogPage),
     (''/security/rsyslog/new'', Page RsyslogPage),
     (''/security/rsyslog/:id/edit'', Page RsyslogPage),
     (''/settings/retention'', Page SecurityRetentionPage),
     (''/settings/audit'', Page AuditLogPage),
     (''/security/admission'', Page AdmissionEventsPage),
     (''/policies/admission'', Page VAPPage),
     (''/policies/admission/new'', Page VAPPage),
     (''/policies/admission/:name/edit'', Page VAPPage),
     (''/policies/admission/bindings/new'', Page VAPPage),
     (''/policies/admission/bindings/:name/edit'', Page VAPPage),
     (''/policies/network'', Page CNPPage),
     (''/policies/network/new'', Page CNPPage),
     (''/policies/network/:name/edit'', Page CNPPage),
     (''/policies/quarantine'', Page QuarantinePage),
     (''/network/topology'', Page NetworkTopologyPage),
     (''*'', RedirectTo ''/dashboard'')]"

section \<open>Navigation\<close>

record nav_item =
  nav_to :: string
  nav_label :: string
  nav_adminOnly :: bool

record nav_group =
  group_label :: string
  group_items :: "nav_item list"
  group_adminOnly :: bool

definition nav :: "string \<Rightarrow> string \<Rightarrow> nav_item" where
  "nav to' label = \<lparr> nav_to = to', nav_label = label, nav_adminOnly = False \<rparr>"

definition GROUPS :: "nav_group list" where
  "GROUPS = [
     \<lparr> group_label = ''Policies'', group_items =
         [nav ''/policies/tracing'' ''Tracing Policy'', nav ''/security/discovery'' ''Behavior Discovery'',
          nav ''/policies/templates'' ''Templates'', nav ''/policies/admission'' ''Admission Policy'',
          nav ''/policies/network'' ''Network Policy'', nav ''/policies/quarantine'' ''Quarantine''],
        group_adminOnly = False \<rparr>,
     \<lparr> group_label = ''Notifications'', group_items =
         [nav ''/security/events'' ''Security Events'', nav ''/security/admission'' ''Admission Events'',
          (nav ''/settings/audit'' ''Audit Log'')\<lparr> nav_adminOnly := True \<rparr>], group_adminOnly = False \<rparr>,
     \<lparr> group_label = ''Cluster'', group_items = [nav ''/cluster/tetragon'' ''Event Sources''], group_adminOnly = False \<rparr>,
     \<lparr> group_label = ''Settings'', group_items =
         [nav ''/settings/users'' ''Users'', nav ''/security/alerts'' ''Alerts'', nav ''/security/rsyslog'' ''Syslog'',
          nav ''/settings/retention'' ''Event Retention''], group_adminOnly = True \<rparr>]"

definition isActive :: "string \<Rightarrow> string \<Rightarrow> bool" where
  "isActive pathname path \<longleftrightarrow> pathname = path \<or> prefix (path @ ''/'') pathname"

text \<open>The groups open at first: the one holding the current page, by label.\<close>

definition open_init :: "string \<Rightarrow> string \<Rightarrow> bool" where
  "open_init pathname =
     (case find (\<lambda>g. list_ex (\<lambda>i. isActive pathname (nav_to i)) (group_items g)) GROUPS of
        None \<Rightarrow> (\<lambda>_. False)
      | Some g \<Rightarrow> (\<lambda>_. False)(group_label g := True))"

definition toggle_group :: "string \<Rightarrow> (string \<Rightarrow> bool) \<Rightarrow> (string \<Rightarrow> bool)" where
  "toggle_group label open' = open'(label := \<not> open' label)"

definition visible_groups :: "bool \<Rightarrow> nav_group list" where
  "visible_groups admin = filter (\<lambda>g. \<not> group_adminOnly g \<or> admin) GROUPS"

text \<open>The links a user can reach: the two above the groups, and those of the visible groups.\<close>

definition shown_items :: "bool \<Rightarrow> nav_group \<Rightarrow> nav_item list" where
  "shown_items admin g = filter (\<lambda>i. \<not> nav_adminOnly i \<or> admin) (group_items g)"

definition sidebar_links :: "bool \<Rightarrow> string list" where
  "sidebar_links admin = [''/dashboard'', ''/network/topology'']
     @ concat (map (\<lambda>g. map nav_to (shown_items admin g)) (visible_groups admin))"

section \<open>The header\<close>

definition ROUTE_LABELS :: "(string \<times> string) list" where
  "ROUTE_LABELS = [(''dashboard'', ''Dashboard''), (''policies'', ''Policies''), (''tracing'', ''Tracing Policy''),
     (''new'', ''New Policy''), (''edit'', ''Edit''), (''templates'', ''Templates''),
     (''discovery'', ''Behavior Discovery''), (''admission'', ''Admission Policy''), (''security'', ''Notifications''),
     (''events'', ''Security Events''), (''alerts'', ''Alerts''), (''cluster'', ''Cluster''), (''mode'', ''Mode Control''),
     (''namespaces'', ''Namespaces''), (''tetragon'', ''Event Sources''), (''retention'', ''Event Retention''),
     (''network'', ''Network''), (''topology'', ''Network Topology'')]"

definition PATH_OVERRIDES :: "(string \<times> string list) list" where
  "PATH_OVERRIDES = [(''/security/discovery'', [''Policies'', ''Behavior Discovery'']),
     (''/security/events'', [''Notifications'', ''Security Events'']),
     (''/security/alerts'', [''Settings'', ''Alerts'']),
     (''/security/rsyslog'', [''Settings'', ''Syslog'']),
     (''/security/admission'', [''Notifications'', ''Admission Events'']),
     (''/settings/audit'', [''Notifications'', ''Audit Log'']),
     (''/network/topology'', [''Network Topology'']),
     (''/policies/network'', [''Policies'', ''Network Policy''])]"

text \<open>An object literal also answers for the names every object inherits: such a segment's label is a
  function or an object, which no crumb can show.\<close>

definition OBJECT_PROTOTYPE :: "string list" where
  "OBJECT_PROTOTYPE = [''constructor'', ''__proto__'', ''hasOwnProperty'', ''isPrototypeOf'', ''propertyIsEnumerable'',
     ''toLocaleString'', ''toString'', ''valueOf'', ''__defineGetter__'', ''__defineSetter__'', ''__lookupGetter__'',
     ''__lookupSetter__'']"

datatype crumb = Crumb string | Inherited

definition crumb_of :: "string \<Rightarrow> crumb" where
  "crumb_of seg =
     (case map_of ROUTE_LABELS seg of
        Some l \<Rightarrow> Crumb l
      | None \<Rightarrow> if seg \<in> set OBJECT_PROTOTYPE then Inherited else Crumb seg)"

definition useBreadcrumbs :: "string \<Rightarrow> crumb list" where
  "useBreadcrumbs pathname =
     (case map_of PATH_OVERRIDES pathname of
        Some trail \<Rightarrow> Crumb ''Home'' # map Crumb trail
      | None \<Rightarrow> Crumb ''Home'' # map crumb_of (filter (\<lambda>s. s \<noteq> []) (split_on slash pathname)))"

section \<open>Properties\<close>

text \<open>Every page that talks to the server is behind the sign-in and the forced change.\<close>

lemma console_iff: "AppRoutes st = Console u \<longleftrightarrow> \<not> auth_loading st \<and> auth_user st = Some u \<and> \<not> mustChangePassword u"
  by (auto simp: AppRoutes_def split: option.splits)

text \<open>A sign-out whose request failed shows the sign-in screen; the session is still there, and the
  next load of the page opens the console again.\<close>

lemma failed_logout_keeps_session:
  assumes "AppRoutes st = Console u"
  shows "AppRoutes (auth_logged_out (Refused d s) st) = SignIn \<and> AppRoutes (auth_mounted (Some u) auth_init) = Console u"
  using assms by (auto simp: console_iff AppRoutes_def auth_logged_out_def auth_mounted_def auth_init_def split: option.splits if_splits)

lemma isActive_prefix: "isActive p a \<longleftrightarrow> prefix (a @ ''/'') (p @ ''/'')"
  by (auto simp: isActive_def)

lemma active_comparable:
  assumes "isActive p a" "isActive p b"
  shows "prefix (a @ ''/'') (b @ ''/'') \<or> prefix (b @ ''/'') (a @ ''/'')"
  using assms unfolding isActive_prefix by (rule prefix_same_cases)

lemma all_equal_short:
  assumes "distinct xs" and eq: "\<And>a b. a \<in> set xs \<Longrightarrow> b \<in> set xs \<Longrightarrow> a = b"
  shows "length xs \<le> 1"
proof (cases xs)
  case (Cons x ys)
  show ?thesis
  proof (cases ys)
    case (Cons y zs)
    have "x = y" by (rule eq) (simp_all add: \<open>xs = x # ys\<close> Cons)
    then show ?thesis using assms(1) \<open>xs = x # ys\<close> Cons by simp
  qed (simp add: Cons)
qed simp

lemmas sidebar_eval = sidebar_links_def visible_groups_def shown_items_def GROUPS_def nav_def

lemma sidebar_links_eval:
  "sidebar_links False = [''/dashboard'', ''/network/topology'', ''/policies/tracing'', ''/security/discovery'',
     ''/policies/templates'', ''/policies/admission'', ''/policies/network'', ''/policies/quarantine'',
     ''/security/events'', ''/security/admission'', ''/cluster/tetragon'']"
  "sidebar_links True = [''/dashboard'', ''/network/topology'', ''/policies/tracing'', ''/security/discovery'',
     ''/policies/templates'', ''/policies/admission'', ''/policies/network'', ''/policies/quarantine'',
     ''/security/events'', ''/security/admission'', ''/settings/audit'', ''/cluster/tetragon'', ''/settings/users'',
     ''/security/alerts'', ''/security/rsyslog'', ''/settings/retention'']"
  by (simp_all add: sidebar_eval)

lemma links_distinct: "distinct (sidebar_links admin)"
  by (cases admin) (simp_all add: sidebar_links_eval)

lemma viewer_links_sub: "set (sidebar_links admin) \<subseteq> set (sidebar_links True)"
  by (cases admin) (simp_all add: sidebar_links_eval)

text \<open>Every link but the dashboard has two segments, and none starts with the dashboard's.\<close>

lemma link_shape:
  "l \<in> set (sidebar_links admin) \<Longrightarrow> l = ''/dashboard'' \<or> (\<exists>x y. split_on slash l = [[], x, y] \<and> x \<noteq> ''dashboard'')"
  using viewer_links_sub [of admin] by (auto simp: sidebar_links_eval)

lemma path_prefix_split:
  assumes "prefix (a @ ''/'') (b @ ''/'')"
  shows "prefix (split_on slash a) (split_on slash b)"
proof -
  obtain c where c: "b @ ''/'' = a @ ''/'' @ c" using assms by (auto simp: prefix_def)
  show ?thesis
  proof (cases c rule: rev_cases)
    case Nil
    then show ?thesis using c by simp
  next
    case (snoc d x)
    then have "b = a @ slash # d" using c by simp
    then show ?thesis by (simp add: split_on_concat)
  qed
qed

lemma links_apart:
  assumes "a \<in> set (sidebar_links admin)" "b \<in> set (sidebar_links admin)" "prefix (a @ ''/'') (b @ ''/'')"
  shows "a = b"
proof -
  have "prefix (split_on slash a) (split_on slash b)" using assms(3) by (rule path_prefix_split)
  moreover have "split_on slash ''/dashboard'' = [[], ''dashboard'']" by simp
  ultimately have "split_on slash a = split_on slash b"
    using link_shape [OF assms(1)] link_shape [OF assms(2)] by auto
  then show ?thesis by (metis join_split)
qed

text \<open>The navigation highlights at most one link, whatever the address and whoever is signed in:
  no link of the sidebar is on the way to another.\<close>

theorem one_link_active: "length (filter (isActive pathname) (sidebar_links admin)) \<le> 1"
proof (rule all_equal_short)
  show "distinct (filter (isActive pathname) (sidebar_links admin))" using links_distinct by simp
  fix a b assume "a \<in> set (filter (isActive pathname) (sidebar_links admin))"
    "b \<in> set (filter (isActive pathname) (sidebar_links admin))"
  then show "a = b" using links_apart [of a admin b] links_apart [of b admin a] active_comparable [of pathname a b] by auto
qed

text \<open>Every link of the sidebar is a route of its own with a page, and a viewer's links have neither the
  audit log nor a page of the settings.\<close>

lemma sidebar_links_have_pages:
  "list_all (\<lambda>l. case map_of APP_ROUTES l of Some (Page p) \<Rightarrow> True | _ \<Rightarrow> False) (sidebar_links True)"
  by code_simp

lemma viewer_links: "filter (\<lambda>l. l \<notin> set (sidebar_links False)) (sidebar_links True) =
    [''/settings/audit'', ''/settings/users'', ''/security/alerts'', ''/security/rsyslog'', ''/settings/retention'']"
  by (simp add: sidebar_links_eval)

text \<open>A policy called like a segment of the console's own paths loses its name in the trail, and one
  called \<open>constructor\<close>, a valid name for a policy, has no crumb at all.\<close>

lemma policy_name_lost:
  "useBreadcrumbs ''/policies/tracing/events/edit'' =
     map Crumb [''Home'', ''Policies'', ''Tracing Policy'', ''Security Events'', ''Edit'']"
  "useBreadcrumbs ''/policies/tracing/constructor/edit'' =
     [Crumb ''Home'', Crumb ''Policies'', Crumb ''Tracing Policy'', Inherited, Crumb ''Edit'']"
  by (simp_all add: useBreadcrumbs_def PATH_OVERRIDES_def crumb_of_def ROUTE_LABELS_def OBJECT_PROTOTYPE_def)

text \<open>Any other policy is named in its trail.\<close>

lemma policy_name_shown:
  assumes "segment n" "n \<notin> fst ` set ROUTE_LABELS" "n \<notin> set OBJECT_PROTOTYPE"
  shows "useBreadcrumbs (''/policies/tracing/'' @ n @ ''/edit'') =
     map Crumb [''Home'', ''Policies'', ''Tracing Policy'', n, ''Edit'']"
proof -
  have "map_of ROUTE_LABELS n = None" using assms(2) by (simp add: map_of_eq_None_iff)
  moreover have "n \<noteq> []" using assms(1) by (simp add: segment_def)
  ultimately show ?thesis using assms(1,3)
    by (simp add: useBreadcrumbs_def PATH_OVERRIDES_def crumb_of_def) (simp add: ROUTE_LABELS_def)
qed

end
