(* ===== verification/Topology.thy ===== *)
theory Topology
  imports Complex_Main EventPages "HOL-Library.While_Combinator" "HOL-Library.List_Lexorder"
begin

text \<open>
  The network topology page, \<open>web/src/pages/NetworkTopologyPage.tsx\<close>: which part of the server's graph is
  drawn, how nodes and edges look, the polling, the selection panel, and the two effects that keep
  the canvas in step. The layout library dagre is a parameter: from the nodes' ids and the pairs to
  connect it gives positions, None when it throws. Pan, zoom and markup are not modelled.
\<close>

section \<open>The server's graph\<close>

datatype node_kind = PodNode | HostNode | LinkLocalNode | ExternalNode

record exposure =
  ex_type :: string
  ex_address :: string
  ex_detail :: "string option"
  ex_hops :: "(string \<times> string) list option"

record topology_node =
  tn_id :: string
  tn_label :: string
  tn_pod :: string
  tn_namespace :: string
  tn_kind :: node_kind
  tn_ip :: "string option"
  viaNode :: "string option"
  exposures :: "exposure list option"
  quarantined :: bool
  extInbound :: bool

record topology_edge =
  te_id :: string
  te_source :: string
  te_target :: string
  te_destIp :: "string option"
  te_count :: nat
  te_blocked :: bool
  deniedBy :: "string option"
  healthProbe :: bool
  te_ports :: "(string \<times> nat) list option"
  l7Type :: "string option"
  httpMethod :: "string option"
  httpURL :: "string option"
  httpStatus :: "int option"
  dnsQuery :: "string option"

record topology_response =
  res_nodes :: "topology_node list"
  res_edges :: "topology_edge list"
  res_hasNetworkEvents :: bool
  res_flowsEverSeen :: bool
  res_dataSource :: "string option"
  res_partialResolution :: bool

definition exposed :: "topology_node \<Rightarrow> bool" where
  "exposed n \<longleftrightarrow> (case exposures n of None \<Rightarrow> False | Some xs \<Rightarrow> xs \<noteq> [])"

section \<open>How a node and an edge look\<close>

definition endpointName :: "topology_node option \<Rightarrow> string \<Rightarrow> string" where
  "endpointName node fallback =
     (case node of
        None \<Rightarrow> fallback
      | Some n \<Rightarrow> if tn_kind n = ExternalNode \<and> Some (tn_label n) = tn_ip n then ''External'' else tn_label n)"

datatype card_border = QuarantineBorder | AnomalyBorder | PlainBorder
datatype card_mark = LockMark | AlertMark | GlobeMark | NoMark

definition anomaly :: "topology_node \<Rightarrow> bool" where
  "anomaly n \<longleftrightarrow> extInbound n \<and> \<not> exposed n"

definition pod_border :: "topology_node \<Rightarrow> card_border" where
  "pod_border n = (if quarantined n then QuarantineBorder else if anomaly n then AnomalyBorder else PlainBorder)"

definition pod_mark :: "topology_node \<Rightarrow> card_mark" where
  "pod_mark n = (if quarantined n then LockMark else if anomaly n then AlertMark else if exposed n then GlobeMark else NoMark)"

fun KIND_LABEL :: "node_kind \<Rightarrow> string \<times> string" where
  "KIND_LABEL PodNode = (''Pod Detail'', ''Pod'')"
| "KIND_LABEL HostNode = (''Node Detail'', ''Node'')"
| "KIND_LABEL LinkLocalNode = (''Link-local Detail'', ''Link-local'')"
| "KIND_LABEL ExternalNode = (''External IP'', ''External IP'')"

fun MINIMAP_COLOUR :: "node_kind \<Rightarrow> string" where
  "MINIMAP_COLOUR PodNode = ''#6366f1''"
| "MINIMAP_COLOUR HostNode = ''#3b82f6''"
| "MINIMAP_COLOUR LinkLocalNode = ''#64748b''"
| "MINIMAP_COLOUR ExternalNode = ''#f59e0b''"

fun KIND_COLUMN :: "node_kind \<Rightarrow> rat" where
  "KIND_COLUMN PodNode = 80"
| "KIND_COLUMN HostNode = 380"
| "KIND_COLUMN LinkLocalNode = 530"
| "KIND_COLUMN ExternalNode = 680"

text \<open>A node on the canvas; the opacity is there once the focus effect has set it.\<close>

record canvas_node =
  cn_id :: string
  cn_kind :: node_kind
  cn_x :: rat
  cn_y :: rat
  cn_data :: topology_node
  cn_opacity :: "rat option"

text \<open>\<open>rows\<close> counts the nodes placed in each column.\<close>

fun layout_from :: "(node_kind \<Rightarrow> nat) \<Rightarrow> topology_node list \<Rightarrow> canvas_node list" where
  "layout_from rows [] = []"
| "layout_from rows (n # ns) =
     \<lparr> cn_id = tn_id n, cn_kind = tn_kind n, cn_x = KIND_COLUMN (tn_kind n),
       cn_y = 80 + of_nat (rows (tn_kind n)) * 100, cn_data = n, cn_opacity = None \<rparr>
     # layout_from (rows(tn_kind n := Suc (rows (tn_kind n)))) ns"

definition layoutNodes :: "topology_node list \<Rightarrow> canvas_node list" where
  "layoutNodes apiNodes = layout_from (\<lambda>_. 0) apiNodes"

datatype edge_text = BlockedCount nat | Count nat "string option" | Unlabelled

record edge_look =
  el_text :: edge_text
  el_animated :: bool
  el_stroke :: string
  el_width :: rat
  el_dashed :: bool
  el_opacity :: rat
  el_glow :: bool
  el_textFill :: string
  el_textWeight :: nat
  el_textOpacity :: "rat option"
  el_textBg :: string

record canvas_edge =
  ce_id :: string
  ce_source :: string
  ce_target :: string
  ce_count :: nat
  ce_blocked :: bool
  ce_l7Type :: "string option"
  ce_color :: string
  ce_look :: "edge_look option"

definition edgeVisuals :: "canvas_edge \<Rightarrow> string option \<Rightarrow> string option \<Rightarrow> canvas_edge" where
  "edgeVisuals e focusId hoverEdgeId =
     (let hovered = (Some (ce_id e) = hoverEdgeId);
          focused = (\<not> given focusId \<or> Some (ce_source e) = focusId \<or> Some (ce_target e) = focusId);
          dimmed = (given focusId \<and> \<not> focused \<and> \<not> hovered);
          colour = (if ce_blocked e then ''#ef4444'' else ce_color e);
          l7 = given (ce_l7Type e)
      in e\<lparr> ce_look := Some
           (if ce_blocked e
            then \<lparr> el_text = BlockedCount (ce_count e), el_animated = False, el_stroke = colour,
                   el_width = (if hovered then 3 else 3 / 2), el_dashed = True, el_opacity = (if dimmed then 12 / 100 else 1),
                   el_glow = hovered, el_textFill = colour, el_textWeight = 600,
                   el_textOpacity = Some (if dimmed then 2 / 10 else 1), el_textBg = ''#fef2f2'' \<rparr>
            else \<lparr> el_text = (if hovered \<or> (given focusId \<and> focused)
                               then Count (ce_count e) (if l7 then ce_l7Type e else None) else Unlabelled),
                   el_animated = \<not> dimmed, el_stroke = colour,
                   el_width = (if hovered then (if l7 then 7 / 2 else 3) else if l7 then 2 else 3 / 2), el_dashed = False,
                   el_opacity = (if dimmed then 12 / 100 else 1), el_glow = hovered,
                   el_textFill = (if l7 then ''#3b82f6'' else ''#6b7280''), el_textWeight = (if l7 then 600 else 400),
                   el_textOpacity = None, el_textBg = (if l7 then ''#eff6ff'' else ''#f9fafb'') \<rparr>) \<rparr>)"

definition edge_colour :: "topology_node list \<Rightarrow> topology_edge \<Rightarrow> string" where
  "edge_colour ns e =
     (let targetKind = (case map_of (rev (map (\<lambda>n. (tn_id n, tn_kind n)) ns)) (te_target e) of Some k \<Rightarrow> k | None \<Rightarrow> ExternalNode)
      in if targetKind = ExternalNode then ''#f59e0b'' else if targetKind = LinkLocalNode then ''#64748b'' else ''#6366f1'')"

definition base_edge :: "topology_node list \<Rightarrow> topology_edge \<Rightarrow> canvas_edge" where
  "base_edge ns e = \<lparr> ce_id = te_id e, ce_source = te_source e, ce_target = te_target e, ce_count = te_count e,
     ce_blocked = te_blocked e, ce_l7Type = l7Type e, ce_color = edge_colour ns e, ce_look = None \<rparr>"

definition layoutEdges :: "topology_edge list \<Rightarrow> topology_node list \<Rightarrow> canvas_edge list" where
  "layoutEdges apiEdges ns = map (\<lambda>e. edgeVisuals (base_edge ns e) None None) apiEdges"

section \<open>Automatic layout\<close>

type_synonym dagre = "string list \<Rightarrow> (string \<times> string) list \<Rightarrow> (string \<Rightarrow> (rat \<times> rat) option) option"

definition NODE_WIDTH :: rat where "NODE_WIDTH = 160"
definition NODE_HEIGHT :: rat where "NODE_HEIGHT = 60"

text \<open>None when the library throws, or when it gives a node no position and reading it throws.\<close>

definition dagreLayout :: "dagre \<Rightarrow> canvas_node list \<Rightarrow> (string \<times> string) list \<Rightarrow> canvas_node list option" where
  "dagreLayout dg nodes ends =
     (case dg (map cn_id nodes) (filter (\<lambda>(s, t). s \<noteq> t) ends) of
        None \<Rightarrow> None
      | Some pos \<Rightarrow>
          if list_ex (\<lambda>n. pos (cn_id n) = None) nodes then None
          else Some (map (\<lambda>n. n\<lparr> cn_x := fst (the (pos (cn_id n))) - NODE_WIDTH / 2,
                                 cn_y := snd (the (pos (cn_id n))) - NODE_HEIGHT / 2 \<rparr>) nodes))"

definition applyDagreLayout :: "dagre \<Rightarrow> canvas_node list \<Rightarrow> (string \<times> string) list \<Rightarrow> canvas_node list" where
  "applyDagreLayout dg nodes ends = (case dagreLayout dg nodes ends of Some ns \<Rightarrow> ns | None \<Rightarrow> nodes)"

section \<open>The part of the graph on show\<close>

record topology_filter =
  nsFilter :: "string list"
  podSearch :: string
  hideSystem :: bool
  hideProbes :: bool
  exposedOnly :: bool

definition topology_filter_init :: topology_filter where
  "topology_filter_init = \<lparr> nsFilter = [], podSearch = [], hideSystem = True, hideProbes = True, exposedOnly = False \<rparr>"

definition isVisibleEdge :: "topology_filter \<Rightarrow> topology_edge \<Rightarrow> bool" where
  "isVisibleEdge f e \<longleftrightarrow> \<not> hideProbes f \<or> \<not> healthProbe e"

definition pod_query :: "topology_filter \<Rightarrow> string" where
  "pod_query f = to_lower (trim (podSearch f))"

definition name_matches :: "topology_filter \<Rightarrow> topology_node \<Rightarrow> bool" where
  "name_matches f n \<longleftrightarrow> pod_query f = [] \<or> js_includes (to_lower (tn_pod n)) (pod_query f) \<or>
     js_includes (to_lower (tn_label n)) (pod_query f)"

definition effectiveHide :: "topology_filter \<Rightarrow> bool" where
  "effectiveHide f \<longleftrightarrow> hideSystem f \<and> ''kube-system'' \<notin> set (nsFilter f)"

definition scopedNodes :: "topology_filter \<Rightarrow> topology_node list \<Rightarrow> topology_node list" where
  "scopedNodes f ns = (if effectiveHide f then filter (\<lambda>n. tn_namespace n \<noteq> ''kube-system'') ns else ns)"

definition scopedEdges :: "topology_filter \<Rightarrow> topology_node list \<Rightarrow> topology_edge list \<Rightarrow> topology_edge list" where
  "scopedEdges f ns es =
     (let visible = filter (isVisibleEdge f) es; ids = tn_id ` set (scopedNodes f ns)
      in if effectiveHide f then filter (\<lambda>e. te_source e \<in> ids \<and> te_target e \<in> ids) visible else visible)"

definition isPrimary :: "topology_filter \<Rightarrow> topology_node \<Rightarrow> bool" where
  "isPrimary f n \<longleftrightarrow> tn_kind n = PodNode \<and> (nsFilter f = [] \<or> tn_namespace n \<in> set (nsFilter f)) \<and>
     (exposedOnly f \<longrightarrow> exposed n) \<and> name_matches f n"

definition primaryIds :: "topology_filter \<Rightarrow> topology_node list \<Rightarrow> string set" where
  "primaryIds f ns =
     (if nsFilter f = [] \<and> pod_query f = [] \<and> \<not> exposedOnly f
      then tn_id ` set (filter (\<lambda>n. tn_kind n = PodNode) (scopedNodes f ns))
      else tn_id ` set (filter (isPrimary f) (scopedNodes f ns)))"

definition filteredEdges :: "topology_filter \<Rightarrow> topology_node list \<Rightarrow> topology_edge list \<Rightarrow> topology_edge list" where
  "filteredEdges f ns es =
     filter (\<lambda>e. te_source e \<in> primaryIds f ns \<or> te_target e \<in> primaryIds f ns) (scopedEdges f ns es)"

definition connectedIds :: "topology_edge list \<Rightarrow> string set" where
  "connectedIds es = set (concat (map (\<lambda>e. [te_source e, te_target e]) es))"

definition extInboundTargets :: "topology_edge list \<Rightarrow> string set" where
  "extInboundTargets es = te_target ` set (filter (\<lambda>e. prefix ''ext:'' (te_source e) \<and> \<not> te_blocked e) es)"

definition visibleNodes :: "topology_filter \<Rightarrow> topology_node list \<Rightarrow> topology_edge list \<Rightarrow> topology_node list" where
  "visibleNodes f ns es =
     (let drawn = filteredEdges f ns es
      in map (\<lambda>n. if tn_kind n = PodNode then n\<lparr> extInbound := tn_id n \<in> extInboundTargets drawn \<rparr> else n)
           (filter (\<lambda>n. tn_id n \<in> connectedIds drawn) (scopedNodes f ns)))"

text \<open>The neighbours, added edge by edge.\<close>

fun adjacency :: "topology_edge list \<Rightarrow> (string \<Rightarrow> string set) \<Rightarrow> (string \<Rightarrow> string set)" where
  "adjacency [] adj = adj"
| "adjacency (e # es) adj =
     (let adj1 = adj(te_source e := insert (te_target e) (adj (te_source e)))
      in adjacency es (adj1(te_target e := insert (te_source e) (adj1 (te_target e)))))"

definition graph_shape :: "topology_node list \<Rightarrow> string" where
  "graph_shape ns = join_with ''|'' (sort (map tn_id ns))"

section \<open>The page\<close>

text \<open>What the effects compare to decide whether to run again: React runs an effect after a render
  whose values differ from those it last ran with. A selected node is compared by identity, and a click
  hands over the canvas' object of the node, which every run of the filter effect makes anew for a pod: the
  number of clicks stands for that. (Clicking an already selected node that is no pod after a mere filter
  change hands over the same object; that click counts as a change here and does not in the code.)\<close>

type_synonym filter_deps = "topology_node list \<times> topology_edge list \<times> topology_filter"
type_synonym focus_deps = "string option \<times> string option \<times> topology_node option \<times> nat"

record topology_page =
  tp_nodes :: "canvas_node list"
  tp_edges :: "canvas_edge list"
  lastPayload :: "(topology_node list \<times> topology_edge list) option"
  fittedTo :: string
  fits :: nat
  hasNetworkEvents :: "bool option"
  flowsEverSeen :: bool
  partialResolution :: bool
  dataSource :: "string option"
  tp_loading :: bool
  selectedNode :: "topology_node option"
  nodeClicks :: nat
  selectedEdge :: "topology_edge option"
  tp_filter :: topology_filter
  autoRefresh :: bool
  hoverId :: "string option"
  hoverEdgeId :: "string option"
  neighbours :: "string \<Rightarrow> string set"
  rawNodes :: "topology_node list"
  rawEdges :: "topology_edge list"
  filterRan :: "filter_deps option"
  focusRan :: "focus_deps option"

definition topology_init :: topology_page where
  "topology_init = \<lparr> tp_nodes = [], tp_edges = [], lastPayload = None, fittedTo = [], fits = 0, hasNetworkEvents = None,
     flowsEverSeen = False, partialResolution = False, dataSource = None, tp_loading = True,
     selectedNode = None, nodeClicks = 0, selectedEdge = None, tp_filter = topology_filter_init, autoRefresh = True, hoverId = None,
     hoverEdgeId = None, neighbours = (\<lambda>_. {}), rawNodes = [], rawEdges = [], filterRan = None, focusRan = None \<rparr>"

text \<open>\<open>load\<close>: up to the request, and with its answer, None when the request failed or was no JSON. The
  text the payload is compared by is JSON of it, so comparing the payloads is the same.\<close>

definition topology_load_start :: "bool \<Rightarrow> topology_page \<Rightarrow> topology_page" where
  "topology_load_start showSpinner st = (if showSpinner then st\<lparr> tp_loading := True \<rparr> else st)"

definition topology_load_done :: "bool \<Rightarrow> topology_response option \<Rightarrow> topology_page \<Rightarrow> topology_page" where
  "topology_load_done showSpinner res st =
     (let st1 = (case res of
            Some data \<Rightarrow>
              (let st0 = st\<lparr> hasNetworkEvents := Some (res_hasNetworkEvents data), flowsEverSeen := res_flowsEverSeen data,
                             partialResolution := res_partialResolution data, dataSource := res_dataSource data \<rparr>
               in if Some (res_nodes data, res_edges data) \<noteq> lastPayload st
                  then st0\<lparr> lastPayload := Some (res_nodes data, res_edges data),
                            rawNodes := res_nodes data, rawEdges := res_edges data \<rparr>
                  else st0)
          | None \<Rightarrow> st\<lparr> hasNetworkEvents := Some False, flowsEverSeen := False \<rparr>)
      in if showSpinner then st1\<lparr> tp_loading := False \<rparr> else st1)"

text \<open>The polling effect, on mounting and whenever \<open>autoRefresh\<close> changes: one load with the spinner, and
  a timer (true) or none.\<close>

definition poll_effect :: "topology_page \<Rightarrow> topology_page \<times> bool" where
  "poll_effect st = (topology_load_start True st, autoRefresh st)"

definition set_autoRefresh :: "bool \<Rightarrow> topology_page \<Rightarrow> topology_page \<times> bool" where
  "set_autoRefresh v st = poll_effect (st\<lparr> autoRefresh := v \<rparr>)"

definition edge_ends :: "topology_edge list \<Rightarrow> (string \<times> string) list" where
  "edge_ends es = map (\<lambda>e. (te_source e, te_target e)) es"

text \<open>The panel's edge after a change: the one of the same id, else one of the same pair.\<close>

definition refresh_edge :: "topology_edge list \<Rightarrow> topology_edge \<Rightarrow> topology_edge option" where
  "refresh_edge es prev =
     (case find (\<lambda>e. te_id e = te_id prev) es of
        Some e \<Rightarrow> Some e
      | None \<Rightarrow> find (\<lambda>e. te_source e = te_source prev \<and> te_target e = te_target prev) es)"

definition filter_effect :: "dagre \<Rightarrow> topology_page \<Rightarrow> topology_page" where
  "filter_effect dg st =
     (let f = tp_filter st;
          drawn = filteredEdges f (rawNodes st) (rawEdges st);
          vis = visibleNodes f (rawNodes st) (rawEdges st);
          base = layoutNodes vis;
          shape = graph_shape vis
      in st\<lparr> neighbours := adjacency drawn (\<lambda>_. {}),
             tp_nodes := (if vis \<noteq> [] then applyDagreLayout dg base (edge_ends drawn) else base),
             tp_edges := layoutEdges drawn vis,
             fittedTo := shape, fits := (if shape \<noteq> fittedTo st then Suc (fits st) else fits st),
             selectedNode := (case selectedNode st of
                Some n \<Rightarrow> if tn_id n \<in> tn_id ` set vis then Some n else None | None \<Rightarrow> None),
             selectedEdge := (case selectedEdge st of Some e \<Rightarrow> refresh_edge drawn e | None \<Rightarrow> None) \<rparr>)"

definition focus_of :: "topology_page \<Rightarrow> string option" where
  "focus_of st = (case hoverId st of Some i \<Rightarrow> Some i | None \<Rightarrow> map_option tn_id (selectedNode st))"

definition focus_effect :: "string option \<Rightarrow> string option \<Rightarrow> topology_page \<Rightarrow> topology_page" where
  "focus_effect focusId hoverEdge st = st\<lparr>
     tp_edges := map (\<lambda>e. edgeVisuals e focusId hoverEdge) (tp_edges st),
     tp_nodes := map (\<lambda>n. n\<lparr> cn_opacity := Some
        (if given focusId \<and> Some (cn_id n) \<noteq> focusId \<and> cn_id n \<notin> neighbours st (the focusId) then 25 / 100 else 1) \<rparr>) (tp_nodes st) \<rparr>"

definition filter_deps_of :: "topology_page \<Rightarrow> filter_deps" where
  "filter_deps_of st = (rawNodes st, rawEdges st, tp_filter st)"

definition focus_deps_of :: "topology_page \<Rightarrow> focus_deps" where
  "focus_deps_of st = (hoverId st, hoverEdgeId st, selectedNode st, nodeClicks st)"

definition effects_due :: "topology_page \<Rightarrow> bool" where
  "effects_due st \<longleftrightarrow> filterRan st \<noteq> Some (filter_deps_of st) \<or> focusRan st \<noteq> Some (focus_deps_of st)"

text \<open>After a render the effects that are due run in order, both with the values of that render.\<close>

definition effect_round :: "dagre \<Rightarrow> topology_page \<Rightarrow> topology_page" where
  "effect_round dg st =
     (let st1 = (if filterRan st \<noteq> Some (filter_deps_of st)
                 then (filter_effect dg st)\<lparr> filterRan := Some (filter_deps_of st) \<rparr> else st)
      in if focusRan st \<noteq> Some (focus_deps_of st)
         then (focus_effect (focus_of st) (hoverEdgeId st) st1)\<lparr> focusRan := Some (focus_deps_of st) \<rparr> else st1)"

text \<open>Rendering and running effects until none is due; None is a page that renders forever.\<close>

definition settle :: "dagre \<Rightarrow> topology_page \<Rightarrow> topology_page option" where
  "settle dg st = while_option effects_due (effect_round dg) st"

section \<open>Clicks\<close>

definition onNodeClick :: "canvas_node \<Rightarrow> topology_page \<Rightarrow> topology_page" where
  "onNodeClick n st = st\<lparr> selectedEdge := None, selectedNode := Some (cn_data n), nodeClicks := Suc (nodeClicks st) \<rparr>"

definition onEdgeClick :: "canvas_edge \<Rightarrow> topology_page \<Rightarrow> topology_page" where
  "onEdgeClick e st = st\<lparr> selectedNode := None, selectedEdge := find (\<lambda>r. te_id r = ce_id e) (rawEdges st) \<rparr>"

definition onPaneClick :: "topology_page \<Rightarrow> topology_page" where
  "onPaneClick st = st\<lparr> selectedNode := None, selectedEdge := None, hoverId := None \<rparr>"

definition autoLayout :: "dagre \<Rightarrow> topology_page \<Rightarrow> topology_page" where
  "autoLayout dg st = st\<lparr> tp_nodes := applyDagreLayout dg (tp_nodes st) (map (\<lambda>e. (ce_source e, ce_target e)) (tp_edges st)),
     fits := Suc (fits st) \<rparr>"

section \<open>What is read off the canvas\<close>

definition legend_chips :: "topology_page \<Rightarrow> (node_kind \<times> string) list" where
  "legend_chips st = filter (\<lambda>(k, l). k \<in> (tn_kind \<circ> cn_data) ` set (tp_nodes st))
     [(PodNode, ''Pod''), (HostNode, ''Node''), (LinkLocalNode, ''Link-local''), (ExternalNode, ''External'')]"

definition legend_arrows :: "topology_page \<Rightarrow> (string \<times> string) list" where
  "legend_arrows st = filter (\<lambda>(c, l). c \<in> ce_color ` set (filter (\<lambda>e. \<not> ce_blocked e) (tp_edges st)))
     [(''#6366f1'', ''to Pod / Node''), (''#64748b'', ''to Link-local''), (''#f59e0b'', ''to External'')]"

definition legend_flags :: "topology_page \<Rightarrow> bool \<times> bool \<times> bool" where
  "legend_flags st = (list_ex (\<lambda>n. exposed (cn_data n)) (tp_nodes st), list_ex (\<lambda>n. quarantined (cn_data n)) (tp_nodes st),
     list_ex ce_blocked (tp_edges st))"

definition matchCount :: "topology_page \<Rightarrow> nat option" where
  "matchCount st =
     (let f = tp_filter st in
      if nsFilter f = [] \<and> pod_query f = [] then None
      else Some (length (filter (\<lambda>n. tn_kind n = PodNode \<and> (nsFilter f = [] \<or> tn_namespace n \<in> set (nsFilter f)) \<and>
             name_matches f n) (rawNodes st))))"

definition view_dot :: "topology_filter \<Rightarrow> bool" where
  "view_dot f \<longleftrightarrow> hideSystem f \<or> hideProbes f \<or> exposedOnly f"

datatype topology_notice = NoNotice | QuietNotice | SetupNotice

definition notice :: "topology_page \<Rightarrow> topology_notice" where
  "notice st = (if \<not> tp_loading st \<and> hasNetworkEvents st = Some False
                then (if flowsEverSeen st then QuietNotice else SetupNotice) else NoNotice)"

text \<open>The two ends in the edge panel: the name and the address below it, if there is one to show.\<close>

definition endpoint :: "topology_node option \<Rightarrow> string \<Rightarrow> string \<times> string option" where
  "endpoint node fallback =
     (let name = endpointName node fallback; ip = (case node of Some n \<Rightarrow> tn_ip n | None \<Rightarrow> None)
      in (name, if given ip \<and> ip \<noteq> Some name then ip else None))"

definition panel_from :: "topology_page \<Rightarrow> topology_edge \<Rightarrow> string \<times> string option" where
  "panel_from st e = endpoint (find (\<lambda>n. tn_id n = te_source e) (rawNodes st)) (te_source e)"

definition panel_to :: "topology_page \<Rightarrow> topology_edge \<Rightarrow> string \<times> string option" where
  "panel_to st e =
     (let (name, ip) = endpoint (find (\<lambda>n. tn_id n = te_target e) (rawNodes st))
            (case te_destIp e of Some i \<Rightarrow> i | None \<Rightarrow> te_target e);
          shown = (case ip of Some i \<Rightarrow> Some i | None \<Rightarrow> te_destIp e)
      in (name, if given shown then shown else None))"

definition port_text :: "string \<Rightarrow> string" where
  "port_text p = (if p = ''dynamic'' then ''dynamic (ephemeral)'' else p)"

end
