(* ===== verification/TopologyProps.thy ===== *)
theory TopologyProps
  imports Topology
begin

text \<open>
  What the topology page promises: the drawn graph has no loose ends and nothing hides a node, the
  effects come to rest after every change and leave the canvas showing the filtered graph, the edge
  panel follows the polls; and where the selected node does not.
\<close>

section \<open>The drawn graph\<close>

lemma connected_iff: "i \<in> connectedIds es \<longleftrightarrow> (\<exists>e \<in> set es. i = te_source e \<or> i = te_target e)"
  by (auto simp: connectedIds_def)

lemma ids_visible: "tn_id ` set (visibleNodes f ns es) = {i \<in> tn_id ` set (scopedNodes f ns). i \<in> connectedIds (filteredEdges f ns es)}"
proof -
  have "map tn_id (visibleNodes f ns es) =
      map tn_id (filter (\<lambda>n. tn_id n \<in> connectedIds (filteredEdges f ns es)) (scopedNodes f ns))"
    by (simp add: visibleNodes_def Let_def)
  then have "set (map tn_id (visibleNodes f ns es)) =
      set (map tn_id (filter (\<lambda>n. tn_id n \<in> connectedIds (filteredEdges f ns es)) (scopedNodes f ns)))" by (rule arg_cong)
  then show ?thesis by auto
qed

lemma drawn_ends_scoped:
  assumes "\<forall>e \<in> set es. te_source e \<in> tn_id ` set ns \<and> te_target e \<in> tn_id ` set ns" "e \<in> set (filteredEdges f ns es)"
  shows "te_source e \<in> tn_id ` set (scopedNodes f ns) \<and> te_target e \<in> tn_id ` set (scopedNodes f ns)"
  using assms by (auto simp: filteredEdges_def scopedEdges_def scopedNodes_def Let_def split: if_splits)

text \<open>C24: when the server names both ends of every edge, the drawn nodes are exactly the ends of the drawn
  edges, whatever the filter: no edge leads off the canvas and no node stands alone. Every drawn edge
  passes the filter and has an end among the pods the filter asks for.\<close>

theorem drawn_graph_closed:
  assumes "\<forall>e \<in> set es. te_source e \<in> tn_id ` set ns \<and> te_target e \<in> tn_id ` set ns"
  shows "tn_id ` set (visibleNodes f ns es) = connectedIds (filteredEdges f ns es)
    \<and> (\<forall>e \<in> set (filteredEdges f ns es). e \<in> set es \<and> isVisibleEdge f e
         \<and> (te_source e \<in> primaryIds f ns \<or> te_target e \<in> primaryIds f ns))"
proof
  have "connectedIds (filteredEdges f ns es) \<subseteq> tn_id ` set (scopedNodes f ns)"
    using drawn_ends_scoped [OF assms] by (auto simp: connected_iff)
  then show "tn_id ` set (visibleNodes f ns es) = connectedIds (filteredEdges f ns es)"
    unfolding ids_visible by blast
  show "\<forall>e \<in> set (filteredEdges f ns es). e \<in> set es \<and> isVisibleEdge f e
         \<and> (te_source e \<in> primaryIds f ns \<or> te_target e \<in> primaryIds f ns)"
    by (auto simp: filteredEdges_def scopedEdges_def Let_def split: if_splits)
qed

definition sample_node :: "string \<Rightarrow> string \<Rightarrow> node_kind \<Rightarrow> topology_node" where
  "sample_node i ns k = \<lparr> tn_id = i, tn_label = i, tn_pod = i, tn_namespace = ns, tn_kind = k, tn_ip = None, viaNode = None,
     exposures = None, quarantined = False, extInbound = False \<rparr>"

definition sample_edge :: "string \<Rightarrow> string \<Rightarrow> bool \<Rightarrow> topology_edge" where
  "sample_edge s t b = \<lparr> te_id = s @ ''>'' @ t, te_source = s, te_target = t, te_destIp = None, te_count = 1, te_blocked = b,
     deniedBy = None, healthProbe = False, te_ports = None, l7Type = None, httpMethod = None, httpURL = None,
     httpStatus = None, dnsQuery = None \<rparr>"

definition sample_nodes :: "topology_node list" where
  "sample_nodes = [sample_node ''web'' ''shop'' PodNode, sample_node ''ext:1'' [] ExternalNode, sample_node ''dns'' ''kube-system'' PodNode]"

definition sample_edges :: "topology_edge list" where
  "sample_edges = [sample_edge ''ext:1'' ''web'' False, sample_edge ''web'' ''dns'' False]"

lemmas sample_eval = sample_nodes_def sample_edges_def sample_node_def sample_edge_def topology_filter_init_def
  filteredEdges_def scopedEdges_def scopedNodes_def effectiveHide_def isVisibleEdge_def primaryIds_def pod_query_def to_lower_def

theorem drawn_graph_closed_witness:
  "tn_id ` set (visibleNodes topology_filter_init sample_nodes sample_edges) = connectedIds (filteredEdges topology_filter_init sample_nodes sample_edges)
   \<and> filteredEdges topology_filter_init sample_nodes sample_edges = [sample_edge ''ext:1'' ''web'' False]"
  using drawn_graph_closed [of sample_edges sample_nodes topology_filter_init] by (simp add: sample_eval)

text \<open>A pod is flagged as receiving unexplained outside traffic exactly when no way in is declared for
  it and a drawn edge from outside reaches it unblocked.\<close>

theorem anomaly_flag_exact:
  assumes "n \<in> set (visibleNodes f ns es)" "tn_kind n = PodNode"
  shows "anomaly n \<longleftrightarrow> \<not> exposed n \<and>
    (\<exists>e \<in> set (filteredEdges f ns es). te_target e = tn_id n \<and> prefix ''ext:'' (te_source e) \<and> \<not> te_blocked e)"
proof -
  have "extInbound n \<longleftrightarrow> tn_id n \<in> extInboundTargets (filteredEdges f ns es)"
    using assms by (auto simp: visibleNodes_def Let_def)
  then show ?thesis by (auto simp add: anomaly_def extInboundTargets_def image_iff)
qed

theorem anomaly_flag_exact_witness:
  "anomaly ((sample_node ''web'' ''shop'' PodNode)\<lparr> extInbound := True \<rparr>)
   \<and> (sample_node ''web'' ''shop'' PodNode)\<lparr> extInbound := True \<rparr> \<in> set (visibleNodes topology_filter_init sample_nodes sample_edges)"
proof -
  have v: "(sample_node ''web'' ''shop'' PodNode)\<lparr> extInbound := True \<rparr>
      \<in> set (visibleNodes topology_filter_init sample_nodes sample_edges)"
    by (simp add: visibleNodes_def connectedIds_def extInboundTargets_def sample_eval Let_def)
  have "anomaly ((sample_node ''web'' ''shop'' PodNode)\<lparr> extInbound := True \<rparr>)"
    by (subst anomaly_flag_exact [OF v]) (simp_all add: sample_eval exposed_def)
  with v show ?thesis by blast
qed

section \<open>Placing the nodes\<close>

lemma layout_from_ids: "map cn_data (layout_from rows ns) = ns \<and> map cn_id (layout_from rows ns) = map tn_id ns"
  by (induction ns arbitrary: rows) auto

lemma layout_from_rows:
  "n \<in> set (layout_from rows ns) \<Longrightarrow> \<exists>r \<ge> rows (cn_kind n). cn_x n = KIND_COLUMN (cn_kind n) \<and> cn_y n = 80 + of_nat r * 100"
proof (induction ns arbitrary: rows)
  case (Cons m ns)
  show ?case
  proof (cases "n \<in> set (layout_from (rows(tn_kind m := Suc (rows (tn_kind m)))) ns)")
    case True
    from Cons.IH [OF this] obtain r where "(rows(tn_kind m := Suc (rows (tn_kind m)))) (cn_kind n) \<le> r"
      "cn_x n = KIND_COLUMN (cn_kind n)" "cn_y n = 80 + of_nat r * 100" by blast
    then show ?thesis by (intro exI [of _ r]) (auto split: if_splits)
  qed (use Cons.prems in auto)
qed simp

lemma KIND_COLUMN_inj: "KIND_COLUMN a = KIND_COLUMN b \<longleftrightarrow> a = b"
  by (cases a; cases b) simp_all

text \<open>The column layout places every node, in the server's order, and no two at the same place.\<close>

theorem layout_places_all:
  "map cn_data (layoutNodes ns) = ns \<and> distinct (map (\<lambda>n. (cn_x n, cn_y n)) (layoutNodes ns))"
proof
  show "map cn_data (layoutNodes ns) = ns" by (simp add: layoutNodes_def layout_from_ids)
  have "distinct (map (\<lambda>n. (cn_x n, cn_y n)) (layout_from rows ns))" for rows
  proof (induction ns arbitrary: rows)
    case (Cons m ns)
    let ?rows = "rows(tn_kind m := Suc (rows (tn_kind m)))"
    have "(cn_x n, cn_y n) \<noteq> (KIND_COLUMN (tn_kind m), 80 + of_nat (rows (tn_kind m)) * 100)"
      if "n \<in> set (layout_from ?rows ns)" for n
      using layout_from_rows [OF that] by (auto simp: KIND_COLUMN_inj)
    then show ?case using Cons.IH [of ?rows] by (auto simp: eq_commute simp del: fun_upd_apply)
  qed simp
  then show "distinct (map (\<lambda>n. (cn_x n, cn_y n)) (layoutNodes ns))" by (simp add: layoutNodes_def)
qed

lemma layoutNodes_opacity: "n \<in> set (layoutNodes ns) \<Longrightarrow> cn_opacity n = None"
proof -
  have "n \<in> set (layout_from rows ns) \<Longrightarrow> cn_opacity n = None" for rows
    by (induction ns arbitrary: rows) auto
  then show "n \<in> set (layoutNodes ns) \<Longrightarrow> cn_opacity n = None" by (simp add: layoutNodes_def)
qed

text \<open>The layout library moves nodes and nothing else.\<close>

lemma dagre_keeps_data [simp]: "map cn_data (applyDagreLayout dg ns ends) = map cn_data ns"
  by (auto simp: applyDagreLayout_def dagreLayout_def split: option.splits)

lemma adjacency_spec:
  "adjacency es adj i = adj i \<union> {t. \<exists>e \<in> set es. (te_source e = i \<and> t = te_target e) \<or> (te_target e = i \<and> t = te_source e)}"
  by (induction es arbitrary: adj) (auto simp: Let_def)

section \<open>The effects come to rest\<close>

lemma edgeVisuals_simps [simp]:
  "ce_id (edgeVisuals e f h) = ce_id e" "ce_source (edgeVisuals e f h) = ce_source e" "ce_target (edgeVisuals e f h) = ce_target e"
  "ce_blocked (edgeVisuals e f h) = ce_blocked e" "ce_color (edgeVisuals e f h) = ce_color e"
  by (simp_all add: edgeVisuals_def Let_def)

lemma edgeVisuals_twice: "edgeVisuals (edgeVisuals e f h) f' h' = edgeVisuals e f' h'"
  by (simp add: edgeVisuals_def Let_def)

lemma filter_effect_simps [simp]:
  "rawNodes (filter_effect dg st) = rawNodes st" "rawEdges (filter_effect dg st) = rawEdges st"
  "tp_filter (filter_effect dg st) = tp_filter st" "hoverId (filter_effect dg st) = hoverId st"
  "hoverEdgeId (filter_effect dg st) = hoverEdgeId st" "filterRan (filter_effect dg st) = filterRan st"
  "focusRan (filter_effect dg st) = focusRan st"
  "lastPayload (filter_effect dg st) = lastPayload st" "nodeClicks (filter_effect dg st) = nodeClicks st"
  by (simp_all add: filter_effect_def Let_def)

lemma focus_effect_simps [simp]:
  "rawNodes (focus_effect i h st) = rawNodes st" "rawEdges (focus_effect i h st) = rawEdges st"
  "tp_filter (focus_effect i h st) = tp_filter st" "hoverId (focus_effect i h st) = hoverId st"
  "hoverEdgeId (focus_effect i h st) = hoverEdgeId st" "filterRan (focus_effect i h st) = filterRan st"
  "focusRan (focus_effect i h st) = focusRan st" "selectedNode (focus_effect i h st) = selectedNode st"
  "lastPayload (focus_effect i h st) = lastPayload st" "nodeClicks (focus_effect i h st) = nodeClicks st"
  "selectedEdge (focus_effect i h st) = selectedEdge st" "neighbours (focus_effect i h st) = neighbours st"
  by (simp_all add: focus_effect_def)

lemmas round_defs = effect_round_def filter_deps_of_def focus_deps_of_def

lemma round_inputs [simp]:
  "rawNodes (effect_round dg st) = rawNodes st" "rawEdges (effect_round dg st) = rawEdges st"
  "tp_filter (effect_round dg st) = tp_filter st" "hoverId (effect_round dg st) = hoverId st"
  "hoverEdgeId (effect_round dg st) = hoverEdgeId st" "lastPayload (effect_round dg st) = lastPayload st"
  by (simp_all add: effect_round_def Let_def)

lemma round_filter_ran: "filterRan (effect_round dg st) = Some (filter_deps_of (effect_round dg st))"
  by (simp add: round_defs Let_def)

lemma round_focus_ran:
  "filterRan st = Some (filter_deps_of st) \<Longrightarrow> focusRan (effect_round dg st) = Some (focus_deps_of (effect_round dg st))"
  by (simp add: round_defs Let_def)

text \<open>One round brings the graph up to date; a second one is needed when it dropped the selection.\<close>

lemma second_round_rests: "\<not> effects_due (effect_round dg (effect_round dg st))"
  using round_filter_ran [of dg st] round_filter_ran [of dg "effect_round dg st"] round_focus_ran [of "effect_round dg st" dg]
  by (simp add: effects_due_def)

lemma settle_cases:
  "settle dg st = Some (if \<not> effects_due st then st
     else if \<not> effects_due (effect_round dg st) then effect_round dg st
     else effect_round dg (effect_round dg st))"
  using second_round_rests [of dg st] by (simp add: settle_def while_option_unfold)

text \<open>C22: rendering ends. From any state, whatever the layout library does, the effects run at most twice
  and leave a page on which none is due; the data and the filter are as they were.\<close>

theorem topology_settles:
  "\<exists>s. settle dg st = Some s \<and> \<not> effects_due s \<and> s \<in> {st, effect_round dg st, effect_round dg (effect_round dg st)}
     \<and> filter_deps_of s = filter_deps_of st"
  using second_round_rests [of dg st] by (auto simp: settle_cases filter_deps_of_def)

section \<open>What the canvas shows\<close>

datatype topology_move =
    LoadStart bool
  | LoadDone bool "topology_response option"
  | SetFilter topology_filter
  | AutoRefresh bool
  | HoverNode "string option"
  | HoverEdge "string option"
  | ClickNode canvas_node
  | ClickEdge canvas_edge
  | ClickPane
  | Relayout

fun do_move :: "dagre \<Rightarrow> topology_move \<Rightarrow> topology_page \<Rightarrow> topology_page" where
  "do_move dg (LoadStart b) st = topology_load_start b st"
| "do_move dg (LoadDone b r) st = topology_load_done b r st"
| "do_move dg (SetFilter f) st = st\<lparr> tp_filter := f \<rparr>"
| "do_move dg (AutoRefresh b) st = fst (set_autoRefresh b st)"
| "do_move dg (HoverNode i) st = st\<lparr> hoverId := i \<rparr>"
| "do_move dg (HoverEdge i) st = st\<lparr> hoverEdgeId := i \<rparr>"
| "do_move dg (ClickNode n) st = onNodeClick n st"
| "do_move dg (ClickEdge e) st = onEdgeClick e st"
| "do_move dg ClickPane st = onPaneClick st"
| "do_move dg Relayout st = autoLayout dg st"

text \<open>A move, then the effects until they rest.\<close>

inductive topology_reach :: "dagre \<Rightarrow> topology_page \<Rightarrow> bool" for dg where
  mounted: "settle dg topology_init = Some s \<Longrightarrow> topology_reach dg s"
| moved: "topology_reach dg s \<Longrightarrow> settle dg (do_move dg m s) = Some s' \<Longrightarrow> topology_reach dg s'"

text \<open>The canvas belongs to the data and filter the effect last ran with.\<close>

definition canvas_of :: "filter_deps \<Rightarrow> topology_page \<Rightarrow> bool" where
  "canvas_of d st = (case d of (ns, es, f) \<Rightarrow>
     map cn_data (tp_nodes st) = visibleNodes f ns es \<and>
     map (\<lambda>e. (ce_id e, ce_source e, ce_target e, ce_blocked e, ce_color e)) (tp_edges st) =
       map (\<lambda>e. (te_id e, te_source e, te_target e, te_blocked e, edge_colour (visibleNodes f ns es) e)) (filteredEdges f ns es) \<and>
     neighbours st = adjacency (filteredEdges f ns es) (\<lambda>_. {}))"

definition canvas_inv :: "topology_page \<Rightarrow> bool" where
  "canvas_inv st \<longleftrightarrow> (\<forall>d. filterRan st = Some d \<longrightarrow> canvas_of d st)"

definition panel_inv :: "topology_page \<Rightarrow> bool" where
  "panel_inv st \<longleftrightarrow> (\<forall>e. selectedEdge st = Some e \<longrightarrow> filterRan st = Some (filter_deps_of st) \<longrightarrow> e \<in> set (rawEdges st))"

lemma canvas_filter_effect: "canvas_of (filter_deps_of st) (filter_effect dg st)"
  by (simp add: canvas_of_def filter_deps_of_def filter_effect_def Let_def layoutEdges_def base_edge_def
      layoutNodes_def layout_from_ids)

lemma canvas_of_cong:
  "canvas_of d st \<Longrightarrow> map cn_data (tp_nodes st') = map cn_data (tp_nodes st) \<Longrightarrow> neighbours st' = neighbours st \<Longrightarrow>
   map (\<lambda>e. (ce_id e, ce_source e, ce_target e, ce_blocked e, ce_color e)) (tp_edges st') =
   map (\<lambda>e. (ce_id e, ce_source e, ce_target e, ce_blocked e, ce_color e)) (tp_edges st) \<Longrightarrow> canvas_of d st'"
  by (simp add: canvas_of_def split: prod.splits)

lemma canvas_focus_effect: "canvas_of d st \<Longrightarrow> canvas_of d (focus_effect i h st)"
  by (erule canvas_of_cong) (simp_all add: focus_effect_def)

lemma canvas_inv_filter: "canvas_inv ((filter_effect dg st)\<lparr> filterRan := Some (filter_deps_of st) \<rparr>)"
  unfolding canvas_inv_def using canvas_of_cong [OF canvas_filter_effect] by simp

lemma canvas_inv_focus: "canvas_inv st \<Longrightarrow> canvas_inv ((focus_effect i h st)\<lparr> focusRan := x \<rparr>)"
  unfolding canvas_inv_def by (auto elim!: canvas_of_cong [OF canvas_focus_effect])

lemma canvas_round: "canvas_inv st \<Longrightarrow> canvas_inv (effect_round dg st)"
  unfolding effect_round_def Let_def by (auto intro: canvas_inv_focus canvas_inv_filter)

lemma refresh_edge_drawn: "refresh_edge es prev = Some e \<Longrightarrow> e \<in> set es"
  by (auto simp: refresh_edge_def find_Some_iff split: option.splits)

lemma drawn_raw: "set (filteredEdges f ns es) \<subseteq> set es"
  by (auto simp: filteredEdges_def scopedEdges_def Let_def)

text \<open>What the effects need of a page to leave it in order: the selected edge is one the server sent, or
  the filter effect is due and will look it up.\<close>

lemma panel_round: "panel_inv st \<Longrightarrow> panel_inv (effect_round dg st)"
proof (cases "filterRan st = Some (filter_deps_of st)")
  case True
  then show "panel_inv st \<Longrightarrow> ?thesis" by (auto simp: panel_inv_def round_defs Let_def)
next
  case False
  have "e \<in> set (rawEdges st)" if "selectedEdge (filter_effect dg st) = Some e" for e
    using that drawn_raw [of "tp_filter st" "rawNodes st" "rawEdges st"]
    by (auto simp: filter_effect_def Let_def dest!: refresh_edge_drawn split: option.splits)
  with False show ?thesis by (auto simp: panel_inv_def round_defs Let_def)
qed

lemma settle_inv:
  assumes "settle dg st = Some s" "canvas_inv st" "panel_inv st"
  shows "canvas_inv s \<and> panel_inv s \<and> filterRan s = Some (filter_deps_of s)"
proof -
  have rest: "\<not> effects_due s" using topology_settles [of dg st] assms(1) by auto
  have "canvas_inv s \<and> panel_inv s"
    using assms by (auto simp: settle_cases canvas_round panel_round split: if_splits)
  with rest show ?thesis by (auto simp: effects_due_def)
qed

text \<open>A move touches neither the canvas' graph nor, but for a click, the panel.\<close>

lemma load_done_canvas [simp]:
  "tp_nodes (topology_load_done b r st) = tp_nodes st" "tp_edges (topology_load_done b r st) = tp_edges st"
  "neighbours (topology_load_done b r st) = neighbours st" "filterRan (topology_load_done b r st) = filterRan st"
  "selectedEdge (topology_load_done b r st) = selectedEdge st" "tp_filter (topology_load_done b r st) = tp_filter st"
  "focusRan (topology_load_done b r st) = focusRan st" "selectedNode (topology_load_done b r st) = selectedNode st"
  "hoverId (topology_load_done b r st) = hoverId st" "hoverEdgeId (topology_load_done b r st) = hoverEdgeId st"
  by (simp_all add: topology_load_done_def Let_def split: option.splits)

lemmas move_defs = topology_load_start_def set_autoRefresh_def poll_effect_def onNodeClick_def onEdgeClick_def onPaneClick_def autoLayout_def

lemma canvas_move: "canvas_inv st \<Longrightarrow> canvas_inv (do_move dg m st)"
  unfolding canvas_inv_def by (cases m) (auto simp: move_defs elim!: canvas_of_cong split: if_splits)

lemma panel_move:
  assumes "panel_inv st" "filterRan st = Some (filter_deps_of st)"
  shows "panel_inv (do_move dg m st)"
proof -
  have known: "\<And>e. selectedEdge st = Some e \<Longrightarrow> e \<in> set (rawEdges st)" using assms by (simp add: panel_inv_def)
  show ?thesis
    using known assms(2)
    by (cases m) (auto simp: panel_inv_def move_defs filter_deps_of_def find_Some_iff split: if_splits)
qed

lemma reach_inv: "topology_reach dg s \<Longrightarrow> canvas_inv s \<and> panel_inv s \<and> filterRan s = Some (filter_deps_of s)"
proof (induction rule: topology_reach.induct)
  case (mounted s)
  then show ?case by (rule settle_inv) (simp_all add: topology_init_def canvas_inv_def panel_inv_def)
next
  case (moved s m s')
  show ?case by (rule settle_inv [OF moved.hyps(2)]) (use moved.IH in \<open>auto simp: canvas_move panel_move\<close>)
qed

text \<open>C23: whatever the user and the polls do, the page at rest draws exactly the visible nodes and the filtered
  edges of the last answer under the current filter, whatever the layout library does with them; and
  the edge in the panel is one of that answer.\<close>

theorem canvas_follows_data:
  assumes "topology_reach dg s"
  shows "map cn_data (tp_nodes s) = visibleNodes (tp_filter s) (rawNodes s) (rawEdges s)
    \<and> map ce_id (tp_edges s) = map te_id (filteredEdges (tp_filter s) (rawNodes s) (rawEdges s))
    \<and> (\<forall>e. selectedEdge s = Some e \<longrightarrow> e \<in> set (rawEdges s))"
proof -
  note inv = reach_inv [OF assms]
  have c: "canvas_of (filter_deps_of s) s" using inv unfolding canvas_inv_def by blast
  then have "map (fst \<circ> (\<lambda>e. (ce_id e, ce_source e, ce_target e, ce_blocked e, ce_color e))) (tp_edges s) =
      map (fst \<circ> (\<lambda>e. (te_id e, te_source e, te_target e, te_blocked e,
        edge_colour (visibleNodes (tp_filter s) (rawNodes s) (rawEdges s)) e))) (filteredEdges (tp_filter s) (rawNodes s) (rawEdges s))"
    unfolding map_map [symmetric] by (simp add: canvas_of_def filter_deps_of_def)
  with c inv show ?thesis by (simp add: canvas_of_def filter_deps_of_def panel_inv_def comp_def)
qed

theorem canvas_follows_data_witness:
  "\<exists>s. topology_reach (\<lambda>_ _. None) s \<and> map (tn_id \<circ> cn_data) (tp_nodes s) = [''web'', ''ext:1'']"
proof -
  let ?res = "\<lparr> res_nodes = sample_nodes, res_edges = sample_edges, res_hasNetworkEvents = True, res_flowsEverSeen = True,
     res_dataSource = None, res_partialResolution = False \<rparr>"
  obtain s0 where s0: "settle (\<lambda>_ _. None) topology_init = Some s0" "filter_deps_of s0 = filter_deps_of topology_init"
    using topology_settles [of "\<lambda>_ _. None" topology_init] by blast
  have p0: "lastPayload s0 = None" using s0(1) by (auto simp: settle_cases topology_init_def split: if_splits)
  obtain s where s: "settle (\<lambda>_ _. None) (do_move (\<lambda>_ _. None) (LoadDone True (Some ?res)) s0) = Some s"
      "filter_deps_of s = filter_deps_of (topology_load_done True (Some ?res) s0)"
    using topology_settles [of "\<lambda>_ _. None" "topology_load_done True (Some ?res) s0"] by auto
  have r: "topology_reach (\<lambda>_ _. None) s" using s0(1) s(1) by (blast intro: topology_reach.intros)
  have "rawNodes s = sample_nodes" "rawEdges s = sample_edges" "tp_filter s = topology_filter_init"
    using s(2) s0(2) p0 by (auto simp: filter_deps_of_def topology_load_done_def topology_init_def)
  then have "map cn_data (tp_nodes s) = visibleNodes topology_filter_init sample_nodes sample_edges"
    using canvas_follows_data [OF r] by simp
  then have "map tn_id (map cn_data (tp_nodes s)) = [''web'', ''ext:1'']"
    by (simp add: visibleNodes_def connectedIds_def sample_eval Let_def)
  with r show ?thesis by auto
qed

lemma kind_has_chip: "k \<in> K \<Longrightarrow> \<exists>l. (k, l) \<in> {x \<in> set [(PodNode, ''Pod''), (HostNode, ''Node''),
    (LinkLocalNode, ''Link-local''), (ExternalNode, ''External'')]. case x of (a, b) \<Rightarrow> a \<in> K}"
  by (cases k) auto

lemma edge_colour_range: "edge_colour ns e \<in> {''#6366f1'', ''#64748b'', ''#f59e0b''}"
  by (simp add: edge_colour_def Let_def)

lemma colour_has_arrow: "c \<in> {''#6366f1'', ''#64748b'', ''#f59e0b''} \<Longrightarrow> c \<in> K \<Longrightarrow>
    \<exists>l. (c, l) \<in> {x \<in> set [(''#6366f1'', ''to Pod / Node''), (''#64748b'', ''to Link-local''), (''#f59e0b'', ''to External'')].
      case x of (a, b) \<Rightarrow> a \<in> K}"
  by auto

text \<open>The legend names exactly the kinds and the colours on the canvas.\<close>

lemma legend_complete:
  assumes "topology_reach dg s"
  shows "fst ` set (legend_chips s) = (tn_kind \<circ> cn_data) ` set (tp_nodes s)"
    and "e \<in> set (tp_edges s) \<Longrightarrow> \<not> ce_blocked e \<Longrightarrow> ce_color e \<in> fst ` set (legend_arrows s)"
proof -
  show "fst ` set (legend_chips s) = (tn_kind \<circ> cn_data) ` set (tp_nodes s)"
  proof (intro set_eqI iffI)
    fix k assume "k \<in> (tn_kind \<circ> cn_data) ` set (tp_nodes s)"
    from kind_has_chip [OF this] have "\<exists>l. (k, l) \<in> set (legend_chips s)" unfolding legend_chips_def set_filter .
    then show "k \<in> fst ` set (legend_chips s)" by force
  next
    fix k assume "k \<in> fst ` set (legend_chips s)"
    then obtain l where "(k, l) \<in> set (legend_chips s)" by auto
    then show "k \<in> (tn_kind \<circ> cn_data) ` set (tp_nodes s)"
      unfolding legend_chips_def set_filter by (elim CollectE conjE) (simp only: prod.case)
  qed
next
  assume e: "e \<in> set (tp_edges s)" "\<not> ce_blocked e"
  have "canvas_of (filter_deps_of s) s" using reach_inv [OF assms] unfolding canvas_inv_def by blast
  then have "map (\<lambda>e. (ce_id e, ce_source e, ce_target e, ce_blocked e, ce_color e)) (tp_edges s) =
      map (\<lambda>e. (te_id e, te_source e, te_target e, te_blocked e,
        edge_colour (visibleNodes (tp_filter s) (rawNodes s) (rawEdges s)) e)) (filteredEdges (tp_filter s) (rawNodes s) (rawEdges s))"
    by (simp add: canvas_of_def filter_deps_of_def)
  from arg_cong [OF this, of set] e(1) have "(ce_id e, ce_source e, ce_target e, ce_blocked e, ce_color e) \<in>
      set (map (\<lambda>e. (te_id e, te_source e, te_target e, te_blocked e,
        edge_colour (visibleNodes (tp_filter s) (rawNodes s) (rawEdges s)) e)) (filteredEdges (tp_filter s) (rawNodes s) (rawEdges s)))"
    unfolding set_map by blast
  then obtain r where "ce_color e = edge_colour (visibleNodes (tp_filter s) (rawNodes s) (rawEdges s)) r" by auto
  then have "ce_color e \<in> {''#6366f1'', ''#64748b'', ''#f59e0b''}" by (simp only: edge_colour_range)
  moreover have "ce_color e \<in> ce_color ` set (filter (\<lambda>e. \<not> ce_blocked e) (tp_edges s))" using e by simp
  ultimately have "\<exists>l. (ce_color e, l) \<in> set (legend_arrows s)"
    unfolding legend_arrows_def by (subst set_filter) (rule colour_has_arrow)
  then show "ce_color e \<in> fst ` set (legend_arrows s)" by force
qed

section \<open>Where the page falls behind\<close>

text \<open>An answer that changes the graph undoes the focus. While a node stays selected, its highlight is
  lost: the page comes to rest with every allowed edge unlabelled and nothing dimmed, as if nothing were
  selected, and the panel goes on showing the node as it was when it was clicked.\<close>

theorem selection_goes_stale:
  assumes "filterRan st \<noteq> Some (filter_deps_of st)" "focusRan st = Some (focus_deps_of st)"
    and "selectedNode st = Some n" "tn_id n \<in> tn_id ` set (visibleNodes (tp_filter st) (rawNodes st) (rawEdges st))"
  shows "\<exists>s. settle dg st = Some s \<and> selectedNode s = Some n
    \<and> (\<forall>e \<in> set (tp_edges s). \<not> ce_blocked e \<longrightarrow> map_option el_text (ce_look e) = Some Unlabelled)
    \<and> (\<forall>m \<in> set (tp_nodes s). cn_opacity m = None)"
proof -
  let ?s = "(filter_effect dg st)\<lparr> filterRan := Some (filter_deps_of st) \<rparr>"
  have round: "effect_round dg st = ?s" using assms(1,2) by (simp add: effect_round_def)
  have sel: "selectedNode ?s = Some n" using assms(3,4) by (simp add: filter_effect_def Let_def)
  have rest: "\<not> effects_due ?s" using assms(2,3) sel by (simp add: effects_due_def filter_deps_of_def focus_deps_of_def)
  have due: "effects_due st" using assms(1) by (simp add: effects_due_def)
  have "settle dg st = Some ?s" using due rest by (simp add: settle_cases round)
  moreover have "\<forall>e \<in> set (tp_edges ?s). \<not> ce_blocked e \<longrightarrow> map_option el_text (ce_look e) = Some Unlabelled"
    by (auto simp: filter_effect_def Let_def layoutEdges_def base_edge_def edgeVisuals_def given_def)
  moreover have "\<forall>m \<in> set (tp_nodes ?s). cn_opacity m = None"
    by (auto simp: filter_effect_def Let_def applyDagreLayout_def dagreLayout_def layoutNodes_opacity split: option.splits)
  ultimately show ?thesis using sel by blast
qed

theorem selection_goes_stale_witness:
  "\<exists>s. settle (\<lambda>_ _. None) (topology_init\<lparr> rawNodes := sample_nodes, rawEdges := sample_edges,
        selectedNode := Some (sample_node ''web'' ''shop'' PodNode), filterRan := Some ([], [], topology_filter_init),
        focusRan := Some (None, None, Some (sample_node ''web'' ''shop'' PodNode), 0) \<rparr>) = Some s
     \<and> selectedNode s = Some (sample_node ''web'' ''shop'' PodNode)"
proof -
  let ?st = "topology_init\<lparr> rawNodes := sample_nodes, rawEdges := sample_edges,
        selectedNode := Some (sample_node ''web'' ''shop'' PodNode), filterRan := Some ([], [], topology_filter_init),
        focusRan := Some (None, None, Some (sample_node ''web'' ''shop'' PodNode), 0) \<rparr>"
  have "filterRan ?st \<noteq> Some (filter_deps_of ?st)" by (simp add: filter_deps_of_def sample_nodes_def)
  moreover have "focusRan ?st = Some (focus_deps_of ?st)" by (simp add: focus_deps_of_def topology_init_def)
  moreover have "tn_id (sample_node ''web'' ''shop'' PodNode) \<in>
      tn_id ` set (visibleNodes (tp_filter ?st) (rawNodes ?st) (rawEdges ?st))"
    by (simp add: topology_init_def visibleNodes_def connectedIds_def sample_eval Let_def)
  ultimately show ?thesis
    using selection_goes_stale [of ?st "sample_node ''web'' ''shop'' PodNode" "\<lambda>_ _. None"] by auto
qed

text \<open>A failed poll puts the setup guide over a graph that is still drawn.\<close>

lemma failed_poll_shows_setup:
  "\<not> tp_loading st \<Longrightarrow> notice (topology_load_done False None st) = SetupNotice \<and> tp_nodes (topology_load_done False None st) = tp_nodes st"
  by (simp add: notice_def topology_load_done_def)

text \<open>Turning the refresh off loads once more, with the spinner in place of the graph.\<close>

lemma refresh_off_reloads: "tp_loading (fst (set_autoRefresh False st)) \<and> \<not> snd (set_autoRefresh False st)"
  by (simp add: set_autoRefresh_def poll_effect_def topology_load_start_def)

text \<open>The match count looks at all pods, those of kube-system that are hidden included.\<close>

lemma match_counts_hidden:
  "matchCount (topology_init\<lparr> rawNodes := sample_nodes, rawEdges := sample_edges,
      tp_filter := topology_filter_init\<lparr> podSearch := ''dns'' \<rparr> \<rparr>) = Some 1
   \<and> visibleNodes (topology_filter_init\<lparr> podSearch := ''dns'' \<rparr>) sample_nodes sample_edges = []"
  by code_simp

end
