(* ===== verification/Settings.thy ===== *)
theory Settings
  imports Notify TracingPage EventPages "HOL-Library.List_Lexorder"
begin

text \<open>
  The smaller pages that change something on the server: quarantine (\<open>QuarantinePage.tsx\<close>), the global
  mode (\<open>ModePage.tsx\<close>), the list of tracing policies (\<open>PolicyListPage.tsx\<close>) and event retention
  (\<open>SecurityRetentionPage.tsx\<close>), which also drives the event providers.
\<close>

section \<open>Quarantine\<close>

record quarantine_page =
  qn_pods :: "quarantined_pod list"
  qn_loading :: bool
  qn_busy :: string
  qn_releasing :: "quarantined_pod option"

definition quarantine_init :: quarantine_page where
  "quarantine_init = \<lparr> qn_pods = [], qn_loading = True, qn_busy = [], qn_releasing = None \<rparr>"

definition quarantine_load_done :: "quarantined_pod list option \<Rightarrow> quarantine_page \<Rightarrow> quarantine_page \<times> effect list" where
  "quarantine_load_done res st =
     (case res of
        Some ps \<Rightarrow> (st\<lparr> qn_pods := ps, qn_loading := False \<rparr>, [])
      | None \<Rightarrow> (st\<lparr> qn_loading := False \<rparr>, [ToastErr ''Could not read the quarantine list'']))"

text \<open>The Release button of a row, for an admin, and the confirmed release.\<close>

definition release_enabled :: "bool \<Rightarrow> quarantined_pod \<Rightarrow> quarantine_page \<Rightarrow> bool" where
  "release_enabled canEdit p st \<longleftrightarrow> canEdit \<and> qn_busy st \<noteq> pod_key (qp_namespace p) (qp_pod p)"

definition release_ask :: "quarantined_pod \<Rightarrow> quarantine_page \<Rightarrow> quarantine_page" where
  "release_ask p st = st\<lparr> qn_releasing := Some p \<rparr>"

definition release_start :: "quarantine_page \<Rightarrow> quarantine_page \<times> effect list" where
  "release_start st =
     (case qn_releasing st of
        None \<Rightarrow> (st, [])
      | Some p \<Rightarrow> (st\<lparr> qn_releasing := None, qn_busy := pod_key (qp_namespace p) (qp_pod p) \<rparr>,
                   [Send (quarantineApi_release (qp_namespace p) (qp_pod p))]))"

definition release_done :: "quarantined_pod \<Rightarrow> outcome \<Rightarrow> quarantine_page \<Rightarrow> quarantine_page \<times> effect list" where
  "release_done p res st = (st\<lparr> qn_busy := [] \<rparr>,
     (case res of
        Done \<Rightarrow> [ToastOk (((qp_pod p) @ '' released'')), Send quarantineApi_list]
      | Refused _ _ \<Rightarrow> [ToastErr ((''Could not release '' @ (qp_pod p)))]))"

text \<open>The row of a pod: a dash for what is missing or empty.\<close>

definition dash :: "string option \<Rightarrow> string option" where
  "dash v = (if given v then v else None)"

definition quarantine_row :: "(string \<Rightarrow> string) \<Rightarrow> quarantined_pod \<Rightarrow> string \<times> string \<times> string option \<times> string option \<times> string option" where
  "quarantine_row fmt p = (qp_namespace p, qp_pod p, dash (qp_node p), dash (qp_by p), map_option fmt (dash (qp_at p)))"

text \<open>Only one pod is remembered as busy: when a second release starts, or the first of two ends, the
  button of a pod whose release is still under way is enabled again.\<close>

lemma second_release_frees_first:
  assumes "pod_key (qp_namespace p) (qp_pod p) \<noteq> pod_key (qp_namespace q) (qp_pod q)"
  shows "release_enabled True p (fst (release_start (release_ask q (fst (release_start (release_ask p st))))))"
  using assms by (auto simp: release_enabled_def release_start_def release_ask_def)

section \<open>The global mode\<close>

datatype protect_mode = Monitoring | Protect | MixedMode

fun mode_name :: "protect_mode \<Rightarrow> string" where
  "mode_name Monitoring = ''Monitoring''"
| "mode_name Protect = ''Protect''"
| "mode_name MixedMode = ''Mixed''"

definition nextMode :: "protect_mode \<Rightarrow> protect_mode" where
  "nextMode mode = (if mode = Protect then Monitoring else Protect)"

fun mode_status :: "protect_mode \<Rightarrow> string" where
  "mode_status Protect = ''ON''"
| "mode_status MixedMode = ''MIXED''"
| "mode_status Monitoring = ''OFF''"

fun MODE_DESCRIPTIONS :: "protect_mode \<Rightarrow> string" where
  "MODE_DESCRIPTIONS Monitoring = ''Monitors all behavior without blocking. Suitable for initial policy validation and behavioral analysis.''"
| "MODE_DESCRIPTIONS Protect = ''Actively blocks policy violations via Sigkill. Suitable for production enforcement.''"
| "MODE_DESCRIPTIONS MixedMode = ''Some policies use Monitoring and others use Protect. Switching will apply the selected mode to all policies.''"

record mode_page =
  mp_mode :: protect_mode
  mp_loading :: bool

definition mode_init :: mode_page where
  "mode_init = \<lparr> mp_mode = Monitoring, mp_loading = True \<rparr>"

definition mode_loaded :: "protect_mode option \<Rightarrow> mode_page \<Rightarrow> mode_page \<times> effect list" where
  "mode_loaded res st =
     (case res of
        Some m \<Rightarrow> (st\<lparr> mp_mode := m, mp_loading := False \<rparr>, [])
      | None \<Rightarrow> (st\<lparr> mp_loading := False \<rparr>, [ToastErr ''Failed to load mode'']))"

definition mode_switch :: "mode_page \<Rightarrow> effect list" where
  "mode_switch st = [Send (modeApi_set (mode_name (nextMode (mp_mode st))))]"

definition mode_switch_done :: "protect_mode \<Rightarrow> outcome \<Rightarrow> mode_page \<Rightarrow> mode_page \<times> effect list" where
  "mode_switch_done asked res st =
     (case res of
        Done \<Rightarrow> (st\<lparr> mp_mode := asked \<rparr>, [ToastOk ((''Mode switched to '' @ (mode_name asked)))])
      | Refused _ _ \<Rightarrow> (st, [ToastErr ''Failed to switch mode'']))"

section \<open>The list of tracing policies\<close>

record policy_list_page =
  pl_policies :: "policy_record list"
  pl_loading :: bool
  pl_search :: string
  pl_nsFilter :: "string list"
  pl_deleteTarget :: "policy_record option"
  pl_pendingMode :: "(policy_record \<times> protect_mode) option"
  pl_globalMode :: protect_mode

definition policy_list_init :: policy_list_page where
  "policy_list_init = \<lparr> pl_policies = [], pl_loading = True, pl_search = [], pl_nsFilter = [], pl_deleteTarget = None,
     pl_pendingMode = None, pl_globalMode = Monitoring \<rparr>"

definition fetchPolicies :: "bool \<Rightarrow> policy_list_page \<Rightarrow> policy_list_page \<times> effect list" where
  "fetchPolicies showSpinner st = (if showSpinner then st\<lparr> pl_loading := True \<rparr> else st, [Send policyApi_list])"

definition policies_fetched :: "policy_record list option \<Rightarrow> policy_list_page \<Rightarrow> policy_list_page \<times> effect list" where
  "policies_fetched res st =
     (case res of
        Some ps \<Rightarrow> (st\<lparr> pl_policies := ps, pl_loading := False \<rparr>, [])
      | None \<Rightarrow> (st\<lparr> pl_loading := False \<rparr>, [ToastErr ''Failed to load policies'']))"

definition global_mode_loaded :: "protect_mode option \<Rightarrow> policy_list_page \<Rightarrow> policy_list_page" where
  "global_mode_loaded res st = (case res of Some m \<Rightarrow> st\<lparr> pl_globalMode := m \<rparr> | None \<Rightarrow> st)"

definition list_mounted :: "policy_list_page \<Rightarrow> policy_list_page \<times> effect list" where
  "list_mounted st = (st\<lparr> pl_loading := True \<rparr>, [Send policyApi_list, Send modeApi_get])"

definition handleGlobalModeSwitch :: "policy_list_page \<Rightarrow> effect list" where
  "handleGlobalModeSwitch st = [Send (modeApi_set (mode_name (nextMode (pl_globalMode st))))]"

definition global_switch_done :: "protect_mode \<Rightarrow> outcome \<Rightarrow> policy_list_page \<Rightarrow> policy_list_page \<times> effect list" where
  "global_switch_done asked res st =
     (case res of
        Done \<Rightarrow> (st\<lparr> pl_globalMode := asked \<rparr>, [ToastOk ((''Global mode switched to '' @ (mode_name asked))), Send policyApi_list])
      | Refused _ _ \<Rightarrow> (st, [ToastErr ''Failed to switch global mode'']))"

definition policy_delete :: "policy_list_page \<Rightarrow> effect list" where
  "policy_delete st =
     (case pl_deleteTarget st of None \<Rightarrow> [] | Some p \<Rightarrow> [Send (policyApi_delete (po_name p) (po_namespace p))])"

definition policy_delete_done :: "outcome \<Rightarrow> effect list" where
  "policy_delete_done res =
     (case res of
        Done \<Rightarrow> [ToastOk ''Policy deleted'', Send policyApi_list]
      | Refused _ _ \<Rightarrow> [ToastErr ''Failed to delete policy''])"

text \<open>A mode is shown as set before the server has answered.\<close>

definition same_policy :: "policy_record \<Rightarrow> policy_record \<Rightarrow> bool" where
  "same_policy p x \<longleftrightarrow> po_name x = po_name p \<and> po_namespace x = po_namespace p"

definition handleModeChange :: "policy_record \<Rightarrow> protect_mode \<Rightarrow> policy_list_page \<Rightarrow> policy_list_page \<times> effect list" where
  "handleModeChange p mode st =
     (st\<lparr> pl_policies := map (\<lambda>x. if same_policy p x then x\<lparr> po_mode := mode_name mode \<rparr> else x) (pl_policies st) \<rparr>,
      [Send (policyApi_setMode (po_name p) (po_namespace p) (mode_name mode))])"

definition mode_change_done :: "policy_record \<Rightarrow> protect_mode \<Rightarrow> outcome \<Rightarrow> effect list" where
  "mode_change_done p mode res =
     (case res of
        Done \<Rightarrow> [ToastOk (((po_name p) @ '': mode set to '' @ (mode_name mode)))]
      | Refused _ _ \<Rightarrow> [ToastErr ((''Failed to update mode for '' @ (po_name p))), Send policyApi_list])"

definition policy_namespaces :: "policy_list_page \<Rightarrow> string list" where
  "policy_namespaces st = sort (remdups (map the (filter given (map po_namespace (pl_policies st)))))"

definition filtered_policies :: "policy_list_page \<Rightarrow> policy_record list" where
  "filtered_policies st = filter (\<lambda>p. js_includes (to_lower (po_name p)) (to_lower (pl_search st)) \<and>
     matchesScopeFilter (po_scope p) (po_namespace p) (pl_nsFilter st)) (pl_policies st)"

definition policy_edit_address :: "policy_record \<Rightarrow> string" where
  "policy_edit_address p = ''/policies/tracing/'' @ po_name p @ ''/edit?namespace='' @ opt_or (po_namespace p)"

text \<open>Setting one policy's mode changes that policy's mode on screen and nothing else; whatever the
  screen showed meanwhile, a refused change followed by an answered list shows what the server has.\<close>

theorem mode_change_recovers:
  "(case handleModeChange p mode st of (st1, es) \<Rightarrow>
      length (pl_policies st1) = length (pl_policies st) \<and>
      (\<forall>i < length (pl_policies st). pl_policies st1 ! i =
         (if same_policy p (pl_policies st ! i) then (pl_policies st ! i)\<lparr> po_mode := mode_name mode \<rparr> else pl_policies st ! i)) \<and>
      sends es = [policyApi_setMode (po_name p) (po_namespace p) (mode_name mode)] \<and>
      sends (mode_change_done p mode (Refused d s)) = [policyApi_list] \<and>
      pl_policies (fst (policies_fetched (Some ps) st1)) = ps \<and>
      pl_globalMode st1 = pl_globalMode st)"
  by (simp add: handleModeChange_def mode_change_done_def policies_fetched_def)

definition sample_policy :: "string \<Rightarrow> policy_record" where
  "sample_policy name = \<lparr> po_name = name, po_namespace = None, po_scope = ''cluster'', po_mode = ''Monitoring'',
     po_createdBy = [], po_createdAt = [], po_rawYaml = [] \<rparr>"

theorem mode_change_recovers_witness:
  "let st = policy_list_init\<lparr> pl_policies := [sample_policy ''a'', sample_policy ''b''] \<rparr>;
       st1 = fst (handleModeChange (sample_policy ''b'') Protect st)
   in pl_policies st1 ! 0 = sample_policy ''a'' \<and> po_mode (pl_policies st1 ! 1) = ''Protect''
      \<and> pl_policies (fst (policies_fetched (Some (pl_policies st)) st1)) = pl_policies st"
proof -
  let ?st = "policy_list_init\<lparr> pl_policies := [sample_policy ''a'', sample_policy ''b''] \<rparr>"
  obtain st1 es where h: "handleModeChange (sample_policy ''b'') Protect ?st = (st1, es)" by fastforce
  have c: "length (pl_policies ?st) = 2" "pl_policies ?st ! 0 = sample_policy ''a''" "pl_policies ?st ! 1 = sample_policy ''b''"
    "\<not> same_policy (sample_policy ''b'') (sample_policy ''a'')" "same_policy (sample_policy ''b'') (sample_policy ''b'')"
    by (simp_all add: same_policy_def sample_policy_def)
  note m = mode_change_recovers [where p = "sample_policy ''b''" and mode = Protect and st = ?st and d = JNull and s = JNull
    and ps = "pl_policies ?st", unfolded h prod.case]
  have at: "pl_policies st1 ! i = (if same_policy (sample_policy ''b'') (pl_policies ?st ! i)
      then (pl_policies ?st ! i)\<lparr> po_mode := mode_name Protect \<rparr> else pl_policies ?st ! i)" if "i < 2" for i
    using m that c(1) by simp
  show ?thesis using at [of 0] at [of 1] m c by (simp add: Let_def h)
qed

text \<open>When the list cannot be loaded either, the mode that was refused stays on screen.\<close>

lemma refused_mode_sticks:
  assumes "p \<in> set (pl_policies st)"
  shows "p\<lparr> po_mode := mode_name mode \<rparr> \<in> set (pl_policies (fst (policies_fetched None (fst (handleModeChange p mode st)))))"
  using assms by (auto simp: handleModeChange_def policies_fetched_def same_policy_def intro!: image_eqI [of _ _ p])

text \<open>The banner's mode is read once: no change of a single policy's mode, answered or not, moves it.\<close>

lemma banner_not_refreshed:
  "pl_globalMode (fst (policies_fetched res (fst (handleModeChange p mode st)))) = pl_globalMode st
   \<and> modeApi_get \<notin> set (sends (snd (handleModeChange p mode st)) @ sends (mode_change_done p mode r))"
  by (auto simp: policies_fetched_def handleModeChange_def mode_change_done_def modeApi_get_def policyApi_setMode_def policyApi_list_def
      api_get_def api_put_def split: option.splits outcome.splits)

section \<open>Event retention\<close>

record security_retention =
  maxWarnings :: int
  maxCriticals :: int
  sr_ttlDays :: int

record admission_retention =
  maxEvents :: int
  ar_ttlDays :: int

record retention_page =
  rt_security :: "security_retention option"
  rt_admission :: "admission_retention option"
  secError :: bool
  admError :: bool
  savingSec :: bool
  savingAdm :: bool


definition fetchAll :: "retention_page \<Rightarrow> retention_page \<times> effect list" where
  "fetchAll st = (st\<lparr> secError := False, admError := False \<rparr>, [Send securityRetentionApi_get, Send admissionRetentionApi_get])"


definition admission_fetched :: "admission_retention option \<Rightarrow> retention_page \<Rightarrow> retention_page" where
  "admission_fetched res st = (case res of Some r \<Rightarrow> st\<lparr> rt_admission := Some r \<rparr> | None \<Rightarrow> st\<lparr> admError := True \<rparr>)"

text \<open>\<open>Math.max(1, parseInt(v) || 1)\<close>\<close>

definition at_least_one :: "string \<Rightarrow> int" where
  "at_least_one v = max 1 (parseInt_or 1 v)"




definition set_maxEvents :: "string \<Rightarrow> retention_page \<Rightarrow> retention_page" where
  "set_maxEvents v st = st\<lparr> rt_admission := map_option (\<lambda>r. r\<lparr> maxEvents := at_least_one v \<rparr>) (rt_admission st) \<rparr>"

definition set_admissionTTL :: "string \<Rightarrow> retention_page \<Rightarrow> retention_page" where
  "set_admissionTTL v st = st\<lparr> rt_admission := map_option (\<lambda>r. r\<lparr> ar_ttlDays := at_least_one v \<rparr>) (rt_admission st) \<rparr>"

definition handleSaveSecurity :: "retention_page \<Rightarrow> retention_page \<times> effect list" where
  "handleSaveSecurity st =
     (if savingSec st then (st, [])
      else case rt_security st of
        None \<Rightarrow> (st, [])
      | Some r \<Rightarrow> (st\<lparr> savingSec := True \<rparr>, [Send (securityRetentionApi_set (maxWarnings r) (maxCriticals r) (sr_ttlDays r))]))"

definition save_security_done :: "security_retention \<Rightarrow> outcome \<Rightarrow> retention_page \<Rightarrow> retention_page \<times> effect list" where
  "save_security_done updated res st =
     (case res of
        Done \<Rightarrow> (st\<lparr> savingSec := False, rt_security := Some updated \<rparr>, [ToastOk ''Security Events retention updated.''])
      | Refused _ _ \<Rightarrow> (st\<lparr> savingSec := False \<rparr>, [ToastErr ''Failed to update Security Events retention.'']))"



definition handleSaveAdmission :: "retention_page \<Rightarrow> retention_page \<times> effect list" where
  "handleSaveAdmission st =
     (if savingAdm st then (st, [])
      else case rt_admission st of
        None \<Rightarrow> (st, [])
      | Some r \<Rightarrow> (st\<lparr> savingAdm := True \<rparr>, [Send (admissionRetentionApi_set (maxEvents r) (ar_ttlDays r))]))"

definition save_admission_done :: "admission_retention \<Rightarrow> outcome \<Rightarrow> retention_page \<Rightarrow> retention_page \<times> effect list" where
  "save_admission_done updated res st =
     (case res of
        Done \<Rightarrow> (st\<lparr> savingAdm := False, rt_admission := Some updated \<rparr>, [ToastOk ''Admission Events retention updated.''])
      | Refused _ _ \<Rightarrow> (st\<lparr> savingAdm := False \<rparr>, [ToastErr ''Failed to update Admission Events retention.'']))"

definition admission_applied :: "admission_retention \<Rightarrow> admission_input" where
  "admission_applied updated = AApplyRetention (nat (maxEvents updated)) (nat (ar_ttlDays updated))"


definition admission_retention_ok :: "admission_retention \<Rightarrow> bool" where
  "admission_retention_ok r \<longleftrightarrow> 1 \<le> maxEvents r \<and> maxEvents r \<le> 5000 \<and> 1 \<le> ar_ttlDays r \<and> ar_ttlDays r \<le> 365"


interpretation security_save: single_flight savingSec handleSaveSecurity "save_security_done u" for u
  by unfold_locales
    (auto simp: handleSaveSecurity_def save_security_done_def written_def securityRetentionApi_set_def api_put_def
      split: option.splits outcome.splits)

interpretation admission_save: single_flight savingAdm handleSaveAdmission "save_admission_done u" for u
  by unfold_locales
    (auto simp: handleSaveAdmission_def save_admission_done_def written_def admissionRetentionApi_set_def api_put_def
      split: option.splits outcome.splits)

lemma at_least_one: "1 \<le> at_least_one v"
  by (simp add: at_least_one_def)

subsection \<open>The page, the stream and the server\<close>

















text \<open>The form holds the lower bounds and not the upper ones: it sends 9999 as it was typed.\<close>

lemma upper_bound_not_held: "at_least_one ''9999'' = 9999 \<and> at_least_one ''0'' = 1 \<and> at_least_one [] = 1"
  by code_simp

end
