(* ===== verification/Templates.thy ===== *)
theory Templates
  imports PageBase VapGen
begin

text \<open>
  The policy templates page, \<open>web/src/pages/PolicyTemplatesPage.tsx\<close>: the rewriting of a template's YAML
  by regular expressions, written out as scanners, and the page's dialogs and forms. The built-in
  templates (\<open>web/src/data/policyTemplates.ts\<close>) are the argument \<open>builtin\<close>; random text and the
  clock are arguments too.
\<close>

section \<open>Regular expressions over lines\<close>

definition line_break :: "char \<Rightarrow> bool" where
  "line_break c \<longleftrightarrow> c = CHR 0x0A \<or> c = CHR 0x0D"

definition DOLLAR :: string where "DOLLAR = [CHR 0x24]"

text \<open>Replacing each match of \<open>/^(\s*)lit$/gm\<close>: \<open>bol\<close> says that the scanner is at the beginning of a
  line. \<open>lit\<close> starts with no white space, so \<open>\s*\<close> takes all there is, line breaks included.\<close>

function rewrite_lines :: "string \<Rightarrow> (string \<Rightarrow> string) \<Rightarrow> bool \<Rightarrow> string \<Rightarrow> string" where
  "rewrite_lines lit repl bol [] = []"
| "rewrite_lines lit repl bol (c # cs) =
     (let ws = takeWhile js_ws (c # cs); rest = dropWhile js_ws (c # cs); after = drop (length lit) rest
      in if lit \<noteq> [] \<and> bol \<and> prefix lit rest \<and> (after = [] \<or> line_break (hd after))
         then repl ws @ rewrite_lines lit repl False after
         else c # rewrite_lines lit repl (line_break c) cs)"
  by pat_completeness auto

lemma after_shorter:
  assumes "lit \<noteq> []" "prefix lit (dropWhile js_ws (c # cs))"
  shows "length (drop (length lit) (dropWhile js_ws (c # cs))) < length (c # cs)"
proof -
  have "length (dropWhile js_ws (c # cs)) \<le> length (c # cs)" by (rule length_dropWhile_le)
  moreover have "length lit \<le> length (dropWhile js_ws (c # cs))" using assms(2) by (rule prefix_length_le)
  moreover have "0 < length lit" using assms(1) by simp
  ultimately show ?thesis by (simp only: length_drop)
qed

termination rewrite_lines
  by (relation "measure (\<lambda>(lit, repl, bol, s). length s)") (use after_shorter in \<open>auto simp: Let_def\<close>)

definition placeholder :: "string \<Rightarrow> string" where
  "placeholder name = ''- '' @ DQ @ DOLLAR @ ''{'' @ name @ ''}'' @ DQ"

definition list_item :: "string \<Rightarrow> string \<Rightarrow> string" where
  "list_item indent v = indent @ ''- '' @ DQ @ v @ DQ"

definition items_or :: "string \<Rightarrow> string list \<Rightarrow> string \<Rightarrow> string" where
  "items_or none vs indent = (if length vs > 0 then join_with NL (map (list_item indent) vs) else list_item indent none)"

definition substituteCIDRs :: "string \<Rightarrow> string list \<Rightarrow> string list \<Rightarrow> string list \<Rightarrow> string" where
  "substituteCIDRs yaml podCIDRs serviceCIDRs nodeIPs =
     (let r1 = rewrite_lines (placeholder ''PODCIDR'') (items_or ''# PODCIDR not detected'' podCIDRs) True yaml;
          r2 = rewrite_lines (placeholder ''SVCCIDR'') (items_or ''# SVCCIDR not detected'' serviceCIDRs) True r1
      in rewrite_lines (placeholder ''NODEIPS'') (items_or ''# Node IPs not detected'' nodeIPs) True r2)"

text \<open>\<open>/^metadata:\s*\n(?:\s+\S.*\n)*\s+namespace:\s*\S/m\<close>: after the line of \<open>metadata:\<close>, indented lines up
  to one with a namespace. \<open>\s+\<close> is followed by a character that is no white space, so it takes all.\<close>

function namespace_follows :: "string \<Rightarrow> bool" where
  "namespace_follows s =
     (let rest = dropWhile js_ws s; body = dropWhile (\<lambda>c. \<not> line_break c) (tl rest)
      in if takeWhile js_ws s = [] \<or> rest = [] then False
         else if prefix ''namespace:'' rest \<and> dropWhile js_ws (drop 10 rest) \<noteq> [] then True
         else if body = [] \<or> hd body \<noteq> CHR 0x0A then False
         else namespace_follows (tl body))"
  by pat_completeness auto

lemma body_shorter:
  assumes "dropWhile js_ws s \<noteq> []" "dropWhile (\<lambda>c. \<not> line_break c) (tl (dropWhile js_ws s)) \<noteq> []"
  shows "length (tl (dropWhile (\<lambda>c. \<not> line_break c) (tl (dropWhile js_ws s)))) < length s"
proof -
  have "length (dropWhile js_ws s) \<le> length s" by (rule length_dropWhile_le)
  moreover have "length (dropWhile (\<lambda>c. \<not> line_break c) (tl (dropWhile js_ws s))) \<le> length (tl (dropWhile js_ws s))"
    by (rule length_dropWhile_le)
  moreover have "0 < length (dropWhile js_ws s)" using assms(1) by simp
  moreover have "0 < length (dropWhile (\<lambda>c. \<not> line_break c) (tl (dropWhile js_ws s)))" using assms(2) by simp
  ultimately show ?thesis by (simp only: length_tl)
qed

termination namespace_follows
  by (relation "measure length") (use body_shorter in \<open>auto simp: Let_def\<close>)

declare namespace_follows.simps [simp del]

fun has_namespace :: "bool \<Rightarrow> string \<Rightarrow> bool" where
  "has_namespace bol [] = False"
| "has_namespace bol (c # cs) =
     ((bol \<and> prefix ''metadata:'' (c # cs) \<and>
        (let r = drop 9 (c # cs) in CHR 0x0A \<in> set (takeWhile js_ws r) \<and>
           namespace_follows (tl (dropWhile (\<lambda>x. x \<noteq> CHR 0x0A) r))))
      \<or> has_namespace (line_break c) cs)"

definition templateScope :: "string \<Rightarrow> string" where
  "templateScope yaml = (if has_namespace True yaml then ''namespace'' else ''cluster'')"

text \<open>What a replacement text stands for: \<open>$$\<close>, \<open>$&\<close>, the text before and after the match, and the one
  group; \<open>matched\<close> is the whole match.\<close>

fun expand :: "string \<Rightarrow> string \<Rightarrow> string \<Rightarrow> string \<Rightarrow> string \<Rightarrow> string" where
  "expand matched pre after g1 [] = []"
| "expand matched pre after g1 [c] = [c]"
| "expand matched pre after g1 (c # d # t) =
     (if c \<noteq> CHR 0x24 then c # expand matched pre after g1 (d # t)
      else if d = CHR 0x24 then c # expand matched pre after g1 t
      else if d = CHR ''&'' then matched @ expand matched pre after g1 t
      else if d = CHR 0x60 then pre @ expand matched pre after g1 t
      else if d = CHR 0x27 then after @ expand matched pre after g1 t
      else if d = CHR ''0'' \<and> t \<noteq> [] \<and> hd t = CHR ''1'' then g1 @ expand matched pre after g1 (tl t)
      else if d = CHR ''1'' then g1 @ expand matched pre after g1 t
      else c # expand matched pre after g1 (d # t))"

text \<open>\<open>/^(\s*name:\s*).+$/m\<close> at the beginning of a line: the group, the rest of the match, what follows it.
  The last white space gives way when there is nothing else for \<open>.+\<close>.\<close>

definition match_name :: "string \<Rightarrow> (string \<times> string \<times> string) option" where
  "match_name s =
     (let rest = dropWhile js_ws s; r = drop 5 rest; ws = takeWhile js_ws r; val = dropWhile js_ws r;
          g = takeWhile js_ws s @ ''name:''
      in if \<not> prefix ''name:'' rest then None
         else if val \<noteq> [] then Some (g @ ws, takeWhile (\<lambda>c. \<not> line_break c) val, dropWhile (\<lambda>c. \<not> line_break c) val)
         else (let back = rev (dropWhile line_break (rev ws))
               in if back = [] then None else Some (g @ butlast back, [last back], drop (length back) ws)))"

fun rename_from :: "string \<Rightarrow> string \<Rightarrow> bool \<Rightarrow> string \<Rightarrow> string" where
  "rename_from tpl pre bol [] = []"
| "rename_from tpl pre bol (c # cs) =
     (case (if bol then match_name (c # cs) else None) of
        Some (g1, val, after) \<Rightarrow> expand (g1 @ val) pre after g1 tpl @ after
      | None \<Rightarrow> c # rename_from tpl (pre @ [c]) (line_break c) cs)"

definition rename_template :: "string \<Rightarrow> string \<Rightarrow> string" where
  "rename_template yaml name = rename_from (DOLLAR @ ''1'' @ trim name) [] True yaml"

section \<open>Names\<close>

fun dash_runs :: "string \<Rightarrow> string" where
  "dash_runs [] = []"
| "dash_runs (c # cs) =
     (if lower_alnum c then c # dash_runs cs
      else case cs of [] \<Rightarrow> ''-'' | d # _ \<Rightarrow> if lower_alnum d then CHR ''-'' # dash_runs cs else dash_runs cs)"

definition trim_dashes :: "string \<Rightarrow> string" where
  "trim_dashes s = (let t = (if s \<noteq> [] \<and> hd s = CHR ''-'' then tl s else s)
     in if t \<noteq> [] \<and> last t = CHR ''-'' then butlast t else t)"

definition slug :: "string \<Rightarrow> string" where
  "slug name = trim_dashes (dash_runs (to_lower name))"

section \<open>The page\<close>

record policy_template =
  pt_id :: string
  pt_name :: string
  pt_description :: string
  pt_tags :: "string list"
  pt_yaml :: string
  pt_custom :: bool

definition apiToTemplate :: "custom_template \<Rightarrow> policy_template" where
  "apiToTemplate t = \<lparr> pt_id = ct_id t, pt_name = ct_name t,
     pt_description = (case ct_description t of Some d \<Rightarrow> d | None \<Rightarrow> []),
     pt_tags = (case ct_tags t of Some ts \<Rightarrow> ts | None \<Rightarrow> []), pt_yaml = ct_yaml t, pt_custom = True \<rparr>"

record templates_page =
  customTemplates :: "policy_template list"
  tm_search :: string
  scopeFilter :: string
  tm_selected :: "policy_template option"
  tm_policyName :: string
  tm_creating :: bool
  dialogLoading :: bool
  editingTemplate :: "policy_template option"
  tm_editorYaml :: string
  tm_editorValid :: bool
  editorKey :: nat
  showNewForm :: bool
  newName :: string
  newDesc :: string
  newTags :: string
  newYaml :: string
  newYamlValid :: bool
  savingNew :: bool
  tm_deleteTarget :: "policy_template option"

definition templates_init :: templates_page where
  "templates_init = \<lparr> customTemplates = [], tm_search = [], scopeFilter = ''all'', tm_selected = None, tm_policyName = [],
     tm_creating = False, dialogLoading = False, editingTemplate = None, tm_editorYaml = [], tm_editorValid = True,
     editorKey = 0, showNewForm = False, newName = [], newDesc = [], newTags = [], newYaml = [], newYamlValid = True,
     savingNew = False, tm_deleteTarget = None \<rparr>"

definition custom_loaded :: "custom_template list option \<Rightarrow> templates_page \<Rightarrow> templates_page" where
  "custom_loaded res st = (case res of Some ts \<Rightarrow> st\<lparr> customTemplates := map apiToTemplate ts \<rparr> | None \<Rightarrow> st)"

definition filteredTemplates :: "policy_template list \<Rightarrow> templates_page \<Rightarrow> policy_template list" where
  "filteredTemplates builtin st = filter (\<lambda>t.
     (tm_search st = [] \<or> js_includes (to_lower (pt_name t)) (to_lower (tm_search st))) \<and>
     (scopeFilter st = ''all'' \<or> templateScope (pt_yaml t) = scopeFilter st)) (builtin @ customTemplates st)"

definition mentions :: "string \<Rightarrow> string \<Rightarrow> bool" where
  "mentions name yaml \<longleftrightarrow> js_includes yaml (DOLLAR @ ''{'' @ name @ ''}'')"

definition openDialog_start :: "string \<Rightarrow> policy_template \<Rightarrow> templates_page \<Rightarrow> templates_page \<times> effect list" where
  "openDialog_start sfx t st =
     (if dialogLoading st then (st, [])
      else (let st1 = st\<lparr> tm_policyName := slug (pt_name t) @ ''-'' @ sfx \<rparr>
            in if mentions ''PODCIDR'' (pt_yaml t) \<or> mentions ''SVCCIDR'' (pt_yaml t)
               then (st1\<lparr> dialogLoading := True \<rparr>, [Send clusterApi_cidr])
               else (st1\<lparr> tm_selected := Some t \<rparr>, [])))"

definition openDialog_done ::
  "policy_template \<Rightarrow> (string list \<times> string list \<times> string list) option \<Rightarrow> templates_page \<Rightarrow> templates_page \<times> effect list" where
  "openDialog_done t res st =
     (case res of
        Some (podCIDRs, serviceCIDRs, nodeIPs) \<Rightarrow>
          (st\<lparr> tm_selected := Some (t\<lparr> pt_yaml := substituteCIDRs (pt_yaml t) podCIDRs serviceCIDRs nodeIPs \<rparr>), dialogLoading := False \<rparr>, [])
      | None \<Rightarrow> (st\<lparr> tm_selected := Some t, dialogLoading := False \<rparr>,
                 [ToastErr ''Could not detect cluster CIDRs. Edit the YAML manually before creating.'']))"

definition unresolved :: "string \<Rightarrow> bool" where
  "unresolved yaml \<longleftrightarrow> js_includes yaml (DOLLAR @ ''{'')"

text \<open>The Create button, and Enter in the name field, which asks no button.\<close>

definition create_enabled :: "templates_page \<Rightarrow> bool" where
  "create_enabled st \<longleftrightarrow> \<not> tm_creating st \<and> trim (tm_policyName st) \<noteq> [] \<and>
     \<not> (case tm_selected st of Some t \<Rightarrow> unresolved (pt_yaml t) | None \<Rightarrow> False)"

definition template_create_start :: "templates_page \<Rightarrow> templates_page \<times> effect list" where
  "template_create_start st =
     (case tm_selected st of
        None \<Rightarrow> (st, [])
      | Some t \<Rightarrow>
          if trim (tm_policyName st) = [] then (st, [])
          else (let yaml = rename_template (pt_yaml t) (tm_policyName st)
                in if unresolved yaml
                   then (st, [ToastErr ''YAML contains unresolved placeholders. Edit the values manually before creating.''])
                   else (st\<lparr> tm_creating := True \<rparr>,
                         [Send (policyApi_create (JObj [(''source'', JStr ''yaml''), (''rawYaml'', JStr yaml)]))])))"

definition template_create_done :: "string \<Rightarrow> outcome \<Rightarrow> templates_page \<Rightarrow> templates_page \<times> effect list" where
  "template_create_done name res st =
     (case res of
        Done \<Rightarrow> (st\<lparr> tm_selected := None, tm_creating := False \<rparr>, [ToastOk (''Policy '' @ DQ @ trim name @ DQ @ '' created.'')])
      | Refused _ _ \<Rightarrow> (st\<lparr> tm_creating := False \<rparr>, [ToastErr ''Failed to create policy'']))"

definition openEditor :: "policy_template \<Rightarrow> templates_page \<Rightarrow> templates_page" where
  "openEditor t st = st\<lparr> editingTemplate := Some t, tm_editorYaml := pt_yaml t, tm_editorValid := True, editorKey := Suc (editorKey st) \<rparr>"

definition closeEditor :: "templates_page \<Rightarrow> templates_page" where
  "closeEditor st = st\<lparr> editingTemplate := None \<rparr>"

definition template_save :: "templates_page \<Rightarrow> effect list" where
  "template_save st =
     (case editingTemplate st of
        None \<Rightarrow> []
      | Some t \<Rightarrow>
          if \<not> pt_custom t then []
          else [Send (templateApi_update (pt_id t) \<lparr> ct_id = pt_id t, ct_name = pt_name t,
                  ct_description = Some (pt_description t), ct_tags = Some (pt_tags t), ct_yaml = tm_editorYaml st \<rparr>)])"

text \<open>The list is loaded before the editor closes; its failure is not one of the save.\<close>

definition template_save_done :: "outcome \<Rightarrow> custom_template list option \<Rightarrow> templates_page \<Rightarrow> templates_page \<times> effect list" where
  "template_save_done res list st =
     (case res of
        Done \<Rightarrow> (closeEditor (custom_loaded list st), [Send templateApi_list, ToastOk ''Template saved.''])
      | Refused _ _ \<Rightarrow> (st, [ToastErr ''Failed to save template'']))"

definition resetNewForm :: "templates_page \<Rightarrow> templates_page" where
  "resetNewForm st = st\<lparr> newName := [], newDesc := [], newTags := [], newYaml := [], newYamlValid := True, showNewForm := False \<rparr>"

definition new_payload :: "nat \<Rightarrow> templates_page \<Rightarrow> custom_template" where
  "new_payload now st = \<lparr> ct_id = (''custom-'' @ (show_nat now)), ct_name = trim (newName st), ct_description = Some (trim (newDesc st)),
     ct_tags = Some (filter (\<lambda>t. t \<noteq> []) (map trim (split_on (CHR '','') (newTags st)))), ct_yaml = newYaml st \<rparr>"

definition new_save_start :: "nat \<Rightarrow> templates_page \<Rightarrow> templates_page \<times> effect list" where
  "new_save_start now st =
     (if savingNew st \<or> trim (newName st) = [] \<or> trim (newYaml st) = [] \<or> \<not> newYamlValid st then (st, [])
      else (st\<lparr> savingNew := True \<rparr>, [Send (templateApi_create (new_payload now st))]))"

definition new_save_done :: "custom_template list option \<Rightarrow> outcome \<Rightarrow> templates_page \<Rightarrow> templates_page \<times> effect list" where
  "new_save_done list res st =
     (case res of
        Done \<Rightarrow> ((resetNewForm (custom_loaded list st))\<lparr> savingNew := False \<rparr>, [Send templateApi_list, ToastOk ''Template saved.''])
      | Refused _ _ \<Rightarrow> (st\<lparr> savingNew := False \<rparr>, [ToastErr ''Failed to save template'']))"

definition template_delete :: "templates_page \<Rightarrow> effect list" where
  "template_delete st =
     (case tm_deleteTarget st of None \<Rightarrow> [] | Some t \<Rightarrow> if pt_id t = [] then [] else [Send (templateApi_delete (pt_id t))])"

definition template_delete_done :: "outcome \<Rightarrow> custom_template list option \<Rightarrow> templates_page \<Rightarrow> templates_page \<times> effect list" where
  "template_delete_done res list st =
     (case res of
        Done \<Rightarrow> ((custom_loaded list st)\<lparr> tm_deleteTarget := None \<rparr>, [Send templateApi_list, ToastOk ''Template deleted.''])
      | Refused _ _ \<Rightarrow> (st, [ToastErr ''Failed to delete template'']))"

interpretation template_flight: single_flight savingNew "new_save_start now" "new_save_done list" for now list
  by unfold_locales
    (auto simp: new_save_start_def new_save_done_def resetNewForm_def custom_loaded_def written_def templateApi_create_def
      templateApi_list_def api_post_def api_get_def split: option.splits outcome.splits)

end
