(* ===== verification/TemplateProps.thy ===== *)
theory TemplateProps
  imports Templates
begin

text \<open>
  The template page's scanners against a reading of the text line by line, and what a created policy
  is. A text is its lines, each ended by a line feed; a line is solid when it holds more than white
  space and no line break, blank when it holds white space only.
\<close>

definition unlines :: "string list \<Rightarrow> string" where
  "unlines ls = concat (map (\<lambda>l. l @ NL) ls)"

definition solid :: "string \<Rightarrow> bool" where
  "solid l \<longleftrightarrow> (\<forall>c \<in> set l. \<not> line_break c) \<and> dropWhile js_ws l \<noteq> []"

lemma unlines_simps [simp]:
  "unlines [] = []" "unlines (l # ls) = l @ NL @ unlines ls" "unlines (ls @ ms) = unlines ls @ unlines ms"
  by (simp_all add: unlines_def)

lemma NL_break [simp]: "line_break (CHR 0x0A)"
  by (simp add: line_break_def)

lemma solid_dropWhile:
  assumes "solid l"
  shows "dropWhile js_ws (l @ t) = dropWhile js_ws l @ t" "takeWhile js_ws (l @ t) = takeWhile js_ws l"
proof -
  obtain x where x: "x \<in> set l" "\<not> js_ws x" using assms by (auto simp: solid_def)
  show "dropWhile js_ws (l @ t) = dropWhile js_ws l @ t" using x by (rule dropWhile_append1)
  show "takeWhile js_ws (l @ t) = takeWhile js_ws l" using x by (rule takeWhile_append1)
qed

lemma solid_ne: "solid l \<Longrightarrow> l \<noteq> []"
  by (auto simp: solid_def)

lemma prefix_in_line:
  assumes "prefix lit (d @ NL @ t)" "\<forall>c \<in> set lit. \<not> line_break c"
  shows "prefix lit d"
proof -
  consider "prefix lit d" | zs where "lit = d @ zs" "prefix zs (NL @ t)"
    using assms(1) prefix_append [of lit d "NL @ t"] by blast
  then show ?thesis
  proof cases
    case 2
    then show ?thesis using assms(2) by (cases zs) (auto simp: NL_def)
  qed
qed

section \<open>Substitution\<close>

lemma rewrite_inside:
  "\<forall>c \<in> set l. \<not> line_break c \<Longrightarrow> rewrite_lines lit repl False (l @ NL @ t) = l @ NL @ rewrite_lines lit repl True t"
  by (induction l) (simp_all add: NL_def Let_def)

declare rewrite_lines.simps [simp del]

lemma solid_hit:
  assumes "solid l" "\<forall>c \<in> set lit. \<not> line_break c"
  shows "prefix lit (dropWhile js_ws l @ NL @ t) \<and>
      (drop (length lit) (dropWhile js_ws l @ NL @ t) = [] \<or> line_break (hd (drop (length lit) (dropWhile js_ws l @ NL @ t))))
    \<longleftrightarrow> dropWhile js_ws l = lit" (is "?hit \<longleftrightarrow> _")
proof
  let ?d = "dropWhile js_ws l"
  have free: "\<forall>x \<in> set ?d. \<not> line_break x" using assms(1) by (auto simp: solid_def dest: set_dropWhileD)
  assume h: ?hit
  then have "prefix lit ?d" using prefix_in_line assms(2) by blast
  then obtain r where r: "?d = lit @ r" by (auto simp: prefix_def)
  have "r = []"
  proof (rule ccontr)
    assume "r \<noteq> []"
    then have "hd r \<in> set ?d" "line_break (hd r)" using h by (simp_all add: r)
    then show False using free by blast
  qed
  then show "?d = lit" using r by simp
qed (simp add: NL_def)

text \<open>At the start of a line, with white space \<open>w\<close> of earlier lines still to be read.\<close>

lemma rewrite_start:
  assumes "\<forall>x \<in> set w. js_ws x" "solid l" "lit \<noteq> []" "\<forall>x \<in> set lit. \<not> line_break x" "w @ l = c # cs"
  shows "rewrite_lines lit repl True (w @ l @ NL @ t) =
    (if dropWhile js_ws l = lit then repl (w @ takeWhile js_ws l) @ NL @ rewrite_lines lit repl True t
     else c # rewrite_lines lit repl (line_break c) (cs @ NL @ t))"
proof -
  have whole: "w @ l @ NL @ t = c # cs @ NL @ t" using assms(5) by (metis append.assoc append_Cons)
  have ws: "takeWhile js_ws (w @ l @ NL @ t) = w @ takeWhile js_ws l" "dropWhile js_ws (w @ l @ NL @ t) = dropWhile js_ws l @ NL @ t"
    using assms(1) solid_dropWhile [OF assms(2)] by simp_all
  have nl: "rewrite_lines lit repl False (NL @ t) = NL @ rewrite_lines lit repl True t" by (simp add: NL_def Let_def rewrite_lines.simps)
  have "rewrite_lines lit repl True (w @ l @ NL @ t) =
      (let ws = takeWhile js_ws (w @ l @ NL @ t); rest = dropWhile js_ws (w @ l @ NL @ t); after = drop (length lit) rest
       in if lit \<noteq> [] \<and> True \<and> prefix lit rest \<and> (after = [] \<or> line_break (hd after))
          then repl ws @ rewrite_lines lit repl False after
          else c # rewrite_lines lit repl (line_break c) (cs @ NL @ t))"
    unfolding whole by (rule rewrite_lines.simps(2))
  also have "\<dots> = (if dropWhile js_ws l = lit
      then repl (w @ takeWhile js_ws l) @ rewrite_lines lit repl False (drop (length lit) (dropWhile js_ws l @ NL @ t))
      else c # rewrite_lines lit repl (line_break c) (cs @ NL @ t))"
    unfolding Let_def ws solid_hit [OF assms(2,4)] using assms(3) by simp
  finally show ?thesis using nl by (cases "dropWhile js_ws l = lit") simp_all
qed

text \<open>A blank line holds white space only. A line with the blank lines \<open>es\<close> above it is rewritten as a whole.\<close>

definition blank_line :: "string \<Rightarrow> bool" where
  "blank_line l \<longleftrightarrow> (\<forall>c \<in> set l. js_ws c \<and> \<not> line_break c)"

lemma blank_unlines: "\<forall>e \<in> set es. blank_line e \<Longrightarrow> \<forall>c \<in> set (unlines es). js_ws c"
  by (auto simp: unlines_def blank_line_def NL_def js_ws_def)

lemma rewrite_lead:
  assumes "\<forall>e \<in> set es. blank_line e" "solid l" "lit \<noteq> []" "\<forall>c \<in> set lit. \<not> line_break c"
  shows "rewrite_lines lit repl True (unlines es @ l @ NL @ t) =
    (if dropWhile js_ws l = lit then repl (unlines es @ takeWhile js_ws l) else unlines es @ l) @ NL @ rewrite_lines lit repl True t"
  using assms(1)
proof (induction es)
  case Nil
  obtain c cs where l: "l = c # cs" using solid_ne [OF assms(2)] by (cases l) auto
  have nb: "\<not> line_break c" "\<forall>x \<in> set cs. \<not> line_break x" using assms(2) by (simp_all add: solid_def l)
  have "rewrite_lines lit repl False (cs @ NL @ t) = cs @ NL @ rewrite_lines lit repl True t"
    using nb(2) by (rule rewrite_inside)
  then show ?case using rewrite_start [of "[]" l lit c cs repl t] assms(2-4) l nb(1) by simp
next
  case (Cons e es)
  have "unlines (e # es) @ l \<noteq> []" by (simp add: NL_def)
  then obtain c cs where s: "unlines (e # es) @ l = c # cs" by (cases "unlines (e # es) @ l") blast+
  have nl: "NL = [CHR 0x0A]" by (rule NL_def)
  note start = rewrite_start [OF blank_unlines [OF Cons.prems] assms(2-4) s, of repl t]
  have rest: "c # rewrite_lines lit repl (line_break c) (cs @ NL @ t) = e @ NL @ rewrite_lines lit repl True (unlines es @ l @ NL @ t)"
  proof (cases e)
    case Nil
    then have "CHR 0x0A # unlines es @ l = c # cs" using s by (simp only: Nil unlines_simps nl append_Nil append_Cons append.assoc)
    then have "c = CHR 0x0A" "cs = unlines es @ l" by (simp_all only: list.inject)
    then show ?thesis unfolding Nil nl by simp
  next
    case (Cons d ds)
    then have "c = d" "cs = ds @ NL @ unlines es @ l" "\<not> line_break d" "\<forall>x \<in> set ds. \<not> line_break x"
      using s \<open>\<forall>e \<in> set (e # es). blank_line e\<close> by (auto simp: blank_line_def)
    then show ?thesis using Cons rewrite_inside [of ds lit repl "unlines es @ l @ NL @ t"] by simp
  qed
  show ?case
  proof (cases "dropWhile js_ws l = lit")
    case True
    then show ?thesis using start by simp
  next
    case False
    then show ?thesis using start rest Cons.IH Cons.prems by simp
  qed
qed

lemma rewrite_blank: "\<forall>c \<in> set w. js_ws c \<Longrightarrow> lit \<noteq> [] \<Longrightarrow> rewrite_lines lit repl b w = w"
proof (induction w arbitrary: b)
  case (Cons c w)
  then have "dropWhile js_ws (c # w) = []" unfolding dropWhile_eq_Nil_conv by blast
  then have "\<not> prefix lit (dropWhile js_ws (c # w))" using Cons.prems(2) by (simp only:) simp
  then show ?case using Cons unfolding rewrite_lines.simps(2) Let_def by (simp only:) simp
qed (simp add: rewrite_lines.simps)

text \<open>The lines of a text, each with the blank lines above it, and the blank lines at the end.\<close>

fun leads :: "string list \<Rightarrow> string list \<Rightarrow> (string list \<times> string) list \<times> string list" where
  "leads es [] = ([], es)"
| "leads es (l # ls) =
     (if dropWhile js_ws l = [] then leads (es @ [l]) ls
      else (case leads [] ls of (bs, end) \<Rightarrow> ((es, l) # bs, end)))"

definition lead_lines :: "(string list \<times> string) list \<Rightarrow> string list" where
  "lead_lines bs = concat (map (\<lambda>(es, l). es @ [l]) bs)"

lemma lead_lines_simps [simp]:
  "lead_lines [] = []" "lead_lines ((es, l) # bs) = es @ l # lead_lines bs" "lead_lines (bs @ cs) = lead_lines bs @ lead_lines cs"
  by (simp_all add: lead_lines_def)

abbreviation sound_lead :: "string list \<times> string \<Rightarrow> bool" where
  "sound_lead \<equiv> \<lambda>(es, l). (\<forall>e \<in> set es. blank_line e) \<and> solid l"

lemma leads_sound:
  assumes "\<forall>l \<in> set (es @ ls). \<forall>c \<in> set l. \<not> line_break c" "\<forall>e \<in> set es. blank_line e" "leads es ls = (bs, r)"
  shows "es @ ls = lead_lines bs @ r" "\<forall>b \<in> set bs. sound_lead b" "\<forall>e \<in> set r. blank_line e"
proof -
  have "es @ ls = lead_lines bs @ r \<and> (\<forall>b \<in> set bs. sound_lead b) \<and> (\<forall>e \<in> set r. blank_line e)"
    using assms
  proof (induction es ls arbitrary: bs r rule: leads.induct)
    case (2 es l ls)
    show ?case
    proof (cases "dropWhile js_ws l = []")
      case True
      then have "blank_line l" using "2.prems"(1) by (auto simp: blank_line_def dropWhile_eq_Nil_conv)
      moreover have "leads (es @ [l]) ls = (bs, r)" using "2.prems"(3) True by simp
      ultimately have "(es @ [l]) @ ls = lead_lines bs @ r \<and> (\<forall>b \<in> set bs. sound_lead b) \<and> (\<forall>e \<in> set r. blank_line e)"
        using "2.prems"(1,2) by (intro "2.IH"(1) [OF True]) auto
      then show ?thesis unfolding append.assoc append_Cons append_Nil .
    next
      case False
      obtain bs' r' where q: "leads [] ls = (bs', r')" by fastforce
      then have "leads [] ls = (bs', r)" "bs = (es, l) # bs'"
        using "2.prems"(3) unfolding leads.simps(2) q prod.case if_not_P [OF False] by simp_all
      moreover from this have "[] @ ls = lead_lines bs' @ r \<and> (\<forall>b \<in> set bs'. sound_lead b) \<and> (\<forall>e \<in> set r. blank_line e)"
        using "2.prems"(1) by (intro "2.IH"(2) [OF False]) (simp_all add: ball_Un)
      moreover have "solid l" unfolding solid_def using "2.prems"(1) False by simp
      ultimately show ?thesis using "2.prems"(2) by simp
    qed
  qed (simp add: lead_lines_def)
  then show "es @ ls = lead_lines bs @ r" "\<forall>b \<in> set bs. sound_lead b" "\<forall>e \<in> set r. blank_line e" by simp_all
qed

text \<open>One placeholder, line by line: a line that is the placeholder becomes one item per value, indented
  as it was, with the blank lines that were above it above each; every other line stays.\<close>

definition quoted_item :: "string \<Rightarrow> string" where
  "quoted_item v = ''- '' @ DQ @ v @ DQ"

definition subst_line :: "string \<Rightarrow> string \<Rightarrow> string list \<Rightarrow> string list \<times> string \<Rightarrow> (string list \<times> string) list" where
  "subst_line name none vs = (\<lambda>(es, l).
     if dropWhile js_ws l = quoted_item (DOLLAR @ ''{'' @ name @ ''}'')
     then map (\<lambda>v. (es, takeWhile js_ws l @ quoted_item v)) (if vs = [] then [none] else vs) else [(es, l)])"

lemma items_quoted: "list_item i v = i @ quoted_item v" "quoted_item (DOLLAR @ ''{'' @ name @ ''}'') = placeholder name"
  by (simp_all add: list_item_def quoted_item_def placeholder_def)

lemma subst_line_items: "subst_line name none vs (es, l) =
    (if dropWhile js_ws l = placeholder name
     then map (\<lambda>v. (es, list_item (takeWhile js_ws l) v)) (if vs = [] then [none] else vs) else [(es, l)])"
  unfolding subst_line_def prod.case items_quoted(2) by (simp add: items_quoted(1))

lemma items_unlines: "items_or none vs (unlines es @ i) @ NL =
    unlines (lead_lines (map (\<lambda>v. (es, list_item i v)) (if vs = [] then [none] else vs)))"
proof -
  have "join_with NL (map (list_item (unlines es @ i)) ws) @ NL = unlines (lead_lines (map (\<lambda>v. (es, list_item i v)) ws))"
    if "ws \<noteq> []" for ws
    using that by (induction ws rule: induct_list012) (simp_all add: lead_lines_def list_item_def)
  then show ?thesis by (simp add: items_or_def) (simp add: lead_lines_def list_item_def)
qed

lemma placeholder_free:
  assumes "\<forall>c \<in> set name. \<not> line_break c"
  shows "placeholder name \<noteq> []" "\<forall>c \<in> set (placeholder name). \<not> line_break c"
  using assms by (auto simp: placeholder_def DOLLAR_def DQ_def line_break_def)

lemma rewrite_unlines:
  assumes "\<forall>b \<in> set bs. sound_lead b" "\<forall>e \<in> set r. blank_line e" "\<forall>c \<in> set name. \<not> line_break c"
  shows "rewrite_lines (placeholder name) (items_or none vs) True (unlines (lead_lines bs @ r)) =
    unlines (lead_lines (concat (map (subst_line name none vs) bs)) @ r)"
  using assms(1)
proof (induction bs)
  case Nil
  show ?case using rewrite_blank [OF blank_unlines [OF assms(2)] placeholder_free(1) [OF assms(3)]] by (simp add: lead_lines_def)
next
  case (Cons b bs)
  obtain es l where b: "b = (es, l)" by (cases b)
  have ok: "\<forall>e \<in> set es. blank_line e" "solid l" using Cons.prems by (simp_all add: b)
  let ?out = "unlines (lead_lines (concat (map (subst_line name none vs) bs)) @ r)"
  have "unlines (lead_lines (b # bs) @ r) = unlines es @ l @ NL @ unlines (lead_lines bs @ r)" by (simp add: b lead_lines_def)
  then have "rewrite_lines (placeholder name) (items_or none vs) True (unlines (lead_lines (b # bs) @ r)) =
      (if dropWhile js_ws l = placeholder name then items_or none vs (unlines es @ takeWhile js_ws l) else unlines es @ l) @ NL @ ?out"
    using rewrite_lead [OF ok placeholder_free [OF assms(3)]] Cons by simp
  also have "\<dots> = (if dropWhile js_ws l = placeholder name then items_or none vs (unlines es @ takeWhile js_ws l) @ NL else unlines es @ l @ NL) @ ?out"
    by simp
  also have "(if dropWhile js_ws l = placeholder name then items_or none vs (unlines es @ takeWhile js_ws l) @ NL else unlines es @ l @ NL) =
      unlines (lead_lines (subst_line name none vs b))"
    unfolding items_unlines b subst_line_items by (simp add: lead_lines_def)
  finally show ?case by (simp add: lead_lines_def)
qed

lemma solid_item:
  assumes "\<forall>c \<in> set i. \<not> line_break c" "\<forall>c \<in> set v. \<not> line_break c"
  shows "solid (list_item i v)"
proof -
  have "\<not> js_ws (CHR ''-'')" by (simp add: js_ws_def)
  moreover have "CHR ''-'' \<in> set (list_item i v)" by (simp add: list_item_def)
  ultimately have "dropWhile js_ws (list_item i v) \<noteq> []" unfolding dropWhile_eq_Nil_conv by blast
  moreover have "\<forall>c \<in> set (list_item i v). \<not> line_break c"
    using assms by (auto simp: list_item_def DQ_def line_break_def)
  ultimately show ?thesis by (simp add: solid_def)
qed

lemma sound_subst:
  assumes "\<forall>b \<in> set bs. sound_lead b" "\<forall>v \<in> set (none # vs). \<forall>c \<in> set v. \<not> line_break c"
  shows "\<forall>b \<in> set (concat (map (subst_line name none vs) bs)). sound_lead b"
proof -
  have "sound_lead m" if b: "sound_lead (es, l)" and m: "m \<in> set (subst_line name none vs (es, l))" for es l m
  proof (cases "dropWhile js_ws l = placeholder name")
    case True
    then obtain v where v: "m = (es, list_item (takeWhile js_ws l) v)" "v \<in> set (none # vs)"
      using m by (cases "vs = []") (auto simp: subst_line_items)
    have "\<forall>c \<in> set (takeWhile js_ws l). \<not> line_break c"
      using b by (auto simp: solid_def dest: set_takeWhileD)
    then have "solid (list_item (takeWhile js_ws l) v)" using assms(2) v(2) by (intro solid_item) blast+
    then show ?thesis using b by (simp add: v(1))
  qed (use b m in \<open>simp add: subst_line_items\<close>)
  note lead = this
  show ?thesis
  proof
    fix m assume "m \<in> set (concat (map (subst_line name none vs) bs))"
    then obtain b where b: "b \<in> set bs" "m \<in> set (subst_line name none vs b)" unfolding set_concat set_map by blast
    then show "sound_lead m" using lead [of "fst b" "snd b" m] bspec [OF assms(1) b(1)] unfolding prod.collapse by blast
  qed
qed

text \<open>C25: substitution is what it looks like line by line, for a template whose lines each end in a line feed
  and hold no other line break, and addresses that hold none. A line that is a placeholder, however deep it is
  indented, becomes one quoted item per address at its own indentation, and a list nobody could detect
  becomes one item that says so; blank lines directly above a placeholder come along with each of its
  items; every other line of the template, blank ones included, stays as it is.\<close>

theorem substitution_by_lines:
  assumes "\<forall>l \<in> set ls. \<forall>c \<in> set l. \<not> line_break c"
    and "\<forall>v \<in> set (podCIDRs @ serviceCIDRs @ nodeIPs). \<forall>c \<in> set v. \<not> line_break c"
  shows "substituteCIDRs (unlines ls) podCIDRs serviceCIDRs nodeIPs =
    (case leads [] ls of (bs, end) \<Rightarrow> unlines (lead_lines
       (concat (map (subst_line ''NODEIPS'' ''# Node IPs not detected'' nodeIPs)
         (concat (map (subst_line ''SVCCIDR'' ''# SVCCIDR not detected'' serviceCIDRs)
           (concat (map (subst_line ''PODCIDR'' ''# PODCIDR not detected'' podCIDRs) bs)))))) @ end))"
proof -
  obtain bs r where l: "leads [] ls = (bs, r)" by fastforce
  have free: "\<forall>l \<in> set ([] @ ls). \<forall>c \<in> set l. \<not> line_break c" using assms(1) by simp
  have ls: "ls = lead_lines bs @ r" "\<forall>b \<in> set bs. sound_lead b" "\<forall>e \<in> set r. blank_line e"
    by (rule leads_sound [OF free _ l, unfolded append_Nil], simp)+
  have vals: "\<forall>v \<in> set (''# PODCIDR not detected'' # podCIDRs). \<forall>c \<in> set v. \<not> line_break c"
    "\<forall>v \<in> set (''# SVCCIDR not detected'' # serviceCIDRs). \<forall>c \<in> set v. \<not> line_break c"
    using assms(2) by (simp_all add: ball_Un line_break_def)
  let ?b1 = "concat (map (subst_line ''PODCIDR'' ''# PODCIDR not detected'' podCIDRs) bs)"
  let ?b2 = "concat (map (subst_line ''SVCCIDR'' ''# SVCCIDR not detected'' serviceCIDRs) ?b1)"
  have s1: "\<forall>b \<in> set ?b1. sound_lead b" by (rule sound_subst [OF ls(2) vals(1)])
  have s2: "\<forall>b \<in> set ?b2. sound_lead b" by (rule sound_subst [OF s1 vals(2)])
  show ?thesis
    unfolding l prod.case substituteCIDRs_def Let_def
    by (subst ls(1), subst rewrite_unlines [OF ls(2,3)], simp add: line_break_def,
        subst rewrite_unlines [OF s1 ls(3)], simp add: line_break_def,
        subst rewrite_unlines [OF s2 ls(3)], simp add: line_break_def, rule refl)
qed

theorem substitution_by_lines_witness:
  "substituteCIDRs (unlines [''cidrs:'', '' '', ''  '' @ placeholder ''PODCIDR'', [], ''ports: 1'']) [''10.0.0.0/8'', ''fd00::/8''] [] [] =
     unlines [''cidrs:'', '' '', ''  '' @ quoted_item ''10.0.0.0/8'', '' '', ''  '' @ quoted_item ''fd00::/8'', [], ''ports: 1'']"
proof -
  have lines: "\<forall>l \<in> set [''cidrs:'', '' '', ''  '' @ placeholder ''PODCIDR'', [], ''ports: 1'']. \<forall>c \<in> set l. \<not> line_break c" by code_simp
  have clean: "\<forall>v \<in> set ([''10.0.0.0/8'', ''fd00::/8''] @ [] @ []). \<forall>c \<in> set v. \<not> line_break c" by code_simp
  show ?thesis unfolding substitution_by_lines [OF lines clean] by code_simp
qed

section \<open>Renaming\<close>

text \<open>The name typed in the dialog takes the place of what follows the first \<open>name:\<close>; a dollar sign in it
  would be read as a replacement pattern.\<close>

lemma expand_plain: "CHR 0x24 \<notin> set n \<Longrightarrow> expand m b a g n = n"
  by (induction m b a g n rule: expand.induct) auto

lemma expand_dollar_one:
  assumes "CHR 0x24 \<notin> set n"
  shows "expand m b a g (DOLLAR @ ''1'' @ n) = g @ n"
  using assms by (simp add: DOLLAR_def expand_plain)

lemma rename_inside:
  "\<forall>c \<in> set l. \<not> line_break c \<Longrightarrow> rename_from tpl b False (l @ NL @ t) = l @ NL @ rename_from tpl (b @ l @ NL) True t"
  by (induction l arbitrary: b) (simp_all add: NL_def)

lemma name_free: "\<forall>c \<in> set ''name:''. \<not> line_break c"
  by (simp add: line_break_def)

lemma rename_skip:
  assumes "solid l" "\<not> prefix ''name:'' (dropWhile js_ws l)"
  shows "rename_from tpl b True (l @ NL @ t) = l @ NL @ rename_from tpl (b @ l @ NL) True t"
proof -
  obtain c cs where l: "l = c # cs" using solid_ne [OF assms(1)] by (cases l) auto
  have "\<not> prefix ''name:'' (dropWhile js_ws l @ NL @ t)" using assms(2) prefix_in_line name_free by blast
  then have none: "match_name (l @ NL @ t) = None"
    unfolding match_name_def Let_def solid_dropWhile [OF assms(1)] by simp
  have "rename_from tpl b True (l @ NL @ t) = c # rename_from tpl (b @ [c]) (line_break c) (cs @ NL @ t)"
    using none by (simp add: l)
  moreover have "\<not> line_break c" "\<forall>x \<in> set cs. \<not> line_break x" using assms(1) by (simp_all add: solid_def l)
  ultimately show ?thesis using rename_inside [of cs tpl "b @ [c]" t] by (simp add: l)
qed

lemma rename_hit:
  assumes "\<forall>c \<in> set i. js_ws c" "old \<noteq> []" "\<not> js_ws (hd old)" "\<forall>c \<in> set old. \<not> line_break c" "CHR 0x24 \<notin> set n"
  shows "rename_from (DOLLAR @ ''1'' @ n) b True (i @ ''name: '' @ old @ NL @ t) = i @ ''name: '' @ n @ NL @ t"
proof -
  obtain o1 os where old: "old = o1 # os" using assms(2) by (cases old) auto
  have ws: "js_ws (CHR '' '')" "\<not> js_ws (CHR ''n'')" by (simp_all add: js_ws_def)
  have i: "dropWhile js_ws (i @ x) = dropWhile js_ws x" "takeWhile js_ws (i @ x) = i @ takeWhile js_ws x" for x
    using assms(1) by simp_all
  have e: "takeWhile (\<lambda>c. \<not> line_break c) (old @ NL @ t) = old" "dropWhile (\<lambda>c. \<not> line_break c) (old @ NL @ t) = NL @ t"
    using assms(4) by (simp_all add: NL_def)
  have m: "match_name (i @ ''name: '' @ old @ NL @ t) = Some (i @ ''name: '', old, NL @ t)"
    unfolding match_name_def Let_def i using ws assms(3) e by (simp add: old)
  obtain c cs where x: "i @ ''name: '' @ old @ NL @ t = c # cs" by (cases i) auto
  show ?thesis using m unfolding x by (simp add: expand_dollar_one [OF assms(5), simplified])
qed

theorem rename_first_name:
  assumes "\<forall>l \<in> set ls. solid l \<and> \<not> prefix ''name:'' (dropWhile js_ws l)"
    and "\<forall>c \<in> set i. js_ws c" "old \<noteq> []" "\<not> js_ws (hd old)" "\<forall>c \<in> set old. \<not> line_break c"
    and "CHR 0x24 \<notin> set (trim n)"
  shows "rename_template (unlines (ls @ [i @ ''name: '' @ old] @ rest)) n = unlines (ls @ [i @ ''name: '' @ trim n] @ rest)"
proof -
  have "rename_from (DOLLAR @ ''1'' @ trim n) b True (unlines (ls @ [i @ ''name: '' @ old] @ rest))
      = unlines (ls @ [i @ ''name: '' @ trim n] @ rest)" for b
    using assms(1)
  proof (induction ls arbitrary: b)
    case Nil
    show ?case using rename_hit [OF assms(2-6), of b "unlines rest"] by (simp del: rename_from.simps)
  next
    case (Cons l ls)
    then show ?case using rename_skip [of l] by (simp del: rename_from.simps)
  qed
  then show ?thesis by (simp add: rename_template_def)
qed

text \<open>A \<open>name:\<close> that comes before the one of the metadata takes the new name instead, and the policy is
  sent under its old one.\<close>

lemma first_name_renamed:
  "rename_template (unlines [''metadata:'', ''  labels:'', ''    name: web'', ''  name: old'']) ''fresh'' =
     unlines [''metadata:'', ''  labels:'', ''    name: fresh'', ''  name: old'']"
  by code_simp

section \<open>What is sent\<close>

text \<open>Nothing is created while a placeholder is left, whatever the key or the button that asked.\<close>

theorem no_placeholder_sent:
  "Send q \<in> set (snd (template_create_start st)) \<Longrightarrow>
     \<exists>t. tm_selected st = Some t \<and> \<not> unresolved (rename_template (pt_yaml t) (tm_policyName st)) \<and>
       q = policyApi_create (JObj [(''source'', JStr ''yaml''), (''rawYaml'', JStr (rename_template (pt_yaml t) (tm_policyName st)))])"
  by (auto simp: template_create_start_def Let_def split: option.splits if_splits)

text \<open>The button is disabled while a policy is being created, the Enter key is not: pressed twice it sends
  the policy twice.\<close>

lemma enter_sends_twice:
  assumes "snd (template_create_start st) = [Send q]"
  shows "snd (template_create_start (fst (template_create_start st))) = [Send q]"
    "\<not> create_enabled (fst (template_create_start st))"
  using assms by (auto simp: template_create_start_def create_enabled_def Let_def split: option.splits if_splits)

text \<open>An address list nobody could detect becomes a quoted item, so nothing is left to resolve and the
  policy is sent with it.\<close>

lemma missing_cidr_is_an_item:
  "substituteCIDRs (unlines [''cidrs:'', ''  '' @ placeholder ''PODCIDR'']) [] [] [] =
     unlines [''cidrs:'', list_item ''  '' ''# PODCIDR not detected'']"
  "\<not> unresolved (unlines [''cidrs:'', list_item ''  '' ''# PODCIDR not detected''])"
  by code_simp+

text \<open>A template whose only placeholder is the node addresses is opened without asking the server for
  them, so its policy cannot be created.\<close>

lemma node_ips_never_asked:
  "pt_yaml t = placeholder ''NODEIPS'' \<Longrightarrow> sends (snd (openDialog_start sfx t st)) = []"
  "pt_yaml t = placeholder ''NODEIPS'' \<Longrightarrow> \<not> dialogLoading st \<Longrightarrow> \<not> create_enabled (fst (openDialog_start sfx t st))"
proof -
  assume t: "pt_yaml t = placeholder ''NODEIPS''"
  have m: "\<not> mentions ''PODCIDR'' (placeholder ''NODEIPS'')" "\<not> mentions ''SVCCIDR'' (placeholder ''NODEIPS'')"
    "unresolved (placeholder ''NODEIPS'')" by code_simp+
  show "sends (snd (openDialog_start sfx t st)) = []" using m by (simp add: openDialog_start_def t)
  show "\<not> dialogLoading st \<Longrightarrow> \<not> create_enabled (fst (openDialog_start sfx t st))"
    using m by (simp add: openDialog_start_def create_enabled_def t)
qed

end
