(* ===== verification/TemplateData.thy ===== *)
theory TemplateData
  imports TemplateProps
begin

text \<open>
  The built-in templates, \<open>web/src/data/policyTemplates.ts\<close>, line by line, and what creating one of them
  sends.
\<close>

section \<open>The templates\<close>

definition EXEC_LINES :: \<open>string list\<close> where
  \<open>EXEC_LINES =
    [''apiVersion: cilium.io/v1alpha1'', ''kind: TracingPolicy'', ''metadata:'', ''  name: monitor-all-exec'',
     ''spec:'', ''  podSelector: {}'', ''  kprobes:'', ''    - call: sys_execve'', ''      syscall: true'',
     ''      args:'', ''        - index: 0'', ''          type: string'', ''      selectors:'',
     ''        - matchActions:'', ''            - action: Post'']\<close>

definition FILE_HEAD :: \<open>string list\<close> where
  \<open>FILE_HEAD =
    [''apiVersion: cilium.io/v1alpha1'', ''kind: TracingPolicy'', ''metadata:'', ''  name: monitor-all-file'',
     ''spec:'', ''  podSelector: {}'', ''  kprobes:'']\<close>

definition FILE_PERMISSION :: \<open>string list\<close> where
  \<open>FILE_PERMISSION =
    [''  - call: "security_file_permission"'', ''    syscall: false'', ''    return: true'', ''    args:'',
     ''    - index: 0'', ''      type: "file"'', ''    - index: 1'', ''      type: "int"'', ''    returnArg:'',
     ''      index: 0'', ''      type: "int"'', ''    selectors:'', ''    - matchArgs:'', ''      - index: 0'',
     ''        operator: "Prefix"'', ''        values:'', ''        - "/boot"'', ''        - "/root/.ssh"'',
     ''        - "/etc/shadow"'', ''        - "/etc/profile"'', ''        - "/etc/sudoers"'',
     ''        - "/etc/pam.conf"'', ''        - "/etc/bashrc"'', ''        - "/etc/csh.cshrc"'',
     ''        - "/etc/csh.login"'', ''      - index: 1'', ''        operator: "Equal"'', ''        values:'',
     ''        - "4"'', ''    - matchArgs:'', ''      - index: 0'', ''        operator: "Postfix"'',
     ''        values:'', ''        - ".bashrc"'', ''        - ".bash_profile"'', ''        - ".bash_login"'',
     ''        - ".bash_logout"'', ''        - ".cshrc"'', ''        - ".cshdirs"'', ''        - ".profile"'',
     ''        - ".login"'', ''        - ".logout"'', ''        - ".history"'', ''      - index: 1'',
     ''        operator: "Equal"'', ''        values:'', ''        - "4"'', ''    - matchArgs:'',
     ''      - index: 0'', ''        operator: "Prefix"'', ''        values:'', ''        - "/etc"'',
     ''        - "/boot"'', ''        - "/lib"'', ''        - "/lib64"'', ''        - "/bin"'',
     ''        - "/usr/lib"'', ''        - "/usr/local/lib"'', ''        - "/usr/local/sbin"'',
     ''        - "/usr/local/bin"'', ''        - "/usr/bin"'', ''        - "/usr/sbin"'',
     ''        - "/var/log"'', ''        - "/dev/log"'', ''        - "/root/.ssh"'', ''      - index: 1'',
     ''        operator: "Equal"'', ''        values:'', ''        - "2"'']\<close>

definition FILE_MMAP :: \<open>string list\<close> where
  \<open>FILE_MMAP =
    [''  - call: "security_mmap_file"'', ''    syscall: false'', ''    return: true'', ''    args:'',
     ''    - index: 0'', ''      type: "file"'', ''    - index: 1'', ''      type: "uint32"'',
     ''    - index: 2'', ''      type: "uint32"'', ''    returnArg:'', ''      index: 0'',
     ''      type: "int"'', ''    selectors:'', ''    - matchArgs:'', ''      - index: 0'',
     ''        operator: "Prefix"'', ''        values:'', ''        - "/boot"'', ''        - "/root/.ssh"'',
     ''        - "/etc/shadow"'', ''        - "/etc/sudoers"'', ''        - "/etc/pam.conf"'',
     ''        - "/etc/profile"'', ''        - "/etc/bashrc"'', ''        - "/etc/csh.cshrc"'',
     ''        - "/etc/csh.login"'', ''        - ".bashrc"'', ''        - ".bash_profile"'',
     ''        - ".bash_login"'', ''        - ".bash_logout"'', ''        - ".cshrc"'',
     ''        - ".cshdirs"'', ''        - ".profile"'', ''        - ".login"'', ''        - ".logout"'',
     ''        - ".history"'', ''      - index: 1'', ''        operator: "Equal"'', ''        values:'',
     ''        - "1"'', ''      - index: 2'', ''        operator: "Mask"'', ''        values:'',
     ''        - "1"'', ''    - matchArgs:'', ''      - index: 0'', ''        operator: "Prefix"'',
     ''        values:'', ''        - "/etc"'', ''        - "/boot"'', ''        - "/lib"'',
     ''        - "/lib64"'', ''        - "/bin"'', ''        - "/usr/lib"'', ''        - "/usr/local/lib"'',
     ''        - "/usr/local/sbin"'', ''        - "/usr/local/bin"'', ''        - "/usr/bin"'',
     ''        - "/usr/sbin"'', ''        - "/var/log"'', ''        - "/dev/log"'', ''        - "/root/.ssh"'',
     ''      - index: 1'', ''        operator: "Mask"'', ''        values:'', ''        - "2"'',
     ''      - index: 2'', ''        operator: "Mask"'', ''        values:'', ''        - "1"'']\<close>

definition FILE_TRUNCATE :: \<open>string list\<close> where
  \<open>FILE_TRUNCATE =
    [''  - call: "security_path_truncate"'', ''    syscall: false'', ''    return: true'', ''    args:'',
     ''    - index: 0'', ''      type: "path"'', ''    returnArg:'', ''      index: 0'', ''      type: "int"'',
     ''    selectors:'', ''    - matchArgs:'', ''      - index: 0'', ''        operator: "Prefix"'',
     ''        values:'', ''        - "/etc"'', ''        - "/boot"'', ''        - "/lib"'',
     ''        - "/lib64"'', ''        - "/usr/lib"'', ''        - "/usr/local/lib"'',
     ''        - "/usr/local/sbin"'', ''        - "/usr/local/bin"'', ''        - "/usr/bin"'',
     ''        - "/usr/sbin"'', ''        - "/var/log"'', ''        - "/dev/log"'', ''        - "/root/.ssh"'']\<close>

definition FILE_LINES :: \<open>string list\<close> where
  \<open>FILE_LINES = FILE_HEAD @ FILE_PERMISSION @ FILE_MMAP @ FILE_TRUNCATE\<close>

definition POLICY_TEMPLATES :: "policy_template list" where
  "POLICY_TEMPLATES =
     [\<lparr> pt_id = ''monitor-all-exec'', pt_name = ''Monitor All Process Executions'',
        pt_description = ''Record every command executed inside any pod across the cluster.'',
        pt_tags = [''cluster-wide'', ''process'', ''monitoring''], pt_yaml = unlines EXEC_LINES, pt_custom = False \<rparr>,
      \<lparr> pt_id = ''monitor-all-file'', pt_name = ''Monitor All File Access'',
        pt_description = ''Monitor sensitive file and directory reads/writes across all pods in the cluster.'',
        pt_tags = [''cluster-wide'', ''file'', ''monitoring''], pt_yaml = unlines FILE_LINES, pt_custom = False \<rparr>]"

section \<open>Creating a policy from one\<close>

definition no_dollar :: "string list \<Rightarrow> bool" where
  "no_dollar ls \<longleftrightarrow> list_all (\<lambda>l. CHR 0x24 \<notin> set l) ls"

lemma no_dollar_unlines: "no_dollar ls \<Longrightarrow> CHR 0x24 \<notin> set (unlines ls)"
  by (auto simp: no_dollar_def list_all_iff unlines_def NL_def)

lemma resolved: "CHR 0x24 \<notin> set s \<Longrightarrow> \<not> js_includes s (DOLLAR @ x)"
  by (auto simp: DOLLAR_def sublist_def)

lemma exec_facts:
  "EXEC_LINES = take 3 EXEC_LINES @ [''  name: monitor-all-exec''] @ drop 4 EXEC_LINES"
  "\<forall>l \<in> set (take 3 EXEC_LINES). solid l \<and> \<not> prefix ''name:'' (dropWhile js_ws l)" "no_dollar EXEC_LINES"
  by code_simp+

lemma file_facts:
  "FILE_LINES = take 3 FILE_LINES @ [''  name: monitor-all-file''] @ drop 4 FILE_LINES"
  "\<forall>l \<in> set (take 3 FILE_LINES). solid l \<and> \<not> prefix ''name:'' (dropWhile js_ws l)" "no_dollar FILE_LINES"
  by code_simp+

lemma builtin_lines:
  assumes "t \<in> set POLICY_TEMPLATES"
  obtains ls rest where "pt_yaml t = unlines (ls @ [''  name: '' @ pt_id t] @ rest)" "no_dollar (ls @ rest)"
    "\<forall>l \<in> set ls. solid l \<and> \<not> prefix ''name:'' (dropWhile js_ws l)" "pt_id t \<in> {''monitor-all-exec'', ''monitor-all-file''}"
proof -
  have rest: "no_dollar (take 3 ls @ drop 4 ls)" if "no_dollar ls" for ls
    using that by (auto simp: no_dollar_def list_all_iff dest: in_set_takeD in_set_dropD)
  consider "pt_yaml t = unlines EXEC_LINES" "pt_id t = ''monitor-all-exec''"
    | "pt_yaml t = unlines FILE_LINES" "pt_id t = ''monitor-all-file''"
    using assms by (auto simp: POLICY_TEMPLATES_def)
  then show ?thesis
  proof cases
    case 1
    show ?thesis
      by (rule that [of "take 3 EXEC_LINES" "drop 4 EXEC_LINES"])
        (use 1 exec_facts rest [OF exec_facts(3)] in \<open>simp_all only: append_Cons append_Nil simp_thms insert_iff\<close>)
  next
    case 2
    show ?thesis
      by (rule that [of "take 3 FILE_LINES" "drop 4 FILE_LINES"])
        (use 2 file_facts rest [OF file_facts(3)] in \<open>simp_all only: append_Cons append_Nil simp_thms insert_iff\<close>)
  qed
qed

text \<open>C29: every built-in template can be used as it is: its dialog opens at once, without asking for the
  cluster's addresses, and Create sends the template with the typed name in place of its own and every
  other line as it was.\<close>

theorem builtin_template_created:
  assumes "t \<in> set POLICY_TEMPLATES" "\<not> dialogLoading st" "trim n \<noteq> []" "CHR 0x24 \<notin> set n"
  shows "\<exists>ls rest. pt_yaml t = unlines (ls @ [''  name: '' @ pt_id t] @ rest) \<and>
    (case openDialog_start sfx t st of (st1, es) \<Rightarrow> es = [] \<and>
       (tm_creating st \<or> create_enabled (st1\<lparr> tm_policyName := n \<rparr>)) \<and>
       snd (template_create_start (st1\<lparr> tm_policyName := n \<rparr>)) =
         [Send (policyApi_create (JObj [(''source'', JStr ''yaml''),
            (''rawYaml'', JStr (unlines (ls @ [''  name: '' @ trim n] @ rest)))]))])"
proof -
  obtain ls rest where y: "pt_yaml t = unlines (ls @ [''  name: '' @ pt_id t] @ rest)" and nd: "no_dollar (ls @ rest)"
    and ls: "\<forall>l \<in> set ls. solid l \<and> \<not> prefix ''name:'' (dropWhile js_ws l)"
    and id: "pt_id t \<in> {''monitor-all-exec'', ''monitor-all-file''}"
    using builtin_lines [OF assms(1)] .
  have n: "CHR 0x24 \<notin> set (trim n)" using assms(4) set_trim [of n] by blast
  have free: "CHR 0x24 \<notin> set (unlines (ls @ [''  name: '' @ x] @ rest))" if "CHR 0x24 \<notin> set x" for x
    using nd that by (intro no_dollar_unlines) (auto simp: no_dollar_def)
  have ident: "pt_id t \<noteq> []" "\<not> js_ws (hd (pt_id t))" "\<forall>c \<in> set (pt_id t). \<not> line_break c" "CHR 0x24 \<notin> set (pt_id t)"
    using id by (auto simp: js_ws_def line_break_def)
  have ind: "\<forall>c \<in> set ''  ''. js_ws c" by (simp add: js_ws_def)
  have renamed: "rename_template (pt_yaml t) n = unlines (ls @ [''  name: '' @ trim n] @ rest)"
    using rename_first_name [OF ls ind ident(1-3) n, of rest] by (simp add: y)
  have plain: "\<not> mentions x (pt_yaml t)" "\<not> unresolved (pt_yaml t)" "\<not> unresolved (unlines (ls @ [''  name: '' @ trim n] @ rest))" for x
    using resolved [OF free [OF ident(4)]] resolved [OF free [OF n]] unfolding y mentions_def unresolved_def by blast+
  define out where "out = unlines (ls @ [''  name: '' @ trim n] @ rest)"
  have main: "case openDialog_start sfx t st of (st1, es) \<Rightarrow> es = [] \<and>
       (tm_creating st \<or> create_enabled (st1\<lparr> tm_policyName := n \<rparr>)) \<and>
       snd (template_create_start (st1\<lparr> tm_policyName := n \<rparr>)) =
         [Send (policyApi_create (JObj [(''source'', JStr ''yaml''), (''rawYaml'', JStr out)]))]"
    using plain assms(2,3) renamed unfolding out_def [symmetric]
    by (simp add: openDialog_start_def template_create_start_def create_enabled_def Let_def)
  show ?thesis by (rule exI [of _ ls], rule exI [of _ rest], rule conjI [OF y], rule main [unfolded out_def])
qed

theorem builtin_template_created_witness:
  "snd (template_create_start ((fst (openDialog_start ''x1'' (hd POLICY_TEMPLATES) templates_init))\<lparr> tm_policyName := ''audit '' \<rparr>)) \<noteq> []"
proof -
  let ?t = "hd POLICY_TEMPLATES" and ?st = templates_init
  obtain st1 es where o: "openDialog_start ''x1'' ?t ?st = (st1, es)" by fastforce
  have h: "?t \<in> set POLICY_TEMPLATES" "\<not> dialogLoading ?st" "trim ''audit '' \<noteq> []" "CHR 0x24 \<notin> set ''audit ''"
    by (simp add: POLICY_TEMPLATES_def) code_simp+
  have "\<exists>q. snd (template_create_start (st1\<lparr> tm_policyName := ''audit '' \<rparr>)) = [Send q]"
    using builtin_template_created [OF h, of "''x1''", unfolded o prod.case] by meson
  then show ?thesis unfolding o fst_conv by fastforce
qed

section \<open>What the file template watches\<close>

text \<open>The values under an operator line: the quoted items up to the next line that is no item.\<close>

fun values_under :: "string \<Rightarrow> string list \<Rightarrow> string list list" where
  "values_under op (l # m # ls) =
     (if l = op \<and> m = ''        values:'' then [takeWhile (\<lambda>v. prefix ''        - '' v) ls] else []) @ values_under op (m # ls)"
| "values_under op ls = []"

text \<open>Mapped files are compared by prefix with the names of shell start-up files too, which are no absolute paths: no
  path the kernel reports starts with one, so these entries never match.\<close>

lemma mmap_start_up_files_never_match:
  "''        - '' @ DQ @ ''.bashrc'' @ DQ \<in> set (concat (values_under (''        operator: '' @ DQ @ ''Prefix'' @ DQ) FILE_MMAP))"
  "\<not> prefix ''.bashrc'' (CHR ''/'' # path)"
  by code_simp simp

end
