(* ===== verification/Status.thy ===== *)
theory Status
  imports Settings CnpPage
begin

text \<open>
  What the console says about itself: the overview (\<open>DashboardPage.tsx\<close>) and the event sources
  (\<open>TetragonStatusPage.tsx\<close>), which read the same two answers of the server, the Tetragon agents and
  the health of the event sources. Requests end in any order, so each answer is an input of its own.
\<close>

section \<open>Event sources\<close>

record tetragon_agent =
  ta_podName :: string
  ta_nodeName :: string
  ta_phase :: string
  ta_ready :: bool
  ta_restartCount :: nat
  ta_startedAt :: "string option"
  ta_message :: "string option"
  ingestObserved :: bool
  ingestConnected :: bool
  ingestFailures :: nat
  ingestLastEventAt :: "string option"
  ingestLastError :: "string option"

definition streamDown :: "tetragon_agent \<Rightarrow> bool" where
  "streamDown a \<longleftrightarrow> ta_phase a = ''Running'' \<and> ta_ready a \<and> ingestObserved a \<and> \<not> ingestConnected a"

definition isHealthy :: "tetragon_agent \<Rightarrow> bool" where
  "isHealthy a \<longleftrightarrow> ta_ready a \<and> ta_phase a = ''Running'' \<and> \<not> streamDown a"

datatype badge_tone = Destructive | Amber | Green | Muted

definition StatusBadge :: "tetragon_agent \<Rightarrow> badge_tone \<times> string" where
  "StatusBadge a =
     (if ta_phase a \<noteq> ''Running'' then (Destructive, if ta_phase a = [] then ''Unknown'' else ta_phase a)
      else if \<not> ta_ready a then (Amber, ''Not Ready'')
      else if streamDown a then (Destructive, ''Stream Down'')
      else (Green, ''Healthy''))"

record ingest_entry = ingest_source +
  ie_kind :: string
  ie_name :: string
  ie_lastEventAt :: "string option"

record hubble_view =
  hv_label :: string
  hv_down :: bool
  hv_muted :: bool

definition hubbleState :: "ingest_entry option \<Rightarrow> hubble_view" where
  "hubbleState h =
     (case h of
        None \<Rightarrow> \<lparr> hv_label = ''Not measured'', hv_down = False, hv_muted = True \<rparr>
      | Some s \<Rightarrow>
          if is_connected s then \<lparr> hv_label = ''Connected'', hv_down = False, hv_muted = False \<rparr>
          else if isNotDetected (lastError s) then \<lparr> hv_label = ''Not detected'', hv_down = False, hv_muted = True \<rparr>
          else if consecutiveFailures s > 0 \<or> given (lastError s)
               then \<lparr> hv_label = ''Stream down'', hv_down = True, hv_muted = False \<rparr>
          else \<lparr> hv_label = ''Not measured'', hv_down = False, hv_muted = True \<rparr>)"

definition hubble_badge :: "ingest_entry option \<Rightarrow> badge_tone \<times> string" where
  "hubble_badge h = (let hb = hubbleState h
     in if hv_down hb then (Destructive, ''Stream Down'')
        else if hv_muted hb then (Muted, hv_label hb) else (Green, ''Connected''))"

text \<open>The lines of the Hubble card, and of an agent's; \<open>fmt\<close> is the local time format.\<close>

definition shown_if :: "bool \<Rightarrow> 'a \<Rightarrow> 'a list" where
  "shown_if b x = (if b then [x] else [])"

definition hubble_lines :: "(string \<Rightarrow> string) \<Rightarrow> ingest_entry option \<Rightarrow> (string \<times> string) list" where
  "hubble_lines fmt h =
     (let lastAt = (case h of Some s \<Rightarrow> ie_lastEventAt s | None \<Rightarrow> None);
          failures = (case h of Some s \<Rightarrow> consecutiveFailures s | None \<Rightarrow> 0);
          err = (case h of Some s \<Rightarrow> lastError s | None \<Rightarrow> None)
      in [(''Source'', ''Cluster-wide flow stream''),
          (''Last flow'', if given lastAt then fmt (the lastAt) else ''None yet'')]
         @ shown_if (failures > 0) (''Consecutive failures'', show_nat failures)
         @ shown_if (hv_down (hubbleState h) \<and> given err) ([], the err))"

definition agent_lines :: "(string \<Rightarrow> string) \<Rightarrow> tetragon_agent \<Rightarrow> (string \<times> string) list" where
  "agent_lines fmt a =
     [(''Pod'', ta_podName a), (''Restarts'', show_nat (ta_restartCount a)),
      (''Ingestion'', if \<not> ingestObserved a then ''Not measured'' else if ingestConnected a then ''Connected'' else ''Stream down'')]
     @ shown_if (ingestObserved a)
         (''Last event'', if given (ingestLastEventAt a) then fmt (the (ingestLastEventAt a)) else ''None yet'')
     @ shown_if (ingestFailures a > 0) (''Consecutive failures'', show_nat (ingestFailures a))
     @ shown_if (given (ta_startedAt a)) (''Started'', fmt (the (ta_startedAt a)))
     @ shown_if (given (ta_message a)) ([], the (ta_message a))
     @ shown_if (streamDown a \<and> given (ingestLastError a)) ([], the (ingestLastError a))"

definition agent_card_red :: "tetragon_agent \<Rightarrow> bool" where
  "agent_card_red a \<longleftrightarrow> \<not> ta_ready a \<or> streamDown a"

record status_page =
  sg_agents :: "tetragon_agent list"
  sg_hubble :: "ingest_entry option"
  sg_loading :: bool
  sg_lastUpdated :: "string option"
  sg_error :: string

definition status_init :: status_page where
  "status_init = \<lparr> sg_agents = [], sg_hubble = None, sg_loading = True, sg_lastUpdated = None, sg_error = [] \<rparr>"

definition agents_request :: api_request where
  "agents_request = api_get ''/tetragon/agents''"

definition health_request :: api_request where
  "health_request = api_get ''/ingestion/health''"

text \<open>How the two requests of a load end. The agents: with what was thrown (the text of a refusal, or what the
  browser says), or with the list, missing or null in a body that has none. The health: not at all, or
  with its sources.\<close>

type_synonym agents_answer = "string + tetragon_agent list option"
type_synonym health_answer = "ingest_entry list option option"

definition status_load :: "agents_answer \<Rightarrow> health_answer \<Rightarrow> string \<Rightarrow> status_page \<Rightarrow> status_page" where
  "status_load agents health now st =
     (case agents of
        Inl msg \<Rightarrow> st\<lparr> sg_error := msg, sg_loading := False \<rparr>
      | Inr as \<Rightarrow>
          (let st1 = st\<lparr> sg_agents := (case as of Some xs \<Rightarrow> xs | None \<Rightarrow> []) \<rparr>;
               st2 = (case health of
                        None \<Rightarrow> st1
                      | Some ss \<Rightarrow> st1\<lparr> sg_hubble := find (\<lambda>s. ie_kind s = ''hubble'') (case ss of Some xs \<Rightarrow> xs | None \<Rightarrow> []) \<rparr>)
           in st2\<lparr> sg_lastUpdated := Some now, sg_error := [], sg_loading := False \<rparr>))"

definition status_counts :: "status_page \<Rightarrow> nat \<times> nat \<times> nat" where
  "status_counts st = (let healthy = length (filter isHealthy (sg_agents st)); total = length (sg_agents st)
     in (healthy, total - healthy, total))"

text \<open>The cards in the order of their nodes; \<open>le\<close> is the browser's \<open>localeCompare\<close>. None: the page says
  that there are no agents.\<close>

definition status_cards :: "(string \<Rightarrow> string \<Rightarrow> bool) \<Rightarrow> status_page \<Rightarrow> tetragon_agent list option" where
  "status_cards le st = (if sg_agents st = [] then None
     else Some (sort_by (\<lambda>a b. le (ta_nodeName a) (ta_nodeName b)) (sg_agents st)))"

section \<open>The overview\<close>

record dashboard =
  db_policies :: "policy_record list"
  db_vapPolicies :: "vap_record list"
  db_vapBindings :: "vap_binding_record list"
  db_cnps :: "cnp_record list"
  db_quarantined :: "quarantined_pod list"
  cnpAvailable :: "bool option"
  db_mode :: protect_mode
  agentTotal :: "nat option"
  agentReady :: "nat option"
  agentStreamDown :: nat
  ingestProblems :: "ingest_entry list"
  hasLoaded :: bool
  db_loading :: bool

definition dashboard_init :: dashboard where
  "dashboard_init = \<lparr> db_policies = [], db_vapPolicies = [], db_vapBindings = [], db_cnps = [], db_quarantined = [],
     cnpAvailable = None, db_mode = Monitoring, agentTotal = None, agentReady = None, agentStreamDown = 0,
     ingestProblems = [], hasLoaded = False, db_loading = True \<rparr>"

definition dashboard_requests :: "effect list" where
  "dashboard_requests = map Send [policyApi_list, modeApi_get, vapApi_listPolicies, vapApi_listBindings, cnpApi_list,
     quarantineApi_list, agents_request, health_request]"

definition dashboard_load :: "bool \<Rightarrow> dashboard \<Rightarrow> dashboard \<times> effect list" where
  "dashboard_load showSpinner st = (if showSpinner then st\<lparr> db_loading := True \<rparr> else st, dashboard_requests)"

definition main_answered :: "(policy_record list \<times> protect_mode) option \<Rightarrow> dashboard \<Rightarrow> dashboard \<times> effect list" where
  "main_answered res st =
     (case res of
        Some (p, m) \<Rightarrow> (st\<lparr> db_policies := p, db_mode := m, hasLoaded := True, db_loading := False \<rparr>, [])
      | None \<Rightarrow> (st\<lparr> db_loading := False \<rparr>, [ToastErr ''Failed to load dashboard'']))"

definition vap_answered :: "(vap_record list \<times> vap_binding_record list) option \<Rightarrow> dashboard \<Rightarrow> dashboard" where
  "vap_answered res st =
     (case res of Some (vp, vb) \<Rightarrow> st\<lparr> db_vapPolicies := vp, db_vapBindings := vb \<rparr> | None \<Rightarrow> st)"

definition cnp_answered :: "cnp_list_response option \<Rightarrow> dashboard \<Rightarrow> dashboard" where
  "cnp_answered res st =
     (case res of
        Some r \<Rightarrow> st\<lparr> cnpAvailable := Some (cl_available r), db_cnps := (case cl_policies r of Some ps \<Rightarrow> ps | None \<Rightarrow> []) \<rparr>
      | None \<Rightarrow> st\<lparr> cnpAvailable := Some False \<rparr>)"

definition quarantine_answered :: "quarantined_pod list option \<Rightarrow> dashboard \<Rightarrow> dashboard" where
  "quarantine_answered res st = (case res of Some ps \<Rightarrow> st\<lparr> db_quarantined := ps \<rparr> | None \<Rightarrow> st)"

text \<open>The status of the answer is not asked, so a refusal that is JSON is a body without agents. None: no
  answer, or one that is not JSON.\<close>

definition agents_answered :: "tetragon_agent list option option \<Rightarrow> dashboard \<Rightarrow> dashboard" where
  "agents_answered res st =
     (case res of
        None \<Rightarrow> st
      | Some d \<Rightarrow>
          (let list = (case d of Some as \<Rightarrow> as | None \<Rightarrow> [])
           in st\<lparr> agentTotal := Some (length list), agentReady := Some (length (filter ta_ready list)),
                agentStreamDown := length (filter (\<lambda>a. ta_ready a \<and> ta_phase a = ''Running'' \<and> ingestObserved a
                  \<and> \<not> ingestConnected a) list) \<rparr>))"

definition health_answered :: "health_answer \<Rightarrow> dashboard \<Rightarrow> dashboard" where
  "health_answered res st =
     (case res of
        None \<Rightarrow> st
      | Some ss \<Rightarrow> st\<lparr> ingestProblems := filter (\<lambda>s. isIngestProblem (ingest_source.truncate s))
          (case ss of Some xs \<Rightarrow> xs | None \<Rightarrow> []) \<rparr>)"

datatype dashboard_input =
    Mounted | Tick | RefreshClicked
  | MainAnswer "(policy_record list \<times> protect_mode) option"
  | VapAnswer "(vap_record list \<times> vap_binding_record list) option"
  | CnpAnswer "cnp_list_response option"
  | QuarantineAnswer "quarantined_pod list option"
  | AgentsAnswer "tetragon_agent list option option"
  | HealthAnswer health_answer

fun dashboard_step :: "dashboard_input \<Rightarrow> dashboard \<Rightarrow> dashboard \<times> effect list" where
  "dashboard_step Mounted st = dashboard_load (\<not> hasLoaded st) st"
| "dashboard_step Tick st = dashboard_load False st"
| "dashboard_step RefreshClicked st = dashboard_load True st"
| "dashboard_step (MainAnswer r) st = main_answered r st"
| "dashboard_step (VapAnswer r) st = (vap_answered r st, [])"
| "dashboard_step (CnpAnswer r) st = (cnp_answered r st, [])"
| "dashboard_step (QuarantineAnswer r) st = (quarantine_answered r st, [])"
| "dashboard_step (AgentsAnswer r) st = (agents_answered r st, [])"
| "dashboard_step (HealthAnswer r) st = (health_answered r st, [])"

definition dashboard_run :: "dashboard_input list \<Rightarrow> dashboard \<Rightarrow> dashboard" where
  "dashboard_run is st = foldl (\<lambda>s i. fst (dashboard_step i s)) st is"

section \<open>What the overview shows\<close>

text \<open>The agents' card: ready and total (None while nothing has arrived), the line below, whether it is red.\<close>

definition agents_value :: "dashboard \<Rightarrow> (nat option \<times> nat) option" where
  "agents_value st = (case agentTotal st of None \<Rightarrow> None | Some t \<Rightarrow> Some (agentReady st, t))"

definition agents_sub :: "dashboard \<Rightarrow> string option" where
  "agents_sub st =
     (case agentTotal st of
        None \<Rightarrow> None
      | Some t \<Rightarrow> Some
          (if agentStreamDown st > 0 then ((show_nat (agentStreamDown st)) @ '' stream'' @ (if agentStreamDown st > 1 then ''s'' else []) @ '' down'')
           else if agentReady st = Some t \<and> t > 0 then ''All nodes ingesting''
           else if t = 0 then ''No agents found''
           else ((show_int (int t - int (case agentReady st of Some r \<Rightarrow> r | None \<Rightarrow> 0))) @ '' not ready'')))"

definition agents_accent :: "dashboard \<Rightarrow> string" where
  "agents_accent st =
     (case agentTotal st of
        None \<Rightarrow> ''#6b7280''
      | Some t \<Rightarrow> if agentStreamDown st > 0 then ''#dc3545''
                  else if agentReady st = Some t \<and> t > 0 then ''#28a745'' else ''#dc3545'')"

definition severity_sub :: "string list \<Rightarrow> string" where
  "severity_sub sevs =
     (''Critical: '' @ (show_nat (length (filter (\<lambda>s. s = ''critical'') sevs))) @ '' / Warning: '' @ (show_nat (length (filter (\<lambda>s. s = ''warning'') sevs))))"

definition security_card :: "display_event list \<Rightarrow> nat \<times> string" where
  "security_card es = (length es, severity_sub (map ev_severity es))"

definition admission_card :: "admission_event list \<Rightarrow> nat \<times> string" where
  "admission_card es = (length es, severity_sub (map ae_severity es))"

definition mode_card :: "protect_mode \<Rightarrow> string \<times> string" where
  "mode_card m = (if m = Protect then ''ON'' else if m = MixedMode then ''MIXED'' else ''OFF'',
     if m = Protect then ''Actively blocking violations'' else if m = MixedMode then ''Policies have mixed modes'' else ''Monitoring only'')"

definition problem_banner :: "dashboard \<Rightarrow> string list" where
  "problem_banner st = map (\<lambda>s. ((if ie_kind s = ''hubble'' then ''Hubble'' else ''Tetragon '' @ ie_name s) @ '': '' @ (if given (lastError s) then the (lastError s) else ''stream down'')))
     (ingestProblems st)"

definition tracing_caption :: "dashboard \<Rightarrow> string" where
  "tracing_caption st = (''Latest '' @ (show_nat (length (take 8 (db_policies st)))) @ '' of '' @ (show_nat (length (db_policies st))) @ '' policies'')"

definition admission_caption :: "dashboard \<Rightarrow> string" where
  "admission_caption st =
     ((show_nat (length (db_vapPolicies st))) @ '' polic'' @ (if length (db_vapPolicies st) \<noteq> 1 then ''ies'' else ''y'') @ '', '' @ (show_nat (length (db_vapBindings st))) @ '' binding'' @ (if length (db_vapBindings st) \<noteq> 1 then ''s'' else []))"

text \<open>The network policies, when the cluster has them: how many, and how many deny by default.\<close>

definition network_caption :: "dashboard \<Rightarrow> (string \<times> string option) option" where
  "network_caption st =
     (if cnpAvailable st \<noteq> Some True then None
      else (let deny = length (filter (\<lambda>p. defaultDeny p \<noteq> []) (db_cnps st))
            in Some (((show_nat (length (db_cnps st))) @ '' polic'' @ (if length (db_cnps st) \<noteq> 1 then ''ies'' else ''y'')),
                     if deny > 0 then Some ((show_nat deny) @ '' enforcing default deny'') else None)))"

definition rules_cell :: "cnp_record \<Rightarrow> string list" where
  "rules_cell p = shown_if (ingressRules p > 0) ((''in '' @ (show_nat (ingressRules p))))
     @ shown_if (egressRules p > 0) ((''out '' @ (show_nat (egressRules p))))"

definition deny_cell :: "cnp_record \<Rightarrow> string option" where
  "deny_cell p = (if defaultDeny p = [] then None
     else Some (if defaultDeny p = ''both'' then ''Ingress + Egress'' else if defaultDeny p = ''ingress'' then ''Ingress'' else ''Egress''))"

definition quarantine_caption :: "dashboard \<Rightarrow> string" where
  "quarantine_caption st = (let n = length (db_quarantined st)
     in if n = 0 then ''No pods are contained''
        else ((show_nat n) @ '' pod'' @ (if n \<noteq> 1 then ''s'' else []) @ '' cut off from the network''))"

section \<open>The two pages agree\<close>

lemma streamDown_ready: "streamDown a \<Longrightarrow> ta_ready a"
  by (simp add: streamDown_def)

lemma count_mono: "(\<And>x. P x \<Longrightarrow> Q x) \<Longrightarrow> length (filter P xs) \<le> length (filter Q xs)"
  by (induction xs) auto

lemma dashboard_down: "(\<lambda>a. ta_ready a \<and> ta_phase a = ''Running'' \<and> ingestObserved a \<and> \<not> ingestConnected a) = streamDown"
  by (auto simp: streamDown_def)

text \<open>The overview and the event sources page judge alike: from the same answers the overview counts
  as many broken streams as the other page has Stream Down badges, lists Hubble as a problem exactly
  when its card there is red, and the other page's healthy count is the number of its green badges.\<close>

theorem pages_judge_alike:
  "agentStreamDown (agents_answered (Some d) st) =
       length (filter (\<lambda>a. StatusBadge a = (Destructive, ''Stream Down'') \<and> ta_phase a = ''Running'')
         (sg_agents (status_load (Inr d) h now pg)))
     \<and> (s \<in> set (ingestProblems (health_answered (Some (Some [s])) st)) \<longleftrightarrow> hubble_badge (Some s) = (Destructive, ''Stream Down''))
     \<and> fst (status_counts pg) = length (filter (\<lambda>a. fst (StatusBadge a) = Green) (sg_agents pg))"
proof (intro conjI)
  have badge: "(\<lambda>a. StatusBadge a = (Destructive, ''Stream Down'') \<and> ta_phase a = ''Running'') = streamDown"
    by (rule ext) (auto simp: StatusBadge_def streamDown_def)
  show "agentStreamDown (agents_answered (Some d) st) =
       length (filter (\<lambda>a. StatusBadge a = (Destructive, ''Stream Down'') \<and> ta_phase a = ''Running'')
         (sg_agents (status_load (Inr d) h now pg)))"
    unfolding badge by (simp add: agents_answered_def status_load_def Let_def dashboard_down split: option.splits)
  show "s \<in> set (ingestProblems (health_answered (Some (Some [s])) st)) \<longleftrightarrow> hubble_badge (Some s) = (Destructive, ''Stream Down'')"
    by (auto simp: health_answered_def isIngestProblem_def hubble_badge_def hubbleState_def given_def ingest_source.truncate_def)
  have green: "(\<lambda>a. fst (StatusBadge a) = Green) = isHealthy"
    by (rule ext) (auto simp: StatusBadge_def isHealthy_def)
  show "fst (status_counts pg) = length (filter (\<lambda>a. fst (StatusBadge a) = Green) (sg_agents pg))"
    unfolding green by (simp add: status_counts_def Let_def)
qed

section \<open>The overview's numbers\<close>

text \<open>What an input says of the agents, of the event sources, of the policies: nothing, when it is another
  answer or a request that failed.\<close>

definition said_agents :: "dashboard_input \<Rightarrow> tetragon_agent list option" where
  "said_agents i = (case i of AgentsAnswer (Some d) \<Rightarrow> Some (case d of Some as \<Rightarrow> as | None \<Rightarrow> []) | _ \<Rightarrow> None)"

definition said_sources :: "dashboard_input \<Rightarrow> ingest_entry list option" where
  "said_sources i = (case i of HealthAnswer (Some d) \<Rightarrow> Some (case d of Some ss \<Rightarrow> ss | None \<Rightarrow> []) | _ \<Rightarrow> None)"

definition said_main :: "dashboard_input \<Rightarrow> (policy_record list \<times> protect_mode) option" where
  "said_main i = (case i of MainAnswer r \<Rightarrow> r | _ \<Rightarrow> None)"

definition said_vap :: "dashboard_input \<Rightarrow> (vap_record list \<times> vap_binding_record list) option" where
  "said_vap i = (case i of VapAnswer r \<Rightarrow> r | _ \<Rightarrow> None)"

definition said_cnps :: "dashboard_input \<Rightarrow> cnp_record list option" where
  "said_cnps i = (case i of CnpAnswer (Some r) \<Rightarrow> Some (case cl_policies r of Some ps \<Rightarrow> ps | None \<Rightarrow> []) | _ \<Rightarrow> None)"

definition said_available :: "dashboard_input \<Rightarrow> bool option" where
  "said_available i = (case i of CnpAnswer r \<Rightarrow> Some (case r of Some x \<Rightarrow> cl_available x | None \<Rightarrow> False) | _ \<Rightarrow> None)"

definition said_quarantine :: "dashboard_input \<Rightarrow> quarantined_pod list option" where
  "said_quarantine i = (case i of QuarantineAnswer r \<Rightarrow> r | _ \<Rightarrow> None)"

text \<open>What the last input that said anything said.\<close>

definition last_said :: "('i \<Rightarrow> 'a option) \<Rightarrow> 'i list \<Rightarrow> 'a option" where
  "last_said f ins = (case List.map_filter f (rev ins) of [] \<Rightarrow> None | x # _ \<Rightarrow> Some x)"

lemma last_said_Nil [simp]: "last_said f [] = None"
  by (simp add: last_said_def)

lemma last_said_snoc [simp]: "last_said f (ins @ [i]) = (case f i of None \<Rightarrow> last_said f ins | Some x \<Rightarrow> Some x)"
  by (simp add: last_said_def List.map_filter_simps split: option.splits)

text \<open>C28: every number of the overview is of one answer, the last one to arrive to its own request. Whatever
  the order in which answers and failures arrive: the agents' three numbers are the count, the ready ones and
  those with a broken stream (as the event sources page judges it) in one list of agents, the last that came;
  the banner is the problems in the last list of sources; the policies and the mode are of one answer, and
  so are the admission policies and their bindings; network policies are hidden exactly when the last answer
  says so or failed. Before an answer there are no numbers.\<close>

theorem overview_consistent:
  "let st = dashboard_run ins dashboard_init in
     (case last_said said_agents ins of
        None \<Rightarrow> agentTotal st = None \<and> agentReady st = None \<and> agentStreamDown st = 0
      | Some as \<Rightarrow> agentTotal st = Some (length as) \<and> agentReady st = Some (length (filter ta_ready as))
          \<and> agentStreamDown st = length (filter streamDown as))
     \<and> ingestProblems st = (case last_said said_sources ins of None \<Rightarrow> []
          | Some ss \<Rightarrow> filter (\<lambda>s. hv_down (hubbleState (Some s))) ss)
     \<and> (db_policies st, db_mode st) = (case last_said said_main ins of None \<Rightarrow> ([], Monitoring) | Some pm \<Rightarrow> pm)
     \<and> (hasLoaded st \<longleftrightarrow> last_said said_main ins \<noteq> None)
     \<and> (db_vapPolicies st, db_vapBindings st) = (case last_said said_vap ins of None \<Rightarrow> ([], []) | Some pb \<Rightarrow> pb)
     \<and> cnpAvailable st = last_said said_available ins
     \<and> db_cnps st = (case last_said said_cnps ins of None \<Rightarrow> [] | Some ps \<Rightarrow> ps)
     \<and> db_quarantined st = (case last_said said_quarantine ins of None \<Rightarrow> [] | Some ps \<Rightarrow> ps)"
proof (induction ins rule: rev_induct)
  case Nil
  show ?case by (simp add: dashboard_run_def dashboard_init_def)
next
  case (snoc i ins)
  have problem: "isIngestProblem (ingest_source.truncate s) \<longleftrightarrow> hv_down (hubbleState (Some s))" for s
    by (auto simp: isIngestProblem_def hubbleState_def given_def ingest_source.truncate_def)
  have "dashboard_run (ins @ [i]) dashboard_init = fst (dashboard_step i (dashboard_run ins dashboard_init))"
    by (simp add: dashboard_run_def)
  then show ?case
    using snoc
    by (cases i) (auto simp: Let_def dashboard_load_def main_answered_def vap_answered_def cnp_answered_def quarantine_answered_def
        agents_answered_def health_answered_def said_agents_def said_sources_def said_main_def said_vap_def said_cnps_def
        said_available_def said_quarantine_def dashboard_down problem split: option.splits)
qed

text \<open>The card claims that all nodes ingest exactly when every agent is ready and none is known to be
  down; an agent nobody has measured is ingesting to it.\<close>

lemma all_nodes_ingesting:
  "agents_sub (agents_answered (Some (Some as)) st) = Some ''All nodes ingesting'' \<longleftrightarrow>
     as \<noteq> [] \<and> (\<forall>a \<in> set as. ta_ready a \<and> \<not> streamDown a)"
proof -
  have down: "length (filter streamDown as) = 0 \<longleftrightarrow> (\<forall>a \<in> set as. \<not> streamDown a)"
    by (simp add: filter_empty_conv)
  have ready: "length (filter ta_ready as) = length as \<longleftrightarrow> (\<forall>a \<in> set as. ta_ready a)"
    using length_filter_less [of _ as ta_ready] by (metis filter_True less_irrefl)
  have texts: "x @ y @ '' down'' \<noteq> ''All nodes ingesting''" "x @ '' not ready'' \<noteq> ''All nodes ingesting''" for x y
    by (auto dest!: arg_cong [where f = rev])
  have st: "agentTotal (agents_answered (Some (Some as)) st) = Some (length as)"
    "agentReady (agents_answered (Some (Some as)) st) = Some (length (filter ta_ready as))"
    "agentStreamDown (agents_answered (Some (Some as)) st) = length (filter streamDown as)"
    by (simp_all add: agents_answered_def Let_def dashboard_down)
  show ?thesis
    unfolding agents_sub_def st using down ready texts by (cases "as = []") auto
qed

text \<open>A server that fails to list the agents answers with JSON, which the overview reads as a cluster without
  agents; the event sources page shows the error.\<close>

lemma refusal_reads_as_no_agents:
  "agents_sub (agents_answered (Some None) st) = Some ''No agents found''"
  "agents_value (agents_answered (Some None) st) = Some (Some 0, 0)"
  "sg_error (status_load (Inl e) h now pg) = e" "sg_agents (status_load (Inl e) h now pg) = sg_agents pg"
  by (simp_all add: agents_sub_def agents_value_def agents_answered_def status_load_def)

text \<open>One failed request hides the network policies, as if the cluster had no Cilium.\<close>

lemma failed_poll_hides_network: "network_caption (fst (dashboard_step (CnpAnswer None) st)) = None"
  by (simp add: network_caption_def cnp_answered_def)

text \<open>An agent that is ready in a phase other than Running has a red badge on a card that is not red.\<close>

lemma red_badge_on_plain_card:
  "agent_card_red a \<Longrightarrow> fst (StatusBadge a) \<noteq> Green"
  "\<lbrakk>ta_ready a; ta_phase a \<noteq> ''Running''\<rbrakk> \<Longrightarrow> fst (StatusBadge a) = Destructive \<and> \<not> agent_card_red a"
  by (auto simp: agent_card_red_def StatusBadge_def streamDown_def)

end
