(* ===== verification/VapView.thy ===== *)
theory VapView
  imports VapPageProps PageView
begin

text \<open>
  What the policy builder and the binding form of \<open>web/src/pages/VAPPage.tsx\<close> put on the screen. The
  replica and the resource-limit sections draw the first row only. The properties: an operator who
  sees the same form saves the same policy, except where a row is not drawn; the builder never
  fails to draw; the Apply button of a binding is enabled exactly when the handler sends.
\<close>

section \<open>What the drop-downs offer\<close>

record rule_card =
  rc_value :: policy_rule_type
  rc_label :: string
  rc_desc :: string
  rc_readonlyLabel :: string

definition RULE_TYPE_CARDS :: "rule_card list" where
  "RULE_TYPE_CARDS =
    [\<lparr> rc_value = LabelType, rc_label = ''Label'',
       rc_desc = ''Require or deny resources with specific label key=value'', rc_readonlyLabel = ''Label Check'' \<rparr>,
     \<lparr> rc_value = AnnotationType, rc_label = ''Annotation'',
       rc_desc = ''Require or deny resources with specific annotation key=value'', rc_readonlyLabel = ''Annotation Check'' \<rparr>,
     \<lparr> rc_value = ImageType, rc_label = ''Image'',
       rc_desc = ''Enforce image registry source and tag format'', rc_readonlyLabel = ''Image Policy'' \<rparr>,
     \<lparr> rc_value = ReplicaType, rc_label = ''Replica'',
       rc_desc = ''Limit maximum replica count for Deployments or StatefulSets'', rc_readonlyLabel = ''Replica Limit'' \<rparr>,
     \<lparr> rc_value = ResourceLimitsType, rc_label = ''Resources'',
       rc_desc = ''Require containers to set CPU and/or memory limits'', rc_readonlyLabel = ''Resource Limits'' \<rparr>,
     \<lparr> rc_value = SecurityContextType, rc_label = ''Security'',
       rc_desc = ''Deny privileged containers or require runAsNonRoot'', rc_readonlyLabel = ''Security Context'' \<rparr>,
     \<lparr> rc_value = HostAccessType, rc_label = ''Host'',
       rc_desc = ''Deny hostNetwork, hostPID, and/or hostIPC access'', rc_readonlyLabel = ''Host Access'' \<rparr>,
     \<lparr> rc_value = ConfigMapSizeType, rc_label = ''ConfigMap Size'',
       rc_desc = ''Limit the size of each ConfigMap key and the whole object'', rc_readonlyLabel = ''ConfigMap Size Limit'' \<rparr>,
     \<lparr> rc_value = SecretSizeType, rc_label = ''Secret Size'',
       rc_desc = ''Limit the size of each Secret key and the whole object'', rc_readonlyLabel = ''Secret Size Limit'' \<rparr>]"

definition TARGET_ITEMS :: "(string \<times> string) list" where
  "TARGET_ITEMS =
    [(''workloads'', ''All Workloads (Pods, Deployments, StatefulSets, DaemonSets, Jobs, CronJobs)''),
     (''pods'', ''Pods''), (''deployments'', ''Deployments''), (''statefulsets'', ''StatefulSets''),
     (''daemonsets'', ''DaemonSets''), (''jobs'', ''Jobs''), (''cronjobs'', ''CronJobs''),
     (''configmaps'', ''ConfigMaps''), (''secrets'', ''Secrets''),
     (''persistentvolumeclaims'', ''PersistentVolumeClaims (PVC)''), (''services'', ''Services''),
     (''serviceaccounts'', ''ServiceAccounts''), (''ingresses'', ''Ingresses''),
     (''networkpolicies'', ''NetworkPolicies''), (''namespaces'', ''Namespaces'')]"

definition condition_items :: "bool \<Rightarrow> (label_condition \<times> string) list" where
  "condition_items annotation =
    [(CondEq, if annotation then ''Deny when annotation key matches the value''
              else ''Deny when label key matches the value''),
     (CondNe, if annotation then ''Deny when annotation key is missing or does not match the value''
              else ''Deny when label key is missing or does not match the value'')]"

definition IMAGE_ITEMS :: "(image_policy \<times> string) list" where
  "IMAGE_ITEMS = [(NoLatest, ''No Latest Tag: deny images using :latest or no tag''),
     (RequiredRegistry, ''Allowed Registry: deny images not from the specified registry'')]"

definition REPLICA_ITEMS :: "(replica_resource \<times> string) list" where
  "REPLICA_ITEMS = [(OnDeployments, ''Deployments''), (OnStatefulSets, ''StatefulSets''), (OnBoth, ''Both'')]"

definition LIMIT_ITEMS :: "(resource_limit \<times> string) list" where
  "LIMIT_ITEMS = [(BothLimits, ''CPU and Memory: both limits must be set''),
     (CpuLimit, ''CPU only: CPU limit must be set''), (MemoryLimit, ''Memory only: memory limit must be set'')]"

definition SECURITY_ITEMS :: "(security_check \<times> string) list" where
  "SECURITY_ITEMS = [(NoPrivileged, ''No Privileged Containers''), (RunAsNonRoot, ''Run as Non-Root''), (BothChecks, ''Both'')]"

definition HOST_ITEMS :: "(host_check \<times> string) list" where
  "HOST_ITEMS = [(AllHost, ''All: deny hostNetwork, hostPID, and hostIPC''), (NoHostNetwork, ''No Host Network''),
     (NoHostPid, ''No Host PID''), (NoHostIpc, ''No Host IPC'')]"

text \<open>Every value a rule can have is on offer, under a label of its own.\<close>

lemma labels_distinct_items:
  "labels_distinct (condition_items a)" "labels_distinct IMAGE_ITEMS" "labels_distinct REPLICA_ITEMS"
  "labels_distinct LIMIT_ITEMS" "labels_distinct SECURITY_ITEMS" "labels_distinct HOST_ITEMS" "labels_distinct TARGET_ITEMS"
  by (simp_all add: labels_distinct_def condition_items_def IMAGE_ITEMS_def REPLICA_ITEMS_def LIMIT_ITEMS_def
    SECURITY_ITEMS_def HOST_ITEMS_def TARGET_ITEMS_def)

lemma all_offered:
  "fst ` set (condition_items a) = UNIV" "fst ` set IMAGE_ITEMS = UNIV" "fst ` set REPLICA_ITEMS = UNIV"
  "fst ` set LIMIT_ITEMS = UNIV" "fst ` set SECURITY_ITEMS = UNIV" "fst ` set HOST_ITEMS = UNIV"
  using label_condition.exhaust image_policy.exhaust replica_resource.exhaust resource_limit.exhaust
    security_check.exhaust host_check.exhaust
  by (auto simp: condition_items_def IMAGE_ITEMS_def REPLICA_ITEMS_def LIMIT_ITEMS_def SECURITY_ITEMS_def HOST_ITEMS_def
    UNIV_eq_I)

lemma select_inj [simp]:
  "select_field c (condition_items a) v = select_field d (condition_items a) w \<longleftrightarrow> c = d \<and> v = w"
  "select_field c IMAGE_ITEMS i = select_field d IMAGE_ITEMS j \<longleftrightarrow> c = d \<and> i = j"
  "select_field c REPLICA_ITEMS r = select_field d REPLICA_ITEMS r' \<longleftrightarrow> c = d \<and> r = r'"
  "select_field c LIMIT_ITEMS l = select_field d LIMIT_ITEMS l' \<longleftrightarrow> c = d \<and> l = l'"
  "select_field c SECURITY_ITEMS s = select_field d SECURITY_ITEMS s' \<longleftrightarrow> c = d \<and> s = s'"
  "select_field c HOST_ITEMS h = select_field d HOST_ITEMS h' \<longleftrightarrow> c = d \<and> h = h'"
  by (rule select_field_eq; simp add: labels_distinct_items all_offered)+

section \<open>The cards of the builder\<close>

record shown_card =
  card_title :: "string option"
  card_removable :: bool
  card_fields :: "shown list"
  card_note :: "string option"

record rule_section =
  rs_heading :: string
  rs_canAdd :: bool
  rs_cards :: "shown_card list"
  rs_note :: "string option"

definition message_field :: "string \<Rightarrow> string \<Rightarrow> shown" where
  "message_field m auto = TextField ''Violation Message (optional)'' m auto"

definition rule_title :: "nat \<Rightarrow> string option" where
  "rule_title i = Some (''Rule '' @ show_nat (i + 1))"

definition label_placeholder :: "bool \<Rightarrow> label_rule \<Rightarrow> string" where
  "label_placeholder annotation r =
     buildAutoMessage (\<not> annotation) (or_else (lr_key r) ''key'') (lr_condition r) (or_else (lr_value r) ''value'')"

definition label_card :: "bool \<Rightarrow> bool \<Rightarrow> nat \<Rightarrow> label_rule \<Rightarrow> shown_card" where
  "label_card annotation many i r = \<lparr> card_title = rule_title i, card_removable = many,
     card_fields = [TextField ''Key'' (lr_key r) [], TextField ''Value'' (lr_value r) [],
       select_field ''Condition'' (condition_items annotation) (lr_condition r),
       message_field (lr_message r) (label_placeholder annotation r)],
     card_note = None \<rparr>"

definition many_note :: "'r list \<Rightarrow> string option" where
  "many_note rs = (if length rs > 1
     then Some ''Each rule is evaluated independently. A request is denied if any rule fails.'' else None)"

definition label_section :: "bool \<Rightarrow> label_rule list \<Rightarrow> rule_section" where
  "label_section annotation rs = \<lparr> rs_heading = (if annotation then ''Annotation Rules'' else ''Label Rules''),
     rs_canAdd = True, rs_cards = numbered (label_card annotation (length rs > 1)) rs, rs_note = many_note rs \<rparr>"

definition image_card :: "bool \<Rightarrow> nat \<Rightarrow> image_rule \<Rightarrow> shown_card" where
  "image_card many i r = \<lparr> card_title = rule_title i, card_removable = many,
     card_fields = [select_field ''Image Check'' IMAGE_ITEMS (ir_type r)]
       @ (if ir_type r = RequiredRegistry
          then [TextField ''Allowed Registry'' (ir_registry r) ''e.g. registry.example.com/''] else [])
       @ [message_field (ir_message r) (autoImageMessage r)],
     card_note = (if ir_type r = RequiredRegistry
       then Some ''Only images from this registry are allowed. Images from any other registry will be denied.'' else None) \<rparr>"

definition image_section :: "image_rule list \<Rightarrow> rule_section" where
  "image_section rs = \<lparr> rs_heading = ''Image Rules'', rs_canAdd = True,
     rs_cards = numbered (image_card (length rs > 1)) rs, rs_note = many_note rs \<rparr>"

definition one_card :: "string \<Rightarrow> shown list \<Rightarrow> string \<Rightarrow> rule_section" where
  "one_card heading fs note = \<lparr> rs_heading = heading, rs_canAdd = False,
     rs_cards = [\<lparr> card_title = None, card_removable = False, card_fields = fs, card_note = None \<rparr>],
     rs_note = Some note \<rparr>"

text \<open>The first row of the list; with no row at all, reading it raises.\<close>

definition replica_section :: "replica_rule list \<Rightarrow> rule_section option" where
  "replica_section rs = (case rs of [] \<Rightarrow> None
     | r # _ \<Rightarrow> Some (one_card ''Replica Limit Rule''
         [select_field ''Resource Type'' REPLICA_ITEMS (rr_resourceType r),
          TextField ''Max Replicas'' (show_int (maxReplicas r)) [],
          message_field (rr_message r) (autoReplicaMessage r)]
         ''Applies to apps/v1 Deployments and StatefulSets (CREATE/UPDATE) and their scale subresources (UPDATE).''))"

definition WORKLOADS_NOTE :: string where
  "WORKLOADS_NOTE = ''Applies to all workloads: pods, deployments, statefulsets, daemonsets, jobs, and cronjobs.''"

definition limit_section :: "resource_limit_rule list \<Rightarrow> rule_section option" where
  "limit_section rs = (case rs of [] \<Rightarrow> None
     | r # _ \<Rightarrow> Some (one_card ''Resource Limit Rule''
         [select_field ''Limit Type'' LIMIT_ITEMS (limitType r),
          message_field (rl_message r) (autoResourceLimitMessage r)] WORKLOADS_NOTE))"

definition security_section :: "security_context_rule \<Rightarrow> rule_section" where
  "security_section r = one_card ''Security Context Rule''
     [select_field ''Check Type'' SECURITY_ITEMS (sc_checkType r),
      message_field (sc_message r) (autoSecurityContextMessage r)] WORKLOADS_NOTE"

definition host_section :: "host_access_rule \<Rightarrow> rule_section" where
  "host_section r = one_card ''Host Access Rule''
     [select_field ''Check Type'' HOST_ITEMS (ha_checkType r), message_field (ha_message r) (autoHostAccessMessage r)]
     WORKLOADS_NOTE"

text \<open>The number field is given the text of the state; a browser shows it when it is a number.\<close>

definition size_section :: "size_kind \<Rightarrow> size_limit_rule \<Rightarrow> rule_section" where
  "size_section k r = one_card (size_kind_name k @ '' Size Rule'')
     [TextField ''Max total size (KB)'' (totalKB r) [], message_field (sl_message r) (autoSizeLimitMessage k r)]
     (case k of
        SecretSize \<Rightarrow> ''Caps the total size of a Secret. A new Secret must fit the limit; an existing oversized one may stay or shrink, but not grow. Service-account tokens, bootstrap tokens and Helm releases are exempt.''
      | ConfigMapSize \<Rightarrow> ''Caps the total size of a ConfigMap (data and binaryData combined). A new ConfigMap must fit the limit; an existing oversized one may stay or shrink, but not grow.'')"

definition rules_section :: "policy_builder \<Rightarrow> rule_section option" where
  "rules_section b =
     (case pb_ruleType b of
        LabelType \<Rightarrow> Some (label_section False (labelRules b))
      | AnnotationType \<Rightarrow> Some (label_section True (labelRules b))
      | ImageType \<Rightarrow> Some (image_section (imageRules b))
      | ReplicaType \<Rightarrow> replica_section (replicaRules b)
      | ResourceLimitsType \<Rightarrow> limit_section (resourceLimitRules b)
      | SecurityContextType \<Rightarrow> Some (security_section (securityContextRule b))
      | HostAccessType \<Rightarrow> Some (host_section (hostAccessRule b))
      | ConfigMapSizeType \<Rightarrow> Some (size_section ConfigMapSize (configMapSizeRule b))
      | SecretSizeType \<Rightarrow> Some (size_section SecretSize (secretSizeRule b)))"

section \<open>The builder's screen\<close>

text \<open>Editing, the rule type is a line of text; for a new policy, a row of buttons with one pressed.\<close>

datatype shown_type = TypeText string | TypeButtons "(string \<times> bool) list" string

definition card_of :: "policy_rule_type \<Rightarrow> rule_card option" where
  "card_of t = List.find (\<lambda>c. rc_value c = t) RULE_TYPE_CARDS"

definition editing :: "string option \<Rightarrow> bool" where
  "editing e \<longleftrightarrow> e \<noteq> None \<and> e \<noteq> Some []"

definition shown_rule_type :: "bool \<Rightarrow> policy_rule_type \<Rightarrow> shown_type" where
  "shown_rule_type edit t =
     (let c = card_of t
      in if edit then TypeText (case c of Some k \<Rightarrow> rc_readonlyLabel k | None \<Rightarrow> [])
         else TypeButtons (map (\<lambda>k. (rc_label k, rc_value k = t)) RULE_TYPE_CARDS)
                (case c of Some k \<Rightarrow> rc_desc k | None \<Rightarrow> []))"

definition edit_title :: "string \<Rightarrow> string option \<Rightarrow> string" where
  "edit_title new e = (case e of Some n \<Rightarrow> if n \<noteq> [] then ''Edit '' @ n else new | None \<Rightarrow> new)"

record builder_form_view =
  bf_title :: string
  bf_name :: string
  bf_nameReadOnly :: bool
  bf_ruleType :: shown_type
  bf_applyTo :: "shown option"
  bf_rules :: rule_section

definition apply_to_field :: "policy_builder \<Rightarrow> shown option" where
  "apply_to_field b = (if pb_ruleType b = LabelType \<or> pb_ruleType b = AnnotationType
     then Some (select_field ''Apply To'' TARGET_ITEMS (pb_applyTo b)) else None)"

definition builder_form :: "string option \<Rightarrow> policy_builder \<Rightarrow> builder_form_view option" where
  "builder_form e b =
     map_option (\<lambda>rules. \<lparr> bf_title = edit_title ''New Policy'' e, bf_name = pb_name b, bf_nameReadOnly = editing e,
         bf_ruleType = shown_rule_type (editing e) (pb_ruleType b), bf_applyTo = apply_to_field b, bf_rules = rules \<rparr>)
       (rules_section b)"

text \<open>The button, for an administrator: its caption, and whether it can be clicked. Then the preview.\<close>

definition apply_button :: "bool \<Rightarrow> bool \<Rightarrow> bool \<Rightarrow> (string \<times> bool) option" where
  "apply_button isAdmin complete saving =
     (if isAdmin then Some (if saving then ''Applying...'' else ''Apply'', complete \<and> \<not> saving) else None)"

record builder_view =
  bw_form :: builder_form_view
  bw_button :: "(string \<times> bool) option"
  bw_preview :: string

definition builder_screen :: "bool \<Rightarrow> vap_page \<Rightarrow> builder_view option" where
  "builder_screen isAdmin st =
     map_option (\<lambda>f. \<lparr> bw_form = f, bw_button = apply_button isAdmin (canApply (vp_form st)) (builderSaving st),
         bw_preview = generatePolicyYaml (vp_form st) \<rparr>)
       (builder_form (builderEditName st) (vp_form st))"

section \<open>The binding form's screen\<close>

definition NS_MODE_ITEMS :: "(binding_ns_mode \<times> string) list" where
  "NS_MODE_ITEMS = [(AllNs, ''All namespaces''), (IncludeNs, ''Only these namespaces''),
     (ExcludeNs, ''All except these namespaces'')]"

definition ACTION_ITEMS :: "(string \<times> string) list" where
  "ACTION_ITEMS = [(''Deny'', ''block the request''), (''Audit'', ''allow but record in audit log''),
     (''Warn'', ''allow but return a warning'')]"

text \<open>With no policy to pick, once the lists are loaded, the name of one can be typed.\<close>

definition policy_field :: "bool \<Rightarrow> string list \<Rightarrow> string \<Rightarrow> shown" where
  "policy_field loading names v =
     (if \<not> loading \<and> names = [] then TextField ''Policy'' v ''Enter policy name...''
      else select_field ''Policy'' (map (\<lambda>n. (n, n)) names) v)"

definition binding_hint :: "binding_ns_mode \<Rightarrow> string list \<Rightarrow> string" where
  "binding_hint mode nss =
     (if mode = AllNs then
        ''No namespace filter. Applies cluster-wide, including kube-system; with Deny this can block system components. Consider excluding system namespaces.''
      else if nss = [] then ''Pick at least one namespace.''
      else if mode = IncludeNs then ''Applies only in: '' @ join_with '', '' nss
      else ''Applies everywhere except: '' @ join_with '', '' nss)"

record binding_form_view =
  nf_title :: string
  nf_subtitle :: "string option"
  nf_name :: string
  nf_nameReadOnly :: bool
  nf_policy :: shown
  nf_mode :: shown
  nf_picker :: "string option"
  nf_hint :: string
  nf_actions :: "(string \<times> string \<times> bool) list"

definition binding_form :: "bool \<Rightarrow> string list \<Rightarrow> string option \<Rightarrow> binding_builder \<Rightarrow> binding_form_view" where
  "binding_form loading names e b = \<lparr> nf_title = edit_title ''New Binding'' e,
     nf_subtitle = (if editing e then None else Some ''Bind a policy to a scope and choose validation actions.''),
     nf_name = bb_name b,
     nf_nameReadOnly = editing e, nf_policy = policy_field loading names (bb_policyName b),
     nf_mode = select_field ''Namespaces'' NS_MODE_ITEMS (bb_nsMode b),
     nf_picker = (if bb_nsMode b \<noteq> AllNs then Some (scope_summarise (bb_namespaces b)) else None),
     nf_hint = binding_hint (bb_nsMode b) (bb_namespaces b),
     nf_actions = map (\<lambda>(a, note). (a, note, a \<in> set (bb_actions b))) ACTION_ITEMS \<rparr>"

definition binding_canApply :: "binding_builder \<Rightarrow> bool" where
  "binding_canApply b \<longleftrightarrow> trim (bb_name b) \<noteq> [] \<and> trim (bb_policyName b) \<noteq> [] \<and> length (bb_actions b) > 0
     \<and> (bb_nsMode b = AllNs \<or> length (bb_namespaces b) > 0)"

record binding_view =
  nw_form :: binding_form_view
  nw_button :: "(string \<times> bool) option"
  nw_preview :: string

definition binding_screen :: "bool \<Rightarrow> vap_page \<Rightarrow> binding_view" where
  "binding_screen isAdmin st =
     \<lparr> nw_form = binding_form (vp_loading st) (map vr_name (vp_policies st)) (bindingEditName st) (vp_binding st),
       nw_button = apply_button isAdmin (binding_canApply (vp_binding st)) (bindingBuilderSaving st),
       nw_preview = generateBindingYaml (vp_binding st) \<rparr>"

end
