(* ===== verification/VapViewProps.thy ===== *)
theory VapViewProps
  imports VapView
begin

text \<open>
  What the screens of the admission policy page promise: the builder always draws; what it shows
  decides what is saved, for the forms whose rows are all drawn; a second replica or limit row is
  kept, saved and never shown; the binding form shows all it saves but the order of the actions.
\<close>

section \<open>Reading the form back from the screen\<close>

text \<open>Every rule type has its card, so neither the label nor the description falls back.\<close>

lemma type_card: obtains k where "card_of t = Some k" "k \<in> set RULE_TYPE_CARDS" "rc_value k = t"
proof -
  have "t \<in> rc_value ` set RULE_TYPE_CARDS" by (cases t) (simp_all add: RULE_TYPE_CARDS_def)
  then have "card_of t \<noteq> None" by (auto simp: card_of_def find_None_iff)
  then obtain k where k: "card_of t = Some k" by auto
  then have "k \<in> set RULE_TYPE_CARDS \<and> rc_value k = t" by (auto simp: card_of_def find_Some_iff)
  then show ?thesis using that k by blast
qed

lemma readonly_labels_distinct: "inj_on rc_readonlyLabel (set RULE_TYPE_CARDS)"
proof -
  have "distinct (map rc_readonlyLabel RULE_TYPE_CARDS)" by (simp add: RULE_TYPE_CARDS_def)
  then show ?thesis by (simp add: distinct_map)
qed

lemma shown_rule_type_eq: "shown_rule_type e t = shown_rule_type e' t' \<longleftrightarrow> e = e' \<and> t = t'"
proof
  assume h: "shown_rule_type e t = shown_rule_type e' t'"
  obtain k where k: "card_of t = Some k" "k \<in> set RULE_TYPE_CARDS" "rc_value k = t" by (rule type_card)
  obtain k' where k': "card_of t' = Some k'" "k' \<in> set RULE_TYPE_CARDS" "rc_value k' = t'" by (rule type_card)
  have "e = e'" using h by (simp add: shown_rule_type_def Let_def split: if_splits)
  moreover have "t = t'"
  proof (cases e)
    case True
    then have "rc_readonlyLabel k = rc_readonlyLabel k'"
      using h k k' \<open>e = e'\<close> by (simp add: shown_rule_type_def)
    then show ?thesis using k k' readonly_labels_distinct by (metis inj_onD)
  next
    case False
    then have "\<forall>c \<in> set RULE_TYPE_CARDS. (rc_value c = t) = (rc_value c = t')"
      using h \<open>e = e'\<close> by (simp add: shown_rule_type_def Let_def)
    then show ?thesis using k by auto
  qed
  ultimately show "e = e' \<and> t = t'" by simp
qed simp

lemma edit_title_eq:
  "edit_title ''New Policy'' e = edit_title ''New Policy'' e' \<Longrightarrow> apply_request e y = apply_request e' y"
  by (auto simp: edit_title_def apply_request_def split: option.splits if_splits)

lemma label_card_eq: "label_card a m i r = label_card a m' i r' \<Longrightarrow> r = r'"
  by (cases r; cases r') (simp add: label_card_def message_field_def)

text \<open>The part of an image rule its card shows.\<close>

definition shown_image :: "image_rule \<Rightarrow> image_rule" where
  "shown_image r = (if ir_type r = RequiredRegistry then r else r\<lparr> ir_registry := [] \<rparr>)"

lemma image_card_eq: "image_card m i r = image_card m' i r' \<Longrightarrow> shown_image r = shown_image r'"
  by (cases r; cases r') (auto simp: image_card_def shown_image_def message_field_def split: if_splits)

lemma image_policy_cases: "ir_type r \<noteq> RequiredRegistry \<longleftrightarrow> ir_type r = NoLatest"
  by (cases "ir_type r") simp_all

lemma shown_image_lines:
  "imageRuleToYamlLines (shown_image r) = imageRuleToYamlLines r"
  "ir_type (shown_image r) = NoLatest \<or> trim (ir_registry (shown_image r)) \<noteq> [] \<longleftrightarrow>
   ir_type r = NoLatest \<or> trim (ir_registry r) \<noteq> []"
  by (auto simp: shown_image_def image_policy_cases imageRuleToYamlLines_def image_check_def autoImageMessage_def)

lemma active_images_shown: "map shown_image (active_image_rules rs) = active_image_rules (map shown_image rs)"
  by (induction rs) (simp_all add: active_image_rules_def shown_image_lines)

lemma lines_or_default_map: "(\<And>r. f (v r) = f r) \<Longrightarrow> lines_or_default f d (map v rs) = lines_or_default f d rs"
  by (simp add: lines_or_default_def comp_def)

lemma image_lines_shown:
  "map shown_image rs = map shown_image rs' \<Longrightarrow>
   lines_or_default imageRuleToYamlLines d (active_image_rules rs) = lines_or_default imageRuleToYamlLines d (active_image_rules rs')"
  by (metis active_images_shown lines_or_default_map shown_image_lines(1))

lemma image_active_shown:
  assumes "map shown_image rs = map shown_image rs'"
  shows "list_ex (\<lambda>r. ir_type r = NoLatest \<or> trim (ir_registry r) \<noteq> []) rs =
    list_ex (\<lambda>r. ir_type r = NoLatest \<or> trim (ir_registry r) \<noteq> []) rs'"
proof -
  have "active_image_rules rs = [] \<longleftrightarrow> active_image_rules rs' = []"
    using assms by (metis active_images_shown map_is_Nil_conv)
  then show ?thesis by (simp add: active_image_rules_def filter_empty_conv list_ex_iff) blast
qed

lemma show_int_eq [simp]: "show_int a = show_int b \<longleftrightarrow> a = b"
proof -
  have "CHR ''-'' \<notin> set (show_nat n)" for n
    using show_nat_facts(2) [of n] by (auto simp: is_digit_def)
  then have "CHR ''-'' # show_nat n \<noteq> show_nat m" for n m by (metis list.set_intros(1))
  then show ?thesis by (auto simp: show_int_def show_nat_inj split: if_splits) (metis+)?
qed

lemma one_card_eq: "one_card h fs n = one_card h' fs' n' \<longleftrightarrow> h = h' \<and> fs = fs' \<and> n = n'"
  by (simp add: one_card_def)

lemma label_section_eq: "label_section a rs = label_section a' rs' \<Longrightarrow> rs = rs'"
proof -
  assume h: "label_section a rs = label_section a' rs'"
  then have "a = a'" by (auto simp: label_section_def split: if_splits)
  then have "map (\<lambda>r. r) rs = map (\<lambda>r. r) rs'"
    using h by (intro numbered_same [where f = "label_card a (length rs > 1)"]) (auto simp: label_section_def dest: label_card_eq)
  then show "rs = rs'" by simp
qed

lemma image_section_eq: "image_section rs = image_section rs' \<Longrightarrow> map shown_image rs = map shown_image rs'"
  by (rule numbered_same [where f = "image_card (length rs > 1)" and g = "image_card (length rs' > 1)"])
    (auto simp: image_section_def dest: image_card_eq)

text \<open>The Apply To field is only drawn for labels and annotations, and only there the manifest has it.\<close>

lemma target_unused:
  "\<not> (t = LabelType \<or> t = AnnotationType) \<Longrightarrow> resource_rule_lines t a = resource_rule_lines t a'"
  by (cases t) (simp_all add: resource_rule_lines_def)

section \<open>What is drawn decides what is sent\<close>

text \<open>The forms all of whose rows are on the screen, and whose target is on offer.\<close>

definition drawn_whole :: "policy_builder \<Rightarrow> bool" where
  "drawn_whole b \<longleftrightarrow> length (replicaRules b) = 1 \<and> length (resourceLimitRules b) = 1 \<and> pb_applyTo b \<in> fst ` set TARGET_ITEMS"

lemma drawn_rows:
  assumes "drawn_whole b"
  obtains r l where "replicaRules b = [r]" "resourceLimitRules b = [l]"
  using assms by (auto simp: drawn_whole_def length_Suc_conv)

lemma same_rules:
  assumes "drawn_whole b" "drawn_whole b'" "pb_ruleType b = pb_ruleType b'" "rules_section b = rules_section b'"
  shows "validation_lines b = validation_lines b' \<and> button_rulesOk b = button_rulesOk b'
    \<and> (pb_ruleType b = ConfigMapSizeType \<longrightarrow> configMapSizeRule b = configMapSizeRule b')
    \<and> (pb_ruleType b = SecretSizeType \<longrightarrow> secretSizeRule b = secretSizeRule b')"
proof -
  obtain r l where rows: "replicaRules b = [r]" "resourceLimitRules b = [l]" by (rule drawn_rows [OF assms(1)])
  obtain r' l' where rows': "replicaRules b' = [r']" "resourceLimitRules b' = [l']" by (rule drawn_rows [OF assms(2)])
  note defs = rules_section_def validation_lines_def button_rulesOk_def handler_rulesOk_def
  show ?thesis
  proof (cases "pb_ruleType b")
    case LabelType
    then have "labelRules b = labelRules b'"
      using assms(3,4) by (simp add: rules_section_def label_section_eq)
    then show ?thesis using assms(3) LabelType by (simp add: defs)
  next
    case AnnotationType
    then have "labelRules b = labelRules b'"
      using assms(3,4) by (simp add: rules_section_def label_section_eq)
    then show ?thesis using assms(3) AnnotationType by (simp add: defs)
  next
    case ImageType
    have same: "map shown_image (imageRules b) = map shown_image (imageRules b')"
      using assms(3,4) ImageType by (intro image_section_eq) (simp add: rules_section_def)
    show ?thesis
      using image_lines_shown [OF same] image_active_shown [OF same] assms(3) ImageType by (simp add: defs)
  next
    case ReplicaType
    then have "r = r'"
      using assms(3,4) rows rows'
      by (cases r; cases r') (simp add: defs replica_section_def one_card_eq message_field_def)
    then show ?thesis using assms(3) ReplicaType rows rows' by (simp add: defs)
  next
    case ResourceLimitsType
    then have "l = l'"
      using assms(3,4) rows rows'
      by (cases l; cases l') (simp add: defs limit_section_def one_card_eq message_field_def)
    then show ?thesis using assms(3) ResourceLimitsType rows rows' by (simp add: defs)
  next
    case SecurityContextType
    then have "securityContextRule b = securityContextRule b'"
      using assms(3,4)
      by (cases "securityContextRule b"; cases "securityContextRule b'") (simp add: defs security_section_def one_card_eq message_field_def)
    then show ?thesis using assms(3) SecurityContextType by (simp add: defs)
  next
    case HostAccessType
    then have "hostAccessRule b = hostAccessRule b'"
      using assms(3,4)
      by (cases "hostAccessRule b"; cases "hostAccessRule b'") (simp add: defs host_section_def one_card_eq message_field_def)
    then show ?thesis using assms(3) HostAccessType by (simp add: defs)
  next
    case ConfigMapSizeType
    then have "configMapSizeRule b = configMapSizeRule b'"
      using assms(3,4)
      by (cases "configMapSizeRule b"; cases "configMapSizeRule b'") (simp add: defs size_section_def one_card_eq message_field_def)
    then show ?thesis using assms(3) ConfigMapSizeType by (simp add: defs)
  next
    case SecretSizeType
    then have "secretSizeRule b = secretSizeRule b'"
      using assms(3,4)
      by (cases "secretSizeRule b"; cases "secretSizeRule b'") (simp add: defs size_section_def one_card_eq message_field_def)
    then show ?thesis using assms(3) SecretSizeType by (simp add: defs)
  qed
qed

lemma same_manifest:
  assumes "drawn_whole b" "drawn_whole b'" "builder_form e b = builder_form e' b'" "builder_form e b \<noteq> None"
  shows "generatePolicyYaml b = generatePolicyYaml b'" "canApply b = canApply b'" "pb_ruleType b = pb_ruleType b'"
    "apply_request e y = apply_request e' y"
proof -
  obtain s s' where s: "rules_section b = Some s" "rules_section b' = Some s'"
    using assms(3,4) by (auto simp: builder_form_def)
  have form: "edit_title ''New Policy'' e = edit_title ''New Policy'' e'" "pb_name b = pb_name b'" "s = s'"
    "pb_ruleType b = pb_ruleType b'" "apply_to_field b = apply_to_field b'"
    using assms(3) s by (simp_all add: builder_form_def shown_rule_type_eq)
  note rules = same_rules [OF assms(1,2) form(4)] s form(3)
  have target: "pb_applyTo b = pb_applyTo b'" if "pb_ruleType b = LabelType \<or> pb_ruleType b = AnnotationType"
  proof -
    have "select_field ''Apply To'' TARGET_ITEMS (pb_applyTo b) = select_field ''Apply To'' TARGET_ITEMS (pb_applyTo b')"
      using that form(4,5) by (simp add: apply_to_field_def)
    then show ?thesis
      using select_field_eq [OF labels_distinct_items(7)] assms(1) unfolding drawn_whole_def by blast
  qed
  have lines: "resource_rule_lines (pb_ruleType b) (pb_applyTo b) = resource_rule_lines (pb_ruleType b) (pb_applyTo b')"
    using target target_unused by metis
  have "validation_lines b = validation_lines b'" "button_rulesOk b = button_rulesOk b'" using rules by simp_all
  moreover have "pb_ruleType b' = ConfigMapSizeType \<Longrightarrow> configMapSizeRule b = configMapSizeRule b'"
    "pb_ruleType b' = SecretSizeType \<Longrightarrow> secretSizeRule b = secretSizeRule b'" using rules form(4) by simp_all
  ultimately show "generatePolicyYaml b = generatePolicyYaml b'" "canApply b = canApply b'"
    using form lines target unfolding generatePolicyYaml_def canApply_def Let_def by (auto simp: Let_def)
  show "pb_ruleType b = pb_ruleType b'" by (rule form(4))
  show "apply_request e y = apply_request e' y" by (rule edit_title_eq [OF form(1)])
qed

text \<open>The forms an operator builds from a blank one: any edits, with targets picked from the list.\<close>

inductive built_form :: "policy_builder \<Rightarrow> bool" where
  blank_built: "built_form blank_form"
| edit_built: "built_form b \<Longrightarrow> form_edit b b' \<Longrightarrow> pb_applyTo b' \<in> fst ` set TARGET_ITEMS \<Longrightarrow> built_form b'"

lemma form_edit_rows:
  assumes "form_edit b b'"
  shows "(\<exists>t. b' = pick_rule_type t b) \<or>
    tl (replicaRules b') = tl (replicaRules b) \<and> tl (resourceLimitRules b') = tl (resourceLimitRules b)
    \<and> length (replicaRules b') = length (replicaRules b) \<and> length (resourceLimitRules b') = length (resourceLimitRules b)
    \<and> pb_ruleType b' = pb_ruleType b"
proof -
  have at: "tl (map_at 0 f xs) = tl xs" for f and xs :: "'a list"
    by (cases xs) (simp_all add: map_at_def)
  show ?thesis using assms
    by cases (auto simp: updateRule_def addRule_def removeRule_def updateImageRule_def addImageRule_def removeImageRule_def
        updateReplicaRule_def set_max_replicas_def updateResourceLimitRule_def blur_registry_def Let_def at)
qed

lemma built_drawn: "built_form b \<Longrightarrow> form_reachable Y b \<and> drawn_whole b"
proof (induction rule: built_form.induct)
  case blank_built
  show ?case by (simp add: form_reachable.blank) (simp add: drawn_whole_def blank_form_def TARGET_ITEMS_def)
next
  case (edit_built b b')
  then have "length (replicaRules b') = 1 \<and> length (resourceLimitRules b') = 1"
    using form_edit_rows [OF edit_built.hyps(2)] by (auto simp: drawn_whole_def pick_rule_type_def blank_form_def)
  then show ?case using edit_built by (auto simp: drawn_whole_def intro: form_reachable.edited)
qed

text \<open>The builder always draws: the first row it reads is there in every form the page can hold.\<close>

lemma reachable_rows: "form_reachable Y b \<Longrightarrow> replicaRules b \<noteq> [] \<and> resourceLimitRules b \<noteq> []"
proof (induction rule: form_reachable.induct)
  case (edited b b')
  then show ?case
    using form_edit_rows [OF edited.hyps(2)] by (auto simp: pick_rule_type_def blank_form_def)
qed (simp_all add: blank_form_def form_of_def rows_or_def)

lemma builder_draws: "form_reachable Y b \<Longrightarrow> builder_form e b \<noteq> None"
  using reachable_rows [of Y b]
  by (cases "pb_ruleType b"; cases "replicaRules b"; cases "resourceLimitRules b")
    (simp_all add: builder_form_def rules_section_def replica_section_def limit_section_def)

interpretation policy_screen: screen_decides
  "\<lambda>st :: vap_page. (\<exists>Y. form_reachable Y (vp_form st)) \<and> drawn_whole (vp_form st)"
  "\<lambda>st. (builder_form (builderEditName st) (vp_form st), builderSaving st)"
  "\<lambda>st. (snd (click_apply st), canApply (vp_form st), generatePolicyYaml (vp_form st))"
proof
  fix s t :: vap_page
  assume s: "(\<exists>Y. form_reachable Y (vp_form s)) \<and> drawn_whole (vp_form s)"
    and t: "(\<exists>Y. form_reachable Y (vp_form t)) \<and> drawn_whole (vp_form t)"
    and same: "(builder_form (builderEditName s) (vp_form s), builderSaving s) =
      (builder_form (builderEditName t) (vp_form t), builderSaving t)"
  obtain Y Y' where reach: "form_reachable Y (vp_form s)" "form_reachable Y' (vp_form t)" using s t by blast
  have dr: "builder_form (builderEditName s) (vp_form s) \<noteq> None" using reach(1) by (rule builder_draws)
  have drawn: "drawn_whole (vp_form s)" "drawn_whole (vp_form t)" using s t by simp_all
  have form: "builder_form (builderEditName s) (vp_form s) = builder_form (builderEditName t) (vp_form t)"
    and saving: "builderSaving s = builderSaving t" using same by simp_all
  note m = same_manifest [OF drawn form dr]
  have "snd (click_apply s) = snd (click_apply t)"
  proof (cases "canApply (vp_form s) \<and> \<not> builderSaving s")
    case True
    then show ?thesis using enabled_apply [OF reach(1)] enabled_apply [OF reach(2)] m saving by auto
  next
    case False
    then show ?thesis using m(2) saving by (auto simp: click_apply_def)
  qed
  then show "(snd (click_apply s), canApply (vp_form s), generatePolicyYaml (vp_form s)) =
      (snd (click_apply t), canApply (vp_form t), generatePolicyYaml (vp_form t))" using m by simp
qed

text \<open>C30: an operator who sees the same builder form saves the same policy. Take two pages whose forms
  were filled in by any edits from a blank form, or opened and edited, as long as every row is
  drawn and the target is on offer. If their fields, cards, titles and rule type look the same,
  then the whole screen is the same, with the button and the preview, and a click on Apply sends
  the same request: to the same address, with the same manifest. What the form keeps but does not
  show (the registry of a rule that now checks for the latest tag, the rules of other types, the
  target of a rule type that has none) never gets into the manifest.\<close>

theorem same_form_same_request:
  assumes "form_reachable Y (vp_form st)" "form_reachable Y' (vp_form st')"
    and "drawn_whole (vp_form st)" "drawn_whole (vp_form st')" "builderSaving st = builderSaving st'"
    and "builder_form (builderEditName st) (vp_form st) = builder_form (builderEditName st') (vp_form st')"
  shows "builder_screen isAdmin st = builder_screen isAdmin st' \<and> snd (click_apply st) = snd (click_apply st')"
  using policy_screen.decides [of st st'] assms unfolding builder_screen_def by fastforce

definition hidden_registry_form :: policy_builder where
  "hidden_registry_form = updateImageRule 0 (\<lambda>r. r\<lparr> ir_registry := ''ghcr.io/'' \<rparr>)
     ((pick_rule_type ImageType (blank_form\<lparr> pb_name := ''no-latest'' \<rparr>))\<lparr> pb_applyTo := ''pods'' \<rparr>)"

definition plain_image_form :: policy_builder where
  "plain_image_form = pick_rule_type ImageType (blank_form\<lparr> pb_name := ''no-latest'' \<rparr>)"

lemma image_forms_built: "built_form hidden_registry_form" "built_form plain_image_form"
proof -
  have t: "''workloads'' \<in> fst ` set TARGET_ITEMS" "''pods'' \<in> fst ` set TARGET_ITEMS" by (simp_all add: TARGET_ITEMS_def)
  have n: "built_form (blank_form\<lparr> pb_name := ''no-latest'' \<rparr>)"
    by (rule edit_built [OF blank_built edit_name]) (simp add: blank_form_def t)
  then show p: "built_form plain_image_form"
    unfolding plain_image_form_def
    by (rule edit_built [OF _ edit_type]) (simp add: blank_form_def pick_rule_type_def t)
  have "built_form (plain_image_form\<lparr> pb_applyTo := ''pods'' \<rparr>)"
    by (rule edit_built [OF p edit_target]) (simp add: t)
  then show "built_form hidden_registry_form"
    unfolding hidden_registry_form_def plain_image_form_def
    by (rule edit_built [OF _ edit_image]) (simp add: updateImageRule_def t)
qed

theorem same_form_same_request_witness:
  "hidden_registry_form \<noteq> plain_image_form \<and>
   snd (click_apply (vap_page_init\<lparr> vp_form := hidden_registry_form \<rparr>)) = snd (click_apply (vap_page_init\<lparr> vp_form := plain_image_form \<rparr>))"
proof -
  have v: "hidden_registry_form \<noteq> plain_image_form" "builder_form None hidden_registry_form = builder_form None plain_image_form"
    by (simp_all add: hidden_registry_form_def plain_image_form_def pick_rule_type_def blank_form_def updateImageRule_def
        map_at_def emptyImageRule_def builder_form_def rules_section_def image_section_def image_card_def apply_to_field_def
        autoImageMessage_def many_note_def)
  note b = image_forms_built [THEN built_drawn, of toy_yaml]
  show ?thesis
    using same_form_same_request [of toy_yaml "vap_page_init\<lparr> vp_form := hidden_registry_form \<rparr>" toy_yaml
        "vap_page_init\<lparr> vp_form := plain_image_form \<rparr>"] b v
    by (simp add: vap_page_init_def)
qed

section \<open>Rows that are not drawn\<close>

text \<open>While a policy is edited there is no button to pick another rule type.\<close>

definition kept_edit :: "policy_builder \<Rightarrow> policy_builder \<Rightarrow> bool" where
  "kept_edit b b' \<longleftrightarrow> form_edit b b' \<and> (\<forall>t. b' \<noteq> pick_rule_type t b)"

lemma kept_edits_rows:
  "kept_edit\<^sup>*\<^sup>* b b' \<Longrightarrow> tl (replicaRules b') = tl (replicaRules b) \<and> pb_ruleType b' = pb_ruleType b
     \<and> length (replicaRules b') = length (replicaRules b) \<and> tl (resourceLimitRules b') = tl (resourceLimitRules b)
     \<and> length (resourceLimitRules b') = length (resourceLimitRules b)"
proof (induction rule: rtranclp_induct)
  case (step y z)
  then show ?case using form_edit_rows [of y z] by (auto simp: kept_edit_def)
qed simp

lemma sublist_concat: "x \<in> set xs \<Longrightarrow> sublist (f x) (concat (map f xs))"
proof -
  assume "x \<in> set xs"
  then obtain ys zs where "xs = ys @ x # zs" by (meson split_list)
  then show ?thesis by (simp add: sublist_def) blast
qed

lemma one_more: "length ys = length xs \<Longrightarrow> tl ys = tl xs \<Longrightarrow> xs \<noteq> [] \<Longrightarrow> \<exists>a. ys = a # tl xs"
  by (cases ys) auto

text \<open>C31: a policy with more than one replica rule, or more than one resource limit rule, opens in the builder, and
  the builder draws the first rule only: the form is the same as with the others gone. No edit the screen
  offers reaches them, and a save writes every one of them back, whatever was done to the first (a replica
  rule with a positive maximum, the others having no effect).\<close>

theorem hidden_rows_survive:
  assumes "tryParseBuilderPolicy Y raw = Some p"
    and "kept_edit\<^sup>*\<^sup>* (vp_form (openEdit Y PolicyTarget name raw st)) b"
  shows "(pb_ruleType p = ReplicaType \<and> r \<in> set (tl (replicaRules p)) \<and> maxReplicas r > 0 \<longrightarrow>
        builder_form e b = builder_form e (b\<lparr> replicaRules := [hd (replicaRules b)] \<rparr>)
        \<and> sublist (replicaRuleToYamlLines r) (validation_lines b))
    \<and> (pb_ruleType p = ResourceLimitsType \<and> l \<in> set (tl (resourceLimitRules p)) \<longrightarrow>
        builder_form e b = builder_form e (b\<lparr> resourceLimitRules := [hd (resourceLimitRules b)] \<rparr>)
        \<and> sublist (resourceLimitRuleToYamlLines l) (validation_lines b))"
proof (intro conjI [of "_ \<longrightarrow> _"] impI; elim conjE)
  have k: "tl (replicaRules b) = tl (replicaRules (form_of p)) \<and> pb_ruleType b = pb_ruleType p
      \<and> length (replicaRules b) = length (replicaRules (form_of p))
      \<and> tl (resourceLimitRules b) = tl (resourceLimitRules (form_of p))
      \<and> length (resourceLimitRules b) = length (resourceLimitRules (form_of p))"
    using kept_edits_rows [of "form_of p" b] assms by (simp add: open_policy form_of_def)
  show "builder_form e b = builder_form e (b\<lparr> replicaRules := [hd (replicaRules b)] \<rparr>)
      \<and> sublist (replicaRuleToYamlLines r) (validation_lines b)"
    if "pb_ruleType p = ReplicaType" "r \<in> set (tl (replicaRules p))" "maxReplicas r > 0"
  proof -
    have ne: "replicaRules p \<noteq> []" using that(2) by auto
    then have p: "replicaRules (form_of p) = replicaRules p" by (simp add: form_of_def rows_or_def)
    then obtain a where rs: "replicaRules b = a # tl (replicaRules p)" using one_more [of "replicaRules b"] k ne by metis
    have r: "r \<in> set (active_replica_rules (replicaRules b))"
      using that(2,3) rs by (simp add: active_replica_rules_def)
    then have "validation_lines b = concat (map replicaRuleToYamlLines (active_replica_rules (replicaRules b)))"
      using k that(1) by (auto simp: validation_lines_def lines_or_default_def)
    then show ?thesis
      using sublist_concat [OF r, of replicaRuleToYamlLines] rs k that(1)
      by (simp add: builder_form_def rules_section_def replica_section_def apply_to_field_def)
  qed
  show "builder_form e b = builder_form e (b\<lparr> resourceLimitRules := [hd (resourceLimitRules b)] \<rparr>)
      \<and> sublist (resourceLimitRuleToYamlLines l) (validation_lines b)"
    if "pb_ruleType p = ResourceLimitsType" "l \<in> set (tl (resourceLimitRules p))"
  proof -
    have ne: "resourceLimitRules p \<noteq> []" using that(2) by auto
    then have p: "resourceLimitRules (form_of p) = resourceLimitRules p" by (simp add: form_of_def rows_or_def)
    then obtain a where rs: "resourceLimitRules b = a # tl (resourceLimitRules p)"
      using one_more [of "resourceLimitRules b"] k ne by metis
    then have l: "l \<in> set (resourceLimitRules b)" using that(2) by simp
    then have "validation_lines b = concat (map resourceLimitRuleToYamlLines (resourceLimitRules b))"
      using k that(1) by (auto simp: validation_lines_def lines_or_default_def)
    then show ?thesis
      using sublist_concat [OF l, of resourceLimitRuleToYamlLines] rs k that(1)
      by (simp add: builder_form_def rules_section_def limit_section_def apply_to_field_def)
  qed
qed

definition two_caps :: policy_builder where
  "two_caps = (blank_builder ''caps'' ReplicaType ''workloads'')\<lparr> replicaRules :=
     [\<lparr> maxReplicas = 5, rr_resourceType = OnDeployments, rr_message = [] \<rparr>,
      \<lparr> maxReplicas = 3, rr_resourceType = OnStatefulSets, rr_message = [] \<rparr>] \<rparr>"

definition two_caps_doc :: jsval where
  "two_caps_doc = JObj [
     (''kind'', JStr ''ValidatingAdmissionPolicy''),
     (''metadata'', JObj [(''name'', JStr ''caps''), (''annotations'', JObj [(''sentinel.io/builder'', JStr ''true'')])]),
     (''spec'', JObj [(''failurePolicy'', JStr ''Fail''),
        (''validations'', JArr (map source_validation (rule_sources two_caps)))])]"

abbreviation two_caps_yaml :: yaml_lib where
  "two_caps_yaml \<equiv> taught (generatePolicyYaml two_caps) two_caps_doc"

lemma two_caps_opens:
  "tryParseBuilderPolicy two_caps_yaml (generatePolicyYaml two_caps) = Some (reopened two_caps)"
proof (rule reopens)
  show "builder_ok two_caps"
    by (simp add: two_caps_def blank_builder_def builder_ok_def active_replica_rules_def)
  show "messages_stable two_caps"
    by (simp add: two_caps_def blank_builder_def messages_stable_def rule_sources_def active_replica_rules_def
      replica_message_def autoReplicaMessage_def or_else_def show_int_def show_nat.simps digit_char_def string_eval)
  show "y_load two_caps_yaml (generatePolicyYaml two_caps) = Some two_caps_doc" by (simp add: taught_def)
  show "spells two_caps_doc two_caps"
    by (simp add: spells_def two_caps_doc_def builder_annotation_def metadataBeyondBuilder_def obj_keys_def
      OWN_ANNOTATIONS_def spec_stripped_def strip_field_def two_caps_def blank_builder_def or_else_def string_eval)
  show "pb_applyTo two_caps \<noteq> []" by (simp add: two_caps_def blank_builder_def)
qed

theorem hidden_rows_survive_witness:
  "\<exists>r. sublist (replicaRuleToYamlLines r) (validation_lines (set_max_replicas ''9'' (form_of (reopened two_caps))))
     \<and> rr_resourceType r = OnStatefulSets \<and> maxReplicas r = 3"
proof -
  let ?p = "reopened two_caps"
  have rows: "replicaRules ?p = map saved_replica (replicaRules two_caps)" "pb_ruleType ?p = ReplicaType"
    by (simp_all add: reopened_defs two_caps_def active_replica_rules_def parsed_rule_type_def)
  have three: "replicaRules ?p = [saved_replica (hd (replicaRules two_caps)), saved_replica (last (replicaRules two_caps))]"
    using rows(1) by (simp add: two_caps_def)
  have edit: "kept_edit (form_of ?p) (set_max_replicas ''9'' (form_of ?p))"
  proof -
    have "length (replicaRules (set_max_replicas ''9'' (form_of ?p))) = 2"
      using three by (simp add: set_max_replicas_def updateReplicaRule_def form_of_def rows_or_def)
    moreover have "length (replicaRules (pick_rule_type t b)) = 1" for t b
      by (simp add: pick_rule_type_def blank_form_def)
    ultimately show ?thesis using edit_replicas [of "form_of ?p"] by (metis kept_edit_def numeral_eq_one_iff semiring_norm(85))
  qed
  let ?r = "saved_replica (last (replicaRules two_caps))"
  have "?r \<in> set (tl (replicaRules ?p))" "maxReplicas ?r > 0"
    unfolding three by (simp_all add: saved_replica_def two_caps_def)
  moreover have "kept_edit\<^sup>*\<^sup>* (vp_form (openEdit two_caps_yaml PolicyTarget ''caps'' (generatePolicyYaml two_caps) vap_page_init))
      (set_max_replicas ''9'' (form_of ?p))"
    using r_into_rtranclp [of kept_edit, OF edit] by (simp add: open_policy [OF two_caps_opens])
  ultimately have "sublist (replicaRuleToYamlLines ?r) (validation_lines (set_max_replicas ''9'' (form_of ?p)))"
    using hidden_rows_survive [OF two_caps_opens] rows(2) by blast
  moreover have "rr_resourceType (saved_replica (last (replicaRules two_caps))) = OnStatefulSets
      \<and> maxReplicas (saved_replica (last (replicaRules two_caps))) = 3"
    by (simp add: saved_replica_def two_caps_def)
  ultimately show ?thesis by blast
qed

section \<open>Messages\<close>

text \<open>What a message field reads, typed or suggested, is the message that is saved, for a rule that is
  saved and a message with no blanks around it.\<close>

lemma shown_messages:
  "lr_message r = trim (lr_message r) \<Longrightarrow> trim (lr_key r) \<noteq> [] \<Longrightarrow> trim (lr_value r) \<noteq> [] \<Longrightarrow>
     field_reads (last (card_fields (label_card a many i r))) = Some (label_message (\<not> a) r)"
  "ir_message g = trim (ir_message g) \<Longrightarrow> field_reads (last (card_fields (image_card many i g))) = Some (image_message g)"
  "rr_message c = trim (rr_message c) \<Longrightarrow> field_reads (message_field (rr_message c) (autoReplicaMessage c)) = Some (replica_message c)"
  "rl_message l = trim (rl_message l) \<Longrightarrow> field_reads (message_field (rl_message l) (autoResourceLimitMessage l)) = Some (limit_message l)"
  "sc_message s = trim (sc_message s) \<Longrightarrow> field_reads (message_field (sc_message s) (autoSecurityContextMessage s)) = Some (security_message s)"
  "ha_message h = trim (ha_message h) \<Longrightarrow> field_reads (message_field (ha_message h) (autoHostAccessMessage h)) = Some (host_message h)"
proof -
  have n: "trim s \<noteq> [] \<Longrightarrow> or_else s d = s" for s d by (auto simp: or_else_def)
  show "lr_message r = trim (lr_message r) \<Longrightarrow> trim (lr_key r) \<noteq> [] \<Longrightarrow> trim (lr_value r) \<noteq> [] \<Longrightarrow>
     field_reads (last (card_fields (label_card a many i r))) = Some (label_message (\<not> a) r)"
    by (simp add: label_card_def message_field_def label_message_def label_placeholder_def n) (simp add: or_else_def)
qed (simp_all add: image_card_def message_field_def or_else_def image_message_def replica_message_def limit_message_def
    security_message_def host_message_def)

section \<open>The binding form\<close>

lemma join_inj:
  assumes "xs \<noteq> []" "ys \<noteq> []" "\<forall>s \<in> set xs \<union> set ys. CHR '','' \<notin> set s" "join_with '', '' xs = join_with '', '' ys"
  shows "xs = ys"
  using assms
proof (induction xs arbitrary: ys)
  case (Cons x xs)
  then obtain y ys' where ys: "ys = y # ys'" by (cases ys) auto
  let ?tail = "\<lambda>s zs :: string list. if zs = [] then [] else '', '' @ join_with '', '' zs"
  have j: "join_with '', '' (z # zs) = z @ ?tail z zs" for z zs by (cases zs) simp_all
  have cut: "takeWhile (\<lambda>c. c \<noteq> CHR '','') (z @ ?tail z zs) = z" "dropWhile (\<lambda>c. c \<noteq> CHR '','') (z @ ?tail z zs) = ?tail z zs"
    if "CHR '','' \<notin> set z" for z and zs :: "string list"
    using that by (auto simp: takeWhile_append takeWhile_eq_all_conv dropWhile_append)
  have e: "x @ ?tail x xs = y @ ?tail y ys'" using Cons.prems(4) ys j by metis
  have "x = y" using cut(1) [of x xs] cut(1) [of y ys'] e Cons.prems(3) ys by (metis UnCI list.set_intros(1))
  moreover have "?tail x xs = ?tail y ys'" using e \<open>x = y\<close> by simp
  then have "xs = ys'" using Cons.IH [of ys'] Cons.prems(3) ys by (auto split: if_splits)
  ultimately show ?case using ys by simp
qed simp

lemma policy_field_eq:
  assumes "v \<in> set names \<or> \<not> loading \<and> names = []" "policy_field loading names v = policy_field loading names w"
  shows "v = w"
  using assms by (auto simp: policy_field_def select_field_def map_of_same split: if_splits)

text \<open>The bindings whose form shows everything: the policy is one of the list (or typed, with no list),
  the actions are three boxes, the namespaces are names.\<close>

definition binding_drawn :: "bool \<Rightarrow> string list \<Rightarrow> binding_builder \<Rightarrow> bool" where
  "binding_drawn loading names b \<longleftrightarrow>
     (bb_policyName b \<in> set names \<or> \<not> loading \<and> names = []) \<and> distinct (bb_actions b)
     \<and> set (bb_actions b) \<subseteq> fst ` set ACTION_ITEMS \<and> (\<forall>n \<in> set (bb_namespaces b). CHR '','' \<notin> set n)"

lemma mode_eq: "select_field c NS_MODE_ITEMS m = select_field d NS_MODE_ITEMS m' \<longleftrightarrow> c = d \<and> m = m'"
  by (rule select_field_eq; cases m) (simp_all add: labels_distinct_def NS_MODE_ITEMS_def)

lemma hint_namespaces:
  assumes "binding_hint m ns = binding_hint m ns'" "m \<noteq> AllNs" "\<forall>n \<in> set ns \<union> set ns'. CHR '','' \<notin> set n"
  shows "ns = ns'"
proof (cases "ns = [] \<or> ns' = []")
  case True
  then show ?thesis using assms(1,2) by (auto simp: binding_hint_def split: if_splits)
next
  case False
  then have "join_with '', '' ns = join_with '', '' ns'"
    using assms(1,2) by (auto simp: binding_hint_def split: if_splits)
  then show ?thesis using join_inj [of ns ns'] False assms(3) by simp
qed

text \<open>The binding form shows all that is saved but the order of the actions: two forms that look the
  same have the same Apply button and, once the actions are put in one order, the same manifest,
  and their actions are the same.\<close>

theorem same_binding_form_same_manifest:
  assumes "binding_drawn loading names b" "binding_drawn loading names b'"
    and "binding_form loading names e b = binding_form loading names e' b'"
  shows "set (bb_actions b) = set (bb_actions b') \<and> binding_canApply b = binding_canApply b'
    \<and> generateBindingYaml (b\<lparr> bb_actions := as \<rparr>) = generateBindingYaml (b'\<lparr> bb_actions := as \<rparr>)"
proof -
  have name: "bb_name b = bb_name b'" and mode: "bb_nsMode b = bb_nsMode b'"
    using assms(3) by (simp_all add: binding_form_def mode_eq)
  have policy: "bb_policyName b = bb_policyName b'"
    using assms by (intro policy_field_eq [of _ names loading]) (auto simp: binding_form_def binding_drawn_def)
  have "\<forall>(a, note) \<in> set ACTION_ITEMS. (a \<in> set (bb_actions b)) = (a \<in> set (bb_actions b'))"
    using assms(3) by (auto simp: binding_form_def)
  then have acts: "set (bb_actions b) = set (bb_actions b')"
    using assms(1,2) by (fastforce simp: binding_drawn_def)
  have ns: "bb_namespaces b = bb_namespaces b'" if "bb_nsMode b' \<noteq> AllNs"
    using assms mode that by (intro hint_namespaces [of "bb_nsMode b'"]) (auto simp: binding_form_def binding_drawn_def)
  have "length (bb_actions b) = length (bb_actions b')" 
    using acts assms(1,2) by (metis binding_drawn_def distinct_card)
  then have "binding_canApply b = binding_canApply b'"
    using name policy mode ns by (auto simp: binding_canApply_def)
  moreover have "generateBindingYaml (b\<lparr> bb_actions := as \<rparr>) = generateBindingYaml (b'\<lparr> bb_actions := as \<rparr>)"
    using name policy mode ns
    by (cases "bb_nsMode b' = AllNs") (simp_all add: generateBindingYaml_def binding_selector_lines_def)
  ultimately show ?thesis using acts by blast
qed

theorem same_binding_form_same_manifest_witness:
  "binding_canApply (sample_binding\<lparr> bb_nsMode := AllNs, bb_actions := [''Warn'', ''Audit''] \<rparr>) =
     binding_canApply (sample_binding\<lparr> bb_nsMode := AllNs, bb_namespaces := [], bb_actions := [''Audit'', ''Warn''] \<rparr>)
   \<and> generateBindingYaml (sample_binding\<lparr> bb_nsMode := AllNs, bb_actions := [''Audit'', ''Warn''] \<rparr>) =
     generateBindingYaml (sample_binding\<lparr> bb_nsMode := AllNs, bb_namespaces := [], bb_actions := [''Audit'', ''Warn''] \<rparr>)"
proof -
  let ?b = "sample_binding\<lparr> bb_nsMode := AllNs, bb_actions := [''Warn'', ''Audit''] \<rparr>"
  let ?c = "sample_binding\<lparr> bb_nsMode := AllNs, bb_namespaces := [], bb_actions := [''Audit'', ''Warn''] \<rparr>"
  have "binding_drawn False [''p''] ?b" "binding_drawn False [''p''] ?c"
    by (simp_all add: binding_drawn_def sample_binding_def ACTION_ITEMS_def)
  moreover have "binding_form False [''p''] None ?b = binding_form False [''p''] None ?c"
    by (simp add: binding_form_def sample_binding_def ACTION_ITEMS_def binding_hint_def)
  ultimately show ?thesis
    using same_binding_form_same_manifest [of False "[''p'']" ?b ?c None None "[''Audit'', ''Warn'']"] by simp
qed

text \<open>The button is enabled exactly when a click sends.\<close>

lemma binding_button_sends:
  "snd (handleBindingBuilderApply st) \<noteq> [] \<longleftrightarrow> binding_canApply (vp_binding st) \<and> \<not> bindingBuilderSaving st"
  by (auto simp: handleBindingBuilderApply_def binding_canApply_def Let_def)

end
