(* ===== verification/CnpView.thy ===== *)
theory CnpView
  imports CnpPageProps PageView
begin

text \<open>
  What the form of \<open>web/src/pages/CNPPage.tsx\<close> puts on the screen: the identity fields, the subject,
  a section per direction with the fields of each rule's own peer kind, and beside it the errors, the
  button and the manifest. The properties: an operator who sees the same form saves the same policy, as
  long as every drop-down has its value on offer; a policy whose HTTP method is not on offer opens
  in the form and shows a blank there.
\<close>

section \<open>What the drop-downs offer\<close>

definition SCOPE_ITEMS :: "(cnp_scope \<times> string) list" where
  "SCOPE_ITEMS = [(Namespaced, ''Namespaced''), (ClusterScope, ''Cluster-wide'')]"

definition MODE_ITEMS :: "(cnp_mode \<times> string) list" where
  "MODE_ITEMS = [(Blacklist, ''Blacklist''), (Whitelist, ''Whitelist'')]"

definition KIND_ITEMS :: "(peer_kind \<times> string) list" where
  "KIND_ITEMS = [(LabelsPeer, ''Labels''), (EntityPeer, ''Entity''), (CidrPeer, ''IP / CIDR''), (FqdnPeer, ''FQDN'')]"

definition ENTITY_ITEMS :: "(string \<times> string) list" where
  "ENTITY_ITEMS = map (\<lambda>e. (e, e)) ENTITIES"

definition PROTOCOL_ITEMS :: "(string \<times> string) list" where
  "PROTOCOL_ITEMS = map (\<lambda>p. (p, p)) PROTOCOLS"

definition METHOD_ITEMS :: "(string \<times> string) list" where
  "METHOD_ITEMS = (''any'', ''Any method'') # map (\<lambda>m. (m, m)) HTTP_METHODS"

section \<open>Rows and rules\<close>

text \<open>Label rows: key and value of each, whether a row can be removed, and the hint below.\<close>

record label_rows_view =
  lv_title :: string
  lv_rows :: "(shown \<times> shown) list"
  lv_removable :: bool
  lv_hint :: "string option"

definition label_rows_view :: "string \<Rightarrow> string option \<Rightarrow> label_pair list \<Rightarrow> label_rows_view" where
  "label_rows_view title hint pairs = \<lparr> lv_title = title,
     lv_rows = map (\<lambda>p. (TextField ''Key'' (lp_key p) [], TextField ''Value'' (lp_value p) [])) pairs,
     lv_removable = (length pairs > 1), lv_hint = hint \<rparr>"

datatype peer_view = OnePeer shown "string option" | PeerRows label_rows_view shown

definition peer_view :: "string list \<Rightarrow> cnp_direction \<Rightarrow> cnp_rule \<Rightarrow> peer_view" where
  "peer_view nss d r =
     (case peerKind r of
        EntityPeer \<Rightarrow> OnePeer (select_field (peerLabel d) ENTITY_ITEMS (peerEntity r)) None
      | CidrPeer \<Rightarrow> OnePeer (TextField (peerLabel d) (peerCIDR r) ''10.0.0.0/8'')
          (Some ''An IP or CIDR. A bare IP means that one host.'')
      | FqdnPeer \<Rightarrow> OnePeer (TextField (peerLabel d) (peerFQDN r) ''github.com'')
          (Some ''A domain name; * is a wildcard. A DNS rule to kube-dns is included automatically, because FQDN matching needs the DNS answers to be observed; it shows as an extra egress rule with L7 on the policy list.'')
      | LabelsPeer \<Rightarrow> PeerRows (label_rows_view (peerLabel d) None (peerLabels r))
          (namespace_field ''Peer namespace'' None (Some ''Leave unset'') nss (peerNamespace r)))"

definition port_row :: "port_entry \<Rightarrow> shown \<times> shown" where
  "port_row p = (TextField [] (pe_port p) [], select_field [] PROTOCOL_ITEMS (pe_protocol p))"

definition http_row :: "http_rule \<Rightarrow> shown \<times> shown" where
  "http_row h = (select_field ''Method'' METHOD_ITEMS (if hr_method h \<noteq> [] then hr_method h else ''any''),
     TextField ''Path'' (hr_path h) [])"

text \<open>Which kinds the list lets an operator pick is part of what it shows, and so is whether the HTTP
  controls can be used; then the rule's own peer, its ports and its HTTP rules.\<close>

record rule_view =
  rv_title :: string
  rv_kind :: shown
  rv_fqdnOffered :: bool
  rv_kindHint :: "string option"
  rv_peer :: peer_view
  rv_ports :: "(shown \<times> shown) list"
  rv_portNote :: "string option"
  rv_httpLabel :: string
  rv_httpEnabled :: bool
  rv_http :: "(shown \<times> shown) list"
  rv_httpNote :: "string option"

definition rule_view :: "string list \<Rightarrow> cnp_direction \<Rightarrow> cnp_section \<Rightarrow> nat \<Rightarrow> cnp_rule \<Rightarrow> rule_view" where
  "rule_view nss d s i r = \<lparr> rv_title = ''Rule '' @ show_nat (i + 1),
     rv_kind = select_field (peerLabel d @ '' kind'') KIND_ITEMS (peerKind r),
     rv_fqdnOffered = kind_offered d s FqdnPeer,
     rv_kindHint = (if peerKind r = EntityPeer then Some ''A reserved Cilium identity, which has no labels to select.'' else None),
     rv_peer = peer_view nss d r,
     rv_ports = map port_row (rule_ports r),
     rv_portNote = (if rule_ports r = [] then Some ''No port restriction.'' else None),
     rv_httpLabel = ''L7 HTTP rules'' @ (if section_mode s = Blacklist then '' (whitelist only)'' else []),
     rv_httpEnabled = (section_mode s \<noteq> Blacklist),
     rv_http = map http_row (rule_http r),
     rv_httpNote = (if rule_http r = [] then Some ''No HTTP rule.''
       else if length (rule_http r) > 1 then Some ''Alternatives: a request matching any of them matches the rule.''
       else None) \<rparr>"

record section_view =
  sv_title :: string
  sv_mode :: "shown option"
  sv_note :: "string option"
  sv_rules :: "rule_view list"

text \<open>A direction without rules shows no mode.\<close>

definition section_view :: "string list \<Rightarrow> cnp_direction \<Rightarrow> cnp_section \<Rightarrow> section_view" where
  "section_view nss d s = \<lparr> sv_title = (if d = Ingress then ''Ingress'' else ''Egress''),
     sv_mode = (if section_rules s \<noteq> [] then Some (select_field ''Mode'' MODE_ITEMS (section_mode s)) else None),
     sv_note = (if section_rules s = [] then Some ''No rules. This direction is left out of the policy.'' else None),
     sv_rules = numbered (rule_view nss d s) (section_rules s) \<rparr>"

section \<open>The form\<close>

record cnp_inputs =
  cv_name :: shown
  cv_identityReadOnly :: bool
  cv_scope :: shown
  cv_scopeHint :: string
  cv_namespace :: "shown option"
  cv_comment :: shown
  cv_subject :: label_rows_view
  cv_subjectNamespace :: "shown option"
  cv_ingress :: section_view
  cv_egress :: section_view

definition cnp_inputs :: "string list \<Rightarrow> bool \<Rightarrow> cnp_form \<Rightarrow> cnp_inputs" where
  "cnp_inputs nss editing f = \<lparr> cv_name = TextField ''Name'' (form_name f) [], cv_identityReadOnly = editing,
     cv_scope = select_field ''Scope'' SCOPE_ITEMS (form_scope f),
     cv_scopeHint = (if form_scope f = ClusterScope then ''The selector can reach pods in any namespace.''
       else ''The selector only matches pods in this namespace.''),
     cv_namespace = (if form_scope f = Namespaced then Some (namespace_field ''Namespace'' None None nss (form_namespace f)) else None),
     cv_comment = TextField ''Comment'' (form_comment f) [],
     cv_subject = label_rows_view ''Applies to''
       (Some (if form_scope f = ClusterScope then ''The endpoints this policy governs, in any namespace.''
              else ''The endpoints this policy governs, within this namespace.'')) (form_subject f),
     cv_subjectNamespace = (if form_scope f = ClusterScope
       then Some (namespace_field ''Applies to namespace'' None (Some ''Leave unset'') nss (form_subjectNamespace f)) else None),
     cv_ingress = section_view nss Ingress (form_ingress f), cv_egress = section_view nss Egress (form_egress f) \<rparr>"

record cnp_screen =
  cs_title :: string
  cs_inputs :: cnp_inputs
  cs_preview :: subject_preview
  cs_errors :: "string list"
  cs_button :: "string \<times> bool"
  cs_badge :: string
  cs_yaml :: string

definition cnp_screen :: "yaml_lib \<Rightarrow> string list \<Rightarrow> cnp_page \<Rightarrow> cnp_screen" where
  "cnp_screen Y nss st =
     (let f = np_form st
      in \<lparr> cs_title = (case np_editing st of Some e \<Rightarrow> ''Edit '' @ cr_name e | None \<Rightarrow> ''New Network Policy''),
           cs_inputs = cnp_inputs nss (np_editing st \<noteq> None) f, cs_preview = subject_preview f,
           cs_errors = validateCNPForm f,
           cs_button = (if np_saving st then ''Applying...'' else ''Apply'', \<not> (np_saving st \<or> \<not> cnp_canApply Y st)),
           cs_badge = (if form_scope f = ClusterScope then ''CiliumClusterwideNetworkPolicy'' else ''CiliumNetworkPolicy''),
           cs_yaml = cnpFormToYaml Y f \<rparr>)"

end
