(* ===== verification/CnpViewProps.thy ===== *)
theory CnpViewProps
  imports CnpView
begin

text \<open>
  What the network policy form's screen promises: what it shows decides the errors, the preview and
  the manifest, when every drop-down has its value on offer; and what it cannot show: an HTTP method
  that is not on offer.
\<close>

section \<open>What the code reads of a form\<close>

text \<open>A rule without the fields of the peer kinds it is not, a section without rules without its mode, a
  form without the fields of the other scope.\<close>

definition seen_rule :: "cnp_rule \<Rightarrow> cnp_rule" where
  "seen_rule r = r\<lparr> peerLabels := (if peerKind r = LabelsPeer then peerLabels r else []),
     peerNamespace := (if peerKind r = LabelsPeer then peerNamespace r else []),
     peerEntity := (if peerKind r = EntityPeer then peerEntity r else []),
     peerCIDR := (if peerKind r = CidrPeer then peerCIDR r else []),
     peerFQDN := (if peerKind r = FqdnPeer then peerFQDN r else []) \<rparr>"

definition seen_section :: "cnp_section \<Rightarrow> cnp_section" where
  "seen_section s = (if section_rules s = [] then emptySection else s\<lparr> section_rules := map seen_rule (section_rules s) \<rparr>)"

definition seen_form :: "cnp_form \<Rightarrow> cnp_form" where
  "seen_form f = f\<lparr> form_namespace := (if form_scope f = Namespaced then form_namespace f else []),
     form_subjectNamespace := (if form_scope f = ClusterScope then form_subjectNamespace f else []),
     form_ingress := seen_section (form_ingress f), form_egress := seen_section (form_egress f) \<rparr>"

lemma seen_rule_simps [simp]:
  "peerKind (seen_rule r) = peerKind r" "rule_ports (seen_rule r) = rule_ports r" "rule_http (seen_rule r) = rule_http r"
  "filledPorts (seen_rule r) = filledPorts r" "filledHttp (seen_rule r) = filledHttp r" "port_rule (seen_rule r) = port_rule r"
  by (simp_all add: seen_rule_def filledPorts_def filledHttp_def port_rule_def)

lemma seen_rule_peer:
  "peer_fields (seen_rule r) d = peer_fields r d" "peerErrors d m at (seen_rule r) = peerErrors d m at r"
  "portErrors at (seen_rule r) = portErrors at r" "httpErrors m at (seen_rule r) = httpErrors m at r"
proof -
  have "peerMatchLabels (seen_rule r) = peerMatchLabels r" if "peerKind r = LabelsPeer"
    using that by (simp add: peerMatchLabels_def seen_rule_def Let_def)
  then show "peer_fields (seen_rule r) d = peer_fields r d" "peerErrors d m at (seen_rule r) = peerErrors d m at r"
    by (cases "peerKind r"; simp add: peer_fields_def peerErrors_def; simp add: seen_rule_def)+
qed (simp_all add: portErrors_def httpErrors_def)

lemma seen_rule_cilium: "toCiliumRule (seen_rule r) d = toCiliumRule r d"
  by (simp add: toCiliumRule_def seen_rule_peer)

lemma list_ex_map: "list_ex P (map f xs) = list_ex (P \<circ> f) xs"
  by (induction xs) simp_all

lemma flat_idx_map: "(\<And>i x. f i (g x) = h i x) \<Longrightarrow> flat_idx f (map g xs) = flat_idx h xs"
  by (auto simp: flat_idx_def intro!: arg_cong [where f = concat])

lemma seen_section_lines:
  "section_rules (seen_section s) = map seen_rule (section_rules s)"
  "section_fields d (seen_section s) = section_fields d s" "sectionErrors d (seen_section s) = sectionErrors d s"
  "section_rules s \<noteq> [] \<Longrightarrow> section_mode (seen_section s) = section_mode s"
proof -
  show rules: "section_rules (seen_section s) = map seen_rule (section_rules s)"
    by (simp add: seen_section_def emptySection_def)
  show mode: "section_rules s \<noteq> [] \<Longrightarrow> section_mode (seen_section s) = section_mode s"
    by (simp add: seen_section_def)
  have "section_cilium d (seen_section s) = section_cilium d s" if "section_rules s \<noteq> []"
    using mode [OF that] by (simp add: section_cilium_def rules seen_rule_cilium comp_def list_ex_map)
  then show "section_fields d (seen_section s) = section_fields d s"
    using mode rules by (simp add: section_fields_def)
  show "sectionErrors d (seen_section s) = sectionErrors d s"
  proof (cases "section_rules s = []")
    case False
    then show ?thesis
      unfolding sectionErrors_def rules mode [OF False]
      by (intro flat_idx_map) (simp add: seen_rule_peer Let_def)
  qed (simp add: sectionErrors_def rules)
qed

lemma seen_form_facts:
  assumes "no_hidden_namespace f"
  shows "cnp_manifest (seen_form f) = cnp_manifest f" "validateCNPForm (seen_form f) = validateCNPForm f"
    "subject_preview (seen_form f) = subject_preview f"
proof -
  have "form_subject (seen_form f) = form_subject f" "form_subjectNamespace (seen_form f) = form_subjectNamespace f"
    using assms by (cases "form_scope f"; simp add: seen_form_def no_hidden_namespace_def)+
  then have sub: "subjectMatchLabels (seen_form f) = subjectMatchLabels f"
    unfolding subjectMatchLabels_def by (simp only:)
  have secs: "sectionsOf (seen_form f) = map (\<lambda>(d, s). (d, seen_section s)) (sectionsOf f)"
    by (simp add: sectionsOf_def seen_form_def)
  have off: "default_deny_off (seen_form f) = default_deny_off f"
    by (auto simp: default_deny_off_def sectionsOf_def seen_form_def seen_section_lines)
  have spec: "cnp_spec (seen_form f) = cnp_spec f"
    unfolding cnp_spec_def sub off secs by (simp add: sectionsOf_def seen_section_lines) (simp add: seen_form_def)
  then show "cnp_manifest (seen_form f) = cnp_manifest f"
    unfolding cnp_manifest_def spec by (cases "form_scope f") (simp_all add: seen_form_def)
  have rules: "section_rules (form_ingress (seen_form f)) = map seen_rule (section_rules (form_ingress f))"
    "section_rules (form_egress (seen_form f)) = map seen_rule (section_rules (form_egress f))"
    by (simp_all add: seen_form_def seen_section_lines)
  show "validateCNPForm (seen_form f) = validateCNPForm f"
    unfolding validateCNPForm_def sub rules secs
    by (simp add: sectionsOf_def seen_section_lines) (simp add: seen_form_def)
  show "subject_preview (seen_form f) = subject_preview f"
    unfolding subject_preview_def sub by (simp add: seen_form_def cong: if_cong option.case_cong)
qed

section \<open>The screen shows what the code reads\<close>

text \<open>Every drop-down has its value on offer.\<close>

definition rule_picked :: "string list \<Rightarrow> cnp_rule \<Rightarrow> bool" where
  "rule_picked nss r \<longleftrightarrow>
     (peerKind r = EntityPeer \<longrightarrow> peerEntity r \<in> set ENTITIES) \<and>
     (peerKind r = LabelsPeer \<longrightarrow> namespace_ok nss (peerNamespace r)) \<and>
     (\<forall>p \<in> set (rule_ports r). pe_protocol p \<in> set PROTOCOLS) \<and>
     (\<forall>h \<in> set (rule_http r). hr_method h = [] \<or> hr_method h \<in> set HTTP_METHODS)"

definition form_picked :: "string list \<Rightarrow> cnp_form \<Rightarrow> bool" where
  "form_picked nss f \<longleftrightarrow>
     (form_scope f = Namespaced \<longrightarrow> namespace_ok nss (form_namespace f)) \<and>
     (form_scope f = ClusterScope \<longrightarrow> namespace_ok nss (form_subjectNamespace f)) \<and>
     (\<forall>(d, s) \<in> set (sectionsOf f). \<forall>r \<in> set (section_rules s). rule_picked nss r)"

lemma items_distinct:
  "labels_distinct SCOPE_ITEMS" "labels_distinct MODE_ITEMS" "labels_distinct KIND_ITEMS" "labels_distinct ENTITY_ITEMS"
  "labels_distinct PROTOCOL_ITEMS" "labels_distinct METHOD_ITEMS"
  by (simp_all add: labels_distinct_def SCOPE_ITEMS_def MODE_ITEMS_def KIND_ITEMS_def ENTITY_ITEMS_def ENTITIES_def
    PROTOCOL_ITEMS_def PROTOCOLS_def METHOD_ITEMS_def HTTP_METHODS_def)

lemma items_all:
  "fst ` set SCOPE_ITEMS = UNIV" "fst ` set MODE_ITEMS = UNIV" "fst ` set KIND_ITEMS = UNIV"
  using cnp_scope.exhaust cnp_mode.exhaust peer_kind.exhaust
  by (auto simp: SCOPE_ITEMS_def MODE_ITEMS_def KIND_ITEMS_def intro!: UNIV_eq_I)

lemma items_some:
  "fst ` set ENTITY_ITEMS = set ENTITIES" "fst ` set PROTOCOL_ITEMS = set PROTOCOLS"
  "fst ` set METHOD_ITEMS = insert ''any'' (set HTTP_METHODS)"
  by (auto simp: ENTITY_ITEMS_def PROTOCOL_ITEMS_def METHOD_ITEMS_def image_iff)

lemma select_all_inj [simp]:
  "select_field c SCOPE_ITEMS v = select_field d SCOPE_ITEMS w \<longleftrightarrow> c = d \<and> v = w"
  "select_field c MODE_ITEMS m = select_field d MODE_ITEMS n \<longleftrightarrow> c = d \<and> m = n"
  "select_field c KIND_ITEMS k = select_field d KIND_ITEMS l \<longleftrightarrow> c = d \<and> k = l"
  by (rule select_field_eq; simp add: items_distinct items_all)+

lemma rows_inj: "label_rows_view t h ps = label_rows_view t' h' qs \<Longrightarrow> ps = qs"
proof -
  let ?row = "\<lambda>p :: label_pair. (TextField ''Key'' (lp_key p) [], TextField ''Value'' (lp_value p) [])"
  assume "label_rows_view t h ps = label_rows_view t' h' qs"
  then have "map ?row ps = map ?row qs" by (simp add: label_rows_view_def)
  moreover have "inj ?row"
  proof (rule injI)
    fix x y :: label_pair
    assume "?row x = ?row y"
    then show "x = y" by (cases x; cases y) simp
  qed
  ultimately show "ps = qs" by (rule map_injective)
qed

lemma port_rows_inj:
  assumes "map port_row ps = map port_row qs" "\<forall>p \<in> set ps \<union> set qs. pe_protocol p \<in> set PROTOCOLS"
  shows "ps = qs"
proof (rule map_inj_on [OF assms(1)], rule inj_onI)
  fix p q assume "p \<in> set ps \<union> set qs" "q \<in> set ps \<union> set qs" "port_row p = port_row q"
  moreover then have "pe_protocol p = pe_protocol q"
    using assms(2) select_field_eq [OF items_distinct(5), of "pe_protocol p" "[]" "[]" "pe_protocol q"]
    by (auto simp: port_row_def items_some)
  ultimately show "p = q" by (cases p; cases q) (simp add: port_row_def)
qed

lemma http_rows_inj:
  assumes "map http_row hs = map http_row gs"
    and "\<forall>h \<in> set hs \<union> set gs. hr_method h = [] \<or> hr_method h \<in> set HTTP_METHODS"
  shows "hs = gs"
proof (rule map_inj_on [OF assms(1)], rule inj_onI)
  fix h g assume h: "h \<in> set hs \<union> set gs" "g \<in> set hs \<union> set gs" "http_row h = http_row g"
  have any: "m = [] \<or> m \<in> set HTTP_METHODS \<Longrightarrow> m \<noteq> ''any''" for m by (auto simp: HTTP_METHODS_def)
  let ?m = "\<lambda>h. if hr_method h \<noteq> [] then hr_method h else ''any''"
  have "?m h \<in> fst ` set METHOD_ITEMS" using h(1) assms(2) by (auto simp: items_some)
  then have "?m h = ?m g"
    using h(3) select_field_eq [OF items_distinct(6), of "?m h" "''Method''" "''Method''" "?m g"] by (simp add: http_row_def)
  moreover have "hr_method h \<noteq> ''any''" "hr_method g \<noteq> ''any''"
    using any [OF bspec [OF assms(2) h(1)]] any [OF bspec [OF assms(2) h(2)]] .
  ultimately have "hr_method h = hr_method g" by (auto split: if_splits)
  then show "h = g" using h(3) by (cases h; cases g) (simp add: http_row_def)
qed

lemma rule_view_inj:
  assumes "rule_picked nss r" "rule_picked nss r'" "rule_view nss d s i r = rule_view nss d s' i r'"
  shows "seen_rule r = seen_rule r'"
proof -
  have k: "peerKind r = peerKind r'" and peer: "peer_view nss d r = peer_view nss d r'"
    using assms(3) by (simp_all add: rule_view_def)
  have lists: "rule_ports r = rule_ports r'" "rule_http r = rule_http r'"
    using assms by (auto simp: rule_view_def rule_picked_def intro: port_rows_inj http_rows_inj)
  have ent: "peerEntity r = peerEntity r'" if "peerKind r = EntityPeer"
    using that assms(1,2) k peer select_field_eq [OF items_distinct(4), of "peerEntity r" "peerLabel d" "peerLabel d" "peerEntity r'"]
    by (simp add: peer_view_def rule_picked_def items_some)
  have lab: "peerLabels r = peerLabels r' \<and> peerNamespace r = peerNamespace r'" if "peerKind r = LabelsPeer"
    using that assms(1,2) k peer
    by (auto simp: peer_view_def rule_picked_def dest: rows_inj namespace_field_inj)
  have "peerCIDR r = peerCIDR r'" if "peerKind r = CidrPeer" using that k peer by (simp add: peer_view_def)
  moreover have "peerFQDN r = peerFQDN r'" if "peerKind r = FqdnPeer" using that k peer by (simp add: peer_view_def)
  ultimately show ?thesis
    using k lists ent lab by (cases r; cases r') (simp add: seen_rule_def)
qed

lemma section_view_inj:
  assumes "\<forall>r \<in> set (section_rules s) \<union> set (section_rules s'). rule_picked nss r" "section_view nss d s = section_view nss d s'"
  shows "seen_section s = seen_section s'"
proof -
  have rows: "numbered (rule_view nss d s) (section_rules s) = numbered (rule_view nss d s') (section_rules s')"
    and len: "length (section_rules s) = length (section_rules s')"
    using assms(2) by (auto simp: section_view_def) (metis length_numbered)
  have "map seen_rule (section_rules s) = map seen_rule (section_rules s')"
  proof (rule nth_equalityI)
    fix i assume "i < length (map seen_rule (section_rules s))"
    then have i: "i < length (section_rules s)" "i < length (section_rules s')" using len by simp_all
    then have "rule_view nss d s i (section_rules s ! i) = rule_view nss d s' i (section_rules s' ! i)"
      using rows by (metis nth_numbered)
    then show "map seen_rule (section_rules s) ! i = map seen_rule (section_rules s') ! i"
      using i assms(1) rule_view_inj [of nss "section_rules s ! i" "section_rules s' ! i"] by simp
  qed (simp add: len)
  moreover have "section_rules s = [] \<longleftrightarrow> section_rules s' = []" using len by (metis length_0_conv)
  moreover have "section_mode s = section_mode s'" if "section_rules s \<noteq> []" "section_rules s' \<noteq> []"
    using that assms(2) by (simp add: section_view_def)
  ultimately show ?thesis by (cases s; cases s') (auto simp: seen_section_def)
qed

lemma form_view_inj:
  assumes "form_picked nss f" "form_picked nss g" "cnp_inputs nss e f = cnp_inputs nss e' g"
  shows "seen_form f = seen_form g"
proof -
  have basic: "form_name f = form_name g" "form_scope f = form_scope g" "form_comment f = form_comment g"
    "form_subject f = form_subject g" and sec: "section_view nss Ingress (form_ingress f) = section_view nss Ingress (form_ingress g)"
    "section_view nss Egress (form_egress f) = section_view nss Egress (form_egress g)"
    using assms(3) by (auto simp: cnp_inputs_def dest: rows_inj)
  have "form_namespace f = form_namespace g" if "form_scope f = Namespaced"
    using that assms basic(2) by (auto simp: cnp_inputs_def form_picked_def dest: namespace_field_inj)
  moreover have "form_subjectNamespace f = form_subjectNamespace g" if "form_scope f = ClusterScope"
    using that assms basic(2) by (auto simp: cnp_inputs_def form_picked_def dest: namespace_field_inj)
  moreover have "seen_section (form_ingress f) = seen_section (form_ingress g)" "seen_section (form_egress f) = seen_section (form_egress g)"
    using assms(1,2) sec by (auto simp: form_picked_def sectionsOf_def intro!: section_view_inj)
  ultimately show ?thesis using basic by (cases f; cases g) (simp add: seen_form_def)
qed

section \<open>The properties\<close>

interpretation network_screen: screen_decides
  "\<lambda>f. form_picked nss f \<and> no_hidden_namespace f" "cnp_inputs nss e"
  "\<lambda>f. (validateCNPForm f, subject_preview f, cnp_manifest f)" for nss e
proof
  fix f g
  assume "form_picked nss f \<and> no_hidden_namespace f" "form_picked nss g \<and> no_hidden_namespace g"
    and "cnp_inputs nss e f = cnp_inputs nss e g"
  then show "(validateCNPForm f, subject_preview f, cnp_manifest f) = (validateCNPForm g, subject_preview g, cnp_manifest g)"
    using form_view_inj [of nss f g e e] seen_form_facts [of f] seen_form_facts [of g] by metis
qed

text \<open>The forms the page can hold: a blank one or an opened policy, then any edits.\<close>

definition cnp_reached :: "yaml_lib \<Rightarrow> cnp_form \<Rightarrow> bool" where
  "cnp_reached Y f \<longleftrightarrow> (\<exists>e f0. (f0 = emptyForm \<or> (\<exists>raw. tryParseCNPForm Y raw = Some (Some f0))) \<and> cnp_edits e f0 f)"

lemma reached_no_hidden: "cnp_reached Y f \<Longrightarrow> no_hidden_namespace f"
proof -
  have "no_hidden_namespace emptyForm" by (simp add: no_hidden_namespace_def emptyForm_def)
  then show "cnp_reached Y f \<Longrightarrow> no_hidden_namespace f"
    unfolding cnp_reached_def using opened_no_hidden cnp_edits_keep by blast
qed

text \<open>C32: an operator who sees the same network policy form saves the same policy. Take two pages whose
  forms were reached by any edits, from a blank form or from an opened policy. If the drop-downs have
  their values on offer and the fields look the same, then the whole screen is the same, with
  its errors, the selector's preview, the button and the manifest, and a click on Apply sends the same
  request. What a form keeps without showing it (the fields of the peer kinds a rule is not, the
  mode of a direction without rules, the namespace of a cluster-wide policy) never gets
  into the manifest.\<close>

theorem same_network_form_same_policy:
  assumes "cnp_reached Y (np_form st)" "cnp_reached Y (np_form st')"
    and "form_picked nss (np_form st)" "form_picked nss (np_form st')"
    and "np_mode st = FormEditor" "np_mode st' = FormEditor" "np_editing st = np_editing st'" "np_saving st = np_saving st'"
    and "cnp_inputs nss (np_editing st \<noteq> None) (np_form st) = cnp_inputs nss (np_editing st' \<noteq> None) (np_form st')"
  shows "cnp_screen Y nss st = cnp_screen Y nss st' \<and> snd (cnp_save_start Y st) = snd (cnp_save_start Y st')"
proof -
  have "(validateCNPForm (np_form st), subject_preview (np_form st), cnp_manifest (np_form st)) =
      (validateCNPForm (np_form st'), subject_preview (np_form st'), cnp_manifest (np_form st'))"
    using network_screen.decides [of nss "np_form st" "np_form st'" "np_editing st \<noteq> None"] assms
      reached_no_hidden by simp
  then have f: "validateCNPForm (np_form st) = validateCNPForm (np_form st')" "cnpFormToYaml Y (np_form st) = cnpFormToYaml Y (np_form st')"
    "subject_preview (np_form st) = subject_preview (np_form st')" by (simp_all add: cnpFormToYaml_def)
  have "cnp_canApply Y st = cnp_canApply Y st'" using f assms by (simp add: cnp_canApply_def)
  moreover have "outgoingYaml Y st = outgoingYaml Y st'" using f assms(5,6) by (simp add: outgoingYaml_def)
  then have "cnp_save_request Y st = cnp_save_request Y st'" by (simp add: cnp_save_request_def assms(7) split: option.split)
  moreover have "form_scope (np_form st) = form_scope (np_form st')" using assms(9) by (simp add: cnp_inputs_def)
  ultimately show ?thesis using f assms by (simp add: cnp_screen_def cnp_save_start_def Let_def)
qed

text \<open>A form that was tried with an address before its peer became a set of labels.\<close>

definition tried_form :: "string \<Rightarrow> cnp_form" where
  "tried_form c = emptyForm\<lparr> form_ingress := \<lparr> section_mode = Whitelist, section_rules = [emptyRule\<lparr> peerCIDR := c \<rparr>] \<rparr> \<rparr>"

lemma tried_reached: "cnp_reached Y (tried_form c)"
proof -
  let ?f1 = "emptyForm\<lparr> form_ingress := section_add_rule emptySection \<rparr>"
  have "cnp_edit False emptyForm ?f1"
    using cnp_edit.ingress [OF section_edit.add, of False emptyForm] by (simp add: emptyForm_def)
  moreover have "cnp_edit False ?f1 (tried_form c)"
  proof -
    have "cnp_edit False ?f1 (?f1\<lparr> form_ingress := section_update_rule 0 (\<lambda>r. r\<lparr> peerCIDR := c \<rparr>) (form_ingress ?f1) \<rparr>)"
      by (intro cnp_edit.ingress section_edit.update rule_edit.cidr)
    then show ?thesis by (simp add: tried_form_def section_update_rule_def section_add_rule_def emptySection_def map_at_def)
  qed
  ultimately have "cnp_edits False emptyForm (tried_form c)" by (meson rtranclp.rtrancl_into_rtrancl rtranclp.rtrancl_refl)
  then show ?thesis unfolding cnp_reached_def by blast
qed

theorem same_network_form_same_policy_witness:
  "tried_form ''10.0.0.0/8'' \<noteq> tried_form [] \<and>
   cnp_screen toy_yaml [] (cnp_page_init\<lparr> np_form := tried_form ''10.0.0.0/8'' \<rparr>) =
   cnp_screen toy_yaml [] (cnp_page_init\<lparr> np_form := tried_form [] \<rparr>)"
proof -
  have p: "form_picked [] (tried_form c)" for c
    by (simp add: form_picked_def rule_picked_def namespace_ok_def tried_form_def emptyForm_def emptyRule_def sectionsOf_def
        emptySection_def)
  have "cnp_inputs [] e (tried_form c) = cnp_inputs [] e (tried_form c')" for e c c'
    by (simp add: cnp_inputs_def tried_form_def section_view_def rule_view_def peer_view_def kind_offered_def emptyForm_def
        emptyRule_def)
  moreover have "tried_form ''10.0.0.0/8'' \<noteq> tried_form []" by (simp add: tried_form_def emptyForm_def emptyRule_def)
  ultimately show ?thesis
    using same_network_form_same_policy [of toy_yaml "cnp_page_init\<lparr> np_form := tried_form ''10.0.0.0/8'' \<rparr>"
        "cnp_page_init\<lparr> np_form := tried_form [] \<rparr>" "[]"] p tried_reached
    by (simp add: cnp_page_init_def)
qed

text \<open>A policy with one rule for one HTTP method.\<close>

definition method_form :: "string \<Rightarrow> cnp_form" where
  "method_form m = sample_form\<lparr> form_egress := \<lparr> section_mode = Whitelist,
     section_rules = [sample_rule\<lparr> rule_http := [\<lparr> hr_method = m, hr_path = [] \<rparr>] \<rparr>] \<rparr> \<rparr>"

lemma method_subject: "subjectMatchLabels (method_form m) = subjectMatchLabels sample_form"
  by (simp add: subjectMatchLabels_def method_form_def Let_def)

lemma method_form_valid:
  assumes "m \<noteq> []"
  shows "validateCNPForm (method_form m) = []"
proof -
  let ?r = "sample_rule\<lparr> rule_http := [\<lparr> hr_method = m, hr_path = [] \<rparr>] \<rparr>"
  have v: "valid_form sample_form" using sample_valid by (simp add: validate_Nil_iff)
  have secs: "form_egress sample_form = \<lparr> section_mode = Whitelist, section_rules = [sample_rule, sample_fqdn] \<rparr>"
    by (simp add: sample_form_def)
  have "valid_rule Egress Whitelist sample_rule" using v by (simp add: valid_form_def sectionsOf_def secs)
  moreover have "peerMatchLabels ?r = peerMatchLabels sample_rule" by (simp add: peerMatchLabels_def Let_def)
  moreover have "rule_ports sample_rule \<noteq> []" by (simp add: sample_rule_def)
  ultimately have "valid_rule Egress Whitelist ?r" using assms by (simp add: valid_rule_def split: peer_kind.splits)
  moreover have "valid_form (method_form m) \<longleftrightarrow> valid_form sample_form"
    if "valid_rule Egress Whitelist ?r"
    using v that unfolding valid_form_def method_subject
    by (simp add: sectionsOf_def method_form_def)
  ultimately show ?thesis using v by (simp add: validate_Nil_iff)
qed

lemma method_form_opens:
  assumes "yaml_laws Y" "m \<noteq> []"
  shows "tryParseCNPForm Y (cnpFormToYaml Y (method_form m)) = Some (Some (norm_form (method_form m)))"
proof (rule reopen_normal_form [OF assms(1) method_form_valid [OF assms(2)]])
  show "map_of (subjectMatchLabels (method_form m)) NAMESPACE_KEY = None" using sample_subject by (simp add: method_subject)
qed

lemma inputs_egress: "cnp_inputs nss e (f\<lparr> form_egress := s \<rparr>) = (cnp_inputs nss e f)\<lparr> cv_egress := section_view nss Egress s \<rparr>"
  by (cases f) (simp add: cnp_inputs_def)

lemma unlisted_blank: "m \<notin> set HTTP_METHODS \<Longrightarrow> m \<noteq> ''any'' \<Longrightarrow> select_field c METHOD_ITEMS m = Choice c None"
  by (simp add: select_field_def METHOD_ITEMS_def map_of_same)

lemma method_manifest: "cnp_manifest (norm_form (method_form m)) = cnp_manifest (norm_form (method_form m')) \<Longrightarrow> m \<noteq> [] \<Longrightarrow> m = m'"
proof -
  let ?r = "\<lambda>m. norm_rule (sample_rule\<lparr> rule_http := [\<lparr> hr_method = m, hr_path = [] \<rparr>] \<rparr>)"
  assume eq: "cnp_manifest (norm_form (method_form m)) = cnp_manifest (norm_form (method_form m'))" and "m \<noteq> []"
  have sec: "section_of (norm_form (method_form m)) Egress = \<lparr> section_mode = Whitelist, section_rules = [?r m] \<rparr>" for m
    by (simp add: section_of_def norm_form_def norm_section_def method_form_def)
  have cil: "section_cilium Egress \<lparr> section_mode = Whitelist, section_rules = [?r m] \<rparr> = [toCiliumRule (?r m) Egress]" for m
    by (simp add: section_cilium_def sample_rule_def emptyRule_def)
  have "cnp_spec (norm_form (method_form m)) = cnp_spec (norm_form (method_form m'))"
    using eq by (simp add: cnp_manifest_def)
  then have "getp (cnp_spec (norm_form (method_form m))) (allow_key Egress) = getp (cnp_spec (norm_form (method_form m'))) (allow_key Egress)"
    by simp
  then have rule: "toCiliumRule (?r m) Egress = toCiliumRule (?r m') Egress"
    unfolding spec_section_keys sec cil by simp
  have "filledPorts (?r m) \<noteq> []" for m
    by (simp add: filledPorts_def norm_rule_lists sample_rule_def emptyRule_def string_eval)
  then have "port_rule (?r m) = port_rule (?r m')"
    using rule by (simp add: toCiliumRule_def)
  then have "filledHttp (?r m) \<noteq> [] \<Longrightarrow> map http_entry (filledHttp (?r m)) = map http_entry (filledHttp (?r m'))"
    by (simp add: port_rule_def split: if_splits)
  then show "m = m'"
    using \<open>m \<noteq> []\<close> by (auto simp: filledHttp_def norm_rule_lists http_entry_def split: if_splits)
qed

text \<open>The form can open what it cannot show. For any HTTP method that is not one of the list's (OPTIONS, or
  get in small letters), a policy that restricts a rule to it opens in the form, not in the YAML editor,
  with a blank where the method should be; another such method gives the same fields, and the two
  manifests differ. And the method any, which Cilium would match literally, shows as Any method.\<close>

theorem unlisted_method_is_blank:
  assumes "yaml_laws Y" "m \<noteq> []" "m \<notin> set HTTP_METHODS" "m \<noteq> ''any''" "m' \<noteq> []" "m' \<notin> set HTTP_METHODS" "m' \<noteq> ''any''" "m \<noteq> m'"
  shows "cnp_open Y (cnpFormToYaml Y (method_form m)) = Some (norm_form (method_form m))
    \<and> http_row \<lparr> hr_method = m, hr_path = [] \<rparr> = (Choice ''Method'' None, TextField ''Path'' [] [])
    \<and> cnp_inputs nss e (norm_form (method_form m)) = cnp_inputs nss e (norm_form (method_form m'))
    \<and> cnp_manifest (norm_form (method_form m)) \<noteq> cnp_manifest (norm_form (method_form m'))
    \<and> http_row \<lparr> hr_method = ''any'', hr_path = p \<rparr> = http_row \<lparr> hr_method = [], hr_path = p \<rparr>"
proof -
  have u: "select_field c METHOD_ITEMS m = Choice c None" "select_field c METHOD_ITEMS m' = Choice c None" for c
    using assms by (simp_all add: unlisted_blank)
  have row: "http_row \<lparr> hr_method = m, hr_path = [] \<rparr> = (Choice ''Method'' None, TextField ''Path'' [] [])"
    "http_row \<lparr> hr_method = m', hr_path = [] \<rparr> = (Choice ''Method'' None, TextField ''Path'' [] [])"
    using assms(2,5) by (simp_all add: http_row_def u)
  have sec: "form_egress (norm_form (method_form x)) = \<lparr> section_mode = Whitelist,
      section_rules = [norm_rule (sample_rule\<lparr> rule_http := [\<lparr> hr_method = x, hr_path = [] \<rparr>] \<rparr>)] \<rparr>" for x
    by (simp add: norm_form_def norm_section_def method_form_def)
  let ?r = "\<lambda>x. norm_rule (sample_rule\<lparr> rule_http := [\<lparr> hr_method = x, hr_path = [] \<rparr>] \<rparr>)"
  have "peer_view nss d (?r m) = peer_view nss d (?r m')" for d
    by (simp add: peer_view_def norm_rule_def peerMatchLabels_def Let_def sample_rule_def emptyRule_def)
  then have "section_view nss d (form_egress (norm_form (method_form m))) = section_view nss d (form_egress (norm_form (method_form m')))" for d
    unfolding sec by (simp add: section_view_def rule_view_def norm_rule_lists row kind_offered_def)
  moreover have "norm_form (method_form m')\<lparr> form_egress := form_egress (norm_form (method_form m)) \<rparr> = norm_form (method_form m)"
    by (simp add: norm_form_def method_subject) (simp add: method_form_def)
  ultimately have "cnp_inputs nss e (norm_form (method_form m)) = cnp_inputs nss e (norm_form (method_form m'))"
    using inputs_egress [of nss e "form_egress (norm_form (method_form m))" "norm_form (method_form m')"]
      inputs_egress [of nss e "form_egress (norm_form (method_form m'))" "norm_form (method_form m')"] by simp
  moreover have "cnp_manifest (norm_form (method_form m)) \<noteq> cnp_manifest (norm_form (method_form m'))"
    using method_manifest assms(2,8) by blast
  ultimately show ?thesis
    using row method_form_opens [OF assms(1,2)] by (simp add: cnp_open_def) (simp add: http_row_def)
qed

theorem unlisted_method_is_blank_witness:
  "cnp_inputs [] True (norm_form (method_form ''OPTIONS'')) = cnp_inputs [] True (norm_form (method_form ''get''))
   \<and> cnp_manifest (norm_form (method_form ''OPTIONS'')) \<noteq> cnp_manifest (norm_form (method_form ''get''))"
  using unlisted_method_is_blank [OF toy_yaml_laws, of "''OPTIONS''" "''get''" "[]" True] by (simp add: HTTP_METHODS_def)

end
