(* ===== verification/Navigation.thy ===== *)
theory Navigation
  imports AppShell Settings CnpPage VapPageProps
begin

text \<open>
  Addresses: what the pages navigate to, which entry of the route table of \<open>web/src/App.tsx\<close> an address
  is for, and what a page reads back of it (\<open>useMatch\<close>, \<open>useParams\<close>, \<open>useSearchParams\<close>). The router is a
  library: an entry takes an address when it has the same segments, a parameter taking any one that
  is not empty; the table's own order does not matter, since no two entries but the last take the same
  address. The properties follow a row of a list through its address to the record that
  opens and to the handler of the server that a save reaches.
\<close>

section \<open>Addresses\<close>

text \<open>The path ends where the fragment or the query starts; the query is what follows, up to a fragment.\<close>

definition path_of :: "string \<Rightarrow> string" where
  "path_of a = takeWhile (\<lambda>c. c \<noteq> CHR ''?'' \<and> c \<noteq> CHR ''#'') a"

definition query_of :: "string \<Rightarrow> string" where
  "query_of a = (let r = dropWhile (\<lambda>c. c \<noteq> CHR ''?'' \<and> c \<noteq> CHR ''#'') a
     in if r \<noteq> [] \<and> hd r = CHR ''?'' then takeWhile (\<lambda>c. c \<noteq> CHR ''#'') (tl r) else [])"

definition app_segment :: "string \<Rightarrow> pattern_segment" where
  "app_segment s = (if prefix '':'' s then Param else Fixed s)"

lemma app_segment_simps [simp]:
  "app_segment [] = Fixed []" "app_segment (c # s) = (if c = CHR '':'' then Param else Fixed (c # s))"
  by (auto simp: app_segment_def)

text \<open>\<open>useMatch(pattern)?.params\<close>: the values of the parameters, when the address is of the pattern.
  The router also decodes percent signs in the values and ignores the case of the fixed segments; the
  addresses below are in lower case and their names hold no percent sign.\<close>

definition use_match :: "string \<Rightarrow> string \<Rightarrow> string list option" where
  "use_match pat a = match_segments (map app_segment (split_on slash pat)) (split_on slash (path_of a))"

text \<open>The entries of the table that take an address, the last one aside, which takes what is left.\<close>

definition page_routes :: "(string \<times> route_target) list" where
  "page_routes = filter (\<lambda>(pat, t). pat \<noteq> ''*'') APP_ROUTES"

definition routed_to :: "string \<Rightarrow> (route_target \<times> string list) list" where
  "routed_to a = concat (map (\<lambda>(pat, t). case use_match pat a of None \<Rightarrow> [] | Some xs \<Rightarrow> [(t, xs)]) page_routes)"

section \<open>Queries\<close>

text \<open>
  \<open>encodeURIComponent\<close> and the reading of a query, for ASCII: letters, digits and nine marks stay, every
  other character is written as a percent sign and two hexadecimal digits; a plus reads as a blank.
\<close>

definition unreserved :: "char \<Rightarrow> bool" where
  "unreserved c \<longleftrightarrow> alnum c \<or> c \<in> {CHR ''-'', CHR ''_'', CHR ''.'', CHR ''!'', CHR ''~'', CHR ''*'', CHR 0x27, CHR ''('', CHR '')''}"

definition encode_char :: "char \<Rightarrow> string" where
  "encode_char c = (let n = of_char c :: nat
     in if unreserved c then [c] else [CHR 0x25, hex_digit (n div 16), hex_digit (n mod 16)])"

definition encodeURIComponent :: "string \<Rightarrow> string" where
  "encodeURIComponent s = concat (map encode_char s)"

fun form_decode :: "string \<Rightarrow> string" where
  "form_decode (c # a # b # s) =
     (if c = CHR 0x25
      then (case (digit_value a, digit_value b) of
              (Some x, Some y) \<Rightarrow> char_of (16 * x + y) # form_decode s
            | _ \<Rightarrow> c # form_decode (a # b # s))
      else (if c = CHR ''+'' then CHR '' '' else c) # form_decode (a # b # s))"
| "form_decode s = map (\<lambda>c. if c = CHR ''+'' then CHR '' '' else c) s"

definition query_pairs :: "string \<Rightarrow> (string \<times> string) list" where
  "query_pairs q = map (\<lambda>s. (form_decode (takeWhile (\<lambda>c. c \<noteq> CHR ''='') s), form_decode (drop 1 (dropWhile (\<lambda>c. c \<noteq> CHR ''='') s))))
     (filter (\<lambda>s. s \<noteq> []) (split_on (CHR ''&'') q))"

text \<open>\<open>searchParams.get(k)\<close>\<close>

definition search_get :: "string \<Rightarrow> string \<Rightarrow> string option" where
  "search_get k a = map_of (query_pairs (query_of a)) k"

lemma form_decode_step: "c \<noteq> CHR 0x25 \<Longrightarrow> c \<noteq> CHR ''+'' \<Longrightarrow> form_decode (c # s) = c # form_decode s"
  by (cases s rule: list.exhaust; cases "tl s") auto

lemma decode_encode: "form_decode (encodeURIComponent s) = s"
proof (induction s)
  case (Cons c s)
  show ?case
  proof (cases "unreserved c")
    case True
    then have "c \<noteq> CHR 0x25" "c \<noteq> CHR ''+''" by (auto simp: unreserved_def alnum_def is_lower_def is_upper_def is_digit_def)
    then show ?thesis using Cons True by (simp add: encodeURIComponent_def encode_char_def form_decode_step)
  next
    case False
    have "digit_value (hex_digit (of_char c div 16)) = Some (of_char c div 16)"
      "digit_value (hex_digit (of_char c mod 16)) = Some (of_char c mod 16)"
      by (rule hex_digit_value, rule hex_parts)+
    then show ?thesis using Cons False by (simp add: encodeURIComponent_def encode_char_def Let_def)
  qed
qed (simp add: encodeURIComponent_def)

lemma encoded_chars: "c \<in> set (encodeURIComponent s) \<Longrightarrow> c \<noteq> CHR ''&'' \<and> c \<noteq> CHR ''#'' \<and> c \<noteq> CHR ''=''"
proof -
  have hex: "hex_digit d \<noteq> CHR ''&'' \<and> hex_digit d \<noteq> CHR ''#'' \<and> hex_digit d \<noteq> CHR ''=''" if "d < 16" for d
    using hex_digit_value [OF that] by (auto simp: digit_value_def)
  have reserved: "\<not> unreserved (CHR ''&'')" "\<not> unreserved (CHR ''#'')" "\<not> unreserved (CHR ''='')"
    by (simp_all add: unreserved_def alnum_def is_lower_def is_upper_def is_digit_def)
  have "c \<noteq> CHR ''&'' \<and> c \<noteq> CHR ''#'' \<and> c \<noteq> CHR ''=''" if "c \<in> set (encode_char x)" for x
  proof (cases "unreserved x")
    case True
    then show ?thesis using that reserved by (auto simp: encode_char_def)
  next
    case False
    then have "c = CHR 0x25 \<or> c = hex_digit (of_char x div 16) \<or> c = hex_digit (of_char x mod 16)"
      using that by (simp add: encode_char_def Let_def)
    then show ?thesis using hex [OF hex_parts(1)] hex [OF hex_parts(2)] by auto
  qed
  then show "c \<in> set (encodeURIComponent s) \<Longrightarrow> ?thesis"
    unfolding encodeURIComponent_def by auto
qed

section \<open>What the pages read of their address\<close>

definition vap_route_of :: "string \<Rightarrow> vap_route" where
  "vap_route_of a =
     (let yamlMode = (search_get ''mode'' a = Some ''yaml'')
      in if use_match ''/policies/admission/new'' a \<noteq> None then PolicyNewRoute yamlMode
         else if use_match ''/policies/admission/bindings/new'' a \<noteq> None then BindingNewRoute yamlMode
         else case use_match ''/policies/admission/:name/edit'' a of
           Some (n # _) \<Rightarrow> PolicyEditRoute n
         | _ \<Rightarrow> (case use_match ''/policies/admission/bindings/:name/edit'' a of
                   Some (n # _) \<Rightarrow> BindingEditRoute n
                 | _ \<Rightarrow> ListRoute))"

definition cnp_route_of :: "string \<Rightarrow> cnp_route" where
  "cnp_route_of a =
     (if use_match ''/policies/network/new'' a \<noteq> None then CnpNewRoute (search_get ''mode'' a = Some ''yaml'')
      else case use_match ''/policies/network/:name/edit'' a of
        Some (n # _) \<Rightarrow> CnpEditRoute n (search_get ''scope'' a) (search_get ''namespace'' a)
      | _ \<Rightarrow> CnpListRoute)"

text \<open>The tracing editor's name and namespace (\<open>searchParams.get('namespace') || undefined\<close>), and whether it
  opens on the raw editor.\<close>

definition policy_edit_params :: "string \<Rightarrow> string option \<times> string option \<times> bool" where
  "policy_edit_params a =
     (case use_match ''/policies/tracing/:name/edit'' a of Some (n # _) \<Rightarrow> Some n | _ \<Rightarrow> None,
      case search_get ''namespace'' a of Some n \<Rightarrow> if n \<noteq> [] then Some n else None | None \<Rightarrow> None,
      search_get ''mode'' a = Some ''yaml'')"

text \<open>The two notification pages: whether a new one is asked for, and the id of an edit; the account page.\<close>

definition config_params :: "string \<Rightarrow> string \<Rightarrow> bool \<times> string option" where
  "config_params base a = (use_match (base @ ''/new'') a \<noteq> None,
     case use_match (base @ ''/:id/edit'') a of Some (n # _) \<Rightarrow> Some n | _ \<Rightarrow> None)"

definition users_showForm :: "string \<Rightarrow> bool" where
  "users_showForm a \<longleftrightarrow> use_match ''/settings/users/new'' a \<noteq> None"

section \<open>The addresses the pages navigate to\<close>

definition vap_policy_address :: "string \<Rightarrow> string" where
  "vap_policy_address n = ''/policies/admission/'' @ n @ ''/edit''"

definition vap_binding_address :: "string \<Rightarrow> string" where
  "vap_binding_address n = ''/policies/admission/bindings/'' @ n @ ''/edit''"

definition alert_address :: "string \<Rightarrow> string" where
  "alert_address i = ''/security/alerts/'' @ i @ ''/edit''"

definition rsyslog_address :: "string \<Rightarrow> string" where
  "rsyslog_address i = ''/security/rsyslog/'' @ i @ ''/edit''"

text \<open>Every address a button or a handler navigates to, with the page meant by it and its parameter. The
  links of the sidebar have a property of their own.\<close>

definition console_addresses ::
  "policy_record \<Rightarrow> cnp_record \<Rightarrow> string \<Rightarrow> string \<Rightarrow> (string \<times> console_page \<times> string list) list" where
  "console_addresses p c n i = [
     (''/policies/tracing'', PolicyListPage, []),
     (''/policies/tracing/new'', PolicyEditPage, []),
     (''/policies/tracing/new?mode=yaml'', PolicyEditPage, []),
     (policy_edit_address p, PolicyEditPage, [po_name p]),
     (''/policies/network'', CNPPage, []),
     (''/policies/network/new'', CNPPage, []),
     (''/policies/network/new?mode=yaml'', CNPPage, []),
     (edit_address encodeURIComponent c, CNPPage, [cr_name c]),
     (''/policies/admission'', VAPPage, []),
     (''/policies/admission/new'', VAPPage, []),
     (''/policies/admission/new?mode=yaml'', VAPPage, []),
     (vap_policy_address n, VAPPage, [n]),
     (''/policies/admission/bindings/new'', VAPPage, []),
     (''/policies/admission/bindings/new?mode=yaml'', VAPPage, []),
     (vap_binding_address n, VAPPage, [n]),
     (''/policies/quarantine'', QuarantinePage, []),
     (''/security/alerts'', AlertsPage, []),
     (''/security/alerts/new'', AlertsPage, []),
     (alert_address i, AlertsPage, [i]),
     (''/security/rsyslog'', RsyslogPage, []),
     (''/security/rsyslog/new'', RsyslogPage, []),
     (rsyslog_address i, RsyslogPage, [i]),
     (''/settings/users'', UsersPage, []),
     (''/settings/users/new'', UsersPage, [])]"

lemma path_of_append:
  "CHR ''?'' \<notin> set s \<Longrightarrow> CHR ''#'' \<notin> set s \<Longrightarrow> path_of (s @ t) = s @ path_of t"
  by (auto simp: path_of_def takeWhile_append)

lemmas plain_marks = plain_free [of _ "CHR ''?''", simplified path_char_simps] plain_free [of _ "CHR ''#''", simplified path_char_simps]

lemma path_of_plain [simp]:
  "plain_name s \<Longrightarrow> path_of (s @ t) = s @ path_of t"
  "path_of [] = []" "path_of (c # s) = (if c = CHR ''?'' \<or> c = CHR ''#'' then [] else c # path_of s)"
  by (simp_all add: plain_marks path_of_append) (simp_all add: path_of_def)

definition split_page_routes :: "(pattern_segment list \<times> route_target) list" where
  "split_page_routes = map (\<lambda>(pat, t). (map app_segment (split_on slash pat), t)) page_routes"

definition routed_segments :: "string list \<Rightarrow> (route_target \<times> string list) list" where
  "routed_segments segs = concat (map (\<lambda>(ps, t).
     case match_segments ps segs of None \<Rightarrow> [] | Some xs \<Rightarrow> [(t, xs)]) split_page_routes)"

lemma routed_to_segments: "routed_to a = routed_segments (split_on slash (path_of a))"
  unfolding routed_to_def routed_segments_def split_page_routes_def use_match_def
  by (rule arg_cong [where f = concat]) (auto simp: list.map_comp)

lemmas page_patterns = split_page_routes_def [unfolded page_routes_def APP_ROUTES_def, simplified]

lemmas route_rules = routed_segments_def [unfolded page_patterns list.map concat.simps prod.case]

lemmas address_defs = policy_edit_address_def edit_address_def vap_policy_address_def vap_binding_address_def
  alert_address_def rsyslog_address_def

text \<open>The path of an address with a name in it, in segments.\<close>

lemma address_paths:
  "plain_name (po_name p) \<Longrightarrow> split_on slash (path_of (policy_edit_address p)) = [[], ''policies'', ''tracing'', po_name p, ''edit'']"
  "plain_name (cr_name c) \<Longrightarrow> split_on slash (path_of (edit_address encode c)) = [[], ''policies'', ''network'', cr_name c, ''edit'']"
  "plain_name n \<Longrightarrow> split_on slash (path_of (vap_policy_address n)) = [[], ''policies'', ''admission'', n, ''edit'']"
  "plain_name n \<Longrightarrow> split_on slash (path_of (vap_binding_address n)) = [[], ''policies'', ''admission'', ''bindings'', n, ''edit'']"
  "plain_name n \<Longrightarrow> split_on slash (path_of (alert_address n)) = [[], ''security'', ''alerts'', n, ''edit'']"
  "plain_name n \<Longrightarrow> split_on slash (path_of (rsyslog_address n)) = [[], ''security'', ''rsyslog'', n, ''edit'']"
  by (simp_all add: address_defs plain_segment)

lemma named_routes:
  assumes "n \<noteq> []"
  shows "routed_segments [[], ''policies'', ''tracing'', n, ''edit''] = [(Page PolicyEditPage, [n])]"
    "routed_segments [[], ''policies'', ''network'', n, ''edit''] = [(Page CNPPage, [n])]"
    "routed_segments [[], ''policies'', ''admission'', n, ''edit''] = [(Page VAPPage, [n])]"
    "routed_segments [[], ''policies'', ''admission'', ''bindings'', n, ''edit''] = [(Page VAPPage, [n])]"
    "routed_segments [[], ''security'', ''alerts'', n, ''edit''] = [(Page AlertsPage, [n])]"
    "routed_segments [[], ''security'', ''rsyslog'', n, ''edit''] = [(Page RsyslogPage, [n])]"
  by (simp_all add: route_rules assms)

lemma fixed_routes:
  "routed_to ''/policies/tracing'' = [(Page PolicyListPage, [])]"
  "routed_to ''/policies/tracing/new'' = [(Page PolicyEditPage, [])]"
  "routed_to ''/policies/tracing/new?mode=yaml'' = [(Page PolicyEditPage, [])]"
  "routed_to ''/policies/network'' = [(Page CNPPage, [])]"
  "routed_to ''/policies/network/new'' = [(Page CNPPage, [])]"
  "routed_to ''/policies/network/new?mode=yaml'' = [(Page CNPPage, [])]"
  "routed_to ''/policies/admission'' = [(Page VAPPage, [])]"
  "routed_to ''/policies/admission/new'' = [(Page VAPPage, [])]"
  "routed_to ''/policies/admission/new?mode=yaml'' = [(Page VAPPage, [])]"
  "routed_to ''/policies/admission/bindings/new'' = [(Page VAPPage, [])]"
  "routed_to ''/policies/admission/bindings/new?mode=yaml'' = [(Page VAPPage, [])]"
  "routed_to ''/policies/quarantine'' = [(Page QuarantinePage, [])]"
  "routed_to ''/security/alerts'' = [(Page AlertsPage, [])]"
  "routed_to ''/security/alerts/new'' = [(Page AlertsPage, [])]"
  "routed_to ''/security/rsyslog'' = [(Page RsyslogPage, [])]"
  "routed_to ''/security/rsyslog/new'' = [(Page RsyslogPage, [])]"
  "routed_to ''/settings/users'' = [(Page UsersPage, [])]"
  "routed_to ''/settings/users/new'' = [(Page UsersPage, [])]"
  by code_simp+

lemma sidebar_routes:
  "list_all (\<lambda>l. map_option (\<lambda>t. [(t, [])]) (map_of APP_ROUTES l) = Some (routed_to l)) (sidebar_links True)"
  by code_simp

text \<open>C35: every address the console navigates to has exactly one page, the one meant for it, with the
  name it was built from as the parameter; no other entry of the route table takes it, whatever the name
  is (new, edit or bindings too), as long as it is one segment. So no button leads to the
  catch-all route, which throws the operator back to the dashboard.\<close>

theorem addresses_have_their_page:
  assumes "plain_name (po_name p)" "plain_name (cr_name c)" "plain_name n" "plain_name i"
  shows "list_all (\<lambda>(a, page, xs). routed_to a = [(Page page, xs)]) (console_addresses p c n i)
    \<and> (\<forall>l \<in> set (sidebar_links isAdmin). \<exists>page. routed_to l = [(Page page, [])])"
proof -
  note n = assms [THEN plain_segment(2)]
  have "\<exists>page. routed_to l = [(Page page, [])]" if "l \<in> set (sidebar_links isAdmin)" for l
  proof -
    have l: "l \<in> set (sidebar_links True)" using that viewer_links_sub by blast
    then obtain t where t: "map_of APP_ROUTES l = Some t" "routed_to l = [(t, [])]"
      using sidebar_routes by (auto simp: list_all_iff)
    moreover have "case map_of APP_ROUTES l of Some (Page p) \<Rightarrow> True | _ \<Rightarrow> False"
      using sidebar_links_have_pages l by (simp only: list_all_iff)
    ultimately show ?thesis by (cases t) auto
  qed
  moreover have "list_all (\<lambda>(a, page, xs). routed_to a = [(Page page, xs)]) (console_addresses p c n i)"
    unfolding console_addresses_def list.pred_inject prod.case
    by (simp add: fixed_routes) (simp add: routed_to_segments address_paths assms named_routes n)
  ultimately show ?thesis by blast
qed

definition web_record :: cnp_record where
  "web_record = \<lparr> cr_name = ''new'', cr_namespace = ''shop'', cr_scope = ''namespace'', cr_selector = ''app=db'',
     ingressRules = 1, egressRules = 0, hasL7 = False, defaultDeny = ''ingress'', cr_createdBy = ''ui'', cr_createdAt = [], cr_rawYaml = [] \<rparr>"

definition exec_record :: policy_record where
  "exec_record = \<lparr> po_name = ''edit'', po_namespace = Some ''shop'', po_scope = ''namespace'', po_mode = ''Monitoring'',
     po_createdBy = ''ui'', po_createdAt = [], po_rawYaml = [] \<rparr>"

theorem addresses_have_their_page_witness:
  "routed_to (edit_address encodeURIComponent web_record) = [(Page CNPPage, [''new''])] \<and>
   routed_to (vap_policy_address ''bindings'') = [(Page VAPPage, [''bindings''])]"
  using addresses_have_their_page [of exec_record web_record "''bindings''" "''7''" True]
  by (simp add: plain_name_def path_char_def exec_record_def web_record_def console_addresses_def)

section \<open>From a row to its record and back to the server\<close>

lemma query_of_append:
  "CHR ''?'' \<notin> set s \<Longrightarrow> CHR ''#'' \<notin> set s \<Longrightarrow> query_of (s @ t) = query_of t"
  by (auto simp: query_of_def dropWhile_append)

lemma query_of_simps [simp]:
  "plain_name s \<Longrightarrow> query_of (s @ t) = query_of t"
  "query_of [] = []"
  "query_of (c # s) = (if c = CHR ''?'' then takeWhile (\<lambda>c. c \<noteq> CHR ''#'') s else if c = CHR ''#'' then [] else query_of s)"
  by (simp_all add: plain_marks query_of_append) (simp_all add: query_of_def)

lemma form_decode_plain:
  "CHR 0x25 \<notin> set s \<Longrightarrow> CHR ''+'' \<notin> set s \<Longrightarrow> form_decode s = s"
proof (induction s)
  case (Cons c s)
  then show ?case using form_decode_step [of c s] by auto
qed simp

lemma edit_query:
  assumes "plain_name (cr_name c)" "cr_scope c \<in> {''namespace'', ''cluster''}"
  shows "search_get ''scope'' (edit_address encodeURIComponent c) = Some (cr_scope c)"
    "search_get ''namespace'' (edit_address encodeURIComponent c) = Some (cr_namespace c)"
proof -
  let ?e = "encodeURIComponent (cr_namespace c)"
  have e: "CHR ''&'' \<notin> set ?e" "CHR ''='' \<notin> set ?e" "CHR ''#'' \<notin> set ?e"
    using encoded_chars [of _ "cr_namespace c"] by auto
  have q: "query_of (edit_address encodeURIComponent c) = ''scope='' @ cr_scope c @ ''&namespace='' @ ?e"
    using assms e(3) by (auto simp: edit_address_def takeWhile_append)
  have s: "split_on (CHR ''&'') (''scope='' @ cr_scope c @ ''&namespace='' @ ?e) = [''scope='' @ cr_scope c, ''namespace='' @ ?e]"
    using assms(2) split_on_free [OF e(1)] by auto
  have p: "query_pairs (query_of (edit_address encodeURIComponent c)) = [(''scope'', cr_scope c), (''namespace'', cr_namespace c)]"
    unfolding q query_pairs_def s using assms(2) decode_encode [of "cr_namespace c"]
    by (auto simp: form_decode_plain)
  show "search_get ''scope'' (edit_address encodeURIComponent c) = Some (cr_scope c)"
    "search_get ''namespace'' (edit_address encodeURIComponent c) = Some (cr_namespace c)"
    by (simp_all add: search_get_def p)
qed

lemma find_unique:
  assumes "x \<in> set xs" "P x" "\<And>y. y \<in> set xs \<Longrightarrow> P y \<Longrightarrow> y = x"
  shows "List.find P xs = Some x"
proof (cases "List.find P xs")
  case None
  then show ?thesis using assms(1,2) by (simp add: find_None_iff)
next
  case (Some y)
  then have "y \<in> set xs" "P y" by (auto simp: find_Some_iff)
  then show ?thesis using Some assms(3) by simp
qed

text \<open>C33: the network policy list, its addresses, its page and the server agree on which policy is meant.
  From a row of the list, Edit navigates to an address that is the network policy page's; the page
  reads back the row's name, scope and namespace (escaped and unescaped), finds that very record and no
  other, though several policies can share a name, and opens it; and whatever is then saved goes to the
  server's handler for network policies, with the same name in the path. Names are one path
  segment; no two records agree in all that identifies a policy.\<close>

theorem network_row_reaches_its_policy:
  assumes "policiesLoaded st" "c \<in> set (np_policies st)" "plain_name (cr_name c)" "cr_scope c \<in> {''namespace'', ''cluster''}"
    and "\<And>x. x \<in> set (np_policies st) \<Longrightarrow> cr_name x = cr_name c \<Longrightarrow> cr_scope x = cr_scope c \<Longrightarrow>
      cr_scope c = ''cluster'' \<or> cr_namespace x = cr_namespace c \<Longrightarrow> x = c"
  shows "let a = edit_address encodeURIComponent c
    in routed_to a = [(Page CNPPage, [cr_name c])]
      \<and> cnp_route_effect Y (cnp_route_of a) st = map_option (\<lambda>st'. (st', [])) (cnp_openEdit Y c st)
      \<and> (\<forall>st1 g. cnp_openEdit Y c st = Some st1 \<longrightarrow>
           handled_by (cnp_save_request Y (st1\<lparr> np_form := g \<rparr>)) = [(''applyCNP'', [cr_name c])])"
proof -
  let ?a = "edit_address encodeURIComponent c"
  have ne: "cr_name c \<noteq> []" "segment (cr_name c)" using assms(3) by (simp_all add: plain_segment)
  have m: "use_match ''/policies/network/:name/edit'' ?a = Some [cr_name c]" "use_match ''/policies/network/new'' ?a = None"
    using ne by (simp_all add: use_match_def address_paths assms(3))
  have r: "cnp_route_of ?a = CnpEditRoute (cr_name c) (Some (cr_scope c)) (Some (cr_namespace c))"
    by (simp add: cnp_route_of_def m edit_query [OF assms(3,4)])
  have f: "find_policy (cr_name c) (Some (cr_scope c)) (Some (cr_namespace c)) (np_policies st) = Some c"
    unfolding find_policy_def option.case Let_def using assms(2,5) by (intro find_unique) auto
  have "routed_to ?a = [(Page CNPPage, [cr_name c])]"
    using ne(1) by (simp add: routed_to_segments address_paths assms(3) named_routes)
  moreover have "handled_by (cnp_save_request Y (st1\<lparr> np_form := g \<rparr>)) = [(''applyCNP'', [cr_name c])]"
    if "cnp_openEdit Y c st = Some st1" for st1 g
  proof -
    have "np_editing st1 = Some c" using that by (auto simp: cnp_openEdit_def)
    then show ?thesis using assms(3) by (simp add: cnp_save_request_def request_simps)
  qed
  ultimately show ?thesis using assms(1) by (simp add: r f)
qed

definition two_webs :: cnp_page where
  "two_webs = cnp_page_init\<lparr> policiesLoaded := True, np_policies := [web_record, web_record\<lparr> cr_namespace := ''stage'' \<rparr>] \<rparr>"

theorem network_row_reaches_its_policy_witness:
  "cnp_route_effect toy_yaml (cnp_route_of (edit_address encodeURIComponent (web_record\<lparr> cr_namespace := ''stage'' \<rparr>))) two_webs
     = map_option (\<lambda>st'. (st', [])) (cnp_openEdit toy_yaml (web_record\<lparr> cr_namespace := ''stage'' \<rparr>) two_webs)"
proof -
  let ?c = "web_record\<lparr> cr_namespace := ''stage'' \<rparr>"
  have "policiesLoaded two_webs" "?c \<in> set (np_policies two_webs)" "plain_name (cr_name ?c)"
    "cr_scope ?c \<in> {''namespace'', ''cluster''}"
    by (simp_all add: two_webs_def web_record_def plain_name_def path_char_def)
  moreover have "x = ?c" if "x \<in> set (np_policies two_webs)" "cr_scope ?c = ''cluster'' \<or> cr_namespace x = cr_namespace ?c" for x
    using that by (auto simp: two_webs_def web_record_def)
  ultimately show ?thesis
    using network_row_reaches_its_policy [of two_webs ?c toy_yaml] unfolding Let_def by blast
qed

lemma tracing_query:
  assumes "plain_name (po_name t)" "list_all (\<lambda>c. lower_alnum c \<or> c = CHR ''-'') (opt_or (po_namespace t))"
  shows "search_get ''namespace'' (policy_edit_address t) = Some (opt_or (po_namespace t))"
    "search_get ''mode'' (policy_edit_address t) = None"
proof -
  let ?k = "opt_or (po_namespace t)"
  have free: "c \<notin> set ?k" if "\<not> lower_alnum c" "c \<noteq> CHR ''-''" for c
    using that assms(2) by (auto simp: list_all_iff)
  note marks = free [of "CHR ''&''"] free [of "CHR ''=''"] free [of "CHR ''#''"] free [of "CHR 0x25"] free [of "CHR ''+''"]
  have k: "CHR ''&'' \<notin> set ?k" "CHR ''#'' \<notin> set ?k" "CHR 0x25 \<notin> set ?k" "CHR ''+'' \<notin> set ?k"
    using marks by (simp_all add: lower_alnum_def is_lower_def is_digit_def)
  have q: "query_of (policy_edit_address t) = ''namespace='' @ ?k"
    using assms(1) k(2) by (simp add: policy_edit_address_def) (auto simp: takeWhile_eq_all_conv)
  have "query_pairs (query_of (policy_edit_address t)) = [(''namespace'', ?k)]"
    unfolding q query_pairs_def using split_on_free [OF k(1)] form_decode_plain [OF k(3,4)] by (simp add: form_decode_plain)
  then show "search_get ''namespace'' (policy_edit_address t) = Some ?k" "search_get ''mode'' (policy_edit_address t) = None"
    by (simp_all add: search_get_def)
qed

text \<open>C34: the same for the two lists of admission policies and bindings and for the list of tracing policies.
  The address of a row leads to its page, which reads back the row's name (and a tracing
  policy's namespace); the record that opens is the row's; and the requests that load it and save it
  reach the server's handlers for it, under its own name.\<close>

theorem rows_reach_their_records:
  assumes "listsLoaded st" "plain_name n"
    and "p \<in> set (vp_policies st)" "vr_name p = n" "distinct (map vr_name (vp_policies st))"
    and "b \<in> set (vp_bindings st)" "br_name b = n" "distinct (map br_name (vp_bindings st))"
    and "po_name t = n" "\<forall>k. po_namespace t = Some k \<longrightarrow> k \<noteq> [] \<and> list_all (\<lambda>c. lower_alnum c \<or> c = CHR ''-'') k"
  shows "route_effect Y (vap_route_of (vap_policy_address n)) st = (openEdit Y PolicyTarget n (vr_rawYaml p) st, [])
    \<and> route_effect Y (vap_route_of (vap_binding_address n)) st =
        (openEdit Y BindingTarget n (br_rawYaml b) (st\<lparr> activeTab := BindingsTab \<rparr>), [])
    \<and> handled_by (apply_request (Some n) y) = [(''applyVAP'', [n])]
    \<and> handled_by (binding_request (Some n) y) = [(''applyVAPBinding'', [n])]
    \<and> policy_edit_params (policy_edit_address t) = (Some n, po_namespace t, False)
    \<and> map handled_by (sends (edit_mounted (Some n) (po_namespace t))) = [[(''listNamespaces'', [])], [(''getPolicy'', [n])]]
    \<and> handled_by (edit_request (Some n) (po_namespace t) ed) = [(''updatePolicy'', [n])]"
proof -
  have ne: "n \<noteq> []" "segment n" using assms(2) by (simp_all add: plain_segment)
  have "use_match ''/policies/admission/new'' (vap_policy_address n) = None"
    "use_match ''/policies/admission/bindings/new'' (vap_policy_address n) = None"
    "use_match ''/policies/admission/:name/edit'' (vap_policy_address n) = Some [n]"
    "use_match ''/policies/admission/new'' (vap_binding_address n) = None"
    "use_match ''/policies/admission/bindings/new'' (vap_binding_address n) = None"
    "use_match ''/policies/admission/:name/edit'' (vap_binding_address n) = None"
    "use_match ''/policies/admission/bindings/:name/edit'' (vap_binding_address n) = Some [n]"
    "use_match ''/policies/tracing/:name/edit'' (policy_edit_address t) = Some [n]"
    using ne assms(2,9) by (simp_all add: use_match_def address_paths)
  note m = this
  have vap: "vap_route_of (vap_policy_address n) = PolicyEditRoute n" "vap_route_of (vap_binding_address n) = BindingEditRoute n"
    by (simp_all add: vap_route_of_def m)
  have fp: "List.find (\<lambda>r. vr_name r = n) (vp_policies st) = Some p"
    using assms(3-5) by (intro find_unique) (auto simp: distinct_map inj_on_def)
  have fb: "List.find (\<lambda>r. br_name r = n) (vp_bindings st) = Some b"
    using assms(6-8) by (intro find_unique) (auto simp: distinct_map inj_on_def)
  have q: "search_get ''namespace'' (policy_edit_address t) = Some (opt_or (po_namespace t))"
    "search_get ''mode'' (policy_edit_address t) = None"
    using tracing_query [of t] assms(2,9,10) by (auto simp: opt_or_def split: option.splits)
  have "policy_edit_params (policy_edit_address t) = (Some n, po_namespace t, False)"
    using assms(10) by (auto simp: policy_edit_params_def m q opt_or_def split: option.splits)
  moreover have "map handled_by (sends (edit_mounted (Some n) (po_namespace t))) = [[(''listNamespaces'', [])], [(''getPolicy'', [n])]]"
    using assms(2) by (simp add: edit_mounted_def request_simps)
  ultimately show ?thesis
    using assms(1,2,4,7)
    by (simp add: vap edit_record_def fp fb) (simp add: apply_request_def binding_request_def edit_request_def request_simps)
qed

definition edit_policy :: vap_record where
  "edit_policy = \<lparr> vr_name = ''edit'', vr_namespace = [], failurePolicy = ''Fail'', validationCount = 1, vr_createdBy = ''ui'',
     vr_createdAt = [], vr_rawYaml = ''p'' \<rparr>"

definition edit_binding :: vap_binding_record where
  "edit_binding = \<lparr> br_name = ''edit'', br_namespace = [], br_policyName = ''edit'', validationActions = [''Deny''],
     br_createdBy = ''ui'', br_createdAt = [], br_rawYaml = ''b'' \<rparr>"

definition lists_page :: vap_page where
  "lists_page = vap_page_init\<lparr> listsLoaded := True, vp_policies := [edit_policy], vp_bindings := [edit_binding] \<rparr>"

theorem rows_reach_their_records_witness:
  "route_effect toy_yaml (vap_route_of (vap_policy_address ''edit'')) lists_page =
     (openEdit toy_yaml PolicyTarget ''edit'' ''p'' lists_page, [])
   \<and> policy_edit_params (policy_edit_address exec_record) = (Some ''edit'', Some ''shop'', False)"
proof -
  have n: "plain_name ''edit''" by (simp add: plain_name_def path_char_def)
  have t: "po_name exec_record = ''edit''" "po_namespace exec_record = Some ''shop''"
    "\<forall>k. po_namespace exec_record = Some k \<longrightarrow> k \<noteq> [] \<and> list_all (\<lambda>c. lower_alnum c \<or> c = CHR ''-'') k"
    by (simp_all add: exec_record_def lower_alnum_def is_lower_def)
  show ?thesis
    using rows_reach_their_records [of lists_page "''edit''" edit_policy edit_binding exec_record toy_yaml "[]" undefined] n t
    by (simp add: lists_page_def edit_policy_def edit_binding_def)
qed

end
