(* ===== verification/YamlBox.thy ===== *)
theory YamlBox
  imports VapPageProps CnpPage TracingPage
begin

text \<open>
  The YAML editor (\<open>web/src/components/YamlEditor.tsx\<close>) inside the three policy pages. The widget (Monaco)
  keeps its own text: it takes the page's text when it is mounted and reports every change with
  whether it loads as YAML; a change of its key mounts a new one. The widget and the text of js-yaml's
  errors are not part of the code: \<open>explain\<close> is the message of a text that does not load.
\<close>

section \<open>The editor\<close>

record 'k yaml_box =
  box_key :: 'k
  box_text :: string
  box_error :: string

definition box_mount :: "'k \<Rightarrow> string \<Rightarrow> 'k yaml_box" where
  "box_mount key initial = \<lparr> box_key = key, box_text = initial, box_error = [] \<rparr>"

text \<open>Drawing it: the same key keeps the widget and its text, whatever the page's text is now.\<close>

definition box_draw :: "'k \<Rightarrow> string \<Rightarrow> 'k yaml_box option \<Rightarrow> 'k yaml_box" where
  "box_draw key initial box =
     (case box of Some b \<Rightarrow> if box_key b = key then b else box_mount key initial | None \<Rightarrow> box_mount key initial)"

text \<open>\<open>handleChange\<close>: the alert above the widget, and what is reported; a read-only editor reports nothing.\<close>

definition box_change :: "yaml_lib \<Rightarrow> (string \<Rightarrow> string) \<Rightarrow> bool \<Rightarrow> string \<Rightarrow> 'k yaml_box \<Rightarrow> 'k yaml_box \<times> (string \<times> bool) option" where
  "box_change Y explain readOnly v b =
     (if readOnly then (b, None)
      else let valid = (y_load Y v \<noteq> None)
           in (b\<lparr> box_text := v, box_error := (if valid then [] else explain v) \<rparr>, Some (v, valid)))"

section \<open>The pages that hold one\<close>

definition vap_typed :: "string \<Rightarrow> bool \<Rightarrow> vap_page \<Rightarrow> vap_page" where
  "vap_typed v valid st = st\<lparr> vp_editorYaml := v, vp_editorValid := valid \<rparr>"

definition cnp_typed :: "string \<Rightarrow> bool \<Rightarrow> cnp_page \<Rightarrow> cnp_page" where
  "cnp_typed v valid st = st\<lparr> yamlText := v, yamlValid := valid \<rparr>"

text \<open>Texts typed one after the other, each reported with whether it loads.\<close>

definition types_into :: "yaml_lib \<Rightarrow> (string \<Rightarrow> bool \<Rightarrow> 's \<Rightarrow> 's) \<Rightarrow> string list \<Rightarrow> 's \<Rightarrow> 's" where
  "types_into Y typed vs s = foldl (\<lambda>s v. typed v (y_load Y v \<noteq> None) s) s vs"

text \<open>A page that takes every report of the editor.\<close>

locale yaml_host =
  fixes page_text :: "'s \<Rightarrow> string" and page_valid :: "'s \<Rightarrow> bool" and typed :: "string \<Rightarrow> bool \<Rightarrow> 's \<Rightarrow> 's"
  assumes text_typed: "page_text (typed v b s) = v" and valid_typed: "page_valid (typed v b s) = b"
begin

lemma typed_run:
  assumes "vs \<noteq> []"
  shows "page_text (types_into Y typed vs s) = last vs" "page_valid (types_into Y typed vs s) = (y_load Y (last vs) \<noteq> None)"
  using assms by (cases vs rule: rev_cases; simp add: types_into_def text_typed valid_typed)+

end

interpretation vap_host: yaml_host vp_editorYaml vp_editorValid vap_typed
  by unfold_locales (simp_all add: vap_typed_def)

interpretation cnp_host: yaml_host yamlText yamlValid cnp_typed
  by unfold_locales (simp_all add: cnp_typed_def)

interpretation trace_host: yaml_host yamlContent ep_yamlValid yaml_typed
  by unfold_locales (simp_all add: yaml_typed_def)

lemma typed_frames:
  "vp_editor (types_into Y vap_typed vs st) = vp_editor st"
  "np_editing (types_into Y cnp_typed vs np) = np_editing np" "np_mode (types_into Y cnp_typed vs np) = np_mode np"
  "ep_mode (types_into Y yaml_typed vs ep) = ep_mode ep"
  unfolding types_into_def by (induction vs arbitrary: st np ep) (simp_all add: vap_typed_def cnp_typed_def yaml_typed_def)

section \<open>Only YAML is saved\<close>

text \<open>None of the three pages sends a text that does not load as YAML. Whatever was typed before and
  however often, the text of a save is the last one typed, and it loads. The network and tracing pages do
  not send a blank text either; the admission page does, when Apply is clicked right after New YAML.\<close>

theorem yaml_saves_load:
  assumes "vs \<noteq> []" "np_mode np = YamlEditor" "ep_mode ep = TraceYamlEditor"
  shows "(\<forall>rq \<in> set (sends (snd (handleSave_start (types_into Y vap_typed vs st)))).
      y_load Y (last vs) \<noteq> None \<and> (\<exists>e. vp_editor st = Some e \<and> rq = save_request e (last vs)))
    \<and> (\<forall>rq \<in> set (sends (snd (cnp_save_start Y (types_into Y cnp_typed vs np)))).
      y_load Y (last vs) \<noteq> None \<and> trim (last vs) \<noteq> [] \<and>
      rq = (case np_editing np of Some e \<Rightarrow> cnpApi_update (cr_name e) (cr_namespace e) (cr_scope e) (last vs)
            | None \<Rightarrow> cnpApi_apply (last vs)))
    \<and> (\<forall>rq \<in> set (sends (snd (edit_save_start n k (types_into Y yaml_typed vs ep)))).
      y_load Y (last vs) \<noteq> None \<and> trim (last vs) \<noteq> [])
    \<and> snd (handleSave_start (openNew PolicyTarget vap_page_init)) = [Send (vapApi_applyPolicy [])]"
proof (intro conjI)
  note v = vap_host.typed_run [OF assms(1)] and c = cnp_host.typed_run [OF assms(1)] and t = trace_host.typed_run [OF assms(1)]
  show "\<forall>rq \<in> set (sends (snd (handleSave_start (types_into Y vap_typed vs st)))).
      y_load Y (last vs) \<noteq> None \<and> (\<exists>e. vp_editor st = Some e \<and> rq = save_request e (last vs))"
    by (auto simp: handleSave_start_def typed_frames v split: option.splits if_splits)
  show "\<forall>rq \<in> set (sends (snd (cnp_save_start Y (types_into Y cnp_typed vs np)))).
      y_load Y (last vs) \<noteq> None \<and> trim (last vs) \<noteq> [] \<and>
      rq = (case np_editing np of Some e \<Rightarrow> cnpApi_update (cr_name e) (cr_namespace e) (cr_scope e) (last vs)
            | None \<Rightarrow> cnpApi_apply (last vs))"
    using assms(2) by (auto simp: cnp_save_start_def cnp_canApply_def cnp_save_request_def outgoingYaml_def typed_frames c
        split: if_splits option.splits)
  show "\<forall>rq \<in> set (sends (snd (edit_save_start n k (types_into Y yaml_typed vs ep)))). y_load Y (last vs) \<noteq> None \<and> trim (last vs) \<noteq> []"
    using assms(3) by (auto simp: edit_save_start_def typed_frames t split: if_splits)
  show "snd (handleSave_start (openNew PolicyTarget vap_page_init)) = [Send (vapApi_applyPolicy [])]"
    by (simp add: handleSave_start_def openNew_def vap_page_init_def save_request_def)
qed

definition raw_page :: cnp_page where
  "raw_page = openCreate YamlEditor cnp_page_init"

theorem yaml_saves_load_witness:
  "sends (snd (cnp_save_start toy_yaml (types_into toy_yaml cnp_typed [''x'', ''t''] raw_page))) = [cnpApi_apply ''t'']"
proof -
  let ?st = "types_into toy_yaml cnp_typed [''x'', ''t''] raw_page"
  have l: "y_load toy_yaml ''t'' \<noteq> None" by (simp add: toy_yaml_def)
  have r: "np_mode raw_page = YamlEditor" "np_editing raw_page = None" "np_saving raw_page = False"
    by (simp_all add: raw_page_def openCreate_def cnp_page_init_def)
  have "np_saving ?st = False" by (simp add: types_into_def cnp_typed_def r)
  moreover have "cnp_canApply toy_yaml ?st"
    using l r by (simp add: cnp_canApply_def typed_frames cnp_host.typed_run string_eval)
  ultimately have "sends (snd (cnp_save_start toy_yaml ?st)) = [cnp_save_request toy_yaml ?st]"
    by (simp add: cnp_save_start_def)
  then show ?thesis
    using yaml_saves_load [of "[''x'', ''t'']" raw_page "\<lparr> ep_namespaces = [], policyMode = [], formValues = EMPTY_FORM, yamlContent = [],
       ep_yamlValid = True, ep_mode = TraceYamlEditor, ep_loading = False, pageLoading = False, formCapable = False \<rparr>" toy_yaml] r
    by simp
qed

section \<open>What is shown is what is saved\<close>

text \<open>
  The admission page with its editor on screen: the widget is there while the editor's screen is up, keyed
  by a number that every opening raises.
\<close>

type_synonym vap_session = "vap_page \<times> nat yaml_box option"

definition vap_draw :: "vap_session \<Rightarrow> vap_session" where
  "vap_draw = (\<lambda>(st, box). (st, case vap_screen st of
     EditorScreen e \<Rightarrow> Some (box_draw (vp_editorKey st) (vp_editorYaml st) box) | _ \<Rightarrow> None))"

datatype vap_event =
    Go vap_route
  | Lists "(vap_record list \<times> vap_binding_record list) option"
  | Reload bool
  | Type string
  | ClickSave
  | Saved edit_target outcome
  | EditForm policy_builder

text \<open>What each event does to the page, and what it sends; \<open>Type\<close> reaches the page through the widget.\<close>

fun vap_do :: "yaml_lib \<Rightarrow> (string \<Rightarrow> string) \<Rightarrow> bool \<Rightarrow> vap_event \<Rightarrow> vap_session \<Rightarrow> vap_session \<times> effect list" where
  "vap_do Y explain isAdmin (Go r) (st, box) = (let (st', es) = route_effect Y r st in (vap_draw (st', box), es))"
| "vap_do Y explain isAdmin (Lists res) (st, box) = (vap_draw (load_done res st, box), [])"
| "vap_do Y explain isAdmin (Reload spin) (st, box) = (let (st', es) = load_start spin st in (vap_draw (st', box), es))"
| "vap_do Y explain isAdmin (Type v) (st, box) =
     (case box of None \<Rightarrow> ((st, box), [])
      | Some b \<Rightarrow> (case box_change Y explain (\<not> isAdmin) v b of
          (b', None) \<Rightarrow> (vap_draw (st, Some b'), [])
        | (b', Some (t, valid)) \<Rightarrow> (vap_draw (vap_typed t valid st, Some b'), [])))"
| "vap_do Y explain isAdmin ClickSave (st, box) =
     (if isAdmin \<and> box \<noteq> None then (let (st', es) = handleSave_start st in (vap_draw (st', box), es)) else ((st, box), []))"
| "vap_do Y explain isAdmin (Saved e out) (st, box) = (let (st', es) = handleSave_done e out st in (vap_draw (st', box), es))"
| "vap_do Y explain isAdmin (EditForm b) (st, box) = (vap_draw (st\<lparr> vp_form := b \<rparr>, box), [])"

fun vap_events :: "yaml_lib \<Rightarrow> (string \<Rightarrow> string) \<Rightarrow> bool \<Rightarrow> vap_event list \<Rightarrow> vap_session \<Rightarrow> vap_session" where
  "vap_events Y explain isAdmin [] s = s"
| "vap_events Y explain isAdmin (e # es) s = vap_events Y explain isAdmin es (fst (vap_do Y explain isAdmin e s))"

text \<open>The widget is on screen with the editor, shows the page's text, and its alert is up exactly when the page's
  text is not valid; its key is the page's.\<close>

definition box_agrees :: "vap_session \<Rightarrow> bool" where
  "box_agrees s \<longleftrightarrow> (case s of (st, box) \<Rightarrow>
     (box \<noteq> None \<longleftrightarrow> (\<exists>e. vap_screen st = EditorScreen e)) \<and>
     (\<forall>b. box = Some b \<longrightarrow> box_key b = vp_editorKey st \<and> box_text b = vp_editorYaml st \<and> (box_error b = [] \<longleftrightarrow> vp_editorValid st)))"

definition editor_up :: "vap_page \<Rightarrow> bool" where
  "editor_up st \<longleftrightarrow> (\<exists>e. vap_screen st = EditorScreen e)"

text \<open>A step of the page leaves the editor's text alone and does not bring it up, or opens a text anew.\<close>

definition fair_step :: "vap_page \<Rightarrow> vap_page \<Rightarrow> bool" where
  "fair_step st st' \<longleftrightarrow>
     (vp_editorKey st' = vp_editorKey st \<and> vp_editorYaml st' = vp_editorYaml st \<and> vp_editorValid st' = vp_editorValid st
        \<and> (editor_up st' \<longrightarrow> editor_up st))
     \<or> (vp_editorKey st' = Suc (vp_editorKey st) \<and> vp_editorValid st')"

lemma draw_screen:
  "vap_draw (st, box) = (st, if editor_up st then Some (box_draw (vp_editorKey st) (vp_editorYaml st) box) else None)"
  by (auto simp: vap_draw_def editor_up_def split: vap_screen.splits)

lemma box_agrees_iff: "box_agrees (st, box) \<longleftrightarrow> (box \<noteq> None \<longleftrightarrow> editor_up st) \<and>
    (\<forall>b. box = Some b \<longrightarrow> box_key b = vp_editorKey st \<and> box_text b = vp_editorYaml st \<and> (box_error b = [] \<longleftrightarrow> vp_editorValid st))"
  by (simp add: box_agrees_def editor_up_def)

lemma draw_agrees:
  assumes "box_agrees (st, box)" "fair_step st st'"
  shows "box_agrees (vap_draw (st', box))"
proof (cases "editor_up st'")
  case False
  then show ?thesis by (simp add: draw_screen box_agrees_iff)
next
  case True
  consider (same) "vp_editorKey st' = vp_editorKey st" "vp_editorYaml st' = vp_editorYaml st" "vp_editorValid st' = vp_editorValid st"
      "editor_up st"
    | (fresh) "vp_editorKey st' = Suc (vp_editorKey st)" "vp_editorValid st'"
    using assms(2) True by (auto simp: fair_step_def)
  then show ?thesis
  proof cases
    case same
    then obtain b where b: "box = Some b" using assms(1) by (auto simp: box_agrees_iff)
    then have "box_draw (vp_editorKey st') (vp_editorYaml st') box = b"
      using assms(1) same by (simp add: box_agrees_iff box_draw_def)
    then show ?thesis using assms(1) same b True by (simp add: draw_screen box_agrees_iff)
  next
    case fresh
    then have "box_draw (vp_editorKey st') (vp_editorYaml st') box = box_mount (vp_editorKey st') (vp_editorYaml st')"
      using assms(1) by (auto simp: box_agrees_iff box_draw_def split: option.split)
    then show ?thesis using fresh True by (simp add: draw_screen box_agrees_iff box_mount_def)
  qed
qed

lemma editor_up_iff: "editor_up st \<longleftrightarrow> \<not> showBuilder st \<and> \<not> showBindingBuilder st \<and> vp_editor st \<noteq> None"
  by (auto simp: editor_up_def vap_screen_def split: option.splits)

lemma openEdit_fair: "fair_step st (openEdit Y kind name raw st)" "fair_step st (openEdit Y kind name raw (st\<lparr> activeTab := t \<rparr>))"
  by (auto simp: fair_step_def openEdit_def open_yaml_def editor_up_iff split: target_kind.splits option.splits)

lemma route_fair: "fair_step st (fst (route_effect Y r st))"
proof (cases r)
  case (PolicyEditRoute n)
  then show ?thesis using openEdit_fair
    by (auto simp: edit_record_def fair_step_def split: option.splits)
next
  case (BindingEditRoute n)
  then show ?thesis using openEdit_fair
    by (auto simp: edit_record_def fair_step_def split: option.splits)
qed (auto simp: fair_step_def openNew_def resetBuilderForm_def close_all_def editor_up_iff)

lemma others_fair:
  "fair_step st (load_done res st)" "fair_step st (fst (load_start spin st))" "fair_step st (fst (handleSave_start st))"
  "fair_step st (fst (handleSave_done e out st))" "fair_step st (st\<lparr> vp_form := b \<rparr>)"
  by (auto simp: fair_step_def editor_up_iff load_done_def load_start_def handleSave_start_def handleSave_done_def
    split: option.splits outcome.splits if_splits)

lemma do_agrees:
  assumes "\<And>v. explain v \<noteq> []" "box_agrees s"
  shows "box_agrees (fst (vap_do Y explain isAdmin e s))"
proof -
  obtain st box where s: "s = (st, box)" by fastforce
  note h = assms(2) [unfolded s]
  show ?thesis
  proof (cases e)
    case (Type v)
    show ?thesis
    proof (cases box)
      case (Some b)
      have up: "editor_up st" using h Some by (simp add: box_agrees_def editor_up_def)
      have k: "box_key b = vp_editorKey st" using h Some by (simp add: box_agrees_def)
      show ?thesis
      proof (cases isAdmin)
        case True
        have "vap_screen (vap_typed v x st) = vap_screen st" for x by (simp add: vap_screen_def vap_typed_def)
        then show ?thesis using Some Type s up k assms(1) True
          by (auto simp: box_change_def vap_draw_def box_agrees_def editor_up_def box_draw_def vap_typed_def Let_def)
      next
        case False
        then show ?thesis using Some Type s h draw_agrees [OF h] by (auto simp: box_change_def fair_step_def)
      qed
    qed (use Type s h in simp)
  qed (use s h draw_agrees [OF h] route_fair others_fair in \<open>auto simp: split_def Let_def\<close>)
qed

lemma events_agree:
  assumes "\<And>v. explain v \<noteq> []" "box_agrees s"
  shows "box_agrees (vap_events Y explain isAdmin es s)"
  using assms(2)
proof (induction es arbitrary: s)
  case (Cons e es)
  then show ?case using do_agrees [OF assms(1)] by simp
qed simp

text \<open>What the page holds to be valid: a text it holds to be invalid does not load, and one it holds to be
  valid loads unless it is the very text that was opened, which nobody has looked at yet.\<close>

definition judged :: "yaml_lib \<Rightarrow> vap_page \<Rightarrow> bool" where
  "judged Y st \<longleftrightarrow> (\<not> vp_editorValid st \<longrightarrow> y_load Y (vp_editorYaml st) = None)
     \<and> (\<forall>e. vp_editor st = Some e \<longrightarrow> vp_editorValid st \<longrightarrow> vp_editorYaml st \<noteq> et_yaml e \<longrightarrow> y_load Y (vp_editorYaml st) \<noteq> None)"

lemma openEdit_judged: "judged Y st \<Longrightarrow> judged Y (openEdit Y' kind name raw st)"
  by (auto simp: judged_def openEdit_def open_yaml_def split: target_kind.splits option.splits)

lemma judged_tab: "judged Y (st\<lparr> activeTab := t \<rparr>) = judged Y st"
  by (simp add: judged_def)

lemma route_judged: "judged Y st \<Longrightarrow> judged Y (fst (route_effect Y' r st))"
proof (cases r)
  case (PolicyEditRoute n)
  then show "judged Y st \<Longrightarrow> ?thesis" using openEdit_judged by (auto simp: edit_record_def split: option.splits)
next
  case (BindingEditRoute n)
  then show "judged Y st \<Longrightarrow> ?thesis"
    using openEdit_judged [of Y "st\<lparr> activeTab := BindingsTab \<rparr>"] by (auto simp: edit_record_def judged_tab split: option.splits)
qed (auto simp: judged_def openNew_def resetBuilderForm_def close_all_def)

lemma others_judged:
  assumes "judged Y st"
  shows "judged Y (load_done res st)" "judged Y (fst (load_start spin st))" "judged Y (fst (handleSave_start st))"
    "judged Y (fst (handleSave_done e out st))" "judged Y (st\<lparr> vp_form := b \<rparr>)"
  using assms
  by (auto simp: judged_def load_done_def load_start_def handleSave_start_def handleSave_done_def
      split: option.splits outcome.splits if_splits)

lemma fst_draw: "fst (vap_draw (st, box)) = st"
  by (simp add: vap_draw_def)

lemma do_judged: "judged Y (fst s) \<Longrightarrow> judged Y (fst (fst (vap_do Y explain isAdmin e s)))"
proof -
  assume j: "judged Y (fst s)"
  obtain st box where s: "s = (st, box)" by fastforce
  have j: "judged Y st" using j s by simp
  have t: "judged Y (vap_typed v (y_load Y v \<noteq> None) st)" for v by (auto simp: judged_def vap_typed_def)
  show ?thesis
  proof (cases e)
    case (Type v)
    then show ?thesis using s j t [of v] by (auto simp: box_change_def fst_draw Let_def split: option.splits)
  qed (use s j route_judged others_judged in \<open>auto simp: split_def Let_def fst_draw\<close>)
qed

lemma events_judged: "judged Y (fst s) \<Longrightarrow> judged Y (fst (vap_events Y explain isAdmin es s))"
  by (induction es arbitrary: s) (simp_all add: do_judged)

text \<open>C36: the admission page saves what its editor shows, and its alert can be trusted once something was typed. In
  any order of routes entered, lists loaded, texts typed, saves clicked and outcomes arriving: what a
  click on Apply sends is the text on screen, with no alert above it, and a viewer's clicks send nothing;
  an alert stands only over a text that does not load; and over a text other than the one that was opened
  the alert stands exactly when that text does not load. The text as it was opened has no alert,
  whether it loads or not: the editor looks at a text only when it changes.\<close>

theorem editor_saves_what_it_shows:
  assumes "\<And>v. explain v \<noteq> []"
  shows "case vap_events Y explain isAdmin es (vap_page_init, None) of (st, box) \<Rightarrow>
     (\<forall>rq \<in> set (sends (snd (vap_do Y explain isAdmin ClickSave (st, box)))).
        isAdmin \<and> (\<exists>b e. box = Some b \<and> vap_screen st = EditorScreen e \<and> box_error b = [] \<and> rq = save_request e (box_text b)))
     \<and> (\<forall>b e. box = Some b \<longrightarrow> vap_screen st = EditorScreen e \<longrightarrow>
        (box_error b \<noteq> [] \<longrightarrow> y_load Y (box_text b) = None) \<and>
        (box_text b \<noteq> et_yaml e \<longrightarrow> (box_error b = [] \<longleftrightarrow> y_load Y (box_text b) \<noteq> None)))"
proof -
  have "box_agrees (vap_page_init, None)" by (simp add: box_agrees_def vap_screen_def vap_page_init_def)
  then have "box_agrees (vap_events Y explain isAdmin es (vap_page_init, None))" by (rule events_agree [OF assms])
  moreover have "judged Y (fst (vap_events Y explain isAdmin es (vap_page_init, None)))"
    by (rule events_judged) (simp add: judged_def vap_page_init_def)
  moreover obtain st box where s: "vap_events Y explain isAdmin es (vap_page_init, None) = (st, box)" by fastforce
  ultimately have h: "box_agrees (st, box)" "judged Y st" by simp_all
  have e: "vap_screen st = EditorScreen e \<Longrightarrow> vp_editor st = Some e" for e
    by (auto simp: vap_screen_def split: if_splits option.splits)
  have "\<forall>rq \<in> set (sends (snd (vap_do Y explain isAdmin ClickSave (st, box)))).
        isAdmin \<and> (\<exists>b e. box = Some b \<and> vap_screen st = EditorScreen e \<and> box_error b = [] \<and> rq = save_request e (box_text b))"
    using h(1) by (auto simp: box_agrees_def handleSave_start_def vap_screen_def split: option.splits if_splits)
  moreover have "(box_error b \<noteq> [] \<longrightarrow> y_load Y (box_text b) = None) \<and>
        (box_text b \<noteq> et_yaml e \<longrightarrow> (box_error b = [] \<longleftrightarrow> y_load Y (box_text b) \<noteq> None))"
    if "box = Some b" "vap_screen st = EditorScreen e" for b e
    using h e [OF that(2)] that(1) by (auto simp: box_agrees_def judged_def)
  ultimately show ?thesis unfolding s by blast
qed

theorem editor_saves_what_it_shows_witness:
  "\<exists>st b. vap_events toy_yaml (\<lambda>v. ''Invalid YAML'') True [Go (PolicyNewRoute True), Type ''x'', Type ''t''] (vap_page_init, None) = (st, Some b)
     \<and> box_text b = ''t'' \<and> sends (snd (vap_do toy_yaml (\<lambda>v. ''Invalid YAML'') True ClickSave (st, Some b))) = [vapApi_applyPolicy ''t'']"
proof -
  let ?err = "\<lambda>v :: string. ''Invalid YAML''"
  let ?es = "[Go (PolicyNewRoute True), Type ''x'', Type ''t'']"
  have l: "y_load toy_yaml ''t'' \<noteq> None" by (simp add: toy_yaml_def)
  let ?new = "openNew PolicyTarget vap_page_init"
  have up: "editor_up ?new" by (simp add: editor_up_iff openNew_def vap_page_init_def)
  have st: "vap_events toy_yaml ?err True ?es (vap_page_init, None) =
      (vap_typed ''t'' True (vap_typed ''x'' (y_load toy_yaml ''x'' \<noteq> None) ?new),
       Some \<lparr> box_key = Suc 0, box_text = ''t'', box_error = [] \<rparr>)"
    using l up by (simp add: draw_screen box_change_def box_draw_def box_mount_def Let_def)
      (simp add: editor_up_iff vap_typed_def openNew_def vap_page_init_def)
  let ?st = "vap_typed ''t'' True (vap_typed ''x'' (y_load toy_yaml ''x'' \<noteq> None) ?new)"
  have "\<exists>rq. sends (snd (handleSave_start ?st)) = [rq]"
    by (simp add: handleSave_start_def vap_typed_def openNew_def vap_page_init_def)
  moreover have "snd (vap_do toy_yaml ?err True ClickSave (?st, Some b)) = snd (handleSave_start ?st)" for b
    by (simp add: split_def Let_def)
  moreover have "vap_screen ?st = EditorScreen \<lparr> et_kind = PolicyTarget, et_name = None, et_yaml = [] \<rparr>"
    by (simp add: vap_screen_def vap_typed_def openNew_def vap_page_init_def)
  ultimately show ?thesis
    using editor_saves_what_it_shows [of ?err toy_yaml True ?es] unfolding st by (auto simp: save_request_def)
qed

text \<open>The network policy page gives its editor the policy's name for a key, and names repeat across namespaces.\<close>

definition cnp_box_draw :: "cnp_page \<Rightarrow> string yaml_box option \<Rightarrow> string yaml_box option" where
  "cnp_box_draw st box =
     (if editorOpen st \<and> np_mode st = YamlEditor
      then Some (box_draw (case np_editing st of Some e \<Rightarrow> cr_name e | None \<Rightarrow> ''new'') (yamlText st) box) else None)"

text \<open>C37: two policies of one name in different namespaces, both beyond the form, opened one right after
  the other (the history jumps from one address to the other): the editor goes on showing the first
  one's text, while Apply sends the second one's; and once a character is typed, the first one's
  text, so edited, is sent to the second policy.\<close>

theorem same_name_shows_other_policy:
  assumes "cnp_openEdit Y p st = Some st1" "np_mode st1 = YamlEditor"
    and "cnp_openEdit Y q st1 = Some st2" "np_mode st2 = YamlEditor"
    and "cr_name p = cr_name q" "trim (cr_rawYaml q) \<noteq> []" "\<not> np_saving st"
  shows "map_option box_text (cnp_box_draw st2 (cnp_box_draw st1 None)) = Some (cr_rawYaml p)
    \<and> sends (snd (cnp_save_start Y st2)) = [cnpApi_update (cr_name q) (cr_namespace q) (cr_scope q) (cr_rawYaml q)]
    \<and> (y_load Y v \<noteq> None \<and> trim v \<noteq> [] \<longrightarrow>
        sends (snd (cnp_save_start Y (types_into Y cnp_typed [v] st2))) = [cnpApi_update (cr_name q) (cr_namespace q) (cr_scope q) v])"
proof -
  have s1: "editorOpen st1" "np_editing st1 = Some p" "yamlText st1 = cr_rawYaml p" "np_saving st1 = np_saving st"
    using assms(1) by (auto simp: cnp_openEdit_def)
  have s2: "editorOpen st2" "np_editing st2 = Some q" "yamlText st2 = cr_rawYaml q" "yamlValid st2" "np_saving st2 = np_saving st"
    using assms(3) s1 by (auto simp: cnp_openEdit_def)
  show ?thesis
    using s1 s2 assms(2,4-7)
    by (auto simp: cnp_box_draw_def box_draw_def box_mount_def cnp_save_start_def cnp_canApply_def cnp_save_request_def outgoingYaml_def
        types_into_def cnp_typed_def)
qed

definition raw_record :: "string \<Rightarrow> string \<Rightarrow> cnp_record" where
  "raw_record ns raw = \<lparr> cr_name = ''deny'', cr_namespace = ns, cr_scope = ''namespace'', cr_selector = [], ingressRules = 0,
     egressRules = 0, hasL7 = False, defaultDeny = [], cr_createdBy = [], cr_createdAt = [], cr_rawYaml = raw \<rparr>"

theorem same_name_shows_other_policy_witness:
  "\<exists>st1 st2. cnp_openEdit toy_yaml (raw_record ''shop'' ''t'') cnp_page_init = Some st1 \<and>
     cnp_openEdit toy_yaml (raw_record ''stage'' ''f'') st1 = Some st2 \<and>
     map_option box_text (cnp_box_draw st2 (cnp_box_draw st1 None)) = Some ''t'' \<and>
     sends (snd (cnp_save_start toy_yaml st2)) = [cnpApi_update ''deny'' ''stage'' ''namespace'' ''f'']"
proof -
  have t: "tryParseCNPForm toy_yaml ''t'' = Some None" "tryParseCNPForm toy_yaml ''f'' = Some None"
    by code_simp+
  define st1 where "st1 = the (cnp_openEdit toy_yaml (raw_record ''shop'' ''t'') cnp_page_init)"
  have o1: "cnp_openEdit toy_yaml (raw_record ''shop'' ''t'') cnp_page_init = Some st1" "np_mode st1 = YamlEditor"
    by (simp_all add: st1_def cnp_openEdit_def raw_record_def t)
  define st2 where "st2 = the (cnp_openEdit toy_yaml (raw_record ''stage'' ''f'') st1)"
  have o2: "cnp_openEdit toy_yaml (raw_record ''stage'' ''f'') st1 = Some st2" "np_mode st2 = YamlEditor"
    by (simp_all add: st2_def cnp_openEdit_def raw_record_def t)
  have "trim (cr_rawYaml (raw_record ''stage'' ''f'')) \<noteq> []" by (simp add: raw_record_def string_eval)
  then show ?thesis
    using same_name_shows_other_policy [OF o1 o2] o1 o2 by (auto simp: raw_record_def cnp_page_init_def)
qed

end
