(* ===== verification/Frame.thy ===== *)
theory Frame
  imports AppShell Settings
begin

text \<open>
  The frame's own state: the sidebar that opens and closes (\<open>SidebarProvider\<close> and \<open>Sidebar\<close> of
  \<open>web/src/components/ui/sidebar.tsx\<close>, \<open>useIsMobile\<close> of \<open>web/src/hooks/use-mobile.ts\<close>), the rows the
  navigation draws in it (\<open>AppSidebar.tsx\<close>), and what the header shows (\<open>AppHeader.tsx\<close>). A run is
  a sequence of clicks, keys, resizes and reloads; the browser's window and cookie are part of the state.
\<close>

section \<open>The sidebar's state\<close>

record frame =
  fr_open :: bool
  fr_openMobile :: bool
  fr_isMobile :: bool
  fr_width :: nat
  fr_cookie :: "string option"

definition MOBILE_BREAKPOINT :: nat where
  "MOBILE_BREAKPOINT = 768"

definition SIDEBAR_KEYBOARD_SHORTCUT :: string where
  "SIDEBAR_KEYBOARD_SHORTCUT = ''b''"

text \<open>The media query of \<open>useIsMobile\<close>, in whole pixels.\<close>

definition below_breakpoint :: "nat \<Rightarrow> bool" where
  "below_breakpoint w \<longleftrightarrow> w \<le> MOBILE_BREAKPOINT - 1"

text \<open>The frame once it is mounted and its effects have run; \<open>AppLayout\<close> gives the provider no state to start from.\<close>

definition frame_mounted :: "nat \<Rightarrow> string option \<Rightarrow> frame" where
  "frame_mounted w c = \<lparr> fr_open = True, fr_openMobile = False, fr_isMobile = w < MOBILE_BREAKPOINT, fr_width = w, fr_cookie = c \<rparr>"

text \<open>The window changes its width; the query tells the page only when its answer changes.\<close>

definition window_resized :: "nat \<Rightarrow> frame \<Rightarrow> frame" where
  "window_resized w st =
     (if below_breakpoint w \<noteq> below_breakpoint (fr_width st)
      then st\<lparr> fr_width := w, fr_isMobile := w < MOBILE_BREAKPOINT \<rparr>
      else st\<lparr> fr_width := w \<rparr>)"

definition bool_text :: "bool \<Rightarrow> string" where
  "bool_text b = (if b then ''true'' else ''false'')"

definition setOpen :: "bool \<Rightarrow> frame \<Rightarrow> frame" where
  "setOpen v st = st\<lparr> fr_open := v, fr_cookie := Some (bool_text v) \<rparr>"

definition toggleSidebar :: "frame \<Rightarrow> frame" where
  "toggleSidebar st =
     (if fr_isMobile st then st\<lparr> fr_openMobile := \<not> fr_openMobile st \<rparr> else setOpen (\<not> fr_open st) st)"

text \<open>A key: its name, and whether Meta and Control are down.\<close>

definition handleKeyDown :: "string \<Rightarrow> bool \<Rightarrow> bool \<Rightarrow> frame \<Rightarrow> frame" where
  "handleKeyDown key meta ctrl st =
     (if key = SIDEBAR_KEYBOARD_SHORTCUT \<and> (meta \<or> ctrl) then toggleSidebar st else st)"

datatype frame_event =
  TriggerClicked | KeyDown string bool bool | SheetChanged bool | Resized nat | Followed string | Reloaded

text \<open>A link of the navigation changes the address and nothing of the frame; a reload mounts it anew.\<close>

fun frame_step :: "frame_event \<Rightarrow> frame \<Rightarrow> frame" where
  "frame_step TriggerClicked st = toggleSidebar st"
| "frame_step (KeyDown key meta ctrl) st = handleKeyDown key meta ctrl st"
| "frame_step (SheetChanged v) st = (if fr_isMobile st then st\<lparr> fr_openMobile := v \<rparr> else st)"
| "frame_step (Resized w) st = window_resized w st"
| "frame_step (Followed to') st = st"
| "frame_step Reloaded st = frame_mounted (fr_width st) (fr_cookie st)"

section \<open>What is drawn\<close>

datatype collapsible = Offcanvas | IconStrip | NeverCollapses

datatype sidebar_view =
  PlainSidebar
| SheetSidebar bool
| DesktopSidebar (ds_state: string) (ds_collapsible: "collapsible option")

definition sidebar_state :: "frame \<Rightarrow> string" where
  "sidebar_state st = (if fr_open st then ''expanded'' else ''collapsed'')"

definition Sidebar :: "collapsible \<Rightarrow> frame \<Rightarrow> sidebar_view" where
  "Sidebar c st =
     (if c = NeverCollapses then PlainSidebar
      else if fr_isMobile st then SheetSidebar (fr_openMobile st)
      else DesktopSidebar (sidebar_state st) (if sidebar_state st = ''collapsed'' then Some c else None))"

text \<open>Whether its rows are on screen: the desktop form is drawn from the breakpoint on, and collapsed
  off the canvas it is moved out of the window.\<close>

fun sidebar_seen :: "nat \<Rightarrow> sidebar_view \<Rightarrow> bool" where
  "sidebar_seen w PlainSidebar = True"
| "sidebar_seen w (SheetSidebar opened) = opened"
| "sidebar_seen w (DesktopSidebar s c) = (MOBILE_BREAKPOINT \<le> w \<and> c \<noteq> Some Offcanvas)"

datatype side_row =
  SideLink (row_to: string) (row_label: string) (row_active: bool)
| SideGroup (row_label: string) (row_expanded: bool)

definition side_link :: "string \<Rightarrow> nav_item \<Rightarrow> side_row" where
  "side_link pathname i = SideLink (nav_to i) (nav_label i) (isActive pathname (nav_to i))"

definition group_rows :: "string \<Rightarrow> bool \<Rightarrow> (string \<Rightarrow> bool) \<Rightarrow> nav_group \<Rightarrow> side_row list" where
  "group_rows pathname admin opened g =
     SideGroup (group_label g) (opened (group_label g))
       # (if opened (group_label g) then map (side_link pathname) (shown_items admin g) else [])"

definition AppSidebar :: "string \<Rightarrow> bool \<Rightarrow> (string \<Rightarrow> bool) \<Rightarrow> side_row list" where
  "AppSidebar pathname admin opened =
     [side_link pathname (nav ''/dashboard'' ''Dashboard''), side_link pathname (nav ''/network/topology'' ''Network Topology'')]
     @ concat (map (group_rows pathname admin opened) (visible_groups admin))"

fun highlighted :: "side_row \<Rightarrow> bool" where
  "highlighted (SideLink t l a) = a"
| "highlighted (SideGroup l e) = False"

section \<open>The header\<close>

text \<open>The mode is asked for once, when the header mounts; a failure leaves what was there.\<close>

definition header_mode_init :: protect_mode where
  "header_mode_init = Monitoring"

definition header_mode_loaded :: "protect_mode option \<Rightarrow> protect_mode \<Rightarrow> protect_mode" where
  "header_mode_loaded res m = (case res of Some m' \<Rightarrow> m' | None \<Rightarrow> m)"

definition to_upper :: "string \<Rightarrow> string" where
  "to_upper = map (\<lambda>c. if 97 \<le> (of_char c :: nat) \<and> (of_char c :: nat) \<le> 122 then char_of ((of_char c :: nat) - 32) else c)"

fun modeVariant :: "protect_mode \<Rightarrow> string" where
  "modeVariant Protect = ''destructive''"
| "modeVariant MixedMode = ''secondary''"
| "modeVariant Monitoring = ''outline''"

record header_view =
  hv_crumbs :: "crumb list"
  hv_badge :: string
  hv_variant :: string
  hv_user :: string

definition AppHeader :: "string \<Rightarrow> auth_user option \<Rightarrow> protect_mode \<Rightarrow> header_view" where
  "AppHeader pathname user m =
     \<lparr> hv_crumbs = useBreadcrumbs pathname, hv_badge = to_upper (mode_name m), hv_variant = modeVariant m,
       hv_user = (case user of None \<Rightarrow> [] | Some u \<Rightarrow> au_username u) \<rparr>"

section \<open>Properties\<close>

abbreviation frame_run :: "frame_event list \<Rightarrow> frame \<Rightarrow> frame" where
  "frame_run es st \<equiv> fold frame_step es st"

abbreviation frame_seen :: "frame \<Rightarrow> bool" where
  "frame_seen st \<equiv> sidebar_seen (fr_width st) (Sidebar Offcanvas st)"

lemma below_breakpoint_iff: "below_breakpoint w \<longleftrightarrow> w < MOBILE_BREAKPOINT"
  by (auto simp: below_breakpoint_def MOBILE_BREAKPOINT_def)

text \<open>The page hears of a width only when it crosses the breakpoint, which is enough.\<close>

lemma step_mobile:
  "fr_isMobile st = (fr_width st < MOBILE_BREAKPOINT) \<Longrightarrow>
     fr_isMobile (frame_step e st) = (fr_width (frame_step e st) < MOBILE_BREAKPOINT)"
  by (cases e)
    (auto simp: toggleSidebar_def handleKeyDown_def setOpen_def window_resized_def frame_mounted_def below_breakpoint_iff)

lemma run_mobile:
  "fr_isMobile st = (fr_width st < MOBILE_BREAKPOINT) \<Longrightarrow>
     fr_isMobile (frame_run es st) = (fr_width (frame_run es st) < MOBILE_BREAKPOINT)"
  by (induction es arbitrary: st) (simp_all add: step_mobile)

lemma mounted_mobile: "fr_isMobile (frame_mounted w c) = (fr_width (frame_mounted w c) < MOBILE_BREAKPOINT)"
  by (simp add: frame_mounted_def)

lemma toggle_flips:
  assumes "fr_isMobile st = (fr_width st < MOBILE_BREAKPOINT)"
  shows "frame_seen (toggleSidebar st) \<longleftrightarrow> \<not> frame_seen st"
  using assms by (auto simp: toggleSidebar_def setOpen_def Sidebar_def sidebar_state_def)

text \<open>Whatever the window, the keys, the links and the reloads so far, the header's trigger and the
  shortcut bring the sidebar on screen when it is not there and take it away when it is; pressed twice,
  they leave everything as it was but the cookie.\<close>

theorem sidebar_trigger_works:
  defines "st c w es \<equiv> frame_run es (frame_mounted w c)"
  shows "(frame_seen (frame_step TriggerClicked (st c w es)) \<longleftrightarrow> \<not> frame_seen (st c w es)) \<and>
    frame_step (KeyDown ''b'' False True) (st c w es) = frame_step TriggerClicked (st c w es) \<and>
    (frame_step TriggerClicked (frame_step TriggerClicked (st c w es)))\<lparr> fr_cookie := fr_cookie (st c w es) \<rparr> = st c w es"
proof (intro conjI)
  show "frame_seen (frame_step TriggerClicked (st c w es)) \<longleftrightarrow> \<not> frame_seen (st c w es)"
    unfolding st_def by (simp add: toggle_flips [OF run_mobile [OF mounted_mobile]] del: sidebar_seen.simps)
  show "frame_step (KeyDown ''b'' False True) (st c w es) = frame_step TriggerClicked (st c w es)"
    by (simp add: handleKeyDown_def SIDEBAR_KEYBOARD_SHORTCUT_def)
  show "(frame_step TriggerClicked (frame_step TriggerClicked (st c w es)))\<lparr> fr_cookie := fr_cookie (st c w es) \<rparr> = st c w es"
    by (simp add: toggleSidebar_def setOpen_def)
qed

text \<open>A sidebar closed on the desktop is open again after a reload, whatever the cookie says; and on a
  phone the sheet stays over the page a link of it leads to.\<close>

lemma collapse_forgotten:
  assumes "\<not> fr_isMobile st" "fr_open st" "MOBILE_BREAKPOINT \<le> fr_width st"
  shows "\<not> frame_seen (frame_step TriggerClicked st)"
    "fr_cookie (frame_run [TriggerClicked, Reloaded] st) = Some ''false''"
    "frame_seen (frame_run [TriggerClicked, Reloaded] st)"
  using assms by (simp_all add: toggleSidebar_def setOpen_def bool_text_def frame_mounted_def Sidebar_def sidebar_state_def)

lemma sheet_stays: "frame_seen (frame_run [TriggerClicked, Followed to'] (frame_mounted 390 c))"
  by (simp add: toggleSidebar_def frame_mounted_def Sidebar_def MOBILE_BREAKPOINT_def)

text \<open>The row of a link, and the rows of a group.\<close>

lemma highlighted_side_link [simp]: "highlighted (side_link p i) = isActive p (nav_to i)"
  by (simp add: side_link_def)

lemma highlighted_group:
  "filter highlighted (group_rows p admin opened g) =
     (if opened (group_label g) then map (side_link p) (filter (\<lambda>i. isActive p (nav_to i)) (shown_items admin g)) else [])"
  by (simp add: group_rows_def filter_map comp_def)

lemma group_labels_distinct: "distinct (map group_label GROUPS)"
  by (simp add: GROUPS_def)

lemma group_items_active:
  assumes "g \<in> set (visible_groups admin)" "i \<in> set (shown_items admin g)"
  shows "nav_to i \<in> set (sidebar_links True)"
  using assms viewer_links_sub [of admin] by (auto simp: sidebar_links_def)

text \<open>Two groups never hold the current page.\<close>

lemma one_group_holds_page:
  assumes "g \<in> set GROUPS" "h \<in> set GROUPS" "i \<in> set (group_items g)" "j \<in> set (group_items h)"
    "isActive p (nav_to i)" "isActive p (nav_to j)"
  shows "nav_to i = nav_to j"
proof -
  have all: "nav_to k \<in> set (sidebar_links True)" if "f \<in> set GROUPS" "k \<in> set (group_items f)" for f k
    using that by (auto simp: sidebar_links_def visible_groups_def shown_items_def)
  show ?thesis
    using active_comparable [OF assms(5,6)] links_apart [OF all [OF assms(1,3)] all [OF assms(2,4)]]
      links_apart [OF all [OF assms(2,4)] all [OF assms(1,3)]] by auto
qed

lemma groups_apart:
  "list_all (\<lambda>g. list_all (\<lambda>h. g = h \<or> list_all (\<lambda>i. list_all (\<lambda>j. nav_to i \<noteq> nav_to j) (group_items h)) (group_items g)) GROUPS) GROUPS"
  by code_simp

lemma item_of_one_group:
  assumes "g \<in> set GROUPS" "h \<in> set GROUPS" "i \<in> set (group_items g)" "j \<in> set (group_items h)" "nav_to i = nav_to j"
  shows "g = h"
  using assms groups_apart unfolding list_all_iff by blast

lemma opened_on_load:
  assumes "g \<in> set GROUPS" "i \<in> set (group_items g)" "isActive p (nav_to i)"
  shows "open_init p = (\<lambda>_. False)(group_label g := True)"
proof -
  let ?P = "\<lambda>g. list_ex (\<lambda>i. isActive p (nav_to i)) (group_items g)"
  have "?P g" using assms by (auto simp: list_ex_iff)
  then obtain h where h: "find ?P GROUPS = Some h"
    using assms(1) by (metis (lifting) find_None_iff not_None_eq)
  then obtain j where "h \<in> set GROUPS" "j \<in> set (group_items h)" "isActive p (nav_to j)"
    by (auto simp: find_Some_iff list_ex_iff)
  then have "h = g" using one_group_holds_page assms item_of_one_group by metis
  then show ?thesis using h by (simp add: open_init_def)
qed

text \<open>The links at the top, and a group's.\<close>

lemma top_or_group:
  assumes "l \<in> set (sidebar_links admin)"
  shows "l \<in> {''/dashboard'', ''/network/topology''} \<or>
    (\<exists>g \<in> set (visible_groups admin). \<exists>i \<in> set (shown_items admin g). nav_to i = l)"
  using assms by (auto simp: sidebar_links_def)

lemma active_rows:
  assumes "l \<in> set (sidebar_links admin)" "isActive p l"
  shows "\<exists>r \<in> set (AppSidebar p admin (open_init p)). highlighted r \<and> row_to r = l"
  using top_or_group [OF assms(1)]
proof (elim disjE bexE)
  assume "l \<in> {''/dashboard'', ''/network/topology''}"
  then show ?thesis using assms(2) by (auto simp: AppSidebar_def side_link_def nav_def)
next
  fix g i assume g: "g \<in> set (visible_groups admin)" and i: "i \<in> set (shown_items admin g)" and l: "nav_to i = l"
  have "open_init p (group_label g)"
    using opened_on_load [of g i p] g i l assms(2) by (auto simp: visible_groups_def shown_items_def)
  then have "side_link p i \<in> set (group_rows p admin (open_init p) g)" using i by (simp add: group_rows_def)
  then have "side_link p i \<in> set (AppSidebar p admin (open_init p))" using g by (auto simp: AppSidebar_def)
  moreover have "row_to (side_link p i) = l" using l by (simp add: side_link_def)
  ultimately show ?thesis using assms(2) l by (metis highlighted_side_link)
qed

lemma row_links:
  assumes "r \<in> set (AppSidebar p admin opened)" "highlighted r"
  shows "row_to r \<in> set (sidebar_links True) \<and> isActive p (row_to r)"
  using assms group_items_active
  by (fastforce simp: AppSidebar_def group_rows_def side_link_def nav_def sidebar_links_def split: if_splits)

text \<open>C38: After a load, a reload or a shared link, the navigation shows where the user is: if one of the
  links they may use leads to the current page, its group is open and its row is drawn highlighted, and
  no other row is.\<close>

theorem reload_shows_where_you_are:
  assumes "l \<in> set (sidebar_links admin)" "isActive p l"
  shows "row_to ` {r \<in> set (AppSidebar p admin (open_init p)). highlighted r} = {l}"
proof -
  have "row_to r = l" if "r \<in> set (AppSidebar p admin (open_init p))" "highlighted r" for r
    using row_links [OF that] assms viewer_links_sub [of admin] active_comparable [of p "row_to r" l]
      links_apart [of "row_to r" True l] links_apart [of l True "row_to r"] by auto
  then show ?thesis using active_rows [OF assms] by (auto simp: image_iff)
qed

theorem reload_shows_where_you_are_witness:
  "row_to ` {r \<in> set (AppSidebar ''/security/alerts/7/edit'' True (open_init ''/security/alerts/7/edit'')). highlighted r}
     = {''/security/alerts''}"
  by (rule reload_shows_where_you_are) (simp_all add: sidebar_links_eval isActive_def)

text \<open>Going there from another page does not open the group: on the syslog page reached from the
  dashboard no row is highlighted until the group is opened by hand.\<close>

lemma navigated_group_stays_closed:
  "filter highlighted (AppSidebar ''/security/rsyslog'' True (open_init ''/dashboard'')) = []"
  "map row_to (filter highlighted (AppSidebar ''/security/rsyslog'' True (toggle_group ''Settings'' (open_init ''/dashboard''))))
     = [''/security/rsyslog'']"
  by code_simp+

text \<open>The header's badge is of the moment it was mounted: the mode page switches the mode and shows it,
  the header goes on showing the one before; and it reads MONITORING when nobody could tell.\<close>

lemma badge_goes_stale:
  assumes "mode_switch_done Protect Done st = (st', es)"
  shows "mode_status (mp_mode st') = ''ON''"
    "hv_badge (AppHeader ''/cluster/mode'' user (header_mode_loaded (Some Monitoring) header_mode_init)) = ''MONITORING''"
    "hv_badge (AppHeader ''/cluster/mode'' user (header_mode_loaded None header_mode_init)) = ''MONITORING''"
  using assms by (auto simp: mode_switch_done_def) code_simp+

end
