(* ===== verification/TracingView.thy ===== *)
theory TracingView
  imports TracingPage
begin

text \<open>
  What the tracing policy editor puts on the screen: the form's sections
  (\<open>web/src/components/PolicyForm\<close>) and the page's own controls (\<open>web/src/pages/PolicyEditPage.tsx\<close>). A
  process rule shows its first binary, a blacklist rule its first path; a whitelist shows one group over all rules.
  The properties are in \<open>TracingViewProps\<close>.
\<close>

section \<open>What the drop-downs offer\<close>

definition TRACE_MODE_ITEMS :: "(trace_mode \<times> string) list" where
  "TRACE_MODE_ITEMS = [(TraceWhitelist, ''Whitelist''), (TraceBlacklist, ''Blacklist'')]"

definition PERMISSION_ITEMS :: "(permission \<times> string) list" where
  "PERMISSION_ITEMS = [(PermAll, ''Read & Write''), (PermRead, ''Read only''), (PermWrite, ''Write only'')]"

definition POLICY_MODE_ITEMS :: "(string \<times> string) list" where
  "POLICY_MODE_ITEMS = [(''Monitoring'', ''Monitoring''), (''Protect'', ''Protect'')]"

section \<open>The sections\<close>

definition shown_process_mode :: "tracing_form \<Rightarrow> trace_mode" where
  "shown_process_mode f = (case tf_processMode f of Some m \<Rightarrow> m | None \<Rightarrow> TraceWhitelist)"

definition shown_file_mode :: "tracing_form \<Rightarrow> trace_mode" where
  "shown_file_mode f = (case tf_fileMode f of Some m \<Rightarrow> m | None \<Rightarrow> TraceBlacklist)"

text \<open>A list of paths: its caption, and each row with whether it is told to be absolute.\<close>

record path_list_view =
  pv_label :: string
  pv_hint :: string
  pv_rows :: "(string \<times> bool) list"

definition PathList :: "string \<Rightarrow> string \<Rightarrow> string list \<Rightarrow> path_list_view" where
  "PathList label hint vs = \<lparr> pv_label = label, pv_hint = hint, pv_rows = map (\<lambda>v. (v, relative_hint v)) vs \<rparr>"

definition PermissionSelect :: "string \<Rightarrow> permission option \<Rightarrow> shown" where
  "PermissionSelect label p = select_field label PERMISSION_ITEMS (case p of Some q \<Rightarrow> q | None \<Rightarrow> PermAll)"

datatype file_view =
  AddOnly
| FileGroup path_list_view shown path_list_view
| FileRules "(shown \<times> shown \<times> path_list_view) list"

definition first_path :: "file_rule \<Rightarrow> string" where
  "first_path r = (case fr_paths r of p # _ \<Rightarrow> p | [] \<Rightarrow> [])"

definition file_rule_view :: "file_rule \<Rightarrow> shown \<times> shown \<times> path_list_view" where
  "file_rule_view r = (TextField ''Path'' (first_path r) [], PermissionSelect ''Permission'' (fr_permission r),
     PathList ''Exceptions'' ''(optional: these processes bypass this rule)'' (excepted r))"

definition FileSection :: "trace_mode \<Rightarrow> file_rule list \<Rightarrow> file_view" where
  "FileSection mode rules =
     (if mode = TraceWhitelist then
        (if rules = [] then AddOnly
         else FileGroup (PathList ''Excluded paths'' ''(everything else is monitored)'' (concat (map fr_paths rules)))
           (PermissionSelect ''Monitored access'' (Some (shared_permission rules)))
           (PathList ''Exception processes'' ''(optional: their access is not monitored)'' (concat (map excepted rules))))
      else FileRules (map file_rule_view rules))"

definition process_hint :: "trace_mode \<Rightarrow> string" where
  "process_hint m = (if m = TraceWhitelist
     then ''Whitelist: only the binaries you list are allowed to run. Everything else is blocked.''
     else ''Blacklist: only the binaries you list are blocked. Everything else is allowed.'')"

definition file_hint :: "trace_mode \<Rightarrow> string" where
  "file_hint m = (if m = TraceWhitelist
     then ''Whitelist: only the paths you list are allowed. Everything else is blocked.''
     else ''Blacklist: only the paths you list are blocked. Everything else is allowed.'')"

section \<open>The form and its page\<close>

text \<open>The label rows are the component's own.\<close>

record trace_inputs =
  ti_name :: shown
  ti_namespace :: shown
  ti_labels :: "(shown \<times> shown) list"
  ti_processMode :: shown
  ti_processHint :: string
  ti_process :: "string list"
  ti_fileMode :: shown
  ti_fileHint :: string
  ti_file :: file_view
  ti_badge :: string

definition form_namespace_text :: "tracing_form \<Rightarrow> string" where
  "form_namespace_text f = (case tf_namespace f of Some n \<Rightarrow> n | None \<Rightarrow> [])"

definition trace_inputs :: "string list \<Rightarrow> labels \<times> tracing_form \<Rightarrow> trace_inputs" where
  "trace_inputs nss = (\<lambda>(rows, f). \<lparr> ti_name = TextField ''Policy Name'' (tf_name f) [],
     ti_namespace = namespace_field ''Namespace'' (Some ''cluster-wide'') None nss (form_namespace_text f),
     ti_labels = map (\<lambda>(k, v). (TextField ''Key'' k [], TextField ''Value'' v [])) rows,
     ti_processMode = select_field ''Mode'' TRACE_MODE_ITEMS (shown_process_mode f),
     ti_processHint = process_hint (shown_process_mode f), ti_process = process_rows f,
     ti_fileMode = select_field ''Mode'' TRACE_MODE_ITEMS (shown_file_mode f),
     ti_fileHint = file_hint (shown_file_mode f), ti_file = FileSection (shown_file_mode f) (tf_file f),
     ti_badge = (if form_namespace_text f \<noteq> [] then ''TracingPolicyNamespaced'' else ''TracingPolicy'') \<rparr>)"

text \<open>What the preview of the pods below the rows is asked for.\<close>

definition pods_asked :: "labels \<times> tracing_form \<Rightarrow> string \<times> labels" where
  "pods_asked = (\<lambda>(rows, f). (form_namespace_text f, completePairs rows))"

record trace_screen =
  ts_title :: string
  ts_mode :: shown
  ts_openInForm :: bool
  ts_button :: "string \<times> bool"
  ts_inputs :: "trace_inputs option"
  ts_pane :: "string option"

text \<open>An administrator's page once it is loaded; the form and its preview are there in the form editor only.\<close>

definition trace_screen :: "string option \<Rightarrow> edit_page \<Rightarrow> labels \<Rightarrow> form_preview \<Rightarrow> trace_screen" where
  "trace_screen name st rows fp = \<lparr>
     ts_title = (case name of Some n \<Rightarrow> if n \<noteq> [] then ''Edit '' @ n else ''New Policy'' | None \<Rightarrow> ''New Policy''),
     ts_mode = select_field ''Mode'' POLICY_MODE_ITEMS (policyMode st),
     ts_openInForm = (ep_mode st = TraceYamlEditor \<and> formCapable st),
     ts_button = (if ep_loading st then ''Applying...'' else ''Apply'', \<not> ep_loading st),
     ts_inputs = (if ep_mode st = TraceFormEditor then Some (trace_inputs (ep_namespaces st) (rows, formValues st)) else None),
     ts_pane = (if ep_mode st = TraceFormEditor
       then Some (if previewError fp \<noteq> [] then previewError fp else yamlPreview fp) else None) \<rparr>"

end
