(* ===== verification/TracingViewProps.thy ===== *)
theory TracingViewProps
  imports TracingPageProps TracingView
begin

text \<open>
  What the tracing form shows decides what the server builds from it, as for the two other kinds of
  policy; the exception is a pod label without a value, which the rows show alike whether the policy has it or not.
\<close>

section \<open>Complete pairs are complete\<close>

lemma index_insert_append:
  "\<forall>(k', v') \<in> set o'. js_index k' \<and> nat_of_digits k' < nat_of_digits k \<Longrightarrow> index_insert k v o' = o' @ [(k, v)]"
  by (induction k v o' rule: index_insert.induct) auto

lemma obj_set_append:
  assumes "js_ordered (map fst o' @ [k])" "k \<notin> fst ` set o'"
  shows "obj_set k v o' = o' @ [(k, v)]"
proof (cases "js_index k")
  case True
  have "js_index a \<and> nat_of_digits a < nat_of_digits k" if "a \<in> fst ` set o'" for a
  proof -
    have "js_index a \<and> nat_of_digits a \<le> nat_of_digits k"
      using assms(1) that True by (auto simp: js_ordered_def sorted_wrt_append)
    moreover have "nat_of_digits a \<noteq> nat_of_digits k" using js_index_inj True calculation assms(2) that by metis
    ultimately show ?thesis by simp
  qed
  then show ?thesis using True assms(2) by (force simp: obj_set_def intro!: index_insert_append)
qed (use assms(2) in \<open>simp add: obj_set_def\<close>)

definition trimmed_pairs :: "labels \<Rightarrow> bool" where
  "trimmed_pairs ls \<longleftrightarrow> (\<forall>(k, v) \<in> set ls. trim k = k \<and> trim v = v \<and> k \<noteq> [] \<and> v \<noteq> [])"

lemma completePairs_run:
  "js_ordered (map fst (acc @ es)) \<Longrightarrow> distinct (map fst (acc @ es)) \<Longrightarrow> trimmed_pairs es \<Longrightarrow>
     foldl (\<lambda>out (key, value). let k = trim key; v = trim value
       in if k \<noteq> [] \<and> v \<noteq> [] then obj_set k v out else out) acc es = acc @ es"
proof (induction es arbitrary: acc)
  case (Cons e es)
  obtain k v where e: "e = (k, v)" by (cases e)
  have "js_ordered (map fst acc @ [k])" using Cons.prems(1) e by (auto simp: js_ordered_def sorted_wrt_append)
  moreover have "k \<notin> fst ` set acc" using Cons.prems(2) e by auto
  ultimately have "obj_set k v acc = acc @ [(k, v)]" by (rule obj_set_append)
  moreover have "trim k = k" "trim v = v" "k \<noteq> []" "v \<noteq> []" using Cons.prems(3) e by (auto simp: trimmed_pairs_def)
  ultimately show ?case using Cons.IH [of "acc @ [(k, v)]"] Cons.prems e by (simp add: trimmed_pairs_def)
qed simp

lemma completePairs_ordered_fold:
  "js_ordered (map fst acc) \<Longrightarrow> js_ordered (map fst (foldl (\<lambda>out (key, value). let k = trim key; v = trim value
     in if k \<noteq> [] \<and> v \<noteq> [] then obj_set k v out else out) acc es))"
  by (induction es arbitrary: acc) (auto simp: Let_def js_ordered_obj_set)

lemma completePairs_trimmed: "trimmed_pairs (completePairs es)"
proof -
  have "trim k = k \<and> trim v = v \<and> k \<noteq> [] \<and> v \<noteq> []" if "(k, v) \<in> set (completePairs es)" for k v
  proof -
    have "map_of (completePairs es) k = Some v" using that completePairs_distinct by (simp add: map_of_eq_Some_iff)
    then have "(k, v) \<in> set (complete_rows es)" using map_of_SomeD by (fastforce simp: completePairs_map)
    then show ?thesis by (auto simp: complete_rows_def)
  qed
  then show ?thesis by (auto simp: trimmed_pairs_def)
qed

lemma completePairs_idem [simp]: "completePairs (completePairs es) = completePairs es"
proof -
  have "js_ordered (map fst (completePairs es))" by (simp add: completePairs_def completePairs_ordered_fold)
  then show ?thesis
    using completePairs_run [of "[]" "completePairs es"] completePairs_distinct [of es] completePairs_trimmed [of es]
    by (simp add: completePairs_def [of "completePairs es"])
qed

section \<open>Forms an operator can come to\<close>

definition rows_single :: "tracing_form \<Rightarrow> bool" where
  "rows_single f \<longleftrightarrow> (\<forall>bs \<in> set (tf_process f). length bs = 1) \<and>
     (shown_file_mode f = TraceBlacklist \<longrightarrow> (\<forall>r \<in> set (tf_file f). length (fr_paths r) = 1))"

text \<open>The edits of the form but those of the label rows.\<close>

inductive trace_edit :: "tracing_form \<Rightarrow> tracing_form \<Rightarrow> bool" where
  te_name: "trace_edit f (f\<lparr> tf_name := v \<rparr>)"
| te_namespace: "trace_edit f (f\<lparr> tf_namespace := (if v \<noteq> [] then Some v else None) \<rparr>)"
| te_mode: "trace_edit f (f\<lparr> tf_processMode := Some m \<rparr>)"
| te_process: "trace_edit f (setProcessBinaries bins f)"
| te_fileMode: "trace_edit f (setFileMode m f)"
| te_open: "shown_file_mode f = TraceWhitelist \<Longrightarrow> trace_edit f (setFileRules whitelist_open f)"
| te_close: "shown_file_mode f = TraceWhitelist \<Longrightarrow> trace_edit f (setFileRules [] f)"
| te_write: "shown_file_mode f = TraceWhitelist \<Longrightarrow> trace_edit f (setFileRules (whitelist_write patch (tf_file f)) f)"
| te_path: "trace_edit f (setFileRules (blacklist_update i (\<lambda>r. r\<lparr> fr_paths := [v] \<rparr>) (tf_file f)) f)"
| te_permission: "trace_edit f (setFileRules (blacklist_update i (\<lambda>r. r\<lparr> fr_permission := Some q \<rparr>) (tf_file f)) f)"
| te_except: "trace_edit f (setFileRules (blacklist_update i (\<lambda>r. r\<lparr> fr_except := Some vs \<rparr>) (tf_file f)) f)"
| te_add: "trace_edit f (setFileRules (blacklist_add (tf_file f)) f)"
| te_remove: "trace_edit f (setFileRules (blacklist_remove i (tf_file f)) f)"

definition trace_opened :: "yaml_lib \<Rightarrow> tracing_form \<Rightarrow> bool" where
  "trace_opened Y f \<longleftrightarrow> f = EMPTY_FORM \<or> (\<exists>d. f = prefilled d) \<or> (\<exists>raw. yamlToForm Y raw = Some (Some f))"

inductive trace_reached :: "yaml_lib \<Rightarrow> labels \<times> tracing_form \<Rightarrow> bool" for Y where
  opened: "trace_opened Y f \<Longrightarrow> completePairs (selector_entries f) = selector_entries f \<Longrightarrow> trace_reached Y (selector_entries f, f)"
| labels_edited: "trace_reached Y s \<Longrightarrow> trace_reached Y (edit_labels change s)"
| form_edited: "trace_reached Y (rows, f) \<Longrightarrow> trace_edit f g \<Longrightarrow> trace_reached Y (rows, g)"

lemma set_map_at: "x \<in> set (map_at i g xs) \<Longrightarrow> x \<in> set xs \<or> (\<exists>y \<in> set xs. x = g y)"
  by (metis in_set_conv_nth length_map_at nth_map_at)

lemmas file_edits = setFileRules_def blacklist_update_def blacklist_add_def blacklist_remove_def blank_file_rule_def
  shown_file_mode_def rows_single_def

lemma edit_single: "trace_edit f g \<Longrightarrow> rows_single f \<Longrightarrow> rows_single g"
proof (induction rule: trace_edit.induct)
  case (te_fileMode f m)
  then show ?case by (cases m) (auto simp: setFileMode_def file_edits Let_def)
qed (auto simp: file_edits setProcessBinaries_def dest!: set_map_at dest: set_remove_at [THEN subsetD])

lemma edit_selector: "trace_edit f g \<Longrightarrow> tf_podSelector g = tf_podSelector f"
  by (induction rule: trace_edit.induct) (auto simp: setProcessBinaries_def setFileMode_def setFileRules_def Let_def)


text \<open>A loop keeps what each round keeps.\<close>

lemma loop_keeps:
  assumes "\<And>x s s'. P s \<Longrightarrow> body x s = Some (Some s') \<Longrightarrow> P s'" "P s" "loop body xs s = Some (Some s')"
  shows "P s'"
  using assms(2,3) by (induction xs arbitrary: s) (auto split: option.splits intro: assms(1))

definition reader_single :: "trace_reader \<Rightarrow> bool" where
  "reader_single s \<longleftrightarrow> (\<forall>bs \<in> set (rd_process s). length bs = 1) \<and>
     (rd_fileMode s \<noteq> Some TraceWhitelist \<longrightarrow> (\<forall>r \<in> set (rd_file s). length (fr_paths r) = 1))"

lemmas loop_single = loop_keeps [where P = reader_single]

lemma push_single: "push_binaries vs s = Some s' \<Longrightarrow> reader_single s' = reader_single s"
  by (auto simp: push_binaries_def reader_single_def)

lemma mode_single [simp]: "reader_single (s\<lparr> processModeSeen := x, rd_processMode := m \<rparr>) = reader_single s"
  by (simp add: reader_single_def)

lemma process_arg_single: "reader_single s \<Longrightarrow> read_process_arg ma s = Some (Some s') \<Longrightarrow> reader_single s'"
  by (auto simp: read_process_arg_def split: Option.bind_splits option.splits if_splits dest!: push_single)

lemma binaries_single:
  "reader_single s \<Longrightarrow> do { vs \<leftarrow> list_field iter mb ''values''; map_option Some (push_binaries vs s) } = Some (Some s') \<Longrightarrow> reader_single s'"
  by (auto split: Option.bind_splits dest!: push_single)

lemma loops_single:
  "loop read_process_arg xs s = Some (Some s') \<Longrightarrow> reader_single s \<Longrightarrow> reader_single s'"
  "loop (\<lambda>mb s. do { vs \<leftarrow> list_field iter mb ''values''; map_option Some (push_binaries vs s) }) xs s = Some (Some s')
     \<Longrightarrow> reader_single s \<Longrightarrow> reader_single s'"
  by (erule loop_single [rotated 2], erule (1) process_arg_single, assumption)
    (erule loop_single [rotated 2], erule (1) binaries_single, assumption)

lemma process_selector_single: "reader_single s \<Longrightarrow> read_process_selector sel s = Some (Some s') \<Longrightarrow> reader_single s'"
  by (auto simp: read_process_selector_def split: Option.bind_splits if_splits
    dest: loops_single)

lemma file_arg_single: "reader_single s \<Longrightarrow> read_file_arg bins p ma s = Some (Some s') \<Longrightarrow> reader_single s'"
  by (auto simp: read_file_arg_def reader_single_def Let_def split: Option.bind_splits option.splits if_splits trace_mode.splits)

lemma file_loop_single: "loop (read_file_arg bins p) xs s = Some (Some s') \<Longrightarrow> reader_single s \<Longrightarrow> reader_single s'"
  by (erule loop_single [rotated 2], erule (1) file_arg_single, assumption)

lemma file_selector_single: "reader_single s \<Longrightarrow> read_file_selector sel s = Some (Some s') \<Longrightarrow> reader_single s'"
  by (auto simp: read_file_selector_def split: Option.bind_splits option.splits prod.splits if_splits
    dest: file_loop_single)

lemma selectors_single:
  assumes "\<And>x s s'. reader_single s \<Longrightarrow> body x s = Some (Some s') \<Longrightarrow> reader_single s'"
    and "reader_single s" "read_selectors body ops kp s = Some (Some s')"
  shows "reader_single s'"
  using assms(2,3) loop_single [OF assms(1)]
  by (auto simp: read_selectors_def split: Option.bind_splits if_splits)

lemma kinds_single:
  "read_selectors read_process_selector ops kp s = Some (Some s') \<Longrightarrow> reader_single s \<Longrightarrow> reader_single s'"
  "read_selectors read_file_selector ops kp s = Some (Some s') \<Longrightarrow> reader_single s \<Longrightarrow> reader_single s'"
  by (erule selectors_single [rotated 2], erule (1) process_selector_single, assumption)
    (erule selectors_single [rotated 2], erule (1) file_selector_single, assumption)

lemma kprobe_single: "reader_single s \<Longrightarrow> read_kprobe kp s = Some (Some s') \<Longrightarrow> reader_single s'"
  by (auto simp: read_kprobe_def split: Option.bind_splits option.splits if_splits
    dest: kinds_single)

lemma opened_single: "yamlToForm Y raw = Some (Some f) \<Longrightarrow> rows_single f"
proof -
  assume "yamlToForm Y raw = Some (Some f)"
  then obtain kps s where
    s: "loop read_kprobe kps \<lparr> rd_process = [], rd_file = [], rd_processMode = TraceWhitelist, rd_fileMode = None, processModeSeen = None \<rparr> = Some (Some s)"
    and f: "tf_process f = rd_process s" "tf_fileMode f = rd_fileMode s" "tf_file f = rd_file s"
    by (auto simp: yamlToForm_def Let_def split: if_splits option.splits Option.bind_splits)
  have "reader_single s" by (rule loop_single [OF kprobe_single _ s]) (auto simp: reader_single_def)
  then show "rows_single f" using f by (auto simp: reader_single_def rows_single_def shown_file_mode_def split: option.splits)
qed


lemma trace_opened_single: "trace_opened Y f \<Longrightarrow> rows_single f"
  unfolding trace_opened_def
  by (elim disjE exE) (auto simp: EMPTY_FORM_def prefilled_def rows_single_def shown_file_mode_def dest: opened_single [unfolded rows_single_def])

text \<open>The rows on screen decide the selector, also when an edit has reloaded them.\<close>

lemma edited_rows:
  assumes "completePairs (fst s) = selector_entries (snd s)"
  shows "completePairs (fst (edit_labels change s)) = selector_entries (snd (edit_labels change s))"
  by (auto simp: edit_labels_def label_effect_def syncLabelsToParent_def selector_entries_def Let_def completePairs_def [of "[]"])

lemma edited_form: "snd (edit_labels change s) = (snd s)\<lparr> tf_podSelector := tf_podSelector (snd (edit_labels change s)) \<rparr>"
  by (auto simp: edit_labels_def label_effect_def syncLabelsToParent_def Let_def)

lemma rows_single_selector [simp]: "rows_single (f\<lparr> tf_podSelector := x \<rparr>) = rows_single f"
  by (simp add: rows_single_def shown_file_mode_def)

lemma reached_shape:
  "trace_reached Y s \<Longrightarrow> rows_single (snd s) \<and> completePairs (fst s) = selector_entries (snd s)"
proof (induction rule: trace_reached.induct)
  case (labels_edited s change)
  then have "rows_single (snd (edit_labels change s))" by (subst edited_form) simp
  then show ?case using edited_rows [of s change] labels_edited by simp
next
  case (form_edited rows f g)
  then show ?case using edit_single edit_selector [of f g] by (simp add: selector_entries_def)
qed (simp add: trace_opened_single)

section \<open>The same screen, the same policy\<close>

lemma trace_items_distinct: "labels_distinct TRACE_MODE_ITEMS" "labels_distinct PERMISSION_ITEMS"
  by (simp_all add: labels_distinct_def TRACE_MODE_ITEMS_def PERMISSION_ITEMS_def)

lemma trace_items_all: "fst ` set TRACE_MODE_ITEMS = UNIV" "fst ` set PERMISSION_ITEMS = UNIV"
  using trace_mode.exhaust permission.exhaust by (auto simp: TRACE_MODE_ITEMS_def PERMISSION_ITEMS_def UNIV_eq_I)

lemma trace_select_inj [simp]:
  "select_field c TRACE_MODE_ITEMS m = select_field d TRACE_MODE_ITEMS n \<longleftrightarrow> c = d \<and> m = n"
  "select_field c PERMISSION_ITEMS p = select_field d PERMISSION_ITEMS q \<longleftrightarrow> c = d \<and> p = q"
  by (rule select_field_eq; simp add: trace_items_distinct trace_items_all)+

lemma PathList_inj [simp]: "PathList l h vs = PathList l' h' ws \<longleftrightarrow> l = l' \<and> h = h' \<and> vs = ws"
proof -
  have "map (\<lambda>v. (v, relative_hint v)) vs = map (\<lambda>v. (v, relative_hint v)) ws \<longleftrightarrow> vs = ws"
    by (rule inj_map_eq_map) (simp add: inj_on_def)
  then show ?thesis by (simp add: PathList_def)
qed

lemma single_list: "length xs = 1 \<Longrightarrow> xs = [hd xs]"
  by (cases xs) auto

lemma concat_singles: "\<forall>bs \<in> set bss. length bs = 1 \<Longrightarrow> concat bss = map (\<lambda>bs. case bs of b # _ \<Rightarrow> b | [] \<Rightarrow> []) bss"
  by (induction bss) (auto dest!: single_list [unfolded One_nat_def] simp: length_Suc_conv)

text \<open>A blacklist rule of one path is what it shows.\<close>

lemma rule_view_same:
  assumes "file_rule_view r = file_rule_view r'" "length (fr_paths r) = 1" "length (fr_paths r') = 1"
  shows "fr_paths r = fr_paths r' \<and> excepted r = excepted r' \<and> perm_args (fr_permission r) = perm_args (fr_permission r')"
proof -
  have "first_path r = first_path r'" and e: "excepted r = excepted r'"
    and p: "(case fr_permission r of Some q \<Rightarrow> q | None \<Rightarrow> PermAll) = (case fr_permission r' of Some q \<Rightarrow> q | None \<Rightarrow> PermAll)"
    using assms(1) by (simp_all add: file_rule_view_def PermissionSelect_def)
  then have "fr_paths r = fr_paths r'"
    using assms(2,3) by (auto simp: first_path_def length_Suc_conv)
  moreover have "perm_args (fr_permission r) = perm_args (fr_permission r')"
    using p by (auto simp: perm_args_def split: option.splits permission.splits)
  ultimately show ?thesis using e by simp
qed

lemma blacklist_same:
  assumes "map file_rule_view rs = map file_rule_view rs'"
    and "\<forall>r \<in> set rs. length (fr_paths r) = 1" "\<forall>r \<in> set rs'. length (fr_paths r) = 1"
  shows "blacklist_rules a rs = blacklist_rules a rs'"
  using assms
proof (induction rs arbitrary: rs')
  case (Cons r rs)
  then obtain r' rs1 where rs': "rs' = r' # rs1" by (cases rs') auto
  have "fr_paths r = fr_paths r' \<and> excepted r = excepted r' \<and> perm_args (fr_permission r) = perm_args (fr_permission r')"
    using Cons.prems rs' rule_view_same [of r r'] by simp
  moreover have "blacklist_rules a rs = blacklist_rules a rs1" using Cons rs' by simp
  ultimately show ?case unfolding rs' blacklist_rules.simps file_selector_def by (elim conjE) (simp only:)
qed simp

lemma mode_is_whitelist: "shown_file_mode f = TraceWhitelist \<longleftrightarrow> tf_fileMode f = Some TraceWhitelist"
  by (auto simp: shown_file_mode_def split: option.splits)

lemma group_same:
  assumes "FileSection TraceWhitelist rs = FileSection TraceWhitelist rs'"
  shows "concat (map fr_paths rs) = concat (map fr_paths rs') \<and> concat (map excepted rs) = concat (map excepted rs')
    \<and> first_specific rs = first_specific rs'"
proof (cases "rs = [] \<or> rs' = []")
  case True
  then have "rs = rs'" using assms by (cases "rs = []"; cases "rs' = []") (simp_all add: FileSection_def)
  then show ?thesis by simp
next
  case False
  then have "concat (map fr_paths rs) = concat (map fr_paths rs') \<and> concat (map excepted rs) = concat (map excepted rs')
      \<and> shared_permission rs = shared_permission rs'"
    using assms by (simp add: FileSection_def PermissionSelect_def)
  then show ?thesis using shared_first [of rs] shared_first [of rs'] by metis
qed

lemma files_same:
  assumes "FileSection m (tf_file f) = FileSection m (tf_file g)" "m = shown_file_mode f" "m = shown_file_mode g"
    and "rows_single f" "rows_single g"
  shows "file_selectors f a = Inr sels \<longleftrightarrow> file_selectors g a = Inr sels"
proof (cases m)
  case TraceWhitelist
  then have w: "tf_fileMode f = Some TraceWhitelist" "tf_fileMode g = Some TraceWhitelist"
    using assms(2,3) mode_is_whitelist by metis+
  have "concat (map fr_paths (tf_file f)) = concat (map fr_paths (tf_file g)) \<and>
      concat (map excepted (tf_file f)) = concat (map excepted (tf_file g)) \<and> first_specific (tf_file f) = first_specific (tf_file g)"
    by (rule group_same) (use assms(1) TraceWhitelist in simp)
  then show ?thesis unfolding file_selectors_whitelist [OF w(1)] file_selectors_whitelist [OF w(2)] by simp
next
  case TraceBlacklist
  then have b: "tf_fileMode f \<noteq> Some TraceWhitelist" "tf_fileMode g \<noteq> Some TraceWhitelist"
    using assms(2,3) mode_is_whitelist trace_mode.distinct by metis+
  have "blacklist_rules a (tf_file f) = blacklist_rules a (tf_file g)"
    using assms TraceBlacklist by (intro blacklist_same) (auto simp: FileSection_def rows_single_def)
  then show ?thesis using b by (simp add: file_selectors_def)
qed


text \<open>Where the list has the namespace, the picker and the badge tell which it is.\<close>

lemma cluster_picker_same:
  assumes "namespace_ok nss v" "namespace_ok nss' w" "(v = []) = (w = [])"
    and "namespace_field c (Some l) None nss v = namespace_field c (Some l) None nss' w" "l \<noteq> []"
  shows "v = w"
proof (cases "v = []")
  case False
  then have "v \<in> set nss" "w \<in> set nss'" "v \<noteq> NONE" "w \<noteq> NONE" "w \<noteq> []" using assms(1-3) by (auto simp: namespace_ok_def)
  then show ?thesis using assms(4,5) False
    by (simp add: namespace_field_def offered_namespaces_def shown_namespace_def select_field_def map_of_same)
qed (use assms(3) in simp)

lemma rows_of_labels:
  assumes "map (\<lambda>(k, v). (TextField ''Key'' k [], TextField ''Value'' v [])) rows
    = map (\<lambda>(k, v). (TextField ''Key'' k [], TextField ''Value'' v [])) rows'"
  shows "rows = rows'"
  using assms by (rule map_injective) (auto simp: inj_def)

lemma protect_shown: "select_field c POLICY_MODE_ITEMS m = Choice c (Some ''Protect'') \<longleftrightarrow> m = ''Protect''"
  by (simp add: select_field_def POLICY_MODE_ITEMS_def)

lemma same_inputs_same_build:
  assumes "trace_inputs nss (rows, f) = trace_inputs nss' (rows', g)"
    and "rows_single f" "rows_single g" "completePairs rows = selector_entries f" "completePairs rows' = selector_entries g"
    and "namespace_ok nss (form_namespace_text f)" "namespace_ok nss' (form_namespace_text g)"
  shows "build_policy f a = Inr tp \<longleftrightarrow> build_policy g a = Inr tp"
proof -
  have i: "tf_name f = tf_name g" "process_rows f = process_rows g" "shown_process_mode f = shown_process_mode g"
    "shown_file_mode f = shown_file_mode g" "FileSection (shown_file_mode f) (tf_file f) = FileSection (shown_file_mode g) (tf_file g)"
    and rows: "map (\<lambda>(k, v). (TextField ''Key'' k [], TextField ''Value'' v [])) rows
      = map (\<lambda>(k, v). (TextField ''Key'' k [], TextField ''Value'' v [])) rows'"
    and ns: "namespace_field ''Namespace'' (Some ''cluster-wide'') None nss (form_namespace_text f)
      = namespace_field ''Namespace'' (Some ''cluster-wide'') None nss' (form_namespace_text g)"
    and badge: "(form_namespace_text f = []) = (form_namespace_text g = [])"
    using assms(1) by (auto simp: trace_inputs_def split: if_splits)
  have n: "(case tf_namespace f of Some n \<Rightarrow> n | None \<Rightarrow> []) = (case tf_namespace g of Some n \<Rightarrow> n | None \<Rightarrow> [])"
    using cluster_picker_same [OF assms(6,7) badge ns] by (simp add: form_namespace_text_def)
  have s: "(case tf_podSelector f of Some ls \<Rightarrow> ls | None \<Rightarrow> []) = (case tf_podSelector g of Some ls \<Rightarrow> ls | None \<Rightarrow> [])"
    using assms(4,5) rows_of_labels [OF rows] by (simp add: selector_entries_def)
  have p: "concat (tf_process f) = concat (tf_process g)"
    using i(2) assms(2,3) by (simp add: concat_singles process_rows_def rows_single_def)
  have m: "process_kprobe (tf_processMode f) = process_kprobe (tf_processMode g)"
    using i(3) by (auto simp: process_kprobe_def shown_process_mode_def fun_eq_iff split: option.splits)
  have sel: "file_selectors f a = Inr sels \<longleftrightarrow> file_selectors g a = Inr sels" for sels
    by (rule files_same [where m = "shown_file_mode f"]) (use i(4,5) assms(2,3) in simp_all)
  consider "file_selectors f a = file_selectors g a" | e e' where "file_selectors f a = Inl e" "file_selectors g a = Inl e'"
    by (metis sel sum.exhaust)
  then show ?thesis
  proof cases
    case 1
    then show ?thesis unfolding build_policy_def p n s m i(1) 1 by simp
  next
    case 2
    then show ?thesis unfolding build_policy_def p 2 by (cases "clean_paths process_error (concat (tf_process g))") simp_all
  qed
qed

text \<open>The third of the forms whose screen decides what is saved.\<close>

interpretation tracing_screen: screen_decides
  "\<lambda>(nss, rows, f). (\<exists>Y. trace_reached Y (rows, f)) \<and> namespace_ok nss (form_namespace_text f)"
  "\<lambda>(nss, rows, f). trace_inputs nss (rows, f)" "\<lambda>(nss, rows, f) a tp. build_policy f a = Inr tp"
proof
  fix s t :: "string list \<times> labels \<times> tracing_form"
  obtain nss rows f nss' rows' g where st: "s = (nss, rows, f)" "t = (nss', rows', g)" by (metis prod_cases3)
  assume "case s of (nss, rows, f) \<Rightarrow> (\<exists>Y. trace_reached Y (rows, f)) \<and> namespace_ok nss (form_namespace_text f)"
    and "case t of (nss, rows, f) \<Rightarrow> (\<exists>Y. trace_reached Y (rows, f)) \<and> namespace_ok nss (form_namespace_text f)"
    and screen: "(case s of (nss, rows, f) \<Rightarrow> trace_inputs nss (rows, f)) = (case t of (nss, rows, f) \<Rightarrow> trace_inputs nss (rows, f))"
  then have "build_policy f a = Inr tp \<longleftrightarrow> build_policy g a = Inr tp" for a tp
    using same_inputs_same_build [of nss rows f nss' rows' g a tp] reached_shape unfolding st by fastforce
  then show "(case s of (nss, rows, f) \<Rightarrow> \<lambda>a tp. build_policy f a = Inr tp) = (case t of (nss, rows, f) \<Rightarrow> \<lambda>a tp. build_policy f a = Inr tp)"
    by (simp add: st fun_eq_iff)
qed

text \<open>C39: an operator who sees the same tracing form saves the same policy. Take two pages whose forms were
  reached by any edits, from a blank form, a draft of Behavior Discovery or an opened policy whose labels have
  values, each with the form's namespace among the ones its list offers. If the screens look the same, then
  the server builds the same policy from both, with the same action, or refuses both. What the form keeps
  without showing it (an undefined mode or permission in place of the default, several rules under one
  whitelist, the order in which they came) makes no difference. Both provisos are needed:
  a label without a value is not seen (below), nor is a namespace that is not on offer.\<close>

theorem same_tracing_form_same_policy:
  assumes "trace_reached Y (rows, formValues st)" "trace_reached Y' (rows', formValues st')"
    and "namespace_ok (ep_namespaces st) (form_namespace_text (formValues st))"
    and "namespace_ok (ep_namespaces st') (form_namespace_text (formValues st'))"
    and "ep_mode st = TraceFormEditor" "trace_screen name st rows fp = trace_screen name' st' rows' fp'"
  shows "edit_action st = edit_action st' \<and>
    (build_policy (formValues st) (edit_action st) = Inr tp \<longleftrightarrow> build_policy (formValues st') (edit_action st') = Inr tp)"
proof -
  have screen: "trace_inputs (ep_namespaces st) (rows, formValues st) = trace_inputs (ep_namespaces st') (rows', formValues st')"
    and m: "select_field ''Mode'' POLICY_MODE_ITEMS (policyMode st) = select_field ''Mode'' POLICY_MODE_ITEMS (policyMode st')"
    using assms(5,6) by (auto simp: trace_screen_def split: if_splits)
  have "(policyMode st = ''Protect'') = (policyMode st' = ''Protect'')"
    using m protect_shown [of "''Mode''" "policyMode st"] protect_shown [of "''Mode''" "policyMode st'"] by simp
  then have a: "edit_action st = edit_action st'" by (simp add: edit_action_def)
  then show ?thesis
    using tracing_screen.decides [of "(ep_namespaces st, rows, formValues st)" "(ep_namespaces st', rows', formValues st')"]
      screen assms(1-4) by (auto simp: fun_eq_iff)
qed

definition sh_form :: tracing_form where
  "sh_form = setProcessBinaries [''/bin/sh''] (EMPTY_FORM\<lparr> tf_name := ''sh'' \<rparr>)"

definition sh_page :: "tracing_form \<Rightarrow> edit_page" where
  "sh_page f = (edit_page_init True False None)\<lparr> ep_namespaces := [''default''], formValues := f \<rparr>"

lemma sh_form_value: "sh_form = \<lparr> tf_name = ''sh'', tf_namespace = Some ''default'', tf_podSelector = None,
    tf_processMode = Some TraceWhitelist, tf_process = [[''/bin/sh'']], tf_fileMode = None, tf_file = [] \<rparr>"
  by (simp add: sh_form_def setProcessBinaries_def EMPTY_FORM_def)

lemma sh_reached: "trace_reached Y ([], sh_form)"
proof -
  have "trace_reached Y (selector_entries EMPTY_FORM, EMPTY_FORM)"
    by (rule opened) (simp_all add: trace_opened_def EMPTY_FORM_def selector_entries_def completePairs_def)
  then have "trace_reached Y ([], EMPTY_FORM\<lparr> tf_name := ''sh'' \<rparr>)"
    using form_edited [OF _ te_name [of EMPTY_FORM "''sh''"]] by (simp add: selector_entries_def EMPTY_FORM_def)
  then show ?thesis unfolding sh_form_def by (rule form_edited) (rule te_process)
qed

theorem same_tracing_form_same_policy_witness:
  "build_policy (setFileMode TraceBlacklist sh_form) ''Post'' = build_policy sh_form ''Post'' \<and> setFileMode TraceBlacklist sh_form \<noteq> sh_form"
proof -
  let ?g = "setFileMode TraceBlacklist sh_form"
  let ?fp = "\<lparr> yamlPreview = [], previewError = [], previewSeq = 0, fp_rendered = False \<rparr>"
  have s: "formValues (sh_page f) = f" "ep_mode (sh_page f) = TraceFormEditor" "ep_namespaces (sh_page f) = [''default'']"
    "edit_action (sh_page f) = ''Post''" for f
    by (simp_all add: sh_page_def edit_page_init_def edit_action_def)
  have r: "trace_reached toy_yaml ([], formValues (sh_page ?g))" "trace_reached toy_yaml ([], formValues (sh_page sh_form))"
    using sh_reached form_edited [OF sh_reached te_fileMode] by (simp_all add: s)
  have n: "namespace_ok (ep_namespaces (sh_page ?g)) (form_namespace_text (formValues (sh_page ?g)))"
    "namespace_ok (ep_namespaces (sh_page sh_form)) (form_namespace_text (formValues (sh_page sh_form)))"
    by (simp_all add: s setFileMode_def Let_def sh_form_value form_namespace_text_def namespace_ok_def NONE_def)
  have "trace_screen None (sh_page ?g) [] ?fp = trace_screen None (sh_page sh_form) [] ?fp"
    by (simp add: trace_screen_def trace_inputs_def s setFileMode_def Let_def sh_form_value sh_page_def edit_page_init_def shown_process_mode_def
        shown_file_mode_def process_rows_def form_namespace_text_def)
  then have "build_policy ?g ''Post'' = Inr tp \<longleftrightarrow> build_policy sh_form ''Post'' = Inr tp" for tp
    using same_tracing_form_same_policy [OF r n s(2), of None ?fp None ?fp tp] by (simp only: s)
  moreover obtain tp where "build_policy sh_form ''Post'' = Inr tp"
    by (simp add: build_policy_def sh_form_value file_selectors_def string_eval)
  moreover have "?g \<noteq> sh_form" by (simp add: sh_form_value setFileMode_def Let_def)
  ultimately show ?thesis by simp
qed

section \<open>A label without a value\<close>

text \<open>C40: a pod label without a value is on screen and is not, at once. A manifest's label is read into the form as
  it is; its row shows the key and a blank, which is what the form without the label shows for a row not yet
  filled in. The pod preview below leaves the row out, for it is not complete, and a save keeps the
  label: the two screens are the same, the two policies govern different pods.\<close>

theorem empty_label_unseen:
  assumes "(k, v) \<in> set (selector_entries f)" "trim v = []" "build_policy f a = Inr tp"
  defines "without \<equiv> f\<lparr> tf_podSelector := Some (completePairs (selector_entries f)) \<rparr>"
  shows "read_labels (labels_val (selector_entries f)) = Some (Some (selector_entries f))
    \<and> trace_inputs nss (selector_entries f, f) = trace_inputs nss (selector_entries f, without)
    \<and> pods_asked (selector_entries f, f) = (form_namespace_text f, selector_entries without)
    \<and> build_policy without a = Inr (tp\<lparr> tp_podSelector := selector_entries without \<rparr>)
    \<and> (k, v) \<in> set (tp_podSelector tp) \<and> (k, v) \<notin> set (selector_entries without)"
proof (intro conjI)
  have w: "selector_entries without = completePairs (selector_entries f)" by (simp add: without_def selector_entries_def)
  show "read_labels (labels_val (selector_entries f)) = Some (Some (selector_entries f))"
    using assms(1) by (intro read_labels_built) auto
  show "trace_inputs nss (selector_entries f, f) = trace_inputs nss (selector_entries f, without)"
    by (simp add: without_def trace_inputs_def process_rows_def form_namespace_text_def shown_process_mode_def shown_file_mode_def)
  show "pods_asked (selector_entries f, f) = (form_namespace_text f, selector_entries without)" by (simp add: pods_asked_def w)
  obtain bins sels where b: "clean_paths process_error (concat (tf_process f)) = Inr bins" "file_selectors f a = Inr sels"
    "tp_podSelector tp = (case tf_podSelector f of Some ls \<Rightarrow> ls | None \<Rightarrow> [])"
    using build_policy_Inr [OF assms(3)] by blast
  have "file_selectors without a = file_selectors f a" by (simp add: without_def file_selectors_def)
  with b(2) have "file_selectors without a = Inr sels" by simp
  then show "build_policy without a = Inr (tp\<lparr> tp_podSelector := selector_entries without \<rparr>)"
    using assms(3) b(1,2) by (auto simp: build_policy_def without_def selector_entries_def Let_def split: if_splits)
  show "(k, v) \<in> set (tp_podSelector tp)" using assms(1) b(3) by (simp add: selector_entries_def)
  show "(k, v) \<notin> set (selector_entries without)" using completePairs_complete [of k v] assms(2) by (auto simp: w)
qed

theorem empty_label_unseen_witness:
  "let f = sh_form\<lparr> tf_podSelector := Some [(''tier'', [])] \<rparr> in
     \<exists>tp. build_policy f ''Post'' = Inr tp \<and> tp_podSelector tp = [(''tier'', [])]
       \<and> build_policy (f\<lparr> tf_podSelector := Some [] \<rparr>) ''Post'' = Inr (tp\<lparr> tp_podSelector := [] \<rparr>)
       \<and> pods_asked (selector_entries f, f) = (''default'', [])"
proof -
  let ?f = "sh_form\<lparr> tf_podSelector := Some [(''tier'', [])] \<rparr>"
  have e: "selector_entries ?f = [(''tier'', [])]" "completePairs [(''tier'', [])] = []"
    by (simp_all add: selector_entries_def completePairs_def)
  obtain tp where tp: "build_policy ?f ''Post'' = Inr tp" "tp_podSelector tp = [(''tier'', [])]"
    by (simp add: build_policy_def sh_form_value file_selectors_def string_eval)
  show ?thesis
    using empty_label_unseen [of "''tier''" "[]" ?f "''Post''" tp "[]"] e tp
    by (auto simp: selector_entries_def form_namespace_text_def sh_form_value)
qed

text \<open>Touching any row drops such a label: the rows on screen become the complete ones.\<close>

lemma empty_label_dropped_by_edit:
  "(k, v) \<in> set (selector_entries (snd (edit_labels change s))) \<Longrightarrow> trim v \<noteq> []"
  using completePairs_complete [of k v "change (fst s)"]
  by (auto simp: edit_labels_def label_effect_def syncLabelsToParent_def selector_entries_def Let_def split: if_splits)

end
