(* ===== verification/Spec2Isabelle.thy ===== *)
theory Spec2Isabelle
  imports Prelude JsValue Yaml CnpForm CnpParse CnpCorrect CnpProps Utils Filters Events
    VapText VapProps VapSafety ApiClient ApiRoutes PageBase VapPage VapPageProps Users Discovery
    CnpPage CnpPageProps TracingForm TracingProps TracingPage TracingPageProps EventPages
    Notify AppShell Topology TopologyProps Settings Templates TemplateProps TemplateData Status
    PageView VapView VapViewProps CnpView CnpViewProps Navigation YamlBox Frame
    TracingView TracingViewProps
begin

text \<open>
  K8s Sentinel is a security console for Kubernetes: a Go server in front of a cluster, and a single
  page application in TypeScript (\<open>web/src\<close>) that edits policies of three kinds (Tetragon tracing
  policies, admission policies, Cilium network policies), shows what the cluster reports, and keeps a
  few settings. This library models the application: its data, the translation between forms and
  manifests, the state of each page with every handler that changes it, and the streams and polls that
  feed the pages.

  \<^bold>\<open>How the parts interact.\<close> A page holds its state in React hooks; here that is a record, and a handler
  is a function from the record to the next one and the effects it asks for (\<open>PageBase\<close>: a request of
  the API client, a toast, a navigation). A handler that awaits a request is two functions, what happens
  up to the await and what happens with the outcome, so that a theorem may put anything between the two.
  A request is a value of \<open>ApiClient\<close>; \<open>ApiRoutes\<close> follows its URL through the browser and the server's
  router to the route table. The event
  providers (\<open>Events\<close>) and the discovery provider (\<open>Discovery\<close>) are step functions over inputs: the
  stream delivers, fails, a poll is sent or answered. Effects of React that matter are functions of
  their own (\<open>route_effect\<close>, \<open>filter_effect\<close>, the label rows' effect), with the values they depend on.

  \<^bold>\<open>Values.\<close> \<open>Prelude\<close> has the string functions of JavaScript the code uses (trim, split, includes,
  case, numbers as text); a string is a list of Latin-1 characters. \<open>JsValue\<close> has JavaScript values as
  parsed YAML or JSON yields them, objects as insertion-ordered lists of members, with property access
  that may raise, and canonical JSON for comparison. \<open>Yaml\<close> states what is relied on of the package
  js-yaml as the hypothesis \<open>yaml_laws\<close> (what dump writes, load reads), which the concrete pair of
  functions \<open>toy_yaml\<close> satisfies. An exception is the outer None of a result; undefined and null are values.

  \<^bold>\<open>The theories and the code.\<close>
  \<^item> \<open>CnpForm\<close>, \<open>CnpParse\<close>, \<open>CnpCorrect\<close>, \<open>CnpRoundtrip\<close>, \<open>CnpProps\<close>: \<open>utils/cnpForm.ts\<close>, the network policy
    form, its validation, the manifest and its reading back. A valid form reopens as its normal form; a
    manifest opens only when saving it unchanged keeps it; which enforcement a section writes.
  \<^item> \<open>CnpPage\<close>, \<open>CnpPageProps\<close>: \<open>pages/CNPPage.tsx\<close> and \<open>components/SelectorPreview.tsx\<close>.
  \<^item> \<open>VapKinds\<close>, \<open>VapGen\<close>, \<open>VapParse\<close>, \<open>VapReadback\<close>, \<open>VapReopen\<close>, \<open>VapCorrect\<close>, \<open>VapText\<close>, \<open>VapProps\<close>, \<open>VapSafety\<close>: the
    admission policy builder in \<open>pages/VAPPage.tsx\<close>: the rule kinds, the CEL and YAML text it writes, the
    readers of that text, one per kind, and the regenerate-and-compare check (\<open>Regen\<close>). \<open>VapText\<close> reads the
    generated text as YAML and its expressions as CEL, so that the escaping of what a user types can be judged
    on the whole text.
  \<^item> \<open>VapPage\<close>, \<open>VapPageProps\<close>: the page around the builder, its screens, routes and handlers.
  \<^item> \<open>PageView\<close>: what a form field shows, and \<open>components/NamespaceSelect.tsx\<close>; \<open>VapView\<close>, \<open>VapViewProps\<close>: the policy
    builder and the binding form as \<open>VAPPage.tsx\<close> draws them; \<open>CnpView\<close>, \<open>CnpViewProps\<close>: the form of \<open>CNPPage.tsx\<close>;
    \<open>TracingView\<close>, \<open>TracingViewProps\<close>: the tracing form and its page.
    What is saved is a function of what is seen, and the exceptions are stated.
  \<^item> \<open>YamlBox\<close>: \<open>components/YamlEditor.tsx\<close> in the three pages that hold it: what is on screen and what is saved.
  \<^item> \<open>TracingForm\<close>, \<open>TracingProps\<close>: \<open>api/types.ts\<close>, \<open>utils/yamlToForm.ts\<close> and the server's builder
    \<open>internal/policy/builder.go\<close>, which the form goes through; \<open>TracingPage\<close>, \<open>TracingPageProps\<close>:
    \<open>components/PolicyForm\<close>, \<open>NamespaceSelect.tsx\<close> and \<open>pages/PolicyEditPage.tsx\<close>.
  \<^item> \<open>Templates\<close>, \<open>TemplateProps\<close>, \<open>TemplateData\<close>: \<open>pages/PolicyTemplatesPage.tsx\<close> and \<open>data/policyTemplates.ts\<close>. The regular expressions that rewrite a
    template are scanners over the text; the theorems read them line by line, blank lines included.
  \<^item> \<open>Topology\<close>, \<open>TopologyProps\<close>: \<open>pages/NetworkTopologyPage.tsx\<close>, from the answer of a poll through the filter
    and the layout to the canvas. The layout package is an argument that places nodes or fails; the two
    effects run while one is due (\<open>while_option\<close>), and the page is shown to come to rest.
  \<^item> \<open>Events\<close>: \<open>layout/SecurityEventsProvider.tsx\<close>, \<open>AdmissionEventsProvider.tsx\<close>; \<open>EventPages\<close>: the three pages
    of events and the audit log, with the CSV export of \<open>utils/exportEvents.ts\<close> and \<open>utils/csv.ts\<close>
    (\<open>Utils\<close>); \<open>Filters\<close>: \<open>ScopeFilter.tsx\<close>, \<open>FilterPopover.tsx\<close>.
  \<^item> \<open>Discovery\<close>: \<open>layout/DiscoveryProvider.tsx\<close> and \<open>pages/DiscoveryPage.tsx\<close>.
  \<^item> \<open>Settings\<close>: \<open>QuarantinePage.tsx\<close>, \<open>ModePage.tsx\<close>, \<open>PolicyListPage.tsx\<close>, \<open>SecurityRetentionPage.tsx\<close> with the
    event provider and the server's handler it saves to (\<open>retention_run\<close>);
    \<open>Notify\<close>: \<open>AlertsPage.tsx\<close>, \<open>RsyslogPage.tsx\<close>; \<open>Users\<close>: \<open>UsersPage.tsx\<close>, \<open>LoginPage.tsx\<close>,
    \<open>ForcePasswordChangePage.tsx\<close>; \<open>Status\<close>: \<open>DashboardPage.tsx\<close>, \<open>TetragonStatusPage.tsx\<close>.
  \<^item> \<open>AppShell\<close>: \<open>layout/AuthContext.tsx\<close>, \<open>App.tsx\<close>, \<open>layout/AppSidebar.tsx\<close>, \<open>layout/AppHeader.tsx\<close>; \<open>Frame\<close>: the sidebar's
    state (\<open>components/ui/sidebar.tsx\<close>, \<open>hooks/use-mobile.ts\<close>), its rows, and what the header shows.
  \<^item> \<open>Navigation\<close>: the addresses the pages navigate to, the routes of \<open>App.tsx\<close> they take, and what the pages read
    back of them; from a row of a list through its address to the record and the server's handler.
  \<^item> \<open>ApiClient\<close>, \<open>ApiRoutes\<close>: \<open>api/client.ts\<close> and the route table of \<open>internal/handler/handler.go\<close>, with what happens to
    a URL in between: query and fragment cut off, dot segments resolved, percent-encoding and decoding.

  \<^bold>\<open>The contracts.\<close> \<open>single_flight\<close> (\<open>PageBase\<close>): a submit button that sends one request at a time,
  interpreted on the submit handlers of the pages. \<open>edit_route\<close> (\<open>Notify\<close>): items edited under an address of
  their own. \<open>event_buffer\<close> (\<open>Events\<close>): a bounded buffer of events, interpreted on both streams. \<open>tick_filter\<close>
  (\<open>Filters\<close>): a tick list that shows everything while nothing is ticked. \<open>regen_guard\<close> (\<open>Regen\<close>): a reader that
  accepts a manifest only when the generator writes it again. \<open>screen_decides\<close> (\<open>PageView\<close>): a form whose screen decides what is
  saved, interpreted on the three forms. \<open>yaml_host\<close> (\<open>YamlBox\<close>): a page that takes every report of its editor. Every one is interpreted on the model's own definitions by the theory of the
  component that provides it.

  \<^bold>\<open>What the groups of lemmas show.\<close> Round trips and refinement: what a builder saved it opens again, and it
  opens nothing it would not save again, for the three kinds of policy. Safety of what is generated:
  what a user types on one line cannot leave the literal or scalar it is written in, a valid form never selects
  everything, a drawn edge has both its ends. Invariants: the bounded buffers, the profiles shown whatever order polls
  are answered in, the numbers of the overview, each of one answer, the canvas that follows the data and the filter. Liveness and
  termination: an enabled button sends; the topology page comes to rest. Errors: what is lost on the
  way, where the code loses something, stated as a theorem on the input that shows it. Where a property has
  a proviso, a lemma beside it shows what happens without it, when the code can get there. Screens and
  addresses: two equal screens save the same manifest; an address leads to the page and the record it was made for.

  \<^bold>\<open>Bounds and fuel.\<close> No definition needs fuel. The scanners of \<open>Templates\<close> end because the text they have
  left gets shorter; the effect loop of the topology page is a \<open>while_option\<close> that returns (after two
  rounds at most); all else is structural recursion. Numbers the code keeps as JavaScript numbers are int or nat, which agree
  below \<open>2^53\<close>; only a size limit typed in kilobytes could leave that range, beyond eight petabytes.

  \<^bold>\<open>Not modelled.\<close> Class names, icons and the component library (\<open>components/ui\<close>, its sidebar's state aside),
  \<open>AppLayout\<close>, \<open>AppToaster\<close> and \<open>main.tsx\<close>; the markup of the pages but the three policy forms, whose
  tables and cells are text around the modelled data. The packages (React, Monaco, js-yaml, the router) are
  modelled as far as their documented behaviour is relied on: which effects are due, what the editor reports,
  what dump writes and load reads, which route takes an address. The browser's \<open>localeCompare\<close>, its local time format, the clock and random text are arguments.
  Of the server only what the client relies on is modelled: the
  route table, the builder of tracing policies, and the handler that stores the event retention. Characters beyond Latin-1 are not represented.
\<close>

end
